(* ===== verification/Prelude.thy ===== *)
theory Prelude
  imports Complex_Main "HOL-Library.Multiset"
begin

text \<open>
  Shared vocabulary of the development: the names of the model's basic types, the
  semantics of the few JavaScript built-ins the code relies on (\<open>x || d\<close> on numbers
  and strings, \<open>Math.round\<close>), and the semantics of the Supabase (PostgREST) client
  calls every component makes: a table is the list of its rows, \<open>.select().eq(..)\<close>
  filters it, \<open>.update(..).eq(..)\<close> rewrites every matching row (and silently none),
  \<open>.insert\<close> appends, \<open>.maybeSingle()\<close> and \<open>.single()\<close> turn a result set
  into at most one row or an error.  The lemmas here are the ones the component
  theories share; they are collected in \<open>db_simps\<close> and \<open>js_simps\<close>.
\<close>

named_theorems db_simps "evaluation rules of the Supabase table operations"
named_theorems js_simps "evaluation rules of the JavaScript built-ins"

type_synonym uid = string
type_synonym row_id = string
type_synonym timestamp = nat
type_synonym money = rat

section \<open>JavaScript built-ins\<close>

text \<open>\<open>x || d\<close> where \<open>x\<close> is a number or null: null and 0 are falsy.\<close>

definition js_num_or :: "rat option \<Rightarrow> rat \<Rightarrow> rat" where
  "js_num_or x d = (case x of None \<Rightarrow> d | Some v \<Rightarrow> (if v = 0 then d else v))"

text \<open>\<open>s || null\<close> where \<open>s\<close> is a string: the empty string is falsy.\<close>

definition js_str_or_null :: "string \<Rightarrow> string option" where
  "js_str_or_null s = (if s = [] then None else Some s)"

text \<open>\<open>Math.round\<close>: the nearest integer, halves rounded towards \<open>+\<infinity>\<close>.  The code
  computes on IEEE doubles; the model computes exactly on rationals (see the header of
  the root theory).\<close>

definition js_round :: "rat \<Rightarrow> int" where
  "js_round x = \<lfloor>x + 1 / 2\<rfloor>"

text \<open>\<open>s.toLowerCase()\<close> on the ASCII letters the code's inputs use (currency codes,
  search terms); other characters are kept.\<close>

definition js_lower_char :: "char \<Rightarrow> char" where
  "js_lower_char c =
     (let n = (of_char c :: nat) in if 65 \<le> n \<and> n \<le> 90 then char_of (n + 32) else c)"

definition js_lower :: "string \<Rightarrow> string" where
  "js_lower s = map js_lower_char s"

lemma js_lower_char_id [js_simps]:
  "\<not> (65 \<le> (of_char c :: nat) \<and> (of_char c :: nat) \<le> 90) \<Longrightarrow> js_lower_char c = c"
  by (auto simp: js_lower_char_def Let_def)

text \<open>\<open>s.replace(pat, rep)\<close> with a string pattern: only the first occurrence.\<close>

fun js_replace_first :: "string \<Rightarrow> string \<Rightarrow> string \<Rightarrow> string" where
  "js_replace_first pat rep [] = (if pat = [] then rep else [])"
| "js_replace_first pat rep (c # cs) =
     (if take (length pat) (c # cs) = pat then rep @ drop (length pat) (c # cs)
      else c # js_replace_first pat rep cs)"

lemma js_replace_first_prefix [simp]:
  "js_replace_first pat rep (pat @ t) = rep @ t"
  by (cases pat; cases t) auto

text \<open>\<open>s.includes(t)\<close>: \<open>t\<close> occurs in \<open>s\<close> at some position.\<close>

definition js_includes :: "string \<Rightarrow> string \<Rightarrow> bool" where
  "js_includes s t = list_ex (\<lambda>i. take (length t) (drop i s) = t) [0..<Suc (length s)]"

lemma js_includes_Nil [simp]: "js_includes s []"
  by (simp add: js_includes_def)

lemma js_num_or_simps [simp, js_simps]:
  "js_num_or None d = d"
  "js_num_or (Some v) d = (if v = 0 then d else v)"
  by (simp_all add: js_num_or_def)

lemma js_str_or_null_simps [simp, js_simps]:
  "js_str_or_null [] = None"
  "js_str_or_null (c # cs) = Some (c # cs)"
  by (simp_all add: js_str_or_null_def)

lemma js_num_or_nonzero: "d \<noteq> 0 \<Longrightarrow> js_num_or x d \<noteq> 0"
  by (cases x) auto

lemma floor_numeral_div_rat [simp]:
  "\<lfloor>(numeral a / numeral b :: rat)\<rfloor> = numeral a div numeral b"
  using floor_divide_of_int_eq [of "numeral a" "numeral b", where 'a = rat] by simp

lemma floor_one_div_numeral_rat [simp]:
  "\<lfloor>(1 / numeral b :: rat)\<rfloor> = 1 div numeral b"
  using floor_divide_of_int_eq [of 1 "numeral b", where 'a = rat] by simp

lemma js_round_bounds: "x - 1 / 2 < of_int (js_round x) \<and> of_int (js_round x) \<le> x + 1 / 2"
  unfolding js_round_def by linarith

lemma js_round_of_int [simp]: "js_round (of_int n) = n"
  unfolding js_round_def by linarith

lemma js_round_zero [simp, js_simps]: "js_round 0 = 0"
  by (simp add: js_round_def)

lemma js_round_mono: "x \<le> y \<Longrightarrow> js_round x \<le> js_round y"
  unfolding js_round_def by (simp add: floor_mono)

lemma js_round_le_int: "x \<le> of_int n \<Longrightarrow> js_round x \<le> n"
  unfolding js_round_def by linarith

lemma js_round_nonneg: "0 \<le> x \<Longrightarrow> 0 \<le> js_round x"
  using js_round_mono [of 0 x] by simp

section \<open>Supabase tables\<close>

datatype pg_error = No_rows | Multiple_rows

text \<open>\<open>.update(f).eq(col, v)\<close>: every row that matches is rewritten, the others are
  kept; no match is no error.\<close>

definition tbl_update :: "('r \<Rightarrow> bool) \<Rightarrow> ('r \<Rightarrow> 'r) \<Rightarrow> 'r list \<Rightarrow> 'r list" where
  "tbl_update P f rs = map (\<lambda>r. if P r then f r else r) rs"

text \<open>\<open>.maybeSingle()\<close>: no row is \<open>null\<close>, more than one is an error.\<close>

definition maybe_single :: "'r list \<Rightarrow> pg_error + 'r option" where
  "maybe_single rs = (case rs of [] \<Rightarrow> Inr None | [r] \<Rightarrow> Inr (Some r) | _ \<Rightarrow> Inl Multiple_rows)"

text \<open>\<open>.single()\<close>: exactly one row, otherwise an error.\<close>

definition single_row :: "'r list \<Rightarrow> pg_error + 'r" where
  "single_row rs = (case rs of [] \<Rightarrow> Inl No_rows | [r] \<Rightarrow> Inr r | _ \<Rightarrow> Inl Multiple_rows)"

text \<open>A query result whose error the code ignores (\<open>const { data } = await ...\<close>):
  the error reads as \<open>null\<close>.\<close>

definition data_or_null :: "pg_error + 'r option \<Rightarrow> 'r option" where
  "data_or_null x = (case x of Inl _ \<Rightarrow> None | Inr v \<Rightarrow> v)"

definition data_or_null1 :: "pg_error + 'r \<Rightarrow> 'r option" where
  "data_or_null1 x = (case x of Inl _ \<Rightarrow> None | Inr v \<Rightarrow> Some v)"

lemma tbl_update_simps [simp, db_simps]:
  "tbl_update P f [] = []"
  "tbl_update P f (r # rs) = (if P r then f r else r) # tbl_update P f rs"
  by (simp_all add: tbl_update_def)

lemma maybe_single_simps [simp, db_simps]:
  "maybe_single [] = Inr None"
  "maybe_single [r] = Inr (Some r)"
  "maybe_single (r # s # rs) = Inl Multiple_rows"
  by (simp_all add: maybe_single_def)

lemma single_row_simps [simp, db_simps]:
  "single_row [] = Inl No_rows"
  "single_row [r] = Inr r"
  "single_row (r # s # rs) = Inl Multiple_rows"
  by (simp_all add: single_row_def)

lemma data_or_null_simps [simp, db_simps]:
  "data_or_null (Inl e) = None" "data_or_null (Inr v) = v"
  "data_or_null1 (Inl e) = None" "data_or_null1 (Inr w) = Some w"
  by (simp_all add: data_or_null_def data_or_null1_def)

lemma length_tbl_update [simp]: "length (tbl_update P f rs) = length rs"
  by (simp add: tbl_update_def)

lemma tbl_update_no_match: "\<forall>r \<in> set rs. \<not> P r \<Longrightarrow> tbl_update P f rs = rs"
  by (induction rs) auto

lemma tbl_update_list_all:
  "(\<And>r. Q r \<Longrightarrow> P r \<Longrightarrow> Q (f r)) \<Longrightarrow> list_all Q rs \<Longrightarrow> list_all Q (tbl_update P f rs)"
  by (induction rs) auto

lemma tbl_update_matching:
  "(\<And>r. P r \<Longrightarrow> Q (f r)) \<Longrightarrow> list_all (\<lambda>r. P r \<longrightarrow> Q r) (tbl_update P f rs)"
  by (induction rs) auto

lemma set_tbl_update:
  "set (tbl_update P f rs) = f ` {r \<in> set rs. P r} \<union> {r \<in> set rs. \<not> P r}"
  by (induction rs) auto

lemma map_tbl_update_frame:
  "(\<And>r. P r \<Longrightarrow> g (f r) = g r) \<Longrightarrow> map g (tbl_update P f rs) = map g rs"
  by (induction rs) auto

lemma filter_tbl_update:
  "(\<And>r. P (f r) = P r) \<Longrightarrow> filter P (tbl_update P f rs) = map f (filter P rs)"
  by (induction rs) auto

lemma filter_tbl_update_disjoint:
  "(\<And>r. P r \<Longrightarrow> \<not> Q r \<and> \<not> Q (f r)) \<Longrightarrow> filter Q (tbl_update P f rs) = filter Q rs"
  by (induction rs) auto

lemma maybe_single_Some: "maybe_single rs = Inr (Some r) \<Longrightarrow> rs = [r]"
  by (cases rs rule: remdups_adj.cases) auto

lemma maybe_single_None: "maybe_single rs = Inr None \<longleftrightarrow> rs = []"
  by (cases rs rule: remdups_adj.cases) auto

lemma single_row_Inr: "single_row rs = Inr r \<Longrightarrow> rs = [r]"
  by (cases rs rule: remdups_adj.cases) auto

lemma filter_singleton_mem: "filter P rs = [r] \<Longrightarrow> r \<in> set rs \<and> P r"
proof -
  assume "filter P rs = [r]"
  then have "r \<in> set (filter P rs)" by simp
  then show ?thesis by simp
qed

lemma maybe_single_filter_Some:
  "maybe_single (filter P rs) = Inr (Some r) \<Longrightarrow> r \<in> set rs \<and> P r"
  by (blast dest: maybe_single_Some filter_singleton_mem)

lemma single_row_filter:
  "single_row (filter P rs) = Inr r \<Longrightarrow> r \<in> set rs \<and> P r"
  by (blast dest: single_row_Inr filter_singleton_mem)

lemma filter_key_unique:
  "distinct (map key rs) \<Longrightarrow> r \<in> set rs \<Longrightarrow> P r \<Longrightarrow> filter (\<lambda>x. key x = key r \<and> P x) rs = [r]"
  by (induction rs) (auto simp: filter_empty_conv image_iff)

text \<open>A select without \<open>.order()\<close> answers its rows in an order Postgres does not
  fix: the model states such answers as any list with the multiset of the table's
  rows.  Where the table has exactly one row matching a condition, every such answer
  has it too.\<close>

lemma mset_eq_singleton: "mset xs = {#x#} \<Longrightarrow> xs = [x]"
  by (cases xs) auto

lemma filter_perm_single:
  assumes "mset rows = mset xs" "filter P xs = [x]"
  shows "filter P rows = [x]"
proof -
  have "mset (filter P rows) = mset (filter P xs)"
    using assms(1) by (simp add: mset_filter)
  then have "mset (filter P rows) = {#x#}"
    using assms(2) by simp
  then show ?thesis by (rule mset_eq_singleton)
qed

section \<open>Text\<close>

text \<open>Strings are byte strings: a non-ASCII character of the sources is its UTF-8
  bytes.  The punctuation the pages print: the bullet, the en dash and the em dash.\<close>

definition bullet :: string where
  "bullet = [CHR 0xE2, CHR 0x80, CHR 0xA2]"

definition en_dash :: string where
  "en_dash = [CHR 0xE2, CHR 0x80, CHR 0x93]"

definition em_dash :: string where
  "em_dash = [CHR 0xE2, CHR 0x80, CHR 0x94]"

section \<open>Numbers and strings\<close>

text \<open>\<open>parseInt\<close> and \<open>parseFloat\<close> on the string of a number input: leading white
  space, an optional sign, then digits (and for \<open>parseFloat\<close> a fraction); \<open>None\<close> is
  \<open>NaN\<close>.  Exponents and \<open>Infinity\<close> are not modelled.\<close>

definition is_digit :: "char \<Rightarrow> bool" where
  "is_digit c \<longleftrightarrow> (let n = (of_char c :: nat) in 48 \<le> n \<and> n \<le> 57)"

definition digits_val :: "string \<Rightarrow> nat" where
  "digits_val ds = foldl (\<lambda>n c. 10 * n + (of_char c - 48)) 0 ds"

definition js_sign :: "string \<Rightarrow> int \<times> string" where
  "js_sign s =
     (let t = dropWhile (\<lambda>c. c = CHR '' '') s in
      case t of
        c # r \<Rightarrow> if c = CHR ''-'' then (-1, r) else if c = CHR ''+'' then (1, r) else (1, t)
      | [] \<Rightarrow> (1, []))"

definition js_parse_int :: "string \<Rightarrow> int option" where
  "js_parse_int s =
     (let (sg, r) = js_sign s; ds = takeWhile is_digit r in
      if ds = [] then None else Some (sg * int (digits_val ds)))"

definition js_parse_float :: "string \<Rightarrow> rat option" where
  "js_parse_float s =
     (let (sg, r) = js_sign s; ds = takeWhile is_digit r; r' = dropWhile is_digit r;
          fs = (case r' of c # r'' \<Rightarrow> if c = CHR ''.'' then takeWhile is_digit r'' else [] | [] \<Rightarrow> [])
      in if ds = [] \<and> fs = [] then None
         else Some (of_int sg * (of_nat (digits_val ds) + of_nat (digits_val fs) / 10 ^ length fs)))"

text \<open>\<open>String(n)\<close> of an integer, as an input shows its value.\<close>

definition digit_char :: "nat \<Rightarrow> char" where
  "digit_char k = ''0123456789'' ! k"

fun nat_str :: "nat \<Rightarrow> string" where
  "nat_str n = (if n < 10 then [digit_char n] else nat_str (n div 10) @ [digit_char (n mod 10)])"

lemma nat_str_digit [simp]: "n < 10 \<Longrightarrow> nat_str n = [digit_char n]"
  by (simp add: nat_str.simps)

lemma nat_str_step [simp]: "\<not> n < 10 \<Longrightarrow> nat_str n = nat_str (n div 10) @ [digit_char (n mod 10)]"
  by (simp add: nat_str.simps)

declare nat_str.simps [simp del]

definition int_str :: "int \<Rightarrow> string" where
  "int_str i = (if i < 0 then CHR ''-'' # nat_str (nat (- i)) else nat_str (nat i))"

lemma of_char_digit_char: "k < 10 \<Longrightarrow> of_char (digit_char k) = (48 + k :: nat)"
  by (simp add: digit_char_def less_Suc_eq numeral_eq_Suc del: upt_Suc) (elim disjE; simp)

lemma is_digit_char_of: "k < 10 \<Longrightarrow> is_digit (digit_char k)"
  by (simp add: is_digit_def Let_def of_char_digit_char)

lemma nat_str_digits: "list_all is_digit (nat_str n)"
  by (induction n rule: nat_str.induct) (subst nat_str.simps, simp add: is_digit_char_of)

lemma nat_str_ne [simp]: "nat_str n \<noteq> []"
  by (subst nat_str.simps) simp

lemma digits_val_snoc: "digits_val (xs @ [c]) = 10 * digits_val xs + (of_char c - 48)"
  by (simp add: digits_val_def)

lemma digits_val_digit_char: "k < 10 \<Longrightarrow> digits_val [digit_char k] = k"
  by (simp add: digits_val_def of_char_digit_char)

lemma digits_val_nat_str: "digits_val (nat_str n) = n"
proof (induction n rule: nat_str.induct)
  case (1 n)
  show ?case
  proof (cases "n < 10")
    case True
    then show ?thesis by (subst nat_str.simps) (simp add: digits_val_digit_char)
  next
    case False
    then have "digits_val (nat_str n) = 10 * (n div 10) + n mod 10"
      using 1 by (subst nat_str.simps) (simp add: digits_val_snoc of_char_digit_char)
    then show ?thesis by simp
  qed
qed

lemma takeWhile_all: "list_all P xs \<Longrightarrow> takeWhile P xs = xs"
  by (induction xs) auto

lemma js_sign_nat_str: "js_sign (nat_str n) = (1, nat_str n)"
proof -
  have "is_digit (hd (nat_str n))" using nat_str_digits [of n] by (cases "nat_str n") auto
  then show ?thesis by (cases "nat_str n") (auto simp: js_sign_def is_digit_def)
qed

text \<open>\<open>parseInt\<close> reads back what \<open>String\<close> prints.\<close>

lemma js_parse_int_int_str: "js_parse_int (int_str i) = Some i"
proof (cases "i < 0")
  case True
  then show ?thesis
    by (simp add: int_str_def js_parse_int_def js_sign_def takeWhile_all nat_str_digits digits_val_nat_str)
next
  case False
  then show ?thesis
    by (simp add: int_str_def js_parse_int_def js_sign_nat_str takeWhile_all nat_str_digits digits_val_nat_str)
qed

lemma int_str_ne [simp]: "int_str i \<noteq> []"
  by (simp add: int_str_def)

text \<open>\<open>new Intl.NumberFormat('en-US', {style: 'currency', currency, minimumFractionDigits: 0,
  maximumFractionDigits: k}).format(p)\<close>: the amount rounded to \<open>k\<close> decimals, halves away
  from zero; the integer part grouped by thousands; the fraction without trailing
  zeros; the sign, then the currency's symbol.  The symbols are those of the form's
  four currencies; any other code is printed as \<open>CHF\<close> is, the code and a no-break
  space.\<close>

definition currency_prefix :: "string \<Rightarrow> string" where
  "currency_prefix c =
     (if c = ''USD'' then ''$'' else if c = ''EUR'' then [CHR 0xE2, CHR 0x82, CHR 0xAC]
      else if c = ''GBP'' then [CHR 0xC2, CHR 0xA3] else c @ [CHR 0xC2, CHR 0xA0])"

definition round_half_away :: "rat \<Rightarrow> int" where
  "round_half_away x = (if 0 \<le> x then \<lfloor>x + 1 / 2\<rfloor> else - \<lfloor>- x + 1 / 2\<rfloor>)"

fun group3_rev :: "string \<Rightarrow> string" where
  "group3_rev (a # b # c # d # ds) = a # b # c # CHR '','' # group3_rev (d # ds)"
| "group3_rev ds = ds"

definition group3 :: "string \<Rightarrow> string" where
  "group3 ds = rev (group3_rev (rev ds))"

lemma round_half_away_of_int [simp]: "round_half_away (of_int m) = m"
  by (simp add: round_half_away_def)

lemma round_half_away_numeral [simp]: "round_half_away (numeral n) = numeral n"
  using round_half_away_of_int [of "numeral n"] by simp

lemma round_half_away_0 [simp]: "round_half_away 0 = 0"
  using round_half_away_of_int [of 0] by simp

definition format_price :: "nat \<Rightarrow> rat \<Rightarrow> string \<Rightarrow> string" where
  "format_price k p c =
     (let n = round_half_away (p * 10 ^ k);
          ds = nat_str (nat \<bar>n\<bar>);
          ds' = replicate (Suc k - length ds) (CHR ''0'') @ ds;
          ip = take (length ds' - k) ds';
          fp = rev (dropWhile (\<lambda>ch. ch = CHR ''0'') (rev (drop (length ds' - k) ds')))
      in (if n < 0 then ''-'' else []) @ currency_prefix c @ group3 ip @ (if fp = [] then [] else CHR ''.'' # fp))"

lemma group3_rev_filter: "filter (\<lambda>c. c \<noteq> CHR '','') (group3_rev xs) = filter (\<lambda>c. c \<noteq> CHR '','') xs"
  by (induction xs rule: group3_rev.induct) simp_all

lemma group3_filter: "CHR '','' \<notin> set ds \<Longrightarrow> filter (\<lambda>c. c \<noteq> CHR '','') (group3 ds) = ds"
  by (auto simp: group3_def rev_filter [symmetric] group3_rev_filter filter_id_conv)

lemma nat_str_no_comma: "CHR '','' \<notin> set (nat_str n)"
  using nat_str_digits [of n] by (auto simp: list_all_iff is_digit_def)

text \<open>On a nonnegative amount, rounding halves away from zero is \<open>Math.round\<close>.\<close>

lemma round_half_away_js_round: "0 \<le> x \<Longrightarrow> round_half_away x = js_round x"
  by (simp add: round_half_away_def js_round_def)

lemma js_parse_int_nat_str: "js_parse_int (nat_str n) = Some (int n)"
  using js_parse_int_int_str [of "int n"] by (simp add: int_str_def)

lemma round_half_away_nonneg: "0 \<le> x \<Longrightarrow> 0 \<le> round_half_away x"
  by (simp add: round_half_away_def)

text \<open>With no fraction digits a nonnegative price is shown as its currency prefix and
  the grouped digits of the price rounded half away from zero.\<close>

lemma format_price_whole:
  "0 \<le> p \<Longrightarrow> format_price 0 p c = currency_prefix c @ group3 (nat_str (nat (round_half_away p)))"
  using round_half_away_nonneg [of p] nat_str_ne [of "nat (round_half_away p)"]
  by (simp add: format_price_def Let_def Suc_leI not_less)

text \<open>A price in whole units, shown as \<open>formatPrice\<close> shows it, reads back as that
  price once the dollar sign and the group separators are dropped.\<close>

lemma format_price_roundtrip:
  "js_parse_int (filter (\<lambda>c. c \<noteq> CHR '','') (drop 1 (format_price 0 (of_nat n) ''USD''))) = Some (int n)"
proof -
  have "format_price 0 (of_nat n) ''USD'' = ''$'' @ group3 (nat_str n)"
    using round_half_away_of_int [of "int n"]
    by (simp add: format_price_def currency_prefix_def Let_def Suc_leI)
  moreover have "js_parse_int (nat_str n) = Some (int n)"
    by (rule js_parse_int_nat_str)
  ultimately show ?thesis by (simp add: group3_filter nat_str_no_comma)
qed

section \<open>Pending requests\<close>

text \<open>A page that issues a request per effect keeps the requests in flight in issue
  order; the answer to the \<open>i\<close>-th one removes it, whatever its position.\<close>

definition drop_nth :: "nat \<Rightarrow> 'a list \<Rightarrow> 'a list" where
  "drop_nth i xs = take i xs @ drop (Suc i) xs"

lemma drop_nth_0 [simp]: "drop_nth 0 (x # xs) = xs"
  by (simp add: drop_nth_def)

lemma last_drop_nth_0: "drop_nth 0 xs = [] \<or> last (drop_nth 0 xs) = last xs"
  by (cases xs) (simp_all add: drop_nth_def)

text \<open>\<open>.order(col, {ascending: false})\<close> is modelled as a stable sort on the negated
  key; the result is descending in the key.\<close>

lemma sorted_rev_neg: "sorted (map (\<lambda>x. - int (f x)) xs) \<Longrightarrow> sorted (rev (map f xs))"
  by (induction xs) (auto simp: sorted_append)

lemma ball_subset: "A \<subseteq> B \<Longrightarrow> \<forall>x \<in> B. P x \<Longrightarrow> \<forall>x \<in> A. P x"
  by blast

lemma dropWhile_neq_append: "c \<notin> set p \<Longrightarrow> dropWhile (\<lambda>x. x \<noteq> c) (p @ c # q) = c # q"
  by (induction p) auto

lemma takeWhile_stop_append: "\<forall>x \<in> set p. P x \<Longrightarrow> \<not> P c \<Longrightarrow> takeWhile P (p @ c # q) = p"
  by (induction p) auto

section \<open>Lookup tables\<close>

text \<open>The code's \<open>Record<K, V>\<close> tables are keyed by the names of an enum's values;
  looking up a name in such a table built from an injective naming function finds
  the entry of that value, and a string that names no value finds nothing.\<close>

lemma map_of_names:
  "inj f \<Longrightarrow> map_of (map (\<lambda>x. (f x, g x)) xs) (f y) = (if y \<in> set xs then Some (g y) else None)"
  by (induction xs) (auto dest: injD)

lemma map_of_names_None:
  "\<forall>y. s \<noteq> f y \<Longrightarrow> map_of (map (\<lambda>x. (f x, g x)) xs) s = None"
  by (induction xs) auto

end
