(* ===== verification/Schema.thy ===== *)
theory Schema
  imports Prelude
begin

text \<open>
  The database schema the whole application shares, as declared in
  \<open>src/src/integrations/supabase/types.ts\<close>: each Postgres enum is a datatype with
  the enum's values as constructors (in declaration order), each table row a record
  with the columns the code reads or writes, and the whole database one record of
  tables, each a list of rows.
\<close>

datatype app_role = Admin | Observer | Individual_seller | Super_seller | Buyer

datatype listing_status = Draft | Pending_review | Approved | Rejected | Sold | Archived

datatype verification_status = Kyc_not_started | Kyc_pending | Kyc_verified | Kyc_rejected

datatype watch_condition = Unworn | Excellent | Very_good | Good | Fair

text \<open>\<open>PhotoType\<close> of \<open>PhotoUpload.tsx\<close>; the \<open>listing_photos.photo_type\<close> column holds
  these names.\<close>

datatype photo_type = Dial | Caseback | Side | Clasp | Box | Papers

record listing_row =
  l_id :: row_id
  seller_id :: uid
  brand_id :: row_id
  model :: string
  reference_number :: string
  serial_number :: "string option"
  year_produced :: "int option"
  year_produced_end :: "int option"
  condition :: watch_condition
  has_box :: bool
  has_papers :: bool
  asking_price :: money
  currency :: string
  description :: "string option"
  status :: listing_status
  approved_at :: "timestamp option"
  approved_by :: "uid option"
  rejection_reason :: "string option"

record profile_row =
  user_id :: uid
  email :: string
  full_name :: "string option"
  kyc_status :: verification_status
  kyc_verified_at :: "timestamp option"
  zero_fee_eligible :: "bool option"
  subscription_status :: "string option"

record user_role_row =
  ur_user_id :: uid
  role :: app_role

record brand_row =
  b_id :: row_id
  b_name :: string
  is_active :: "bool option"
  b_display_order :: "int option"

record photo_row =
  ph_listing_id :: row_id
  storage_path :: string
  ph_type :: photo_type
  display_order :: int

text \<open>The two tables of the schema that no code of the repository reads or writes:
  \<open>transactions\<close> (the settlement record, with its own status enum; its foreign key
  \<open>listing_id\<close> references \<open>listings\<close>) and \<open>pricing_context\<close> (reference-number
  price bands, \<open>brand_id\<close> referencing \<open>brands\<close>).  They are typed here with every
  column and left out of \<open>db\<close>, since no modelled operation touches them.\<close>

datatype transaction_status =
    Tx_pending_payment | Tx_payment_held | Tx_shipped | Tx_delivered | Tx_completed
  | Tx_disputed | Tx_refunded | Tx_cancelled

record transaction_row =
  tx_id :: row_id
  tx_amount :: money
  tx_buyer_id :: uid
  tx_commission_amount :: "money option"
  tx_completed_at :: "timestamp option"
  tx_created_at :: timestamp
  tx_currency :: string
  tx_delivered_at :: "timestamp option"
  tx_listing_id :: row_id
  tx_seller_id :: uid
  tx_shipped_at :: "timestamp option"
  tx_status :: transaction_status
  tx_stripe_payment_intent_id :: "string option"
  tx_stripe_transfer_id :: "string option"
  tx_tracking_number :: "string option"
  tx_updated_at :: timestamp

record pricing_context_row =
  pc_id :: row_id
  pc_brand_id :: "row_id option"
  pc_created_at :: timestamp
  pc_last_updated_by :: "uid option"
  pc_notes :: "string option"
  pc_price_expected :: "money option"
  pc_price_low :: "money option"
  pc_price_premium :: "money option"
  pc_reference_number :: string
  pc_updated_at :: timestamp

record db =
  listings :: "listing_row list"
  profiles :: "profile_row list"
  user_roles :: "user_role_row list"
  brands :: "brand_row list"
  listing_photos :: "photo_row list"

text \<open>Status strings as the code spells them (used in query filters and messages).\<close>

fun listing_status_name :: "listing_status \<Rightarrow> string" where
  "listing_status_name Draft = ''draft''"
| "listing_status_name Pending_review = ''pending_review''"
| "listing_status_name Approved = ''approved''"
| "listing_status_name Rejected = ''rejected''"
| "listing_status_name Sold = ''sold''"
| "listing_status_name Archived = ''archived''"

fun kyc_status_name :: "verification_status \<Rightarrow> string" where
  "kyc_status_name Kyc_not_started = ''not_started''"
| "kyc_status_name Kyc_pending = ''pending''"
| "kyc_status_name Kyc_verified = ''verified''"
| "kyc_status_name Kyc_rejected = ''rejected''"

text \<open>The other enums' values as the \<open>Constants\<close> object of \<open>types.ts\<close> spells them.\<close>

fun app_role_name :: "app_role \<Rightarrow> string" where
  "app_role_name Admin = ''admin''"
| "app_role_name Observer = ''observer''"
| "app_role_name Individual_seller = ''individual_seller''"
| "app_role_name Super_seller = ''super_seller''"
| "app_role_name Buyer = ''buyer''"

fun transaction_status_name :: "transaction_status \<Rightarrow> string" where
  "transaction_status_name Tx_pending_payment = ''pending_payment''"
| "transaction_status_name Tx_payment_held = ''payment_held''"
| "transaction_status_name Tx_shipped = ''shipped''"
| "transaction_status_name Tx_delivered = ''delivered''"
| "transaction_status_name Tx_completed = ''completed''"
| "transaction_status_name Tx_disputed = ''disputed''"
| "transaction_status_name Tx_refunded = ''refunded''"
| "transaction_status_name Tx_cancelled = ''cancelled''"

fun watch_condition_name :: "watch_condition \<Rightarrow> string" where
  "watch_condition_name Unworn = ''unworn''"
| "watch_condition_name Excellent = ''excellent''"
| "watch_condition_name Very_good = ''very_good''"
| "watch_condition_name Good = ''good''"
| "watch_condition_name Fair = ''fair''"

lemma listing_status_name_inj: "listing_status_name a = listing_status_name b \<longleftrightarrow> a = b"
  by (cases a; cases b) simp_all

lemma enum_names_inj:
  "app_role_name r = app_role_name r' \<longleftrightarrow> r = r'"
  "transaction_status_name t = transaction_status_name t' \<longleftrightarrow> t = t'"
  "watch_condition_name c = watch_condition_name c' \<longleftrightarrow> c = c'"
  "kyc_status_name k = kyc_status_name k' \<longleftrightarrow> k = k'"
    apply (cases r; cases r'; simp)
   apply (cases t; cases t'; simp)
  apply (cases c; cases c'; simp)
  by (cases k; cases k'; simp)

lemma enum_names_injective: "inj app_role_name" "inj watch_condition_name"
  by (simp_all add: inj_def enum_names_inj)

end
