(* ===== verification/EdgeAuth.thy ===== *)
theory EdgeAuth
  imports Schema
begin

text \<open>
  The prologue every edge function under \<open>src/supabase/functions\<close> repeats: the bearer
  token is cut out of the \<open>Authorization\<close> header and handed to
  \<open>supabase.auth.getUser\<close> (a parameter here: an error message, no user, or a user);
  a user without an e-mail address counts as not authenticated.
\<close>

record auth_user =
  au_id :: uid
  au_email :: "string option"

text \<open>The bearer token: \<open>authHeader.replace("Bearer ", "")\<close>.\<close>

definition bearer_token :: "string \<Rightarrow> string" where
  "bearer_token h = js_replace_first ''Bearer '' [] h"

text \<open>The authentication prologue shared by the edge functions: \<open>getUser(token)\<close>,
  then \<open>if (!user?.email) throw\<close>.  The result is the user's id and (non-empty) email.\<close>

definition edge_authenticate ::
  "(string \<Rightarrow> string + auth_user option) \<Rightarrow> string \<Rightarrow> string + (uid \<times> string) option" where
  "edge_authenticate getu h =
     (case getu (bearer_token h) of
        Inl m \<Rightarrow> Inl m
      | Inr None \<Rightarrow> Inr None
      | Inr (Some u) \<Rightarrow> (case au_email u of None \<Rightarrow> Inr None
                         | Some e \<Rightarrow> if e = [] then Inr None else Inr (Some (au_id u, e))))"

end
