(* ===== verification/Checkout.thy ===== *)
theory Checkout
  imports EdgeAuth
begin

text \<open>
  The \<open>create-checkout\<close> edge function
  (\<open>src/supabase/functions/create-checkout/index.ts\<close>): it authenticates the buyer,
  reads the listing (only an \<open>approved\<close> one), refuses a purchase of one's own listing,
  asks the database for the seller's commission rate, computes the commission, and
  creates a Stripe Checkout session whose metadata carries the commission.
  The services it calls are parameters (\<open>checkout_env\<close>): Supabase auth, the
  \<open>get_commission_rate\<close> RPC (an interface: the root theory plugs in the fee policy of
  \<open>FeePolicy\<close>), and the two Stripe calls.  Each \<open>throw\<close> of the handler is a
  constructor of \<open>checkout_error\<close>, in the order the code checks them; the \<open>catch\<close>
  turns each into a 500 response with the error's message.
\<close>

record checkout_session_params =
  cs_customer :: "string option"
  cs_customer_email :: "string option"
  cs_currency :: string
  cs_product_name :: string
  cs_description :: string
  cs_unit_amount :: int
  cs_success_url :: string
  cs_cancel_url :: string
  cs_listing_id :: row_id
  cs_buyer_id :: uid
  cs_seller_id :: uid
  cs_commission_amount :: money

record checkout_env =
  stripe_key :: "string option"
  get_user :: "string \<Rightarrow> string + auth_user option"
  commission_rpc :: "uid \<Rightarrow> rat option"
  stripe_customer :: "string \<Rightarrow> string option"
  stripe_create :: "checkout_session_params \<Rightarrow> string + (string \<times> string)"

record checkout_request =
  is_options :: bool
  authorization :: "string option"
  body_listing_id :: "string option"
  origin_header :: "string option"

datatype checkout_error =
    No_stripe_key
  | No_auth_header
  | Auth_error string
  | Not_authenticated
  | No_listing_id
  | Listing_fetch_failed
  | Listing_unavailable
  | Own_listing
  | Stripe_failed string

datatype checkout_response =
    Preflight
  | Checkout_ok string string
  | Checkout_500 string

fun checkout_error_message :: "checkout_error \<Rightarrow> string" where
  "checkout_error_message No_stripe_key = ''STRIPE_SECRET_KEY is not set''"
| "checkout_error_message No_auth_header = ''No authorization header provided''"
| "checkout_error_message (Auth_error m) = ''Authentication error: '' @ m"
| "checkout_error_message Not_authenticated = ''User not authenticated or email not available''"
| "checkout_error_message No_listing_id = ''Listing ID is required''"
| "checkout_error_message Listing_fetch_failed = ''Failed to fetch listing''"
| "checkout_error_message Listing_unavailable = ''Listing not found or not available for purchase''"
| "checkout_error_message Own_listing = ''You cannot purchase your own listing''"
| "checkout_error_message (Stripe_failed m) = m"

section \<open>The steps of the handler\<close>

text \<open>The listing query: \<open>.eq("id", listingId).eq("status", "approved").maybeSingle()\<close>.\<close>

definition checkout_listing :: "db \<Rightarrow> row_id \<Rightarrow> pg_error + listing_row option" where
  "checkout_listing d lid =
     maybe_single (filter (\<lambda>l. l_id l = lid \<and> status l = Approved) (listings d))"

text \<open>The brand name, \<open>"Watch"\<close> unless the listing has a brand id whose row is found;
  the query's error is ignored.\<close>

definition checkout_brand_name :: "db \<Rightarrow> listing_row \<Rightarrow> string" where
  "checkout_brand_name d l =
     (if brand_id l = [] then ''Watch''
      else (case data_or_null (maybe_single (filter (\<lambda>b. b_id b = brand_id l) (brands d))) of
              None \<Rightarrow> ''Watch''
            | Some b \<Rightarrow> b_name b))"

text \<open>\<open>commissionRate = commissionData || 0.035\<close> and
  \<open>Math.round(asking_price * commissionRate * 100) / 100\<close>.\<close>

definition checkout_rate :: "rat option \<Rightarrow> rat" where
  "checkout_rate rpc = js_num_or rpc (35 / 1000)"

definition checkout_commission :: "money \<Rightarrow> rat option \<Rightarrow> money" where
  "checkout_commission price rpc = of_int (js_round (price * checkout_rate rpc * 100)) / 100"

definition default_origin :: string where
  "default_origin = ''https://luxe-keeper-platform.lovable.app''"

definition checkout_session_for ::
  "checkout_env \<Rightarrow> db \<Rightarrow> checkout_request \<Rightarrow> uid \<Rightarrow> string \<Rightarrow> listing_row \<Rightarrow> checkout_session_params" where
  "checkout_session_for env d req buyer mail l =
     (let customer = stripe_customer env mail;
          origin = (case origin_header req of None \<Rightarrow> default_origin
                    | Some org \<Rightarrow> if org = [] then default_origin else org)
      in \<lparr> cs_customer = customer,
           cs_customer_email = (case customer of None \<Rightarrow> Some mail | Some _ \<Rightarrow> None),
           cs_currency = js_lower (currency l),
           cs_product_name = checkout_brand_name d l @ '' '' @ model l,
           cs_description = ''Ref. '' @ reference_number l,
           cs_unit_amount = js_round (asking_price l * 100),
           cs_success_url = origin @ ''/checkout/success?session_id={CHECKOUT_SESSION_ID}&listing_id='' @ l_id l,
           cs_cancel_url = origin @ ''/listing/'' @ l_id l @ ''?checkout=cancelled'',
           cs_listing_id = l_id l,
           cs_buyer_id = buyer,
           cs_seller_id = seller_id l,
           cs_commission_amount = checkout_commission (asking_price l) (commission_rpc env (seller_id l)) \<rparr>)"

section \<open>The handler\<close>

text \<open>Lines 23--42: the Stripe key, the authorization header and the user.\<close>

definition checkout_auth :: "checkout_env \<Rightarrow> checkout_request \<Rightarrow> checkout_error + (uid \<times> string)" where
  "checkout_auth env req =
     (if stripe_key env = None \<or> stripe_key env = Some [] then Inl No_stripe_key else
      case authorization req of None \<Rightarrow> Inl No_auth_header | Some h \<Rightarrow>
      if h = [] then Inl No_auth_header else
      case edge_authenticate (get_user env) h of
        Inl m \<Rightarrow> Inl (Auth_error m)
      | Inr None \<Rightarrow> Inl Not_authenticated
      | Inr (Some um) \<Rightarrow> Inr um)"

text \<open>Lines 44--137, for an authenticated buyer: the listing id, the listing, the
  self-purchase check, the commission and the Stripe session.\<close>

definition checkout_purchase ::
  "checkout_env \<Rightarrow> db \<Rightarrow> checkout_request \<Rightarrow> uid \<Rightarrow> string \<Rightarrow>
     checkout_error + (checkout_session_params \<times> string \<times> string)" where
  "checkout_purchase env d req buyer mail =
     (case body_listing_id req of None \<Rightarrow> Inl No_listing_id | Some lid \<Rightarrow>
      if lid = [] then Inl No_listing_id else
      case checkout_listing d lid of
        Inl _ \<Rightarrow> Inl Listing_fetch_failed
      | Inr None \<Rightarrow> Inl Listing_unavailable
      | Inr (Some l) \<Rightarrow>
          if seller_id l = buyer then Inl Own_listing else
          (let p = checkout_session_for env d req buyer mail l in
           case stripe_create env p of
             Inl m \<Rightarrow> Inl (Stripe_failed m)
           | Inr (sid, url) \<Rightarrow> Inr (p, sid, url)))"

definition create_checkout ::
  "checkout_env \<Rightarrow> db \<Rightarrow> checkout_request \<Rightarrow>
     checkout_error + (checkout_session_params \<times> string \<times> string)" where
  "create_checkout env d req =
     (case checkout_auth env req of
        Inl e \<Rightarrow> Inl e
      | Inr (buyer, mail) \<Rightarrow> checkout_purchase env d req buyer mail)"

definition checkout_handler :: "checkout_env \<Rightarrow> db \<Rightarrow> checkout_request \<Rightarrow> checkout_response" where
  "checkout_handler env d req =
     (if is_options req then Preflight
      else case create_checkout env d req of
             Inl e \<Rightarrow> Checkout_500 (checkout_error_message e)
           | Inr (p, sid, url) \<Rightarrow> Checkout_ok url sid)"

section \<open>Properties\<close>

lemma checkout_listing_Some:
  "checkout_listing d lid = Inr (Some l) \<Longrightarrow> l \<in> set (listings d) \<and> l_id l = lid \<and> status l = Approved"
  unfolding checkout_listing_def by (drule maybe_single_filter_Some) simp

lemma checkout_listing_unique:
  "filter (\<lambda>l. l_id l = lid \<and> status l = Approved) (listings d) = [l] \<Longrightarrow> checkout_listing d lid = Inr (Some l)"
  by (simp add: checkout_listing_def)

lemma checkout_listing_none:
  "\<forall>l \<in> set (listings d). l_id l = lid \<longrightarrow> status l \<noteq> Approved \<Longrightarrow> checkout_listing d lid = Inr None"
  unfolding checkout_listing_def by (subst filter_False) auto

lemma create_checkout_authenticated:
  "checkout_auth env req = Inr (u, m) \<Longrightarrow> create_checkout env d req = checkout_purchase env d req u m"
  by (simp add: create_checkout_def)

lemma checkout_purchase_Inr:
  assumes "checkout_purchase env d req u m = Inr (p, sid, url)"
  shows "\<exists>l. checkout_listing d (l_id l) = Inr (Some l) \<and> body_listing_id req = Some (l_id l)
           \<and> seller_id l \<noteq> u \<and> p = checkout_session_for env d req u m l
           \<and> stripe_create env p = Inr (sid, url)"
proof -
  from assms obtain lid where lid: "body_listing_id req = Some lid" "lid \<noteq> []"
    by (auto simp: checkout_purchase_def split: option.splits if_splits)
  with assms obtain l where l: "checkout_listing d lid = Inr (Some l)"
    by (auto simp: checkout_purchase_def split: sum.splits option.splits)
  then have "l_id l = lid" by (simp add: checkout_listing_Some)
  with assms lid l show ?thesis
    by (auto simp: checkout_purchase_def Let_def split: if_splits sum.splits)
qed

lemma create_checkout_Inr:
  assumes "create_checkout env d req = Inr (p, sid, url)"
  shows "\<exists>u m l. checkout_auth env req = Inr (u, m) \<and> checkout_listing d (l_id l) = Inr (Some l)
           \<and> body_listing_id req = Some (l_id l) \<and> seller_id l \<noteq> u
           \<and> p = checkout_session_for env d req u m l \<and> stripe_create env p = Inr (sid, url)"
proof -
  from assms obtain u m where auth: "checkout_auth env req = Inr (u, m)"
    by (auto simp: create_checkout_def split: sum.splits)
  with assms have "checkout_purchase env d req u m = Inr (p, sid, url)"
    by (simp add: create_checkout_authenticated)
  with auth show ?thesis by (blast dest: checkout_purchase_Inr)
qed

lemma checkout_session_for_fields [simp]:
  "cs_listing_id (checkout_session_for env d req u m l) = l_id l"
  "cs_buyer_id (checkout_session_for env d req u m l) = u"
  "cs_seller_id (checkout_session_for env d req u m l) = seller_id l"
  "cs_commission_amount (checkout_session_for env d req u m l) =
     checkout_commission (asking_price l) (commission_rpc env (seller_id l))"
  "cs_unit_amount (checkout_session_for env d req u m l) = js_round (asking_price l * 100)"
  by (simp_all add: checkout_session_for_def Let_def)

text \<open>C3: Every checkout session create-checkout opens is for an approved listing of the database whose seller is not the buyer, with the amount in cents and the commission computed from that listing's price.\<close>

theorem checkout_sells_only_approved_foreign:
  assumes "create_checkout env d req = Inr (p, sid, url)"
  shows "\<exists>l \<in> set (listings d). l_id l = cs_listing_id p \<and> status l = Approved
           \<and> seller_id l = cs_seller_id p \<and> cs_buyer_id p \<noteq> cs_seller_id p
           \<and> cs_commission_amount p = checkout_commission (asking_price l) (commission_rpc env (seller_id l))
           \<and> cs_unit_amount p = js_round (asking_price l * 100)"
  using create_checkout_Inr [OF assms] by (fastforce dest: checkout_listing_Some)

text \<open>C6: The commission create-checkout records differs from price times rate by at most half a cent.\<close>

lemma checkout_commission_error:
  "\<bar>checkout_commission price rpc - price * checkout_rate rpc\<bar> \<le> 1 / 200"
proof -
  let ?x = "price * checkout_rate rpc * 100"
  let ?e = "of_int (js_round ?x) - ?x"
  have e: "\<bar>?e\<bar> \<le> 1 / 2"
    using js_round_bounds [of ?x] by (simp only: abs_le_iff) linarith
  have "checkout_commission price rpc - price * checkout_rate rpc = ?e / 100"
    by (simp add: checkout_commission_def field_simps)
  then have "\<bar>checkout_commission price rpc - price * checkout_rate rpc\<bar> = \<bar>?e\<bar> / 100"
    by (simp only: abs_divide abs_numeral)
  with e show ?thesis by simp
qed

text \<open>For a rate between 0 and 1 and a price of a whole number of cents, the recorded commission lies between 0 and the price.\<close>

lemma checkout_commission_le_price:
  assumes "0 \<le> checkout_rate rpc" "checkout_rate rpc \<le> 1" "0 \<le> c"
  shows "0 \<le> checkout_commission (of_int c / 100) rpc \<and> checkout_commission (of_int c / 100) rpc \<le> of_int c / 100"
proof -
  let ?x = "of_int c / 100 * checkout_rate rpc * 100"
  have x: "0 \<le> ?x" "?x \<le> of_int c"
    using assms by (simp_all add: mult_left_le)
  then have "0 \<le> js_round ?x" "js_round ?x \<le> c"
    by (simp_all add: js_round_nonneg js_round_le_int)
  then show ?thesis by (simp add: checkout_commission_def)
qed

text \<open>C4: An authenticated buyer who asks to buy their own approved listing gets the error 'You cannot purchase your own listing' and no Stripe session.\<close>

theorem checkout_own_listing_refused:
  assumes "\<not> is_options req" "checkout_auth env req = Inr (u, m)"
    and "body_listing_id req = Some lid" "lid \<noteq> []"
    and "filter (\<lambda>l. l_id l = lid \<and> status l = Approved) (listings d) = [l]" "seller_id l = u"
  shows "checkout_handler env d req = Checkout_500 ''You cannot purchase your own listing''"
  using assms checkout_listing_unique [OF assms(5)]
  by (simp add: checkout_handler_def create_checkout_authenticated checkout_purchase_def)

text \<open>C5: An authenticated request for a listing id with no approved listing gets the error 'Listing not found or not available for purchase'.\<close>

theorem checkout_unapproved_refused:
  assumes "\<not> is_options req" "checkout_auth env req = Inr (u, m)"
    and "body_listing_id req = Some lid" "lid \<noteq> []"
    and "\<forall>l \<in> set (listings d). l_id l = lid \<longrightarrow> status l \<noteq> Approved"
  shows "checkout_handler env d req = Checkout_500 ''Listing not found or not available for purchase''"
  using assms checkout_listing_none [OF assms(5)]
  by (simp add: checkout_handler_def create_checkout_authenticated checkout_purchase_def)

text \<open>C8: create-checkout neither reserves nor marks the listing: after one buyer obtained a session for a listing, any other authenticated non-seller obtains a session for the same listing as long as Stripe accepts it.\<close>

theorem checkout_no_purchase_lock:
  assumes "create_checkout env d req1 = Inr (p1, sid1, url1)"
    and "body_listing_id req2 = body_listing_id req1"
    and "checkout_auth env req2 = Inr (u2, m2)" "u2 \<noteq> cs_seller_id p1"
    and "\<forall>p. \<not> isl (stripe_create env p)"
  shows "\<exists>p2 sid2 url2. create_checkout env d req2 = Inr (p2, sid2, url2)
           \<and> cs_listing_id p2 = cs_listing_id p1 \<and> cs_buyer_id p2 = u2"
proof -
  obtain u m l where l: "checkout_listing d (l_id l) = Inr (Some l)"
      "body_listing_id req1 = Some (l_id l)" "p1 = checkout_session_for env d req1 u m l"
    using create_checkout_Inr [OF assms(1)] by blast
  have "l_id l \<noteq> []"
    using assms(1) l(2) by (auto simp: create_checkout_def checkout_purchase_def split: sum.splits)
  moreover obtain s2 where "stripe_create env (checkout_session_for env d req2 u2 m2 l) = Inr s2"
    using assms(5) by (metis isl_def sum.exhaust)
  ultimately show ?thesis
    using assms(2-4) l
    by (cases s2) (auto simp: create_checkout_authenticated checkout_purchase_def Let_def)
qed

end
