(* ===== verification/FeePolicy.thy ===== *)
theory FeePolicy
  imports Schema
begin

text \<open>
  The database functions \<open>get_commission_rate\<close>, \<open>get_listing_limit\<close>,
  \<open>count_active_listings\<close> and \<open>get_user_role\<close>, which the client and the edge functions
  call by RPC (their signatures are in \<open>types.ts\<close>, lines 449--465).  Their SQL is not
  part of the repository, so they are modelled from the specification: the tier
  registry (section 4.1), the fee policy resolver (4.2) and the quota enforcer (4.4).
  The spec's tiers are the roles of the code: Private Holder is \<open>observer\<close>, Verified
  Dealer \<open>individual_seller\<close>, Certified Partner \<open>super_seller\<close>
  (\<open>tier-badge.tsx\<close>).  The spec gives no rate and no limit to a \<open>buyer\<close>; the model
  uses the client's default rate (3.5\%) and a limit of 0.
\<close>

record fee_policy =
  zero_fee_active :: bool
  zero_fee_end :: "timestamp option"

fun base_commission_rate :: "app_role \<Rightarrow> rat" where
  "base_commission_rate Observer = 35 / 1000"
| "base_commission_rate Individual_seller = 25 / 1000"
| "base_commission_rate Super_seller = 0"
| "base_commission_rate Admin = 0"
| "base_commission_rate Buyer = 35 / 1000"

fun listing_limit :: "app_role \<Rightarrow> nat option" where
  "listing_limit Observer = Some 3"
| "listing_limit Individual_seller = Some 25"
| "listing_limit Super_seller = None"
| "listing_limit Admin = None"
| "listing_limit Buyer = Some 0"

definition zero_fee_window :: "fee_policy \<Rightarrow> timestamp \<Rightarrow> bool" where
  "zero_fee_window pol now \<longleftrightarrow>
     zero_fee_active pol \<and> (case zero_fee_end pol of None \<Rightarrow> True | Some e \<Rightarrow> now < e)"

text \<open>\<open>effectiveRate\<close> of section 4.2, its four steps in their order.\<close>

definition effective_rate :: "app_role \<Rightarrow> bool \<Rightarrow> fee_policy \<Rightarrow> timestamp \<Rightarrow> rat" where
  "effective_rate r eligible pol now =
     (if r = Super_seller \<or> r = Admin then 0
      else if zero_fee_window pol now then 0
      else if eligible then 0
      else base_commission_rate r)"

definition user_role_of :: "db \<Rightarrow> uid \<Rightarrow> app_role option" where
  "user_role_of d u = map_option role (find (\<lambda>r. ur_user_id r = u) (user_roles d))"

definition zero_fee_eligible_of :: "db \<Rightarrow> uid \<Rightarrow> bool" where
  "zero_fee_eligible_of d u =
     (case find (\<lambda>p. user_id p = u) (profiles d) of None \<Rightarrow> False
      | Some p \<Rightarrow> zero_fee_eligible p = Some True)"

text \<open>The RPC: \<open>null\<close> for a user without a role row.\<close>

definition get_commission_rate :: "db \<Rightarrow> fee_policy \<Rightarrow> timestamp \<Rightarrow> uid \<Rightarrow> rat option" where
  "get_commission_rate d pol now u =
     map_option (\<lambda>r. effective_rate r (zero_fee_eligible_of d u) pol now) (user_role_of d u)"

definition is_active_listing :: "listing_row \<Rightarrow> bool" where
  "is_active_listing l \<longleftrightarrow> status l = Draft \<or> status l = Pending_review \<or> status l = Approved"

definition count_active_listings :: "db \<Rightarrow> uid \<Rightarrow> nat" where
  "count_active_listings d u = length (filter (\<lambda>l. seller_id l = u \<and> is_active_listing l) (listings d))"

text \<open>\<open>canCreateListing\<close>: fails closed when the seller has no role.\<close>

definition can_create_listing :: "db \<Rightarrow> uid \<Rightarrow> bool" where
  "can_create_listing d u =
     (case user_role_of d u of None \<Rightarrow> False
      | Some r \<Rightarrow> (case listing_limit r of None \<Rightarrow> True | Some n \<Rightarrow> count_active_listings d u < n))"

section \<open>Properties of the policy\<close>

lemma effective_rate_le_base: "effective_rate r e pol now \<le> base_commission_rate r"
  by (cases r) (simp_all add: effective_rate_def)

lemma effective_rate_nonneg: "0 \<le> effective_rate r e pol now"
  by (cases r) (simp_all add: effective_rate_def)

lemma effective_rate_le_one: "effective_rate r e pol now \<le> 1"
  by (cases r) (simp_all add: effective_rate_def)

lemma effective_rate_partner [simp]:
  "effective_rate Super_seller e pol now = 0" "effective_rate Admin e pol now = 0"
  by (simp_all add: effective_rate_def)

lemma effective_rate_window: "zero_fee_window pol now \<Longrightarrow> effective_rate r e pol now = 0"
  by (simp add: effective_rate_def)

lemma effective_rate_no_waiver:
  "\<not> zero_fee_window pol now \<Longrightarrow> effective_rate r False pol now = base_commission_rate r"
  by (cases r) (simp_all add: effective_rate_def)

lemma get_commission_rate_range:
  "get_commission_rate d pol now u = Some x \<Longrightarrow> 0 \<le> x \<and> x \<le> 1"
  by (auto simp: get_commission_rate_def effective_rate_nonneg effective_rate_le_one)

end
