(* ===== verification/Roles.thy ===== *)
theory Roles
  imports Schema
begin

text \<open>
  Role-based gating in the client: which role may sell (\<open>canSell\<close>, written out
  identically in \<open>CreateListing.tsx\<close>, \<open>Dashboard.tsx\<close> and \<open>Header.tsx\<close>), who may post
  in the community, who may open the admin page, who is sent on from seller onboarding,
  and the labels under which roles are shown (the tier badge, the admin's role picker,
  the dashboard's account-status panel).  A role is \<open>None\<close> while the user has no row
  in \<open>user_roles\<close>.
\<close>

fun tier_label :: "app_role \<Rightarrow> string" where
  "tier_label Buyer = ''Buyer''"
| "tier_label Observer = ''Private Holder''"
| "tier_label Individual_seller = ''Verified Dealer''"
| "tier_label Super_seller = ''Certified Partner''"
| "tier_label Admin = ''Admin''"

text \<open>\<open>TierBadge\<close>: \<open>tierConfig[tier] || tierConfig.buyer\<close>, a lookup of the role's
  name in the table of \<open>tier_label\<close>, falling back to the Buyer entry.\<close>

definition tier_badge :: "string \<Rightarrow> string" where
  "tier_badge t =
     (case map_of (map (\<lambda>r. (app_role_name r, tier_label r)) [Buyer, Observer, Individual_seller, Super_seller, Admin]) t of
        Some l \<Rightarrow> l
      | None \<Rightarrow> tier_label Buyer)"

definition role_options :: "(app_role \<times> string) list" where
  "role_options =
     [(Buyer, ''Buyer''), (Observer, ''Private Holder''), (Individual_seller, ''Verified Dealer''),
      (Super_seller, ''Certified Partner''), (Admin, ''Admin'')]"

definition dashboard_role_label :: "app_role option \<Rightarrow> string" where
  "dashboard_role_label r =
     (if r = Some Observer then ''Private Holder''
      else if r = Some Individual_seller then ''Verified Dealer''
      else if r = Some Super_seller then ''Certified Partner''
      else if r = Some Admin then ''Admin''
      else if r = Some Buyer then ''Buyer''
      else ''Private Holder'')"

definition can_sell :: "app_role option \<Rightarrow> bool" where
  "can_sell r \<longleftrightarrow> r = Some Individual_seller \<or> r = Some Super_seller \<or> r = Some Admin"

definition can_post :: "app_role option \<Rightarrow> bool" where
  "can_post r \<longleftrightarrow> r = Some Individual_seller \<or> r = Some Super_seller \<or> r = Some Admin"

definition admin_page_allowed :: "bool \<Rightarrow> app_role option \<Rightarrow> bool" where
  "admin_page_allowed signed_in r \<longleftrightarrow> signed_in \<and> r = Some Admin"

text \<open>\<open>SellerOnboarding.tsx\<close>: a user who already has a seller role is redirected to
  the dashboard.\<close>

definition onboarding_redirects :: "app_role option \<Rightarrow> bool" where
  "onboarding_redirects r \<longleftrightarrow> r \<noteq> None \<and> r \<noteq> Some Observer \<and> r \<noteq> Some Buyer"

text \<open>What \<open>Dashboard.tsx\<close> renders for a signed-in user with a profile.\<close>

record dashboard_view =
  dv_create_listing :: bool
  dv_verification_alert :: bool
  dv_private_holder_cta :: bool
  dv_admin_panel :: bool
  dv_my_listings :: bool
  dv_verification_card :: bool
  dv_transactions :: bool

definition dashboard_view :: "app_role option \<Rightarrow> profile_row \<Rightarrow> dashboard_view" where
  "dashboard_view r p =
     (let sell = can_sell r in
      \<lparr> dv_create_listing = sell,
        dv_verification_alert = (sell \<and> kyc_status p \<noteq> Kyc_verified),
        dv_private_holder_cta = (r = Some Observer),
        dv_admin_panel = (r = Some Admin),
        dv_my_listings = sell,
        dv_verification_card = sell,
        dv_transactions = sell \<rparr>)"

text \<open>The Account Status box: the membership of the role (a missing role reads as
  Private Holder), the verification status with its first underscore replaced by a
  space (\<open>profile.kyc_status.replace('_', ' ')\<close>; the CSS \<open>capitalize\<close> class only
  changes the letters' case on screen), the subscription status or ``None'' when it
  is null or empty, and the zero-fee note when \<open>zero_fee_eligible\<close> is true.\<close>

record account_status =
  as_membership :: string
  as_verification :: string
  as_subscription :: string
  as_zero_fee_note :: bool

definition account_status :: "app_role option \<Rightarrow> profile_row \<Rightarrow> account_status" where
  "account_status r p =
     \<lparr> as_membership = dashboard_role_label r,
       as_verification = js_replace_first ''_'' '' '' (kyc_status_name (kyc_status p)),
       as_subscription = (case subscription_status p of Some s \<Rightarrow> if s = [] then ''None'' else s | None \<Rightarrow> ''None''),
       as_zero_fee_note = (zero_fee_eligible p = Some True) \<rparr>"

text \<open>The page around the sections: a skeleton while the session loads, nothing
  without a user or a profile (the effect sends a visitor without a session to
  \<open>/auth\<close>), else the header (the name or ``Welcome'', the e-mail, the tier badge) and
  the sections and the Account Status box.\<close>

datatype dashboard_page =
    Dashboard_skeleton
  | Dashboard_blank
  | Dashboard_shown string string "app_role option" dashboard_view account_status

definition dashboard_page :: "bool \<Rightarrow> bool \<Rightarrow> app_role option \<Rightarrow> profile_row option \<Rightarrow> dashboard_page" where
  "dashboard_page loading signed_in r prof =
     (if loading then Dashboard_skeleton
      else case prof of
        None \<Rightarrow> Dashboard_blank
      | Some p \<Rightarrow>
          if \<not> signed_in then Dashboard_blank
          else Dashboard_shown (case full_name p of Some n \<Rightarrow> if n = [] then ''Welcome'' else n | None \<Rightarrow> ''Welcome'')
                 (email p) r (dashboard_view r p) (account_status r p))"

definition dashboard_redirect :: "bool \<Rightarrow> bool \<Rightarrow> string option" where
  "dashboard_redirect loading signed_in = (if \<not> loading \<and> \<not> signed_in then Some ''/auth'' else None)"

section \<open>Properties\<close>

lemma tier_badge_names:
  "tier_badge (app_role_name r) = tier_label r"
  "\<forall>r. t \<noteq> app_role_name r \<Longrightarrow> tier_badge t = ''Buyer''"
   apply (cases r; simp add: tier_badge_def map_of_names enum_names_injective)
  unfolding tier_badge_def by (subst map_of_names_None) simp_all

lemma can_sell_cases: "can_sell r \<longleftrightarrow> r \<in> {Some Individual_seller, Some Super_seller, Some Admin}"
  by (auto simp: can_sell_def)

lemma can_post_eq_can_sell: "can_post = can_sell"
  by (rule ext) (simp add: can_post_def can_sell_def)

text \<open>The seller onboarding page redirects exactly the roles that can sell, so an observer is always shown the wizard.\<close>

lemma onboarding_redirects_sellers: "onboarding_redirects r \<longleftrightarrow> can_sell r"
proof (cases r)
  case (Some a)
  then show ?thesis by (cases a) (simp_all add: onboarding_redirects_def can_sell_def)
qed (simp add: onboarding_redirects_def can_sell_def)

end
