(* ===== verification/Photos.thy ===== *)
theory Photos
  imports Schema
begin

text \<open>
  The photo documentation of a listing: the slots of \<open>PhotoUpload.tsx\<close> and its
  drop/select handlers, the photo check and the upload loop of \<open>CreateListing.tsx\<close>
  (\<open>validatePhotos\<close>, \<open>uploadPhoto\<close> and the loop in \<open>onSubmit\<close>), and the order in
  which \<open>ListingDetail.tsx\<close> shows the stored photos.  The form's photo state
  (\<open>Record<PhotoType, File | null>\<close>) is a function from photo types to an optional
  file, a file being its name and MIME type.
\<close>

record photo_file =
  pf_name :: string
  pf_mime :: string

type_synonym photo_state = "photo_type \<Rightarrow> photo_file option"

record photo_slot =
  slot_type :: photo_type
  slot_label :: string
  slot_description :: string
  slot_required :: bool

fun photo_type_name :: "photo_type \<Rightarrow> string" where
  "photo_type_name Dial = ''dial''"
| "photo_type_name Caseback = ''caseback''"
| "photo_type_name Side = ''side''"
| "photo_type_name Clasp = ''clasp''"
| "photo_type_name Box = ''box''"
| "photo_type_name Papers = ''papers''"

definition photo_slots :: "photo_slot list" where
  "photo_slots =
     [\<lparr>slot_type = Dial, slot_label = ''Dial Front'', slot_description = ''Clear front-facing dial shot'',
       slot_required = True\<rparr>,
      \<lparr>slot_type = Caseback, slot_label = ''Caseback'', slot_description = ''Serial number visible'',
       slot_required = True\<rparr>,
      \<lparr>slot_type = Side, slot_label = ''Side Profile'', slot_description = ''Case thickness and crown'',
       slot_required = True\<rparr>,
      \<lparr>slot_type = Clasp, slot_label = ''Clasp/Bracelet'', slot_description = ''Clasp or strap detail'',
       slot_required = True\<rparr>,
      \<lparr>slot_type = Box, slot_label = ''Box'', slot_description = ''Original box if included'',
       slot_required = False\<rparr>,
      \<lparr>slot_type = Papers, slot_label = ''Papers/Warranty'', slot_description = ''Documentation if included'',
       slot_required = False\<rparr>]"

section \<open>The upload form\<close>

definition visible_slots :: "bool \<Rightarrow> bool \<Rightarrow> photo_slot list" where
  "visible_slots has_box' has_papers' =
     filter (\<lambda>s. if slot_type s = Box then has_box' else if slot_type s = Papers then has_papers' else True)
       photo_slots"

text \<open>The header's count: \<open>visibleSlots.filter(s => s.required).length\<close>.\<close>

definition required_count_label :: "bool \<Rightarrow> bool \<Rightarrow> nat" where
  "required_count_label hb hp = length (filter slot_required (visible_slots hb hp))"

text \<open>The ``Required'' mark of one slot.\<close>

definition slot_is_required :: "bool \<Rightarrow> bool \<Rightarrow> photo_slot \<Rightarrow> bool" where
  "slot_is_required hb hp s \<longleftrightarrow>
     slot_required s \<or> (slot_type s = Box \<and> hb) \<or> (slot_type s = Papers \<and> hp)"

text \<open>\<open>handleDrop\<close> keeps a dropped file only if its MIME type starts with \<open>image/\<close>;
  \<open>handleFileSelect\<close> keeps any selected file; the remove button clears the slot.\<close>

definition handle_drop :: "photo_state \<Rightarrow> photo_type \<Rightarrow> photo_file option \<Rightarrow> photo_state" where
  "handle_drop ph t f =
     (case f of None \<Rightarrow> ph
      | Some x \<Rightarrow> if take 6 (pf_mime x) = ''image/'' then ph(t := Some x) else ph)"

definition handle_file_select :: "photo_state \<Rightarrow> photo_type \<Rightarrow> photo_file option \<Rightarrow> photo_state" where
  "handle_file_select ph t f = (case f of None \<Rightarrow> ph | Some x \<Rightarrow> ph(t := Some x))"

definition remove_photo :: "photo_state \<Rightarrow> photo_type \<Rightarrow> photo_state" where
  "remove_photo ph t = ph(t := None)"

text \<open>The widget's own state is \<open>dragOver\<close>; the photos are its parent's.  A drop
  clears \<open>dragOver\<close> before it looks at the file.\<close>

record upload_widget =
  uw_photos :: photo_state
  uw_drag_over :: "photo_type option"

datatype upload_event =
    Drag_over photo_type
  | Drag_leave
  | Drop_file photo_type "photo_file option"
  | Select_file photo_type "photo_file option"
  | Remove_file photo_type

fun upload_widget_step :: "upload_event \<Rightarrow> upload_widget \<Rightarrow> upload_widget" where
  "upload_widget_step (Drag_over t) w = w\<lparr>uw_drag_over := Some t\<rparr>"
| "upload_widget_step Drag_leave w = w\<lparr>uw_drag_over := None\<rparr>"
| "upload_widget_step (Drop_file t f) w = w\<lparr>uw_drag_over := None, uw_photos := handle_drop (uw_photos w) t f\<rparr>"
| "upload_widget_step (Select_file t f) w = w\<lparr>uw_photos := handle_file_select (uw_photos w) t f\<rparr>"
| "upload_widget_step (Remove_file t) w = w\<lparr>uw_photos := remove_photo (uw_photos w) t\<rparr>"

text \<open>A tile: the preview of its file (with the remove button and the check mark), or
  the upload prompt with the slot's label, description and ``Required'' mark; and the
  three conditional classes of its border (\<open>dragOver === slot.type\<close>, \<open>file\<close>, and
  \<open>!file && !dragOver\<close>, which tests whether any tile is dragged over).\<close>

datatype tile_body = Preview string | Upload_prompt string string bool

record tile_view =
  tl_type :: photo_type
  tl_drag_target :: bool
  tl_filled :: bool
  tl_idle :: bool
  tl_body :: tile_body

definition upload_tiles :: "bool \<Rightarrow> bool \<Rightarrow> upload_widget \<Rightarrow> tile_view list" where
  "upload_tiles hb hp w =
     map (\<lambda>s. let file = uw_photos w (slot_type s) in
               \<lparr> tl_type = slot_type s, tl_drag_target = (uw_drag_over w = Some (slot_type s)),
                 tl_filled = (file \<noteq> None), tl_idle = (file = None \<and> uw_drag_over w = None),
                 tl_body = (if file \<noteq> None then Preview (slot_label s)
                            else Upload_prompt (slot_label s) (slot_description s) (slot_is_required hb hp s)) \<rparr>)
       (visible_slots hb hp)"

definition upload_footer :: string where
  "upload_footer = ''Accepted formats: JPG, PNG, WebP. Maximum 10MB per photo.''"

section \<open>Checking and uploading\<close>

definition required_photos :: "bool \<Rightarrow> bool \<Rightarrow> photo_type list" where
  "required_photos hb hp =
     [Dial, Caseback, Side, Clasp] @ (if hb then [Box] else []) @ (if hp then [Papers] else [])"

text \<open>\<open>validatePhotos\<close>: the first required type without a file (the toast names it),
  or \<open>None\<close> when all are present.\<close>

definition validate_photos :: "photo_state \<Rightarrow> bool \<Rightarrow> bool \<Rightarrow> photo_type option" where
  "validate_photos ph hb hp = find (\<lambda>t. ph t = None) (required_photos hb hp)"

definition upload_types :: "photo_state \<Rightarrow> bool \<Rightarrow> bool \<Rightarrow> photo_type list" where
  "upload_types ph hb hp =
     [Dial, Caseback, Side, Clasp] @ (if hb \<and> ph Box \<noteq> None then [Box] else [])
       @ (if hp \<and> ph Papers \<noteq> None then [Papers] else [])"

text \<open>\<open>file.name.split('.').pop()\<close>: what follows the last dot, or the whole name.\<close>

definition file_ext :: "string \<Rightarrow> string" where
  "file_ext n = rev (takeWhile (\<lambda>c. c \<noteq> CHR ''.'') (rev n))"

definition photo_storage_path :: "row_id \<Rightarrow> photo_type \<Rightarrow> photo_file \<Rightarrow> string" where
  "photo_storage_path lid t f = lid @ ''/'' @ photo_type_name t @ ''.'' @ file_ext (pf_name f)"

definition upload_photo :: "row_id \<Rightarrow> photo_type \<Rightarrow> photo_file \<Rightarrow> int \<Rightarrow> photo_row" where
  "upload_photo lid t f n =
     \<lparr>ph_listing_id = lid, storage_path = photo_storage_path lid t f, ph_type = t, display_order = n\<rparr>"

text \<open>The upload loop: \<open>for (i = 0; i < photoTypes.length; i++)\<close>, awaiting each upload;
  \<open>ok t\<close> says whether the storage upload and the row insert of type \<open>t\<close> succeed.  The
  result is the rows inserted and whether the loop ran to its end (a failed upload
  throws out of it).\<close>

fun upload_loop ::
  "(photo_type \<Rightarrow> bool) \<Rightarrow> row_id \<Rightarrow> photo_state \<Rightarrow> nat \<Rightarrow> photo_type list \<Rightarrow> photo_row list \<times> bool" where
  "upload_loop ok lid ph i [] = ([], True)"
| "upload_loop ok lid ph i (t # ts) =
     (case ph t of
        None \<Rightarrow> upload_loop ok lid ph (Suc i) ts
      | Some f \<Rightarrow>
          if ok t then (let (rs, fin) = upload_loop ok lid ph (Suc i) ts
                        in (upload_photo lid t f (int (Suc i)) # rs, fin))
          else ([], False))"

text \<open>The same loop as the code writes it, over the index \<open>i\<close> into \<open>photoTypes\<close>:
  \<open>photoTypes[i]\<close> is \<open>ts ! i\<close>, guarded by \<open>i < photoTypes.length\<close>.  No argument
  shrinks; the distance \<open>length ts - i\<close> does.\<close>

function (domintros) upload_loop_idx ::
  "(photo_type \<Rightarrow> bool) \<Rightarrow> row_id \<Rightarrow> photo_state \<Rightarrow> photo_type list \<Rightarrow> nat \<Rightarrow> photo_row list \<times> bool" where
  "upload_loop_idx ok lid ph ts i =
     (if i < length ts then
        (case ph (ts ! i) of
           None \<Rightarrow> upload_loop_idx ok lid ph ts (Suc i)
         | Some f \<Rightarrow>
             if ok (ts ! i) then (let (rs, fin) = upload_loop_idx ok lid ph ts (Suc i)
                                  in (upload_photo lid (ts ! i) f (int (Suc i)) # rs, fin))
             else ([], False))
      else ([], True))"
  by pat_completeness auto
termination
  by (relation "measure (\<lambda>(ok, lid, ph, ts, i). length ts - i)") auto

declare upload_loop_idx.simps [simp del]

text \<open>What the loop is meant to do, stated without a loop: the types are tried in order
  up to the first whose upload fails (a type without a file is skipped and does not
  stop it); each tried type with a file is uploaded with the \<open>display_order\<close> of its
  1-based position in \<open>photoTypes\<close>, skipped types counted; the loop completes exactly
  when no upload failed.  The offset \<open>i\<close> is the number of types already behind.\<close>

definition upload_spec ::
  "(photo_type \<Rightarrow> bool) \<Rightarrow> row_id \<Rightarrow> photo_state \<Rightarrow> nat \<Rightarrow> photo_type list \<Rightarrow> photo_row list \<times> bool" where
  "upload_spec ok lid ph i ts =
     (let tried = takeWhile (\<lambda>t. ph t = None \<or> ok t) ts
      in (map (\<lambda>(j, t). upload_photo lid t (the (ph t)) (int (Suc j)))
              (filter (\<lambda>(j, t). ph t \<noteq> None) (enumerate i tried)),
          length tried = length ts))"

text \<open>\<open>ListingDetail.tsx\<close>: \<open>[...listing_photos].sort((a, b) => a.display_order - b.display_order)\<close>
  (\<open>Array.prototype.sort\<close> is stable).\<close>

definition sort_photos :: "photo_row list \<Rightarrow> photo_row list" where
  "sort_photos rs = sort_key display_order rs"

section \<open>Properties\<close>

text \<open>The photo slots PhotoUpload shows are exactly the photo types validatePhotos requires.\<close>

lemma visible_slots_types: "map slot_type (visible_slots hb hp) = required_photos hb hp"
  by (cases hb; cases hp) (simp_all add: visible_slots_def photo_slots_def required_photos_def)

text \<open>The PhotoUpload header always announces 4 required photos, while 4, 5 or 6 are required depending on the box and papers flags.\<close>

lemma required_label_undercounts:
  "required_count_label hb hp = 4 \<and> length (required_photos hb hp) = 4 + of_bool hb + of_bool hp"
  by (cases hb; cases hp)
     (simp_all add: required_count_label_def visible_slots_def photo_slots_def required_photos_def)

lemma validate_photos_None:
  "validate_photos ph hb hp = None \<longleftrightarrow> list_all (\<lambda>t. ph t \<noteq> None) (required_photos hb hp)"
  by (auto simp: validate_photos_def find_None_iff list_all_iff)

lemma validated_upload_types:
  "validate_photos ph hb hp = None \<Longrightarrow> upload_types ph hb hp = required_photos hb hp"
  by (auto simp: validate_photos_None upload_types_def required_photos_def)

lemma upload_loop_complete:
  assumes "list_all (\<lambda>t. ph t \<noteq> None) ts" "\<forall>t \<in> set ts. ok t"
  shows "map ph_type (fst (upload_loop ok lid ph i ts)) = ts
    \<and> map display_order (fst (upload_loop ok lid ph i ts)) = map int [Suc i..<Suc i + length ts]
    \<and> snd (upload_loop ok lid ph i ts)"
  using assms
proof (induction ts arbitrary: i)
  case Nil
  then show ?case by simp
next
  case (Cons t ts)
  then obtain f where f: "ph t = Some f" by auto
  from Cons.prems have "map ph_type (fst (upload_loop ok lid ph (Suc i) ts)) = ts
    \<and> map display_order (fst (upload_loop ok lid ph (Suc i) ts)) = map int [Suc (Suc i)..<Suc (Suc i) + length ts]
    \<and> snd (upload_loop ok lid ph (Suc i) ts)"
    by (intro Cons.IH) auto
  with f Cons.prems show ?case
    by (simp add: upload_photo_def Let_def case_prod_unfold upt_conv_Cons del: upt_Suc)
qed

text \<open>C24: The upload loop as written terminates on every input (its index climbs
  towards \<open>photoTypes.length\<close>, whatever the photos and the outcome of each upload), and
  it returns with the completion flag set exactly when every remaining type without
  a file is skipped and every type with one uploads.\<close>

theorem upload_loop_idx_terminates:
  "upload_loop_idx_dom (ok, lid, ph, ts, i)
   \<and> snd (upload_loop_idx ok lid ph ts i) = list_all (\<lambda>t. ph t = None \<or> ok t) (drop i ts)"
proof
  show "upload_loop_idx_dom (ok, lid, ph, ts, i)"
  proof (induction "length ts - i" arbitrary: i)
    case 0
    then have "\<not> i < length ts" by simp
    then show ?case by (auto intro: upload_loop_idx.domintros)
  next
    case (Suc n)
    then have "upload_loop_idx_dom (ok, lid, ph, ts, Suc i)" by simp
    then show ?case by (auto intro: upload_loop_idx.domintros)
  qed
next
  show "snd (upload_loop_idx ok lid ph ts i) = list_all (\<lambda>t. ph t = None \<or> ok t) (drop i ts)"
  proof (induction ok lid ph ts i rule: upload_loop_idx.induct)
    case (1 ok lid ph ts i)
    show ?case
    proof (cases "i < length ts")
      case True
      then have d: "drop i ts = ts ! i # drop (Suc i) ts" by (simp add: Cons_nth_drop_Suc)
      show ?thesis
      proof (cases "ph (ts ! i)")
        case None
        with True "1.IH"(1) show ?thesis by (simp add: upload_loop_idx.simps [of ok lid ph ts i] d)
      next
        case (Some f)
        with True "1.IH"(2) [OF True Some] show ?thesis
          by (simp add: upload_loop_idx.simps [of ok lid ph ts i] d case_prod_unfold)
      qed
    qed (simp add: upload_loop_idx.simps [of ok lid ph ts i])
  qed
qed

lemma upload_spec_Nil [simp]: "upload_spec ok lid ph i [] = ([], True)"
  by (simp add: upload_spec_def)

lemma upload_spec_Cons:
  "upload_spec ok lid ph i (t # ts) =
     (case ph t of
        None \<Rightarrow> upload_spec ok lid ph (Suc i) ts
      | Some f \<Rightarrow>
          if ok t then (let (rs, fin) = upload_spec ok lid ph (Suc i) ts
                        in (upload_photo lid t f (int (Suc i)) # rs, fin))
          else ([], False))"
  by (simp add: upload_spec_def Let_def split: option.splits)

text \<open>The structural loop the listing model runs meets the specification.\<close>

lemma upload_loop_spec: "upload_loop ok lid ph i ts = upload_spec ok lid ph i ts"
  by (induction ts arbitrary: i) (simp_all add: upload_spec_Cons split: option.splits)

text \<open>C13: The upload loop as the code writes it, over the index into \<open>photoTypes\<close>,
  does what the specification above says: it uploads, in order, each type with a file
  up to the first failed upload, each with its 1-based position as display order,
  and reports completion exactly when no upload failed.\<close>

theorem upload_loop_idx_spec: "upload_loop_idx ok lid ph ts i = upload_spec ok lid ph i (drop i ts)"
proof (induction ok lid ph ts i rule: upload_loop_idx.induct)
  case (1 ok lid ph ts i)
  show ?case
  proof (cases "i < length ts")
    case True
    then have d: "drop i ts = ts ! i # drop (Suc i) ts" by (simp add: Cons_nth_drop_Suc)
    show ?thesis
    proof (cases "ph (ts ! i)")
      case None
      with True "1.IH"(1) show ?thesis by (simp add: upload_loop_idx.simps [of ok lid ph ts i] d upload_spec_Cons)
    next
      case (Some f)
      with True "1.IH"(2) [OF True Some] show ?thesis
        by (simp add: upload_loop_idx.simps [of ok lid ph ts i] d upload_spec_Cons)
    qed
  next
    case False
    then show ?thesis by (simp add: upload_loop_idx.simps [of ok lid ph ts i])
  qed
qed

lemma upload_loop_ph_listing:
  "list_all (\<lambda>r. ph_listing_id r = lid) (fst (upload_loop ok lid ph i ts))"
  by (induction ts arbitrary: i) (simp_all add: upload_photo_def Let_def case_prod_unfold split: option.splits)

text \<open>C20: When validation passes and every upload succeeds, the uploaded photo rows sorted by display_order list exactly the required photo types in slot order.\<close>

theorem uploaded_photos_display_order:
  assumes "validate_photos ph hb hp = None" "\<forall>t. ok t"
  shows "map ph_type (sort_photos (fst (upload_loop ok lid ph 0 (upload_types ph hb hp))))
           = required_photos hb hp
         \<and> snd (upload_loop ok lid ph 0 (upload_types ph hb hp))"
proof -
  let ?ts = "required_photos hb hp"
  have ty: "upload_types ph hb hp = ?ts" using assms(1) by (rule validated_upload_types)
  have all: "list_all (\<lambda>t. ph t \<noteq> None) ?ts" using assms(1) by (simp add: validate_photos_None)
  from upload_loop_complete [OF all, of ok lid 0] assms(2)
  have c: "map ph_type (fst (upload_loop ok lid ph 0 ?ts)) = ?ts"
    "map display_order (fst (upload_loop ok lid ph 0 ?ts)) = map int [Suc 0..<Suc (length ?ts)]"
    "snd (upload_loop ok lid ph 0 ?ts)"
    by simp_all
  have "sorted (map display_order (fst (upload_loop ok lid ph 0 ?ts)))"
    by (simp only: c(2)) (simp add: sorted_map del: upt_Suc)
  then have "sort_photos (fst (upload_loop ok lid ph 0 ?ts)) = fst (upload_loop ok lid ph 0 ?ts)"
    by (simp add: sort_photos_def sort_key_id_if_sorted)
  with c ty show ?thesis by simp
qed

text \<open>The ``Required'' marks on screen are what \<open>validatePhotos\<close> checks: it passes
  exactly when no tile shows an upload prompt marked Required.\<close>

lemma validate_photos_tiles:
  "(validate_photos (uw_photos w) hb hp = None)
     = (\<forall>l d. Upload_prompt l d True \<notin> set (map tl_body (upload_tiles hb hp w)))"
  by (cases hb; cases hp)
     (auto simp: validate_photos_def required_photos_def upload_tiles_def visible_slots_def photo_slots_def
                 slot_is_required_def Let_def find_None_iff)

end
