(* ===== verification/Listings.thy ===== *)
theory Listings
  imports Roles Photos
begin

text \<open>
  Listings: how they are created (\<open>CreateListing.tsx\<close>: the page's seller guard, the zod
  schema of the form, \<open>onSubmit\<close> with its photo check, the insert and the photo upload
  loop) and how admins moderate them (\<open>AdminListings.tsx\<close>: the fetch with its status
  filter and search, \<open>handleApprove\<close>, \<open>handleReject\<close>, and the row actions, shown only
  for rows whose status is \<open>pending_review\<close> in the admin's local copy).  The listing
  lifecycle the code can produce is the reachability relation \<open>listing_reach\<close>: from an
  empty table, by creations and by approvals and rejections.
\<close>

fun condition_label :: "watch_condition \<Rightarrow> string" where
  "condition_label Unworn = ''Unworn''"
| "condition_label Excellent = ''Excellent''"
| "condition_label Very_good = ''Very Good''"
| "condition_label Good = ''Good''"
| "condition_label Fair = ''Fair''"

text \<open>\<open>ConditionBadge\<close>: \<open>conditionConfig[condition]\<close>, the \<open>condition_label\<close> table
  keyed by the enum's names, with no fallback: for any other string \<open>config\<close> is
  undefined and reading \<open>config.className\<close> throws (\<open>None\<close>).\<close>

definition condition_badge :: "string \<Rightarrow> string option" where
  "condition_badge c =
     map_of (map (\<lambda>w. (watch_condition_name w, condition_label w)) [Unworn, Excellent, Very_good, Good, Fair]) c"

definition listing_conditions :: "(watch_condition \<times> string) list" where
  "listing_conditions =
     [(Unworn, ''Unworn''), (Excellent, ''Excellent''), (Very_good, ''Very Good''),
      (Good, ''Good''), (Fair, ''Fair'')]"

definition currencies :: "string list" where
  "currencies = [''USD'', ''EUR'', ''GBP'', ''CHF'']"

section \<open>Creating a listing\<close>

record listing_form =
  f_brand_id :: string
  f_model :: string
  f_reference_number :: string
  f_serial_number :: "string option"
  f_year_produced :: "int option"
  f_year_produced_end :: "int option"
  f_condition :: watch_condition
  f_has_box :: bool
  f_has_papers :: bool
  f_asking_price :: money
  f_currency :: string
  f_description :: "string option"

text \<open>The zod \<open>listingSchema\<close>; \<open>this_year\<close> is \<open>new Date().getFullYear()\<close>.\<close>

definition opt_ok :: "('a \<Rightarrow> bool) \<Rightarrow> 'a option \<Rightarrow> bool" where
  "opt_ok P x = (case x of None \<Rightarrow> True | Some v \<Rightarrow> P v)"

definition listing_schema_ok :: "int \<Rightarrow> listing_form \<Rightarrow> bool" where
  "listing_schema_ok this_year f \<longleftrightarrow>
     1 \<le> length (f_brand_id f)
     \<and> 1 \<le> length (f_model f) \<and> length (f_model f) \<le> 100
     \<and> 1 \<le> length (f_reference_number f) \<and> length (f_reference_number f) \<le> 50
     \<and> opt_ok (\<lambda>s. length s \<le> 50) (f_serial_number f)
     \<and> opt_ok (\<lambda>y. 1900 \<le> y \<and> y \<le> this_year) (f_year_produced f)
     \<and> opt_ok (\<lambda>y. 1900 \<le> y \<and> y \<le> this_year) (f_year_produced_end f)
     \<and> 100 \<le> f_asking_price f
     \<and> 1 \<le> length (f_currency f)
     \<and> opt_ok (\<lambda>s. length s \<le> 2000) (f_description f)"

text \<open>\<open>x || null\<close> on an optional string or number of the form.\<close>

definition opt_str_or_null :: "string option \<Rightarrow> string option" where
  "opt_str_or_null x = (case x of None \<Rightarrow> None | Some s \<Rightarrow> js_str_or_null s)"

definition opt_int_or_null :: "int option \<Rightarrow> int option" where
  "opt_int_or_null x = (case x of None \<Rightarrow> None | Some v \<Rightarrow> if v = 0 then None else Some v)"

text \<open>The inserted row: \<open>status: 'pending_review'\<close>; the database fills the id.\<close>

definition new_listing_row :: "row_id \<Rightarrow> uid \<Rightarrow> listing_form \<Rightarrow> listing_row" where
  "new_listing_row nid u f =
     \<lparr> l_id = nid, seller_id = u, brand_id = f_brand_id f, model = f_model f,
       reference_number = f_reference_number f,
       serial_number = opt_str_or_null (f_serial_number f),
       year_produced = opt_int_or_null (f_year_produced f),
       year_produced_end = opt_int_or_null (f_year_produced_end f),
       condition = f_condition f, has_box = f_has_box f, has_papers = f_has_papers f,
       asking_price = f_asking_price f, currency = f_currency f,
       description = opt_str_or_null (f_description f),
       status = Pending_review, approved_at = None, approved_by = None, rejection_reason = None \<rparr>"

datatype create_outcome =
    Not_signed_in
  | Seller_account_required
  | Form_invalid
  | Missing_photo photo_type
  | Insert_failed
  | Listing_submitted
  | Submit_error

text \<open>The page and its submit handler.  \<open>acc d row\<close> says whether the database accepts
  the insert of \<open>row\<close> (its brand foreign key and its row-level policies, which are not in
  the repository): when it refuses, \<open>listingError\<close> is thrown before any upload and the
  catch toasts it (\<open>Insert_failed\<close>).  \<open>nid\<close> is the id the database gives the new row,
  \<open>ok\<close> says which photo uploads succeed; a failed upload throws out of the loop
  (\<open>Submit_error\<close>).\<close>

definition create_listing ::
  "uid option \<Rightarrow> app_role option \<Rightarrow> int \<Rightarrow> listing_form \<Rightarrow> photo_state \<Rightarrow> (photo_type \<Rightarrow> bool) \<Rightarrow>
     (db \<Rightarrow> listing_row \<Rightarrow> bool) \<Rightarrow> row_id \<Rightarrow> db \<Rightarrow> db \<times> create_outcome" where
  "create_listing user r this_year f ph ok acc nid d =
     (case user of None \<Rightarrow> (d, Not_signed_in) | Some u \<Rightarrow>
      if \<not> can_sell r then (d, Seller_account_required) else
      if \<not> listing_schema_ok this_year f then (d, Form_invalid) else
      case validate_photos ph (f_has_box f) (f_has_papers f) of
        Some t \<Rightarrow> (d, Missing_photo t)
      | None \<Rightarrow>
          if \<not> acc d (new_listing_row nid u f) then (d, Insert_failed) else
          (let (rows, fin) = upload_loop ok nid ph 0 (upload_types ph (f_has_box f) (f_has_papers f))
           in (d\<lparr>listings := listings d @ [new_listing_row nid u f],
                 listing_photos := listing_photos d @ rows\<rparr>,
               if fin then Listing_submitted else Submit_error)))"

text \<open>The brand options of the form: the active brands, ordered by \<open>display_order\<close>
  ascending with the brands without one last (Postgres's \<open>NULLS LAST\<close>), ties in table
  order.  \<open>Browse.tsx\<close> runs the same query for its brand filter.\<close>

definition active_brands :: "db \<Rightarrow> (row_id \<times> string) list" where
  "active_brands d =
     (let bs = filter (\<lambda>b. is_active b = Some True) (brands d)
      in map (\<lambda>b. (b_id b, b_name b))
           (sort_key (\<lambda>b. the (b_display_order b)) (filter (\<lambda>b. b_display_order b \<noteq> None) bs)
            @ filter (\<lambda>b. b_display_order b = None) bs))"

datatype create_page_view =
    Create_skeleton
  | Seller_required_view string
  | Listing_form_view "(row_id \<times> string) list" "(watch_condition \<times> string) list" "string list"

record create_page =
  cpg_view :: create_page_view
  cpg_navigate :: "string option"

text \<open>What \<open>CreateListing\<close> renders before any submit: the skeleton while the session
  loads, the ``Seller Account Required'' notice (its button opens \<open>/pricing\<close>) for a
  role that cannot sell, else the form with its brand, condition and currency options;
  the effect sends a visitor without a session to \<open>/auth\<close>.\<close>

definition create_listing_page :: "bool \<Rightarrow> uid option \<Rightarrow> app_role option \<Rightarrow> db \<Rightarrow> create_page" where
  "create_listing_page loading user r d =
     \<lparr> cpg_view = (if loading then Create_skeleton
                   else if \<not> can_sell r then Seller_required_view ''/pricing''
                   else Listing_form_view (active_brands d) listing_conditions currencies),
       cpg_navigate = (if \<not> loading \<and> user = None then Some ''/auth'' else None) \<rparr>"

section \<open>Moderation\<close>

definition handle_approve :: "timestamp \<Rightarrow> row_id \<Rightarrow> db \<Rightarrow> db" where
  "handle_approve now lid d =
     d\<lparr>listings := tbl_update (\<lambda>l. l_id l = lid)
                     (\<lambda>l. l\<lparr>status := Approved, approved_at := Some now\<rparr>) (listings d)\<rparr>"

definition handle_reject :: "row_id \<Rightarrow> string \<Rightarrow> db \<Rightarrow> db" where
  "handle_reject lid reason d =
     d\<lparr>listings := tbl_update (\<lambda>l. l_id l = lid)
                     (\<lambda>l. l\<lparr>status := Rejected, rejection_reason := js_str_or_null reason\<rparr>) (listings d)\<rparr>"

text \<open>\<open>fetchListings\<close>: the rows with the selected status (\<open>None\<close> for ``all''), each with
  its brand's name (the \<open>brand:brands(name)\<close> join).  The order by \<open>created_at\<close> is not
  modelled.\<close>

definition brand_name_of :: "db \<Rightarrow> listing_row \<Rightarrow> string option" where
  "brand_name_of d l = map_option b_name (find (\<lambda>b. b_id b = brand_id l) (brands d))"

definition admin_fetch :: "listing_status option \<Rightarrow> db \<Rightarrow> (listing_row \<times> string option) list" where
  "admin_fetch flt d =
     map (\<lambda>l. (l, brand_name_of d l))
       (filter (\<lambda>l. case flt of None \<Rightarrow> True | Some s \<Rightarrow> status l = s) (listings d))"

definition admin_search :: "string \<Rightarrow> (listing_row \<times> string option) list \<Rightarrow> (listing_row \<times> string option) list" where
  "admin_search q rows =
     filter (\<lambda>(l, b). js_includes (js_lower (model l)) (js_lower q)
                   \<or> js_includes (js_lower (reference_number l)) (js_lower q)
                   \<or> (case b of None \<Rightarrow> False | Some n \<Rightarrow> js_includes (js_lower n) (js_lower q))) rows"

text \<open>The row actions: approve and reject are offered only for a row whose status in
  the admin's local copy is \<open>pending_review\<close>.  A click runs the handler on the
  database and updates the local copy as \<open>setListings\<close> does.\<close>

definition row_actions_shown :: "(listing_row \<times> string option) list \<Rightarrow> row_id \<Rightarrow> bool" where
  "row_actions_shown view lid = list_ex (\<lambda>(l, b). l_id l = lid \<and> status l = Pending_review) view"

definition set_view_status ::
  "row_id \<Rightarrow> listing_status \<Rightarrow> (listing_row \<times> string option) list \<Rightarrow> (listing_row \<times> string option) list" where
  "set_view_status lid s view = map (\<lambda>(l, b). if l_id l = lid then (l\<lparr>status := s\<rparr>, b) else (l, b)) view"

definition approve_click ::
  "timestamp \<Rightarrow> row_id \<Rightarrow> (listing_row \<times> string option) list \<Rightarrow> db \<Rightarrow> db \<times> (listing_row \<times> string option) list" where
  "approve_click now lid view d =
     (if row_actions_shown view lid then (handle_approve now lid d, set_view_status lid Approved view)
      else (d, view))"

definition reject_click ::
  "row_id \<Rightarrow> string \<Rightarrow> (listing_row \<times> string option) list \<Rightarrow> db \<Rightarrow> db \<times> (listing_row \<times> string option) list" where
  "reject_click lid reason view d =
     (if row_actions_shown view lid then (handle_reject lid reason d, set_view_status lid Rejected view)
      else (d, view))"

section \<open>The lifecycle the code produces\<close>

text \<open>Every listing is created \<open>pending_review\<close>, so an admin whose copy was fetched right
  after a creation holds a row with approve and reject buttons for it, and the handlers
  update the row whatever its current status is: approvals and rejections of any listing
  are steps.\<close>

inductive listing_reach :: "int \<Rightarrow> db \<Rightarrow> bool" for this_year :: int where
  empty: "listings d = [] \<Longrightarrow> listing_photos d = [] \<Longrightarrow> listing_reach this_year d"
| create: "listing_reach this_year d \<Longrightarrow> nid \<notin> set (map l_id (listings d)) \<Longrightarrow>
     listing_reach this_year (fst (create_listing (Some u) r this_year f ph ok acc nid d))"
| approve: "listing_reach this_year d \<Longrightarrow> listing_reach this_year (handle_approve now lid d)"
| reject: "listing_reach this_year d \<Longrightarrow> listing_reach this_year (handle_reject lid reason d)"

definition listing_ok :: "listing_row \<Rightarrow> bool" where
  "listing_ok l \<longleftrightarrow>
     (status l = Pending_review \<or> status l = Approved \<or> status l = Rejected)
     \<and> 100 \<le> asking_price l
     \<and> (status l = Approved \<longrightarrow> approved_at l \<noteq> None)
     \<and> approved_by l = None"

definition listing_inv :: "db \<Rightarrow> bool" where
  "listing_inv d \<longleftrightarrow>
     list_all listing_ok (listings d)
     \<and> distinct (map l_id (listings d))
     \<and> list_all (\<lambda>p. ph_listing_id p \<in> set (map l_id (listings d))) (listing_photos d)"

section \<open>Properties\<close>

lemma condition_badge_names:
  "condition_badge (watch_condition_name c) = Some (condition_label c)"
  "\<forall>c. s \<noteq> watch_condition_name c \<Longrightarrow> condition_badge s = None"
   apply (cases c; simp add: condition_badge_def map_of_names enum_names_injective)
  unfolding condition_badge_def by (subst map_of_names_None) simp_all

text \<open>A listing submission refused before the insert (not signed in, no seller role, invalid form, missing photo) leaves the database unchanged.\<close>

lemma create_listing_refused:
  "snd (create_listing user r y f ph ok acc nid d) \<notin> {Listing_submitted, Submit_error} \<Longrightarrow>
   fst (create_listing user r y f ph ok acc nid d) = d"
  by (auto simp: create_listing_def Let_def split: option.splits if_splits prod.splits)

lemma create_listing_accepted:
  assumes "can_sell r" "listing_schema_ok y f" "validate_photos ph (f_has_box f) (f_has_papers f) = None"
      and "acc d (new_listing_row nid u f)"
  shows "create_listing (Some u) r y f ph ok acc nid d =
     (d\<lparr>listings := listings d @ [new_listing_row nid u f],
        listing_photos := listing_photos d @ fst (upload_loop ok nid ph 0 (required_photos (f_has_box f) (f_has_papers f)))\<rparr>,
      if snd (upload_loop ok nid ph 0 (required_photos (f_has_box f) (f_has_papers f))) then Listing_submitted else Submit_error)"
  using assms validated_upload_types [OF assms(3)]
  by (simp add: create_listing_def Let_def case_prod_unfold)

lemma upload_loop_failed_short:
  "\<not> snd (upload_loop ok lid ph i ts) \<Longrightarrow> length (fst (upload_loop ok lid ph i ts)) < length ts"
proof (induction ts arbitrary: i)
  case (Cons t ts)
  have "\<not> snd (upload_loop ok lid ph (Suc i) ts) \<Longrightarrow> length (fst (upload_loop ok lid ph (Suc i) ts)) < length ts"
    by (rule Cons.IH)
  with Cons.prems show ?case by (auto simp: Let_def case_prod_unfold split: option.splits if_splits)
qed simp

lemma create_listing_cases:
  "create_listing (Some u) r y f ph ok acc nid d = (d', out) \<Longrightarrow>
     d' = d \<or> (listings d' = listings d @ [new_listing_row nid u f]
               \<and> listing_photos d' = listing_photos d @ fst (upload_loop ok nid ph 0 (upload_types ph (f_has_box f) (f_has_papers f)))
               \<and> can_sell r \<and> listing_schema_ok y f \<and> validate_photos ph (f_has_box f) (f_has_papers f) = None
               \<and> acc d (new_listing_row nid u f))"
  by (auto simp: create_listing_def Let_def case_prod_unfold split: option.splits if_splits)

text \<open>The page shows the form exactly to a signed-in role that can sell, and then
  the submit handler passes its role and session guards.\<close>

lemma form_shown_passes_guards:
  assumes "cpg_view (create_listing_page False user r d) = Listing_form_view bs cs ys"
      and "cpg_navigate (create_listing_page False user r d) = None"
  shows "snd (create_listing user r y f ph ok acc nid d) \<notin> {Not_signed_in, Seller_account_required}"
  using assms
  by (auto simp: create_listing_page_def create_listing_def split: if_splits option.splits prod.splits)

lemma active_brands_active:
  "(b, n) \<in> set (active_brands d) \<Longrightarrow> \<exists>r \<in> set (brands d). b_id r = b \<and> b_name r = n \<and> is_active r = Some True"
  by (auto simp: active_brands_def Let_def)

lemma listing_ok_new: "listing_schema_ok y f \<Longrightarrow> listing_ok (new_listing_row nid u f)"
  by (simp add: listing_ok_def new_listing_row_def listing_schema_ok_def)

lemma listing_inv_create:
  assumes "listing_inv d" "nid \<notin> set (map l_id (listings d))"
  shows "listing_inv (fst (create_listing (Some u) r y f ph ok acc nid d))"
proof -
  obtain d' out where eq: "create_listing (Some u) r y f ph ok acc nid d = (d', out)" by fastforce
  from create_listing_cases [OF eq] show ?thesis
  proof
    assume "d' = d" with eq assms(1) show ?thesis by simp
  next
    assume c: "listings d' = listings d @ [new_listing_row nid u f]
               \<and> listing_photos d' = listing_photos d @ fst (upload_loop ok nid ph 0 (upload_types ph (f_has_box f) (f_has_papers f)))
               \<and> can_sell r \<and> listing_schema_ok y f \<and> validate_photos ph (f_has_box f) (f_has_papers f) = None
               \<and> acc d (new_listing_row nid u f)"
    have "list_all (\<lambda>p. ph_listing_id p = nid) (fst (upload_loop ok nid ph 0 (upload_types ph (f_has_box f) (f_has_papers f))))"
      by (rule upload_loop_ph_listing)
    with c assms listing_ok_new [of y f nid u] show ?thesis
      by (auto simp: listing_inv_def eq new_listing_row_def list_all_iff)
  qed
qed

lemma listing_inv_approve: "listing_inv d \<Longrightarrow> listing_inv (handle_approve now lid d)"
  by (auto simp: listing_inv_def handle_approve_def listing_ok_def map_tbl_update_frame
           intro!: tbl_update_list_all)

lemma listing_inv_reject: "listing_inv d \<Longrightarrow> listing_inv (handle_reject lid reason d)"
  by (auto simp: listing_inv_def handle_reject_def listing_ok_def map_tbl_update_frame
           intro!: tbl_update_list_all)

text \<open>C9: Every database reachable from empty listing tables by listing creation, approval and rejection satisfies the listing invariant: statuses are pending_review, approved or rejected, prices are at least 100, approved listings have an approval time, listing ids are distinct and every photo row belongs to an existing listing.\<close>

theorem listing_reach_inv: "listing_reach y d \<Longrightarrow> listing_inv d"
proof (induction rule: listing_reach.induct)
  case (empty d)
  then show ?case by (simp add: listing_inv_def)
next
  case (create d nid u r f ph ok acc)
  show ?case by (rule listing_inv_create [OF create.IH create.hyps(2)])
next
  case (approve d now lid)
  show ?case by (rule listing_inv_approve [OF approve.IH])
next
  case (reject d lid reason)
  show ?case by (rule listing_inv_reject [OF reject.IH])
qed

text \<open>C12: When a photo upload fails during listing creation, the listing row has already been inserted as pending_review and it has fewer photos than the validation required.\<close>

theorem failed_upload_leaves_listing:
  assumes "create_listing (Some u) r y f ph ok acc nid d = (d', Submit_error)"
    and "nid \<notin> set (map ph_listing_id (listing_photos d))"
  shows "new_listing_row nid u f \<in> set (listings d') \<and> status (new_listing_row nid u f) = Pending_review
         \<and> length (filter (\<lambda>p. ph_listing_id p = nid) (listing_photos d'))
              < length (required_photos (f_has_box f) (f_has_papers f))"
proof -
  let ?ts = "required_photos (f_has_box f) (f_has_papers f)"
  have accepted: "can_sell r" "listing_schema_ok y f" "validate_photos ph (f_has_box f) (f_has_papers f) = None"
      "acc d (new_listing_row nid u f)"
    using assms(1) by (auto simp: create_listing_def split: option.splits if_splits)
  note eq = assms(1) [unfolded create_listing_accepted [where acc = acc and d = d and nid = nid and u = u, OF accepted]]
  have fail: "\<not> snd (upload_loop ok nid ph 0 ?ts)" using eq by (auto split: if_splits)
  have "filter (\<lambda>p. ph_listing_id p = nid) (listing_photos d) = []"
    using assms(2) by (auto simp: filter_empty_conv)
  moreover have "filter (\<lambda>p. ph_listing_id p = nid) (fst (upload_loop ok nid ph 0 ?ts))
                   = fst (upload_loop ok nid ph 0 ?ts)"
    using upload_loop_ph_listing [of nid ok ph 0 ?ts] by (simp add: list_all_iff)
  ultimately show ?thesis
    using eq upload_loop_failed_short [OF fail]
    by (auto simp: new_listing_row_def)
qed

lemma distinct_ids_same:
  "distinct (map l_id ls) \<Longrightarrow> l \<in> set ls \<Longrightarrow> l' \<in> set ls \<Longrightarrow> l_id l = l_id l' \<Longrightarrow> l = l'"
  by (metis distinct_map inj_onD)

text \<open>C11: Approving from a freshly loaded pending-review view changes only the status of the pending listing with that id; every other listing keeps its status.\<close>

theorem fresh_view_approves_only_pending:
  assumes "distinct (map l_id (listings d))"
  shows "map status (listings (fst (approve_click now lid (admin_fetch (Some Pending_review) d) d)))
         = map (\<lambda>l. if l_id l = lid \<and> status l = Pending_review then Approved else status l) (listings d)"
proof (cases "row_actions_shown (admin_fetch (Some Pending_review) d) lid")
  case True
  then obtain l0 where l0: "l0 \<in> set (listings d)" "l_id l0 = lid" "status l0 = Pending_review"
    by (auto simp: row_actions_shown_def admin_fetch_def list_ex_iff)
  have "\<forall>l \<in> set (listings d). l_id l = lid \<longrightarrow> status l = Pending_review"
    using distinct_ids_same [OF assms _ l0(1)] l0 by metis
  with True show ?thesis
    by (simp add: approve_click_def handle_approve_def tbl_update_def)
next
  case False
  then have "\<forall>l \<in> set (listings d). \<not> (l_id l = lid \<and> status l = Pending_review)"
    by (auto simp: row_actions_shown_def admin_fetch_def list_ex_iff)
  with False show ?thesis
    by (simp add: approve_click_def map_idI)
qed

text \<open>C10: handleApprove has no status guard: an administrator whose pending-review page was loaded before a rejection can approve the rejected listing, which then is approved and keeps its rejection reason.\<close>

theorem stale_view_approves_rejected:
  "\<exists>d1. listing_reach 2025 d1
     \<and> (let v = admin_fetch (Some Pending_review) d1;
            d2 = fst (reject_click ''L1'' ''blurry photos'' v d1);
            d3 = fst (approve_click 7 ''L1'' v d2)
        in list_ex (\<lambda>l. l_id l = ''L1'' \<and> status l = Rejected) (listings d2)
         \<and> list_ex (\<lambda>l. l_id l = ''L1'' \<and> status l = Approved
                       \<and> rejection_reason l = Some ''blurry photos'') (listings d3))"
proof -
  define d0 where "d0 = \<lparr>listings = [], profiles = [], user_roles = [], brands = [], listing_photos = []\<rparr>"
  define f where "f = \<lparr>f_brand_id = ''rolex'', f_model = ''Submariner'', f_reference_number = ''126610LN'',
      f_serial_number = None, f_year_produced = None, f_year_produced_end = None,
      f_condition = Excellent, f_has_box = False, f_has_papers = False,
      f_asking_price = 14800, f_currency = ''USD'', f_description = None\<rparr>"
  define ph :: photo_state where "ph = (\<lambda>_. Some \<lparr>pf_name = ''p.jpg'', pf_mime = ''image/jpeg''\<rparr>)"
  define d1 where "d1 = fst (create_listing (Some ''seller'') (Some Individual_seller) 2025 f ph (\<lambda>_. True) (\<lambda>_ _. True) ''L1'' d0)"
  have r0: "listing_reach 2025 d0" by (rule listing_reach.empty) (simp_all add: d0_def)
  have r1: "listing_reach 2025 d1"
    unfolding d1_def by (rule listing_reach.create [OF r0]) (simp add: d0_def)
  have "listings d1 = [new_listing_row ''L1'' ''seller'' f]"
    by (simp add: d1_def create_listing_def d0_def f_def ph_def listing_schema_ok_def opt_ok_def
                  can_sell_def validate_photos_def required_photos_def Let_def case_prod_unfold)
  then have "(let v = admin_fetch (Some Pending_review) d1;
            d2 = fst (reject_click ''L1'' ''blurry photos'' v d1);
            d3 = fst (approve_click 7 ''L1'' v d2)
        in list_ex (\<lambda>l. l_id l = ''L1'' \<and> status l = Rejected) (listings d2)
         \<and> list_ex (\<lambda>l. l_id l = ''L1'' \<and> status l = Approved
                       \<and> rejection_reason l = Some ''blurry photos'') (listings d3))"
    by (simp add: admin_fetch_def reject_click_def approve_click_def row_actions_shown_def
                  handle_reject_def handle_approve_def new_listing_row_def)
  with r1 show ?thesis by blast
qed

end
