(* ===== verification/Kyc.thy ===== *)
theory Kyc
  imports EdgeAuth
begin

text \<open>
  Identity verification (KYC).  Three edge functions write \<open>profiles.kyc_status\<close>:
  \<open>create-verification-session\<close> (starts a Stripe Identity session and marks the user
  \<open>pending\<close>), \<open>stripe-identity-webhook\<close> (Stripe's notifications: \<open>verified\<close>,
  \<open>requires_input\<close>, \<open>canceled\<close>) and \<open>check-verification-status\<close> (the page's ``check
  status'' button, which asks Stripe for the latest session).  Each is a function from
  the database and the request to the new database and the HTTP response; Stripe and
  Supabase auth are parameters.  \<open>kyc_reach\<close> is the set of profile tables these
  functions can produce from profiles that start \<open>not_started\<close>.  The page
  \<open>Verification.tsx\<close> offers one action per status.
\<close>

datatype session_status = Sess_requires_input | Sess_processing | Sess_verified | Sess_canceled

record stripe_session =
  sess_user :: "uid option"
  sess_status :: session_status

record kyc_env =
  k_stripe_key :: "string option"
  k_get_user :: "string \<Rightarrow> string + auth_user option"
  k_create_session :: "uid \<Rightarrow> string \<Rightarrow> string + (string \<times> string)"
  k_latest_session :: "stripe_session option"

record kyc_request =
  k_is_options :: bool
  k_authorization :: "string option"

datatype kyc_response =
    K_preflight
  | K_session string string
  | K_already_verified
  | K_status verification_status "timestamp option"
  | K_received
  | K_received_no_user
  | K_500 string

definition key_missing :: "string option \<Rightarrow> bool" where
  "key_missing k \<longleftrightarrow> k = None \<or> k = Some []"

text \<open>The key check and the authentication of the two user-facing functions; \<open>msg\<close> is
  the function's message for a user without an e-mail.\<close>

definition kyc_auth :: "kyc_env \<Rightarrow> kyc_request \<Rightarrow> string \<Rightarrow> string + (uid \<times> string)" where
  "kyc_auth env req msg =
     (if key_missing (k_stripe_key env) then Inl ''STRIPE_SECRET_KEY is not set'' else
      case k_authorization req of None \<Rightarrow> Inl ''No authorization header provided'' | Some h \<Rightarrow>
      if h = [] then Inl ''No authorization header provided'' else
      case edge_authenticate (k_get_user env) h of
        Inl m \<Rightarrow> Inl (''Authentication error: '' @ m)
      | Inr None \<Rightarrow> Inl msg
      | Inr (Some ue) \<Rightarrow> Inr ue)"

text \<open>\<open>.from("profiles").select(..).eq("user_id", id).single()\<close>, its error ignored.\<close>

definition profile_of :: "db \<Rightarrow> uid \<Rightarrow> profile_row option" where
  "profile_of d u = data_or_null1 (single_row (filter (\<lambda>p. user_id p = u) (profiles d)))"

definition set_kyc :: "uid \<Rightarrow> verification_status \<Rightarrow> timestamp option \<Rightarrow> db \<Rightarrow> db" where
  "set_kyc u s t d =
     d\<lparr>profiles := tbl_update (\<lambda>p. user_id p = u)
                     (\<lambda>p. p\<lparr>kyc_status := s, kyc_verified_at := (case t of None \<Rightarrow> kyc_verified_at p | Some _ \<Rightarrow> t)\<rparr>)
                     (profiles d)\<rparr>"

section \<open>create-verification-session\<close>

definition create_verification_session :: "kyc_env \<Rightarrow> kyc_request \<Rightarrow> db \<Rightarrow> db \<times> kyc_response" where
  "create_verification_session env req d =
     (if k_is_options req then (d, K_preflight) else
      case kyc_auth env req ''User not authenticated or email not available'' of
        Inl m \<Rightarrow> (d, K_500 m)
      | Inr (u, mail) \<Rightarrow>
          if map_option kyc_status (profile_of d u) = Some Kyc_verified then (d, K_already_verified)
          else (case k_create_session env u mail of
                  Inl m \<Rightarrow> (d, K_500 m)
                | Inr (sid, url) \<Rightarrow> (set_kyc u Kyc_pending None d, K_session url sid)))"

section \<open>stripe-identity-webhook\<close>

record identity_event =
  ev_type :: string
  ev_user :: "uid option"

text \<open>The body is parsed as an event without checking the \<open>stripe-signature\<close> header
  (\<open>Inl\<close> is the message of \<open>JSON.parse\<close> on a body that is no JSON).\<close>

definition identity_webhook ::
  "string option \<Rightarrow> timestamp \<Rightarrow> bool \<Rightarrow> string + identity_event \<Rightarrow> db \<Rightarrow> db \<times> kyc_response" where
  "identity_webhook key now is_options ev d =
     (if is_options then (d, K_preflight) else
      if key_missing key then (d, K_500 ''STRIPE_SECRET_KEY is not set'') else
      case ev of Inl m \<Rightarrow> (d, K_500 m) | Inr e \<Rightarrow>
      if ev_type e = ''identity.verification_session.verified'' then
        (case ev_user e of None \<Rightarrow> (d, K_received_no_user)
         | Some u \<Rightarrow> (set_kyc u Kyc_verified (Some now) d, K_received))
      else if ev_type e = ''identity.verification_session.requires_input'' then
        (case ev_user e of None \<Rightarrow> (d, K_received) | Some u \<Rightarrow> (set_kyc u Kyc_pending None d, K_received))
      else if ev_type e = ''identity.verification_session.canceled'' then
        (case ev_user e of None \<Rightarrow> (d, K_received) | Some u \<Rightarrow> (set_kyc u Kyc_not_started None d, K_received))
      else (d, K_received))"

section \<open>check-verification-status\<close>

text \<open>\<open>verificationSessions.list({limit: 1})\<close> returns the most recent session of the
  whole account (\<open>k_latest_session\<close>); \<open>find\<close> then keeps it only if it is the user's.\<close>

definition check_verification_status :: "kyc_env \<Rightarrow> timestamp \<Rightarrow> kyc_request \<Rightarrow> db \<Rightarrow> db \<times> kyc_response" where
  "check_verification_status env now req d =
     (if k_is_options req then (d, K_preflight) else
      case kyc_auth env req ''User not authenticated'' of
        Inl m \<Rightarrow> (d, K_500 m)
      | Inr (u, mail) \<Rightarrow>
      (case profile_of d u of
         None \<Rightarrow> (d, K_500 ''Profile not found'')
       | Some p \<Rightarrow>
           if kyc_status p = Kyc_verified then (d, K_status Kyc_verified (kyc_verified_at p))
           else if kyc_status p = Kyc_pending then
             (case k_latest_session env of
                Some s \<Rightarrow>
                  if sess_user s = Some u then
                    (if sess_status s = Sess_verified
                     then (set_kyc u Kyc_verified (Some now) d, K_status Kyc_verified (Some now))
                     else if sess_status s = Sess_canceled
                     then (set_kyc u Kyc_not_started None d, K_status Kyc_not_started None)
                     else (d, K_status (kyc_status p) None))
                  else (d, K_status (kyc_status p) None)
              | None \<Rightarrow> (d, K_status (kyc_status p) None))
           else (d, K_status (kyc_status p) None)))"

section \<open>The page\<close>

datatype kyc_action = Start_verification | Check_status | Restart_verification | Try_again | Go_to_dashboard

fun verification_actions :: "verification_status \<Rightarrow> kyc_action list" where
  "verification_actions Kyc_not_started = [Start_verification]"
| "verification_actions Kyc_pending = [Check_status, Restart_verification]"
| "verification_actions Kyc_rejected = [Try_again]"
| "verification_actions Kyc_verified = [Go_to_dashboard]"

section \<open>The KYC state machine\<close>

inductive kyc_reach :: "db \<Rightarrow> bool" where
  start: "list_all (\<lambda>p. kyc_status p = Kyc_not_started \<and> kyc_verified_at p = None) (profiles d) \<Longrightarrow> kyc_reach d"
| session: "kyc_reach d \<Longrightarrow> kyc_reach (fst (create_verification_session env req d))"
| webhook: "kyc_reach d \<Longrightarrow> kyc_reach (fst (identity_webhook key now opt ev d))"
| check: "kyc_reach d \<Longrightarrow> kyc_reach (fst (check_verification_status env now req d))"

definition kyc_ok :: "profile_row \<Rightarrow> bool" where
  "kyc_ok p \<longleftrightarrow> kyc_status p \<noteq> Kyc_rejected \<and> (kyc_status p = Kyc_verified \<longrightarrow> kyc_verified_at p \<noteq> None)"

section \<open>Properties\<close>

lemma kyc_ok_set_kyc:
  "list_all kyc_ok (profiles d) \<Longrightarrow> s \<noteq> Kyc_rejected \<Longrightarrow> (s = Kyc_verified \<longrightarrow> t \<noteq> None) \<Longrightarrow>
   list_all kyc_ok (profiles (set_kyc u s t d))"
  unfolding set_kyc_def by (auto simp: kyc_ok_def intro!: tbl_update_list_all split: option.splits)

lemma kyc_ok_session: "list_all kyc_ok (profiles d) \<Longrightarrow> list_all kyc_ok (profiles (fst (create_verification_session env req d)))"
  by (auto simp: create_verification_session_def kyc_ok_set_kyc split: sum.splits prod.splits)

lemma kyc_ok_webhook: "list_all kyc_ok (profiles d) \<Longrightarrow> list_all kyc_ok (profiles (fst (identity_webhook key now opt ev d)))"
  by (auto simp: identity_webhook_def kyc_ok_set_kyc split: sum.splits option.splits)

lemma kyc_ok_check: "list_all kyc_ok (profiles d) \<Longrightarrow> list_all kyc_ok (profiles (fst (check_verification_status env now req d)))"
  by (auto simp: check_verification_status_def kyc_ok_set_kyc split: sum.splits prod.splits option.splits)

text \<open>C15: Every profile table reachable from not-started profiles by the three KYC edge functions has no rejected status and a verification time for every verified profile.\<close>

lemma kyc_reach_ok: "kyc_reach d \<Longrightarrow> list_all kyc_ok (profiles d)"
proof (induction rule: kyc_reach.induct)
  case (start d)
  then show ?case by (auto simp: kyc_ok_def list_all_iff)
next
  case (session d env req)
  show ?case by (rule kyc_ok_session [OF session.IH])
next
  case (webhook d key now opt ev)
  show ?case by (rule kyc_ok_webhook [OF webhook.IH])
next
  case (check d env now req)
  show ?case by (rule kyc_ok_check [OF check.IH])
qed

text \<open>C16: Any request body carrying a 'verified' event for a user marks that user verified, since the webhook never checks the Stripe signature.\<close>

theorem forged_webhook_verifies:
  assumes "\<not> key_missing key"
  shows "list_all (\<lambda>p. user_id p = u \<longrightarrow> kyc_status p = Kyc_verified \<and> kyc_verified_at p = Some now)
           (profiles (fst (identity_webhook key now False
              (Inr \<lparr>ev_type = ''identity.verification_session.verified'', ev_user = Some u\<rparr>) d)))"
  using assms by (simp add: identity_webhook_def set_kyc_def tbl_update_matching)

text \<open>C17: A 'canceled' event for a user sets the user's status to not_started, also when the user was verified.\<close>

theorem canceled_event_revokes_verified:
  assumes "\<not> key_missing key"
  shows "list_all (\<lambda>p. user_id p = u \<longrightarrow> kyc_status p = Kyc_not_started)
           (profiles (fst (identity_webhook key now False
              (Inr \<lparr>ev_type = ''identity.verification_session.canceled'', ev_user = Some u\<rparr>) d)))"
  using assms by (simp add: identity_webhook_def set_kyc_def tbl_update_matching)

text \<open>C18: create-verification-session refuses a user whose profile is verified and leaves the database unchanged.\<close>

theorem verified_user_cannot_restart:
  assumes "\<not> k_is_options req" "kyc_auth env req ''User not authenticated or email not available'' = Inr (u, m)"
    and "profile_of d u = Some p" "kyc_status p = Kyc_verified"
  shows "create_verification_session env req d = (d, K_already_verified)"
  using assms by (simp add: create_verification_session_def)

text \<open>C19: check-verification-status looks only at the account's most recent session: when that session is another user's, a pending user stays pending whatever their own session's status.\<close>

theorem check_status_misses_own_session:
  assumes "\<not> k_is_options req" "kyc_auth env req ''User not authenticated'' = Inr (u, m)"
    and "profile_of d u = Some p" "kyc_status p = Kyc_pending"
    and "k_latest_session env = Some s" "sess_user s \<noteq> Some u"
  shows "check_verification_status env now req d = (d, K_status Kyc_pending None)"
  using assms by (simp add: check_verification_status_def)

end
