(* ===== verification/AdminSettings.thy ===== *)
theory AdminSettings
  imports Prelude
begin

text \<open>
  The platform settings panel (\<open>AdminSettings.tsx\<close>).  Settings are rows of the
  \<open>admin_settings\<close> table, a key and a JSON value.  \<open>fetchSettings\<close> copies the stored
  value of each known key over \<open>DEFAULT_SETTINGS\<close> without checking its JSON type, the
  form's inputs edit the settings object (numbers through \<open>parseInt(..) || d\<close> and
  \<open>parseFloat(..) || d\<close>), and \<open>handleSaveSettings\<close> writes every key back with
  \<open>saveSetting\<close> (update when a row exists, insert otherwise).  The six saves touch
  distinct keys, so their \<open>Promise.all\<close> interleaving is modelled as the sequence in
  the array's order.
\<close>

datatype json =
    J_null
  | J_bool bool
  | J_num rat
  | J_str string
  | J_arr "json list"
  | J_obj "(string \<times> json) list"

record setting_row =
  s_key :: string
  s_value :: json

text \<open>The settings object.  Its fields hold whatever JSON the table holds, since
  \<open>fetchSettings\<close> assigns \<open>row.value\<close> unchecked.\<close>

record platform_settings =
  zero_fee_period_active :: json
  zero_fee_end_date :: json
  private_holder_limit :: json
  verified_dealer_limit :: json
  private_holder_commission :: json
  verified_dealer_commission :: json

definition default_settings :: platform_settings where
  "default_settings =
     \<lparr> zero_fee_period_active = J_bool True, zero_fee_end_date = J_null,
       private_holder_limit = J_num 3, verified_dealer_limit = J_num 25,
       private_holder_commission = J_num (7 / 2), verified_dealer_commission = J_num (5 / 2) \<rparr>"

definition settings_keys :: "string list" where
  "settings_keys =
     [''zero_fee_period_active'', ''zero_fee_end_date'', ''private_holder_limit'',
      ''verified_dealer_limit'', ''private_holder_commission'', ''verified_dealer_commission'']"

text \<open>\<open>settingsObj[key] = row.value\<close> and the field a key names.\<close>

definition set_setting_field :: "string \<Rightarrow> json \<Rightarrow> platform_settings \<Rightarrow> platform_settings" where
  "set_setting_field k v ps =
     (if k = ''zero_fee_period_active'' then ps\<lparr>zero_fee_period_active := v\<rparr>
      else if k = ''zero_fee_end_date'' then ps\<lparr>zero_fee_end_date := v\<rparr>
      else if k = ''private_holder_limit'' then ps\<lparr>private_holder_limit := v\<rparr>
      else if k = ''verified_dealer_limit'' then ps\<lparr>verified_dealer_limit := v\<rparr>
      else if k = ''private_holder_commission'' then ps\<lparr>private_holder_commission := v\<rparr>
      else if k = ''verified_dealer_commission'' then ps\<lparr>verified_dealer_commission := v\<rparr>
      else ps)"

definition get_setting_field :: "string \<Rightarrow> platform_settings \<Rightarrow> json" where
  "get_setting_field k ps =
     (if k = ''zero_fee_period_active'' then zero_fee_period_active ps
      else if k = ''zero_fee_end_date'' then zero_fee_end_date ps
      else if k = ''private_holder_limit'' then private_holder_limit ps
      else if k = ''verified_dealer_limit'' then verified_dealer_limit ps
      else if k = ''private_holder_commission'' then private_holder_commission ps
      else verified_dealer_commission ps)"

section \<open>Loading\<close>

text \<open>\<open>.from('admin_settings').select('key, value').in('key', [..])\<close>, with no
  \<open>.order()\<close>: the rows in table order, and the round trip below for any reordering.\<close>

definition settings_query :: "setting_row list \<Rightarrow> setting_row list" where
  "settings_query tbl = filter (\<lambda>r. s_key r \<in> set settings_keys) tbl"

text \<open>\<open>fetchSettings\<close>: on an error or an empty result the current settings stay (on
  mount, \<open>DEFAULT_SETTINGS\<close>); otherwise each row, in order, overwrites its field of a
  copy of the defaults.\<close>

definition fetch_settings :: "pg_error + setting_row list \<Rightarrow> platform_settings \<Rightarrow> platform_settings" where
  "fetch_settings res cur =
     (case res of
        Inl _ \<Rightarrow> cur
      | Inr rows \<Rightarrow> if rows = [] then cur
                   else fold (\<lambda>r. set_setting_field (s_key r) (s_value r)) rows default_settings)"

section \<open>Saving\<close>

text \<open>\<open>saveSetting\<close>: the existence check reads \<open>.maybeSingle()\<close> with its error ignored,
  so a key stored twice reads as absent and is inserted once more; an existing key is
  updated in every row that has it.\<close>

definition save_setting :: "string \<Rightarrow> json \<Rightarrow> setting_row list \<Rightarrow> setting_row list" where
  "save_setting k v tbl =
     (case data_or_null (maybe_single (filter (\<lambda>r. s_key r = k) tbl)) of
        Some _ \<Rightarrow> tbl_update (\<lambda>r. s_key r = k) (\<lambda>r. r\<lparr>s_value := v\<rparr>) tbl
      | None \<Rightarrow> tbl @ [\<lparr>s_key = k, s_value = v\<rparr>])"

definition handle_save_settings :: "platform_settings \<Rightarrow> setting_row list \<Rightarrow> setting_row list" where
  "handle_save_settings ps tbl =
     fold (\<lambda>k. save_setting k (get_setting_field k ps)) settings_keys tbl"

text \<open>The SQL of \<open>admin_settings\<close> is not in the repository, so nothing says whether
  \<open>key\<close> is unique; the table below holds at most one row of each setting.\<close>

definition settings_keys_unique :: "setting_row list \<Rightarrow> bool" where
  "settings_keys_unique tbl = list_all (\<lambda>k. length (filter (\<lambda>r. s_key r = k) tbl) \<le> 1) settings_keys"

section \<open>The form\<close>

text \<open>The \<open>onChange\<close> handlers of the six inputs.\<close>

definition edit_zero_fee_active :: "bool \<Rightarrow> platform_settings \<Rightarrow> platform_settings" where
  "edit_zero_fee_active b ps = ps\<lparr>zero_fee_period_active := J_bool b\<rparr>"

definition edit_zero_fee_end :: "string \<Rightarrow> platform_settings \<Rightarrow> platform_settings" where
  "edit_zero_fee_end s ps = ps\<lparr>zero_fee_end_date := (case js_str_or_null s of None \<Rightarrow> J_null | Some t \<Rightarrow> J_str t)\<rparr>"

definition edit_private_holder_limit :: "string \<Rightarrow> platform_settings \<Rightarrow> platform_settings" where
  "edit_private_holder_limit s ps =
     ps\<lparr>private_holder_limit := J_num (js_num_or (map_option of_int (js_parse_int s)) 3)\<rparr>"

definition edit_verified_dealer_limit :: "string \<Rightarrow> platform_settings \<Rightarrow> platform_settings" where
  "edit_verified_dealer_limit s ps =
     ps\<lparr>verified_dealer_limit := J_num (js_num_or (map_option of_int (js_parse_int s)) 25)\<rparr>"

definition edit_private_holder_commission :: "string \<Rightarrow> platform_settings \<Rightarrow> platform_settings" where
  "edit_private_holder_commission s ps =
     ps\<lparr>private_holder_commission := J_num (js_num_or (js_parse_float s) (7 / 2))\<rparr>"

definition edit_verified_dealer_commission :: "string \<Rightarrow> platform_settings \<Rightarrow> platform_settings" where
  "edit_verified_dealer_commission s ps =
     ps\<lparr>verified_dealer_commission := J_num (js_num_or (js_parse_float s) (5 / 2))\<rparr>"

section \<open>Types of the settings\<close>

text \<open>The JSON type of a value, and the type \<open>PlatformSettings\<close> declares for each
  field: a boolean, a string or \<open>null\<close>, and four numbers.\<close>

datatype json_ty = Ty_null | Ty_bool | Ty_num | Ty_str | Ty_arr | Ty_obj

fun json_type :: "json \<Rightarrow> json_ty" where
  "json_type J_null = Ty_null"
| "json_type (J_bool _) = Ty_bool"
| "json_type (J_num _) = Ty_num"
| "json_type (J_str _) = Ty_str"
| "json_type (J_arr _) = Ty_arr"
| "json_type (J_obj _) = Ty_obj"

definition setting_types :: "string \<Rightarrow> json_ty list" where
  "setting_types k =
     (if k = ''zero_fee_period_active'' then [Ty_bool]
      else if k = ''zero_fee_end_date'' then [Ty_str, Ty_null]
      else [Ty_num])"

definition settings_well_typed :: "platform_settings \<Rightarrow> bool" where
  "settings_well_typed ps \<longleftrightarrow>
     list_all (\<lambda>k. json_type (get_setting_field k ps) \<in> set (setting_types k)) settings_keys"

text \<open>The six inputs of the form as edits of the settings object.\<close>

datatype settings_edit =
    Toggle_zero_fee bool
  | Type_zero_fee_end string
  | Type_private_holder_limit string
  | Type_verified_dealer_limit string
  | Type_private_holder_commission string
  | Type_verified_dealer_commission string

fun apply_settings_edit :: "settings_edit \<Rightarrow> platform_settings \<Rightarrow> platform_settings" where
  "apply_settings_edit (Toggle_zero_fee b) = edit_zero_fee_active b"
| "apply_settings_edit (Type_zero_fee_end s) = edit_zero_fee_end s"
| "apply_settings_edit (Type_private_holder_limit s) = edit_private_holder_limit s"
| "apply_settings_edit (Type_verified_dealer_limit s) = edit_verified_dealer_limit s"
| "apply_settings_edit (Type_private_holder_commission s) = edit_private_holder_commission s"
| "apply_settings_edit (Type_verified_dealer_commission s) = edit_verified_dealer_commission s"

section \<open>Properties\<close>

lemma get_set_setting_field:
  "k \<in> set settings_keys \<Longrightarrow>
   get_setting_field k (set_setting_field k' v ps) = (if k' = k then v else get_setting_field k ps)"
  by (auto simp: settings_keys_def get_setting_field_def set_setting_field_def)

lemma platform_settings_eqI:
  assumes "\<And>k. k \<in> set settings_keys \<Longrightarrow> get_setting_field k ps = get_setting_field k ps'"
  shows "ps = ps'"
  using assms [of "''zero_fee_period_active''"] assms [of "''zero_fee_end_date''"]
    assms [of "''private_holder_limit''"] assms [of "''verified_dealer_limit''"]
    assms [of "''private_holder_commission''"] assms [of "''verified_dealer_commission''"]
  by (cases ps; cases ps') (simp add: settings_keys_def get_setting_field_def)

lemma get_fold_set_setting_field:
  assumes "k \<in> set settings_keys"
  shows "get_setting_field k (fold (\<lambda>r. set_setting_field (s_key r) (s_value r)) rs ps)
         = (if filter (\<lambda>r. s_key r = k) rs = [] then get_setting_field k ps
            else s_value (last (filter (\<lambda>r. s_key r = k) rs)))"
proof (induction rs arbitrary: ps)
  case (Cons r rs)
  show ?case
    by (simp add: Cons.IH get_set_setting_field [OF assms])
qed simp

lemma save_setting_same:
  "filter (\<lambda>r. s_key r = k) (save_setting k v tbl) \<noteq> []
   \<and> s_value (last (filter (\<lambda>r. s_key r = k) (save_setting k v tbl))) = v"
proof (cases "data_or_null (maybe_single (filter (\<lambda>r. s_key r = k) tbl))")
  case None
  then show ?thesis by (simp add: save_setting_def)
next
  case (Some r)
  then have "filter (\<lambda>r. s_key r = k) tbl = [r]"
    by (auto simp: data_or_null_def maybe_single_Some split: sum.splits)
  with Some show ?thesis by (simp add: save_setting_def filter_tbl_update)
qed

lemma save_setting_other:
  "k' \<noteq> k \<Longrightarrow> filter (\<lambda>r. s_key r = k') (save_setting k v tbl) = filter (\<lambda>r. s_key r = k') tbl"
  by (auto simp: save_setting_def split: option.split intro!: filter_tbl_update_disjoint)

lemma fold_save_other:
  "k \<notin> set ks \<Longrightarrow>
   filter (\<lambda>r. s_key r = k) (fold (\<lambda>k. save_setting k (g k)) ks tbl) = filter (\<lambda>r. s_key r = k) tbl"
  by (induction ks arbitrary: tbl) (simp_all add: save_setting_other)

lemma fold_save_same:
  "distinct ks \<Longrightarrow> k \<in> set ks \<Longrightarrow>
   filter (\<lambda>r. s_key r = k) (fold (\<lambda>k. save_setting k (g k)) ks tbl) \<noteq> []
   \<and> s_value (last (filter (\<lambda>r. s_key r = k) (fold (\<lambda>k. save_setting k (g k)) ks tbl))) = g k"
proof (induction ks arbitrary: tbl)
  case (Cons k0 ks)
  show ?case
  proof (cases "k = k0")
    case True
    with Cons.prems show ?thesis by (simp add: fold_save_other save_setting_same)
  next
    case False
    with Cons.prems show ?thesis by (simp add: Cons.IH)
  qed
qed simp

lemma filter_settings_query:
  "k \<in> set settings_keys \<Longrightarrow> filter (\<lambda>r. s_key r = k) (settings_query tbl) = filter (\<lambda>r. s_key r = k) tbl"
  by (auto simp: settings_query_def intro: filter_cong)

text \<open>On a key with at most one row, a save leaves exactly one row, holding the saved
  value; a fold of saves over distinct keys does so for every key it saves and leaves
  the others alone.\<close>

lemma save_setting_unique:
  assumes "length (filter (\<lambda>r. s_key r = k) tbl) \<le> 1"
  shows "filter (\<lambda>r. s_key r = k) (save_setting k v tbl) = [\<lparr>s_key = k, s_value = v\<rparr>]"
proof (cases "filter (\<lambda>r. s_key r = k) tbl")
  case Nil
  then show ?thesis by (simp add: save_setting_def)
next
  case (Cons r rs)
  with assms have one: "filter (\<lambda>r. s_key r = k) tbl = [r]" by simp
  have key: "s_key r = k" using filter_singleton_mem [OF one] by simp
  have "save_setting k v tbl = tbl_update (\<lambda>r. s_key r = k) (\<lambda>r. r\<lparr>s_value := v\<rparr>) tbl"
    by (simp add: save_setting_def one)
  moreover have "filter (\<lambda>r. s_key r = k) (tbl_update (\<lambda>r. s_key r = k) (\<lambda>r. r\<lparr>s_value := v\<rparr>) tbl)
                   = map (\<lambda>r. r\<lparr>s_value := v\<rparr>) (filter (\<lambda>r. s_key r = k) tbl)"
    by (rule filter_tbl_update) simp
  ultimately have "filter (\<lambda>r. s_key r = k) (save_setting k v tbl) = [r\<lparr>s_value := v\<rparr>]"
    by (simp only: one list.map)
  with key show ?thesis by (cases r) simp
qed

lemma fold_save_cond_other:
  "k \<notin> set ks \<Longrightarrow>
   filter (\<lambda>r. s_key r = k) (fold (\<lambda>k t. if ok k then save_setting k (g k) t else t) ks tbl)
   = filter (\<lambda>r. s_key r = k) tbl"
  by (induction ks arbitrary: tbl) (simp_all add: save_setting_other)

lemma fold_save_cond:
  assumes "distinct ks" "k \<in> set ks" "length (filter (\<lambda>r. s_key r = k) tbl) \<le> 1"
  shows "filter (\<lambda>r. s_key r = k) (fold (\<lambda>k t. if ok k then save_setting k (g k) t else t) ks tbl)
         = (if ok k then [\<lparr>s_key = k, s_value = g k\<rparr>] else filter (\<lambda>r. s_key r = k) tbl)"
  using assms
proof (induction ks arbitrary: tbl)
  case (Cons k0 ks)
  show ?case
  proof (cases "k = k0")
    case True
    then have "k \<notin> set ks" using Cons.prems(1) by simp
    then show ?thesis
      using True Cons.prems(3) by (simp add: fold_save_cond_other save_setting_unique)
  next
    case False
    let ?t = "if ok k0 then save_setting k0 (g k0) tbl else tbl"
    have f: "filter (\<lambda>r. s_key r = k) ?t = filter (\<lambda>r. s_key r = k) tbl"
      using False by (simp add: save_setting_other)
    have "filter (\<lambda>r. s_key r = k) (fold (\<lambda>k t. if ok k then save_setting k (g k) t else t) ks ?t)
          = (if ok k then [\<lparr>s_key = k, s_value = g k\<rparr>] else filter (\<lambda>r. s_key r = k) ?t)"
      using Cons.prems(1,2,3) False f by (intro Cons.IH) simp_all
    then show ?thesis using f by simp
  qed
qed simp

lemma handle_save_settings_unique:
  assumes "settings_keys_unique tbl" "k \<in> set settings_keys"
  shows "filter (\<lambda>r. s_key r = k) (handle_save_settings ps tbl) = [\<lparr>s_key = k, s_value = get_setting_field k ps\<rparr>]"
proof -
  have "distinct settings_keys" by (simp add: settings_keys_def)
  moreover have "length (filter (\<lambda>r. s_key r = k) tbl) \<le> 1"
    using assms by (simp add: settings_keys_unique_def list_all_iff)
  ultimately show ?thesis
    using fold_save_cond [of settings_keys k tbl "\<lambda>_. True" "\<lambda>k. get_setting_field k ps"] assms(2)
    by (simp add: handle_save_settings_def)
qed

text \<open>The rows of one setting in a reordering of the query's answer are those of the
  answer.\<close>

lemma filter_key_perm:
  assumes "mset rows = mset (settings_query tbl)" "k \<in> set settings_keys"
      and "filter (\<lambda>r. s_key r = k) tbl = [x]"
  shows "filter (\<lambda>r. s_key r = k) rows = [x]"
  using assms(1) by (rule filter_perm_single) (simp add: filter_settings_query [OF assms(2)] assms(3))

text \<open>C25: Saving the settings and loading them again gives back exactly the saved
  settings, from a table with at most one row per setting, and in whatever order the
  \<open>.in()\<close> select returns the rows (it has no \<open>.order()\<close>).\<close>

theorem settings_save_load_roundtrip:
  assumes "settings_keys_unique tbl"
      and "mset rows = mset (settings_query (handle_save_settings ps tbl))"
  shows "fetch_settings (Inr rows) cur = ps"
proof -
  let ?t = "handle_save_settings ps tbl"
  have one: "filter (\<lambda>r. s_key r = k) rows = [\<lparr>s_key = k, s_value = get_setting_field k ps\<rparr>]"
    if k: "k \<in> set settings_keys" for k
    using filter_key_perm [OF assms(2) k handle_save_settings_unique [OF assms(1) k]] .
  have "rows \<noteq> []"
    using one [of "''zero_fee_period_active''"] by (auto simp: settings_keys_def)
  moreover have "fold (\<lambda>r. set_setting_field (s_key r) (s_value r)) rows default_settings = ps"
  proof (rule platform_settings_eqI)
    fix k assume k: "k \<in> set settings_keys"
    show "get_setting_field k (fold (\<lambda>r. set_setting_field (s_key r) (s_value r)) rows default_settings)
          = get_setting_field k ps"
      using one [OF k] by (simp add: get_fold_set_setting_field [OF k])
  qed
  ultimately show ?thesis by (simp add: fetch_settings_def)
qed


text \<open>Saves keep a table at most one row per setting.\<close>

lemma save_keeps_unique:
  "settings_keys_unique tbl \<Longrightarrow> settings_keys_unique (handle_save_settings ps tbl)"
  by (simp add: settings_keys_unique_def list_all_iff handle_save_settings_unique [unfolded settings_keys_unique_def list_all_iff])

text \<open>With a setting stored twice the existence check reads nothing and a third row is
  inserted; the old rows keep their value, and an answer of the select that puts one
  of them last loads the old value again.\<close>

lemma duplicate_setting_reload_stale:
  assumes "filter (\<lambda>r. s_key r = k) tbl = [r1, r2]" "k \<in> set settings_keys"
  shows "\<exists>rows. mset rows = mset (settings_query (save_setting k v tbl))
           \<and> get_setting_field k (fetch_settings (Inr rows) cur) = s_value r2"
proof -
  let ?t = "save_setting k v tbl"
  have t: "?t = tbl @ [\<lparr>s_key = k, s_value = v\<rparr>]"
    using assms(1) by (simp add: save_setting_def maybe_single_def data_or_null_def)
  define rows where "rows = \<lparr>s_key = k, s_value = v\<rparr> # settings_query tbl"
  have m: "mset rows = mset (settings_query ?t)"
    using assms(2) by (simp add: rows_def t settings_query_def)
  have "filter (\<lambda>r. s_key r = k) rows = [\<lparr>s_key = k, s_value = v\<rparr>, r1, r2]"
    using assms by (simp add: rows_def filter_settings_query)
  then have "get_setting_field k (fold (\<lambda>r. set_setting_field (s_key r) (s_value r)) rows default_settings) = s_value r2"
    by (simp add: get_fold_set_setting_field [OF assms(2)])
  moreover have "rows \<noteq> []" by (simp add: rows_def)
  ultimately show ?thesis
    using m by (auto simp: fetch_settings_def)
qed

text \<open>C26: The four numeric inputs can never hold 0: \<open>parseInt(..) || d\<close> and
  \<open>parseFloat(..) || d\<close> replace a typed 0 (and an unparsable entry) by the default, so
  no commission can be set to 0 and no limit to 0 from this form.\<close>

theorem settings_form_rejects_zero:
  "private_holder_limit (edit_private_holder_limit s ps) \<noteq> J_num 0
   \<and> verified_dealer_limit (edit_verified_dealer_limit s ps) \<noteq> J_num 0
   \<and> private_holder_commission (edit_private_holder_commission s ps) \<noteq> J_num 0
   \<and> verified_dealer_commission (edit_verified_dealer_commission s ps) \<noteq> J_num 0"
  by (simp add: edit_private_holder_limit_def edit_verified_dealer_limit_def
       edit_private_holder_commission_def edit_verified_dealer_commission_def js_num_or_nonzero)

lemma edit_commission_examples:
  "private_holder_commission (edit_private_holder_commission ''0'' ps) = J_num (7 / 2)"
  "private_holder_commission (edit_private_holder_commission ''1.5'' ps) = J_num (3 / 2)"
  "private_holder_limit (edit_private_holder_limit ''10'' ps) = J_num 10"
  by (simp_all add: edit_private_holder_commission_def edit_private_holder_limit_def js_parse_float_def
       js_parse_int_def js_sign_def is_digit_def digits_val_def)

lemma settings_well_typed_iff:
  "settings_well_typed ps \<longleftrightarrow>
     json_type (zero_fee_period_active ps) = Ty_bool
     \<and> json_type (zero_fee_end_date ps) \<in> {Ty_str, Ty_null}
     \<and> json_type (private_holder_limit ps) = Ty_num \<and> json_type (verified_dealer_limit ps) = Ty_num
     \<and> json_type (private_holder_commission ps) = Ty_num \<and> json_type (verified_dealer_commission ps) = Ty_num"
  by (auto simp: settings_well_typed_def settings_keys_def get_setting_field_def setting_types_def)

lemma apply_settings_edit_well_typed:
  "settings_well_typed ps \<Longrightarrow> settings_well_typed (apply_settings_edit e ps)"
  by (cases e) (auto simp: settings_well_typed_iff edit_zero_fee_active_def edit_zero_fee_end_def
       edit_private_holder_limit_def edit_verified_dealer_limit_def edit_private_holder_commission_def
       edit_verified_dealer_commission_def split: option.split)

text \<open>C21: The settings object keeps the type \<open>PlatformSettings\<close> declares through any
  sequence of form edits started from the defaults or from well-typed settings.\<close>

theorem settings_edits_well_typed:
  assumes "settings_well_typed ps"
  shows "settings_well_typed (fold apply_settings_edit es ps) \<and> settings_well_typed default_settings"
proof -
  have "settings_well_typed (fold apply_settings_edit es ps)"
    using assms by (induction es arbitrary: ps) (simp_all add: apply_settings_edit_well_typed)
  moreover have "settings_well_typed default_settings"
    by (simp add: settings_well_typed_iff default_settings_def)
  ultimately show ?thesis by simp
qed

text \<open>The declared type is not checked when loading: a row whose value has another JSON
  type makes the loaded settings ill-typed.\<close>

lemma fetch_settings_unchecked:
  "\<not> settings_well_typed
     (fetch_settings (Inr (settings_query [\<lparr>s_key = ''private_holder_limit'', s_value = J_str ''3''\<rparr>])) cur)"
  by (simp add: fetch_settings_def settings_query_def settings_keys_def set_setting_field_def
       default_settings_def settings_well_typed_iff)

text \<open>On an empty settings table the panel shows the defaults, in which the zero-fee
  period is active, and pressing save stores \<open>zero_fee_period_active = true\<close>.\<close>

theorem empty_settings_save_activates_zero_fee:
  "fetch_settings (Inr (settings_query [])) default_settings = default_settings
   \<and> filter (\<lambda>r. s_key r = ''zero_fee_period_active'') (handle_save_settings default_settings [])
       = [\<lparr>s_key = ''zero_fee_period_active'', s_value = J_bool True\<rparr>]"
  by (simp add: fetch_settings_def settings_query_def handle_save_settings_def settings_keys_def
       save_setting_def get_setting_field_def default_settings_def)

end
