(* ===== verification/UserManagement.thy ===== *)
theory UserManagement
  imports FeePolicy
begin

text \<open>
  The admin's user table (\<open>AdminUserManagement.tsx\<close>): \<open>fetchUsers\<close> joins each profile
  with the first \<open>user_roles\<close> row of the user, \<open>handleRoleChange\<close> updates the user's
  role rows or inserts one, \<open>handleZeroFeeToggle\<close> sets the per-seller fee waiver, and
  the search box filters the fetched rows.  Each handler returns the new database and
  the admin's new local copy of the table, updated as its \<open>setUsers\<close> call does.
  The order by e-mail of the fetch is not modelled.
\<close>

record user_with_role =
  uw_user_id :: uid
  uw_email :: string
  uw_full_name :: "string option"
  uw_kyc_status :: verification_status
  uw_zero_fee_eligible :: "bool option"
  uw_role :: "app_role option"

text \<open>\<open>roles?.find((r) => r.user_id === profile.user_id)\<close>: the user's first role row of
  the \<open>user_roles\<close> select, which has no \<open>.order()\<close>: the properties below give the
  select's answer as any reordering of the table.\<close>

definition fetched_role :: "db \<Rightarrow> uid \<Rightarrow> app_role option" where
  "fetched_role d u = map_option role (find (\<lambda>r. ur_user_id r = u) (user_roles d))"

definition fetch_users :: "db \<Rightarrow> user_with_role list" where
  "fetch_users d =
     map (\<lambda>p. \<lparr> uw_user_id = user_id p, uw_email = email p, uw_full_name = full_name p,
               uw_kyc_status = kyc_status p, uw_zero_fee_eligible = zero_fee_eligible p,
               uw_role = fetched_role d (user_id p) \<rparr>) (profiles d)"

text \<open>\<open>handleRoleChange\<close>: the existence check reads \<open>.maybeSingle()\<close> with its error
  ignored, so a user with two role rows reads as having none and gets a third.\<close>

definition handle_role_change ::
  "uid \<Rightarrow> app_role \<Rightarrow> db \<Rightarrow> user_with_role list \<Rightarrow> db \<times> user_with_role list" where
  "handle_role_change u new_role d view =
     (let d' = (case data_or_null (maybe_single (filter (\<lambda>r. ur_user_id r = u) (user_roles d))) of
                  Some _ \<Rightarrow> d\<lparr>user_roles := tbl_update (\<lambda>r. ur_user_id r = u) (\<lambda>r. r\<lparr>role := new_role\<rparr>) (user_roles d)\<rparr>
                | None \<Rightarrow> d\<lparr>user_roles := user_roles d @ [\<lparr>ur_user_id = u, role = new_role\<rparr>]\<rparr>)
      in (d', map (\<lambda>w. if uw_user_id w = u then w\<lparr>uw_role := Some new_role\<rparr> else w) view))"

definition handle_zero_fee_toggle ::
  "uid \<Rightarrow> bool \<Rightarrow> db \<Rightarrow> user_with_role list \<Rightarrow> db \<times> user_with_role list" where
  "handle_zero_fee_toggle u enabled d view =
     (d\<lparr>profiles := tbl_update (\<lambda>p. user_id p = u) (\<lambda>p. p\<lparr>zero_fee_eligible := Some enabled\<rparr>) (profiles d)\<rparr>,
      map (\<lambda>w. if uw_user_id w = u then w\<lparr>uw_zero_fee_eligible := Some enabled\<rparr> else w) view)"

definition filter_users :: "string \<Rightarrow> user_with_role list \<Rightarrow> user_with_role list" where
  "filter_users q view =
     filter (\<lambda>w. js_includes (js_lower (uw_email w)) (js_lower q)
                 \<or> (case uw_full_name w of None \<Rightarrow> False | Some n \<Rightarrow> js_includes (js_lower n) (js_lower q))) view"

section \<open>Properties\<close>

lemma find_tbl_update:
  "(\<And>r. P (f r) = P r) \<Longrightarrow> find P (tbl_update P f rs) = map_option f (find P rs)"
  by (induction rs) auto

lemma find_append_None: "find P xs = None \<Longrightarrow> find P (xs @ ys) = find P ys"
  by (induction xs) (auto split: if_splits)

lemma find_append_Some: "find P xs = Some x \<Longrightarrow> find P (xs @ ys) = Some x"
  by (induction xs) (auto split: if_splits)

lemma find_filter_Nil: "filter P rs = [] \<Longrightarrow> find P rs = None"
  by (simp add: find_None_iff filter_empty_conv)

lemma find_filter_Cons: "filter P rs = r # rs' \<Longrightarrow> find P rs = Some r"
  by (induction rs) (auto split: if_splits)

text \<open>A user with at most one role row has, after a role change, exactly the one row
  of the new role.\<close>

lemma role_rows_after_change:
  assumes "length (filter (\<lambda>r. ur_user_id r = u) (user_roles d)) \<le> 1"
  shows "filter (\<lambda>r. ur_user_id r = u) (user_roles (fst (handle_role_change u new_role d view)))
         = [\<lparr>ur_user_id = u, role = new_role\<rparr>]"
proof (cases "filter (\<lambda>r. ur_user_id r = u) (user_roles d)")
  case Nil
  then show ?thesis by (simp add: handle_role_change_def)
next
  case (Cons r rs)
  with assms have one: "filter (\<lambda>r. ur_user_id r = u) (user_roles d) = [r]" by simp
  have key: "ur_user_id r = u" using filter_singleton_mem [OF one] by simp
  have "filter (\<lambda>r. ur_user_id r = u) (tbl_update (\<lambda>r. ur_user_id r = u) (\<lambda>r. r\<lparr>role := new_role\<rparr>) (user_roles d))
        = map (\<lambda>r. r\<lparr>role := new_role\<rparr>) (filter (\<lambda>r. ur_user_id r = u) (user_roles d))"
    by (rule filter_tbl_update) simp
  with one key show ?thesis by (cases r) (simp add: handle_role_change_def)
qed

text \<open>C28: A role change by the admin takes effect at once, not at the start of the next
  billing cycle as the Pricing FAQ says: when the user had at most one role row, every
  later fetch of the user table shows the new role, in whatever order the
  \<open>user_roles\<close> select (which has no \<open>.order()\<close>) returns the rows, and the commission
  RPC already resolves the user's rate from the new role.\<close>

theorem role_change_takes_effect:
  assumes "length (filter (\<lambda>r. ur_user_id r = u) (user_roles d)) \<le> 1"
      and "mset rows = mset (user_roles (fst (handle_role_change u new_role d view)))"
  shows "fetched_role ((fst (handle_role_change u new_role d view))\<lparr>user_roles := rows\<rparr>) u = Some new_role
         \<and> get_commission_rate (fst (handle_role_change u new_role d view)) pol now u
             = Some (effective_rate new_role (zero_fee_eligible_of d u) pol now)"
proof -
  let ?d = "fst (handle_role_change u new_role d view)"
  have one: "filter (\<lambda>r. ur_user_id r = u) (user_roles ?d) = [\<lparr>ur_user_id = u, role = new_role\<rparr>]"
    using assms(1) by (rule role_rows_after_change)
  have "filter (\<lambda>r. ur_user_id r = u) rows = [\<lparr>ur_user_id = u, role = new_role\<rparr>]"
    using assms(2) one by (rule filter_perm_single)
  then have "fetched_role (?d\<lparr>user_roles := rows\<rparr>) u = Some new_role"
    by (simp add: fetched_role_def find_filter_Cons)
  moreover have "user_role_of ?d u = Some new_role"
    using one by (simp add: user_role_of_def find_filter_Cons)
  moreover have "zero_fee_eligible_of ?d u = zero_fee_eligible_of d u"
    by (simp add: handle_role_change_def zero_fee_eligible_of_def Let_def split: option.splits)
  ultimately show ?thesis
    by (simp add: get_commission_rate_def)
qed

text \<open>C29: With two or more role rows the change updates none of them: the existence
  check's \<open>.maybeSingle()\<close> fails, its error is ignored, and a further row is appended.
  Which role a refetch shows then depends on the unordered select: answered in table
  order it is still the old first role, answered with the new row first it is the new
  one, while the admin's local copy already shows the new role.\<close>

theorem role_change_lost_on_duplicates:
  assumes "filter (\<lambda>r. ur_user_id r = u) (user_roles d) = r1 # r2 # rs"
  shows "user_roles (fst (handle_role_change u new_role d view))
           = user_roles d @ [\<lparr>ur_user_id = u, role = new_role\<rparr>]
         \<and> (\<exists>rows. mset rows = mset (user_roles (fst (handle_role_change u new_role d view)))
                  \<and> fetched_role ((fst (handle_role_change u new_role d view))\<lparr>user_roles := rows\<rparr>) u = Some (role r1))
         \<and> (\<exists>rows. mset rows = mset (user_roles (fst (handle_role_change u new_role d view)))
                  \<and> fetched_role ((fst (handle_role_change u new_role d view))\<lparr>user_roles := rows\<rparr>) u = Some new_role)
         \<and> list_all (\<lambda>w. uw_user_id w = u \<longrightarrow> uw_role w = Some new_role) (snd (handle_role_change u new_role d view))"
proof -
  let ?new = "\<lparr>ur_user_id = u, role = new_role\<rparr>"
  have rows: "user_roles (fst (handle_role_change u new_role d view)) = user_roles d @ [?new]"
    using assms by (simp add: handle_role_change_def)
  have "find (\<lambda>r. ur_user_id r = u) (user_roles d) = Some r1"
    by (rule find_filter_Cons [OF assms])
  then have old: "fetched_role ((fst (handle_role_change u new_role d view))\<lparr>user_roles := user_roles d @ [?new]\<rparr>) u
                  = Some (role r1)"
    by (simp add: fetched_role_def find_append_Some)
  have new: "fetched_role ((fst (handle_role_change u new_role d view))\<lparr>user_roles := ?new # user_roles d\<rparr>) u
             = Some new_role"
    by (simp add: fetched_role_def)
  have "mset (?new # user_roles d) = mset (user_roles d @ [?new])" by simp
  moreover have "list_all (\<lambda>w. uw_user_id w = u \<longrightarrow> uw_role w = Some new_role) (snd (handle_role_change u new_role d view))"
    by (induction view) (simp_all add: handle_role_change_def)
  ultimately show ?thesis
    using rows old new by metis
qed

text \<open>C30: Switching a user's zero-fee toggle on makes the commission RPC resolve the
  user's rate to 0, whatever their role.\<close>

theorem zero_fee_toggle_waives_rate:
  assumes "user_role_of d u = Some r" "list_ex (\<lambda>p. user_id p = u) (profiles d)"
  shows "get_commission_rate (fst (handle_zero_fee_toggle u True d view)) pol now u = Some 0"
proof -
  obtain p where "find (\<lambda>p. user_id p = u) (profiles d) = Some p"
    using assms(2) by (metis find_None_iff list_ex_iff option.exhaust)
  then have "zero_fee_eligible_of (fst (handle_zero_fee_toggle u True d view)) u"
    by (simp add: handle_zero_fee_toggle_def zero_fee_eligible_of_def find_tbl_update)
  moreover have "user_role_of (fst (handle_zero_fee_toggle u True d view)) u = Some r"
    using assms(1) by (simp add: handle_zero_fee_toggle_def user_role_of_def)
  ultimately show ?thesis
    by (simp add: get_commission_rate_def effective_rate_def)
qed

end
