(* ===== verification/Browse.thy ===== *)
theory Browse
  imports Listings Checkout
begin

text \<open>
  The buyer's side of the marketplace: the catalogue (\<open>Browse.tsx\<close>: the approved
  listings with the brand, condition and sort selected, each joined with its seller's
  profile and role, then the search box) and the listing page (\<open>ListingDetail.tsx\<close>:
  the approved listing with its photos and seller, and \<open>handlePurchase\<close>, which calls
  the create-checkout edge function of \<open>Checkout\<close>).  Ordering by \<open>created_at\<close> is
  modelled as newest-inserted first; the price orders are \<open>sort_key\<close>, one of the orders
  the database may return when prices tie.
\<close>

datatype sort_order = Newest | Price_low | Price_high

record browse_filter =
  bf_brand :: "row_id option"
  bf_condition :: "watch_condition option"
  bf_sort :: sort_order

record browse_card =
  bc_listing :: listing_row
  bc_brand :: "string option"
  bc_seller_name :: "string option"
  bc_seller_role :: app_role

definition browse_query :: "browse_filter \<Rightarrow> db \<Rightarrow> listing_row list" where
  "browse_query f d =
     (let ls = filter (\<lambda>l. status l = Approved
                          \<and> (case bf_brand f of None \<Rightarrow> True | Some b \<Rightarrow> brand_id l = b)
                          \<and> (case bf_condition f of None \<Rightarrow> True | Some c \<Rightarrow> condition l = c))
                 (listings d)
      in case bf_sort f of
           Newest \<Rightarrow> rev ls
         | Price_low \<Rightarrow> sort_key asking_price ls
         | Price_high \<Rightarrow> rev (sort_key asking_price ls))"

text \<open>The seller's profile and role, each read with \<open>.maybeSingle()\<close> and its error
  ignored; a missing role reads as \<open>individual_seller\<close>.\<close>

definition browse_seller_role :: "db \<Rightarrow> uid \<Rightarrow> app_role" where
  "browse_seller_role d u =
     (case data_or_null (maybe_single (filter (\<lambda>r. ur_user_id r = u) (user_roles d))) of
        None \<Rightarrow> Individual_seller | Some r \<Rightarrow> role r)"

definition browse_card_of :: "db \<Rightarrow> listing_row \<Rightarrow> browse_card" where
  "browse_card_of d l =
     \<lparr> bc_listing = l, bc_brand = brand_name_of d l,
       bc_seller_name = (case data_or_null (maybe_single (filter (\<lambda>p. user_id p = seller_id l) (profiles d))) of
                           None \<Rightarrow> None | Some p \<Rightarrow> full_name p),
       bc_seller_role = browse_seller_role d (seller_id l) \<rparr>"

definition fetch_browse :: "browse_filter \<Rightarrow> db \<Rightarrow> browse_card list" where
  "fetch_browse f d = map (browse_card_of d) (browse_query f d)"

definition browse_search :: "string \<Rightarrow> browse_card list \<Rightarrow> browse_card list" where
  "browse_search q cards =
     (if q = [] then cards
      else filter (\<lambda>c. js_includes (js_lower (model (bc_listing c))) (js_lower q)
                       \<or> js_includes (js_lower (reference_number (bc_listing c))) (js_lower q)
                       \<or> (case bc_brand c of None \<Rightarrow> False | Some n \<Rightarrow> js_includes (js_lower n) (js_lower q))) cards)"

section \<open>The listing page\<close>

record seller_info =
  si_full_name :: "string option"
  si_kyc_status :: verification_status
  si_role :: app_role

record listing_page =
  lp_listing :: listing_row
  lp_brand :: "string option"
  lp_photos :: "photo_row list"
  lp_seller :: seller_info

text \<open>\<open>fetchListing\<close>: the approved listing with this id (none on an error), its photos,
  and its seller, whose missing status reads as \<open>not_started\<close> and missing role as
  \<open>observer\<close>.\<close>

definition detail_seller :: "db \<Rightarrow> uid \<Rightarrow> seller_info" where
  "detail_seller d u =
     (let p = data_or_null (maybe_single (filter (\<lambda>p. user_id p = u) (profiles d)));
          r = data_or_null (maybe_single (filter (\<lambda>r. ur_user_id r = u) (user_roles d)))
      in \<lparr> si_full_name = (case p of None \<Rightarrow> None | Some q \<Rightarrow> full_name q),
           si_kyc_status = (case p of None \<Rightarrow> Kyc_not_started | Some q \<Rightarrow> kyc_status q),
           si_role = (case r of None \<Rightarrow> Observer | Some x \<Rightarrow> role x) \<rparr>)"

definition fetch_listing_page :: "db \<Rightarrow> row_id \<Rightarrow> listing_page option" where
  "fetch_listing_page d lid =
     (case maybe_single (filter (\<lambda>l. l_id l = lid \<and> status l = Approved) (listings d)) of
        Inl _ \<Rightarrow> None
      | Inr None \<Rightarrow> None
      | Inr (Some l) \<Rightarrow>
          Some \<lparr> lp_listing = l, lp_brand = brand_name_of d l,
                 lp_photos = sort_photos (filter (\<lambda>p. ph_listing_id p = l_id l) (listing_photos d)),
                 lp_seller = detail_seller d (seller_id l) \<rparr>)"

datatype purchase_outcome =
    Sign_in_required
  | Cannot_purchase_own
  | Redirect_to_checkout string
  | Checkout_failed string

text \<open>\<open>handlePurchase\<close>: the page's own-listing check, then \<open>functions.invoke\<close> of
  create-checkout with the signed-in user's token.  On a non-2xx answer the client
  library reports its own message, not the function's.\<close>

definition invoke_error_message :: string where
  "invoke_error_message = ''Edge Function returned a non-2xx status code''"

definition purchase_request :: "string \<Rightarrow> row_id \<Rightarrow> checkout_request" where
  "purchase_request tok lid =
     \<lparr> is_options = False, authorization = Some (''Bearer '' @ tok), body_listing_id = Some lid, origin_header = None \<rparr>"

definition handle_purchase ::
  "checkout_env \<Rightarrow> db \<Rightarrow> (uid \<times> string) option \<Rightarrow> row_id \<Rightarrow> listing_page \<Rightarrow> purchase_outcome" where
  "handle_purchase env d session lid page =
     (case session of
        None \<Rightarrow> Sign_in_required
      | Some (u, tok) \<Rightarrow>
          if seller_id (lp_listing page) = u then Cannot_purchase_own
          else (case checkout_handler env d (purchase_request tok lid) of
                  Checkout_ok url sid \<Rightarrow> Redirect_to_checkout url
                | Checkout_500 m \<Rightarrow> Checkout_failed invoke_error_message
                | Preflight \<Rightarrow> Checkout_failed ''No checkout URL returned''))"

section \<open>The checkout success page\<close>

text \<open>\<open>CheckoutSuccess.tsx\<close>: Stripe redirects here with the session and listing ids
  in the URL.  The page loads the listing by id alone (any status) and shows
  ``Purchase Successful'' with the first 20 characters of the session id; it never
  asks Stripe or the database whether a payment happened.\<close>

record success_page =
  sp_listing :: "listing_row option"
  sp_brand :: "string option"
  sp_transaction :: "string option"

definition checkout_success_page :: "string option \<Rightarrow> row_id option \<Rightarrow> db \<Rightarrow> success_page" where
  "checkout_success_page session_id listing_id d =
     (let l = (case listing_id of None \<Rightarrow> None
               | Some lid \<Rightarrow> data_or_null (maybe_single (filter (\<lambda>l. l_id l = lid) (listings d))))
      in \<lparr> sp_listing = l,
           sp_brand = (case l of None \<Rightarrow> None | Some x \<Rightarrow> brand_name_of d x),
           sp_transaction = map_option (take 20) session_id \<rparr>)"

text \<open>The success page's render: a spinner while loading; then the heading, the order
  details when the listing was found (brand, model, reference and \<open>formatPrice\<close> in
  whole units), the four next steps, the two links and the first 20 characters of
  the session id.\<close>

record order_details =
  od_brand :: "string option"
  od_model :: string
  od_reference :: string
  od_price :: string

datatype success_view =
    Success_loading
  | Success_shown "order_details option" "string list" "(string \<times> string) list" "string option"

definition success_steps :: "string list" where
  "success_steps =
     [''The seller receives notification of your purchase'', ''Seller ships the watch with tracking information'',
      ''You receive and inspect the watch'', ''Confirm delivery to release payment to seller'']"

definition success_view :: "bool \<Rightarrow> success_page \<Rightarrow> success_view" where
  "success_view loading sp =
     (if loading then Success_loading
      else Success_shown
             (map_option (\<lambda>l. \<lparr> od_brand = sp_brand sp, od_model = model l,
                                 od_reference = ''Ref. '' @ reference_number l,
                                 od_price = format_price 0 (asking_price l) (currency l) \<rparr>) (sp_listing sp))
             success_steps [(''View Dashboard'', ''/dashboard''), (''Continue Browsing'', ''/browse'')]
             (map_option (\<lambda>t. ''Transaction ID: '' @ t @ ''...'') (sp_transaction sp)))"

section \<open>Properties\<close>

lemma success_page_any_listing:
  "filter (\<lambda>l. l_id l = lid) (listings d) = [l] \<Longrightarrow>
   sp_listing (checkout_success_page sid (Some lid) d) = Some l"
  by (simp add: checkout_success_page_def)


lemma browse_query_set:
  "set (browse_query f d) = {l \<in> set (listings d). status l = Approved
      \<and> (case bf_brand f of None \<Rightarrow> True | Some b \<Rightarrow> brand_id l = b)
      \<and> (case bf_condition f of None \<Rightarrow> True | Some c \<Rightarrow> condition l = c)}"
  by (cases "bf_sort f") (auto simp: browse_query_def Let_def)

text \<open>C31: Every card of the catalogue is an approved listing of the database that
  matches the selected brand and condition.\<close>

theorem browse_results_match_filter:
  assumes "c \<in> set (fetch_browse f d)"
  shows "bc_listing c \<in> set (listings d) \<and> status (bc_listing c) = Approved
         \<and> (case bf_brand f of None \<Rightarrow> True | Some b \<Rightarrow> brand_id (bc_listing c) = b)
         \<and> (case bf_condition f of None \<Rightarrow> True | Some k \<Rightarrow> condition (bc_listing c) = k)"
proof -
  obtain l where l: "c = browse_card_of d l" "l \<in> set (browse_query f d)"
    using assms by (auto simp: fetch_browse_def)
  have c: "bc_listing c = l" using l(1) by (simp add: browse_card_of_def)
  show ?thesis using l(2) unfolding c browse_query_set by simp
qed

text \<open>C32: The price sorts of the catalogue list the cards by ascending, respectively
  descending, asking price.\<close>

theorem browse_price_sorted:
  "(bf_sort f = Price_low \<longrightarrow> sorted (map (\<lambda>c. asking_price (bc_listing c)) (fetch_browse f d)))
   \<and> (bf_sort f = Price_high \<longrightarrow> sorted (rev (map (\<lambda>c. asking_price (bc_listing c)) (fetch_browse f d))))"
proof -
  have m: "map (\<lambda>c. asking_price (bc_listing c)) (fetch_browse f d) = map asking_price (browse_query f d)"
    by (simp add: fetch_browse_def browse_card_of_def)
  show ?thesis
    by (cases "bf_sort f") (simp_all add: m browse_query_def Let_def rev_map sorted_sort_key)
qed

text \<open>For a seller without a role row the catalogue shows the tier badge of a
  Verified Dealer while the listing page shows a Private Holder.\<close>

theorem roleless_seller_tier_disagrees:
  assumes "filter (\<lambda>r. ur_user_id r = seller_id l) (user_roles d) = []"
  shows "bc_seller_role (browse_card_of d l) = Individual_seller
         \<and> si_role (detail_seller d (seller_id l)) = Observer"
  using assms by (simp add: browse_card_of_def browse_seller_role_def detail_seller_def Let_def)

lemma purchase_request_fields [simp]:
  "is_options (purchase_request tok lid) = False"
  "body_listing_id (purchase_request tok lid) = Some lid"
  by (simp_all add: purchase_request_def)

lemma purchase_auth:
  assumes "stripe_key env = Some k" "k \<noteq> []"
    and "get_user env tok = Inr (Some \<lparr>au_id = u, au_email = Some e\<rparr>)" "e \<noteq> []"
  shows "checkout_auth env (purchase_request tok lid) = Inr (u, e)"
  using assms by (simp add: checkout_auth_def purchase_request_def edge_authenticate_def bearer_token_def)

lemma fetch_listing_page_Some:
  "fetch_listing_page d lid = Some page \<Longrightarrow>
   checkout_listing d lid = Inr (Some (lp_listing page))"
  by (auto simp: fetch_listing_page_def checkout_listing_def split: sum.splits option.splits)

text \<open>C34: A signed-in buyer on the page of another seller's approved listing is sent to
  a Stripe checkout whenever Stripe accepts the session.\<close>

theorem purchase_reaches_checkout:
  assumes "fetch_listing_page d lid = Some page" "lid \<noteq> []"
    and "stripe_key env = Some k" "k \<noteq> []"
    and "get_user env tok = Inr (Some \<lparr>au_id = u, au_email = Some e\<rparr>)" "e \<noteq> []"
    and "seller_id (lp_listing page) \<noteq> u" "\<forall>p. \<not> isl (stripe_create env p)"
  shows "\<exists>url. handle_purchase env d (Some (u, tok)) lid page = Redirect_to_checkout url"
proof -
  let ?p = "checkout_session_for env d (purchase_request tok lid) u e (lp_listing page)"
  have "\<not> isl (stripe_create env ?p)" using assms(8) by blast
  then obtain sid url where s: "stripe_create env ?p = Inr (sid, url)"
    by (cases "stripe_create env ?p") auto
  have "checkout_purchase env d (purchase_request tok lid) u e = Inr (?p, sid, url)"
    using fetch_listing_page_Some [OF assms(1)] assms(2,7) s
    by (simp add: checkout_purchase_def Let_def)
  then have "checkout_handler env d (purchase_request tok lid) = Checkout_ok url sid"
    by (simp add: checkout_handler_def create_checkout_authenticated [OF purchase_auth [OF assms(3-6)]])
  with assms(7) show ?thesis by (simp add: handle_purchase_def)
qed

lemma handle_reject_unavailable: "checkout_listing (handle_reject lid reason d) lid = Inr None"
proof -
  have "list_all (\<lambda>l. l_id l = lid \<longrightarrow> status l \<noteq> Approved) (listings (handle_reject lid reason d))"
    unfolding handle_reject_def by (simp add: tbl_update_matching)
  then show ?thesis by (simp add: list_all_iff checkout_listing_none)
qed

text \<open>C35: When the listing is rejected after the buyer opened its page, the purchase
  fails with the client library's generic message, not the function's reason.\<close>

theorem purchase_after_rejection_generic_error:
  assumes "stripe_key env = Some k" "k \<noteq> []"
    and "get_user env tok = Inr (Some \<lparr>au_id = u, au_email = Some e\<rparr>)" "e \<noteq> []"
    and "lid \<noteq> []" "seller_id (lp_listing page) \<noteq> u"
  shows "handle_purchase env (handle_reject lid reason d) (Some (u, tok)) lid page
           = Checkout_failed invoke_error_message"
proof -
  have "checkout_listing (handle_reject lid reason d) lid = Inr None"
    by (rule handle_reject_unavailable)
  then have "checkout_handler env (handle_reject lid reason d) (purchase_request tok lid)
             = Checkout_500 (checkout_error_message Listing_unavailable)"
    using assms(5)
    by (simp add: checkout_handler_def create_checkout_authenticated [OF purchase_auth [OF assms(1-4)]]
                  checkout_purchase_def)
  with assms(6) show ?thesis by (simp add: handle_purchase_def)
qed

end
