(* ===== verification/KycPage.thy ===== *)
theory KycPage
  imports Kyc
begin

text \<open>
  The identity-verification page (\<open>Verification.tsx\<close>) as a client of the KYC edge
  functions: the page's state (the status shown, the verification time, the last toast,
  a pending redirect), its initialisation from the profile, and its two handlers,
  \<open>startVerification\<close> (create-verification-session) and \<open>checkVerificationStatus\<close>
  (check-verification-status).  \<open>functions.invoke\<close> turns a non-2xx answer into an
  error without data, which the handlers catch.
\<close>

datatype kyc_toast = Toast_identity_verified | Toast_already_verified | Toast_start_failed

record kyc_page =
  kp_status :: verification_status
  kp_verified_at :: "timestamp option"
  kp_toast :: "kyc_toast option"
  kp_redirect :: "string option"

definition kyc_page_init :: "profile_row \<Rightarrow> kyc_page" where
  "kyc_page_init p = \<lparr>kp_status = kyc_status p, kp_verified_at = None, kp_toast = None, kp_redirect = None\<rparr>"

text \<open>The HTTP status of an answer: ``Already verified'' is a 400, errors are 500s.\<close>

definition kyc_http_ok :: "kyc_response \<Rightarrow> bool" where
  "kyc_http_ok r = (case r of K_already_verified \<Rightarrow> False | K_500 _ \<Rightarrow> False | _ \<Rightarrow> True)"

definition check_status_click ::
  "kyc_env \<Rightarrow> timestamp \<Rightarrow> kyc_request \<Rightarrow> db \<Rightarrow> kyc_page \<Rightarrow> db \<times> kyc_page" where
  "check_status_click env now req d pg =
     (let (d', resp) = check_verification_status env now req d in
      (d', if \<not> kyc_http_ok resp then pg else
           case resp of
             K_status s ts \<Rightarrow>
               pg\<lparr>kp_status := s,
                  kp_verified_at := (case ts of None \<Rightarrow> kp_verified_at pg | Some t \<Rightarrow> Some t),
                  kp_toast := (if s = Kyc_verified then Some Toast_identity_verified else kp_toast pg)\<rparr>
           | _ \<Rightarrow> pg))"

definition start_click :: "kyc_env \<Rightarrow> kyc_request \<Rightarrow> db \<Rightarrow> kyc_page \<Rightarrow> db \<times> kyc_page" where
  "start_click env req d pg =
     (let (d', resp) = create_verification_session env req d in
      (d', if \<not> kyc_http_ok resp then pg\<lparr>kp_toast := Some Toast_start_failed\<rparr> else
           case resp of
             K_session url sid \<Rightarrow> pg\<lparr>kp_redirect := Some url\<rparr>
           | K_already_verified \<Rightarrow> pg\<lparr>kp_status := Kyc_verified, kp_toast := Some Toast_already_verified\<rparr>
           | _ \<Rightarrow> pg))"

text \<open>Mounting the page: the status from the profile, then, on the return from Stripe
  (\<open>?completed=true\<close>), a status check.\<close>

definition kyc_page_mount ::
  "kyc_env \<Rightarrow> timestamp \<Rightarrow> kyc_request \<Rightarrow> db \<Rightarrow> profile_row \<Rightarrow> string option \<Rightarrow> db \<times> kyc_page" where
  "kyc_page_mount env now req d p completed =
     (if completed = Some ''true'' then check_status_click env now req d (kyc_page_init p)
      else (d, kyc_page_init p))"

datatype kyc_description = Verified_on timestamp | Kyc_text string

fun kyc_status_title :: "verification_status \<Rightarrow> string" where
  "kyc_status_title Kyc_verified = ''Verified''"
| "kyc_status_title Kyc_pending = ''Verification In Progress''"
| "kyc_status_title Kyc_rejected = ''Verification Failed''"
| "kyc_status_title Kyc_not_started = ''Not Started''"

definition kyc_status_description :: "verification_status \<Rightarrow> timestamp option \<Rightarrow> kyc_description" where
  "kyc_status_description st vat =
     (case st of
        Kyc_verified \<Rightarrow> (case vat of Some t \<Rightarrow> Verified_on t | None \<Rightarrow> Kyc_text ''Your identity has been verified'')
      | Kyc_pending \<Rightarrow> Kyc_text ''Your documents are being reviewed''
      | Kyc_rejected \<Rightarrow> Kyc_text ''Please try again with valid documents''
      | Kyc_not_started \<Rightarrow> Kyc_text ''Complete verification to start selling'')"

datatype kyc_view =
    Kyc_spinner
  | Kyc_blank
  | Kyc_shown string kyc_description bool "kyc_action list" bool

text \<open>What the page renders: a spinner while the session loads, nothing without a user
  or profile (the effect sends a visitor without a session to \<open>/auth\<close>), else the status
  card (title, description, the checking spinner), the actions of the status, and
  the ``What's Required'' section for a status other than verified.\<close>

definition kyc_render :: "bool \<Rightarrow> bool \<Rightarrow> profile_row option \<Rightarrow> bool \<Rightarrow> kyc_page \<Rightarrow> kyc_view" where
  "kyc_render loading signed_in prof checking pg =
     (if loading then Kyc_spinner
      else if \<not> signed_in \<or> prof = None then Kyc_blank
      else Kyc_shown (kyc_status_title (kp_status pg)) (kyc_status_description (kp_status pg) (kp_verified_at pg))
             checking (verification_actions (kp_status pg)) (kp_status pg \<noteq> Kyc_verified))"

definition kyc_redirect :: "bool \<Rightarrow> bool \<Rightarrow> string option" where
  "kyc_redirect loading signed_in = (if \<not> loading \<and> \<not> signed_in then Some ''/auth'' else None)"

text \<open>The ``What You'll Need'' list, shown while the status is not verified (the last
  flag of \<open>Kyc_shown\<close>), and the security note under it.\<close>

definition kyc_requirements :: "(string \<times> string) list" where
  "kyc_requirements =
     [(''Government-Issued ID'',
       ''Passport, driver's license, or national ID card. The document must be valid and not expired.''),
      (''Selfie Photo'',
       ''A live photo of your face to match against your ID document. This helps prevent identity fraud.''),
      (''Clear, Legible Photos'',
       ''Ensure good lighting and that all text on your documents is clearly visible. Avoid glare and shadows.'')]"

definition kyc_security_note :: string where
  "kyc_security_note =
     ''Your documents are securely processed by Stripe Identity. We do not store copies of your ID documents.''"

section \<open>Properties\<close>

text \<open>C36: The page's ``Already Verified'' branch is dead: for a verified user the
  function answers 400, so starting verification shows the generic failure toast and
  changes nothing else.\<close>

theorem already_verified_branch_unreachable:
  assumes "\<not> k_is_options req" "kyc_auth env req ''User not authenticated or email not available'' = Inr (u, m)"
    and "profile_of d u = Some p" "kyc_status p = Kyc_verified"
  shows "start_click env req d pg = (d, pg\<lparr>kp_toast := Some Toast_start_failed\<rparr>)"
  using assms by (simp add: start_click_def create_verification_session_def kyc_http_ok_def)

lemma profile_of_set_kyc:
  "filter (\<lambda>p. user_id p = u) (profiles d) = [p] \<Longrightarrow>
   profile_of (set_kyc u s t d) u
     = Some (p\<lparr>kyc_status := s, kyc_verified_at := (case t of None \<Rightarrow> kyc_verified_at p | Some _ \<Rightarrow> t)\<rparr>)"
  by (simp add: profile_of_def set_kyc_def filter_tbl_update)

text \<open>After ``Check Status'' by a user with one profile row, the status the page
  shows is the status stored in the user's profile.\<close>

theorem check_click_shows_stored_status:
  assumes "\<not> k_is_options req" "kyc_auth env req ''User not authenticated'' = Inr (u, m)"
    and "filter (\<lambda>p. user_id p = u) (profiles d) = [p]"
  shows "\<exists>p'. profile_of (fst (check_status_click env now req d pg)) u = Some p'
              \<and> kp_status (snd (check_status_click env now req d pg)) = kyc_status p'"
proof -
  have prof: "profile_of d u = Some p" using assms(3) by (simp add: profile_of_def)
  show ?thesis
    using assms prof profile_of_set_kyc [OF assms(3)]
    by (auto simp: check_status_click_def check_verification_status_def kyc_http_ok_def
             split: option.splits)
qed

text \<open>The rendered page: the requirements section and the Start, Check or Try Again
  actions exactly while the status shown is not verified; a verified user sees only
  the way back to the dashboard.\<close>

lemma kyc_render_verified_only_dashboard:
  assumes "kyc_render False True (Some p) c pg = Kyc_shown t dsc c' acts req"
  shows "(req \<longleftrightarrow> kp_status pg \<noteq> Kyc_verified) \<and> (kp_status pg = Kyc_verified \<longleftrightarrow> acts = [Go_to_dashboard])"
proof -
  have "acts = verification_actions (kp_status pg)" "req = (kp_status pg \<noteq> Kyc_verified)"
    using assms by (simp_all add: kyc_render_def)
  then show ?thesis by (cases "kp_status pg") simp_all
qed

text \<open>Returning from Stripe with \<open>?completed=true\<close> is a status check; any other return
  shows the profile's stored status.\<close>

lemma kyc_mount_without_return:
  "completed \<noteq> Some ''true'' \<Longrightarrow> kyc_page_mount env now req d p completed = (d, kyc_page_init p)"
  by (simp add: kyc_page_mount_def)

end
