(* ===== verification/Onboarding.thy ===== *)
theory Onboarding
  imports Listings FeePolicy AdminSettings
begin

text \<open>
  The seller onboarding wizard (\<open>SellerOnboarding.tsx\<close>): three steps (intent, role
  details, verification info), the intent cards of step 1, the Back and Continue
  buttons, and the toast and navigation of the final step.  The wizard calls no
  database function and writes no table: its state is the page's own.  An action is
  a click the rendered page offers: the intent cards exist only on step 1, Back only
  after it, and Continue is disabled on step 1 until an intent is chosen.
\<close>

datatype seller_intent = Private_holder | Verified_dealer | Certified_partner

record onboarding =
  ob_step :: nat
  ob_intent :: "seller_intent option"
  ob_toast :: "string option"
  ob_navigate :: "string option"

definition onboarding_init :: onboarding where
  "onboarding_init = \<lparr>ob_step = 1, ob_intent = None, ob_toast = None, ob_navigate = None\<rparr>"

text \<open>The two redirects of the page's effects: to sign-up without a user, to the
  dashboard for a role other than observer and buyer.\<close>

definition onboarding_entry :: "uid option \<Rightarrow> app_role option \<Rightarrow> string option" where
  "onboarding_entry user r =
     (if user = None then Some ''/auth?mode=signup''
      else if onboarding_redirects r then Some ''/dashboard'' else None)"

definition handle_intent_select :: "seller_intent \<Rightarrow> onboarding \<Rightarrow> onboarding" where
  "handle_intent_select i ob = ob\<lparr>ob_intent := Some i\<rparr>"

fun completion_toast :: "seller_intent \<Rightarrow> string" where
  "completion_toast Private_holder = ''Welcome, Private Holder''"
| "completion_toast Verified_dealer = ''Verified Dealer Application''"
| "completion_toast Certified_partner = ''Partnership Application Received''"

definition handle_continue :: "onboarding \<Rightarrow> onboarding" where
  "handle_continue ob =
     (if ob_step ob = 1 \<and> ob_intent ob \<noteq> None then ob\<lparr>ob_step := 2\<rparr>
      else if ob_step ob = 2 then ob\<lparr>ob_step := 3\<rparr>
      else if ob_step ob = 3 then
        (case ob_intent ob of
           None \<Rightarrow> ob
         | Some i \<Rightarrow> ob\<lparr>ob_toast := Some (completion_toast i), ob_navigate := Some ''/dashboard''\<rparr>)
      else ob)"

definition handle_back :: "onboarding \<Rightarrow> onboarding" where
  "handle_back ob = (if 1 < ob_step ob then ob\<lparr>ob_step := ob_step ob - 1\<rparr> else ob)"

definition continue_enabled :: "onboarding \<Rightarrow> bool" where
  "continue_enabled ob \<longleftrightarrow> \<not> (ob_step ob = 1 \<and> ob_intent ob = None)"

datatype ob_action = Select_intent seller_intent | Continue | Back

text \<open>One click, if the page offers it.\<close>

fun ob_click :: "ob_action \<Rightarrow> onboarding \<Rightarrow> onboarding" where
  "ob_click (Select_intent i) ob = (if ob_step ob = 1 then handle_intent_select i ob else ob)"
| "ob_click Continue ob = (if continue_enabled ob then handle_continue ob else ob)"
| "ob_click Back ob = (if 1 < ob_step ob then handle_back ob else ob)"

definition ob_run :: "ob_action list \<Rightarrow> onboarding" where
  "ob_run acts = fold ob_click acts onboarding_init"

text \<open>The roles behind the intents, as the specification's tiers name them (see
  \<open>FeePolicy\<close>), and the numbers a reader takes from the page's texts: the last
  number of a listings line, and \<open>parseFloat\<close> of a commission text (after the
  bullet in a price line).\<close>

fun intent_role :: "seller_intent \<Rightarrow> app_role" where
  "intent_role Private_holder = Observer"
| "intent_role Verified_dealer = Individual_seller"
| "intent_role Certified_partner = Super_seller"

definition advertised_limit :: "string \<Rightarrow> nat option" where
  "advertised_limit s =
     (let ds = takeWhile is_digit (dropWhile (\<lambda>c. \<not> is_digit c) (rev s))
      in if ds = [] then None else Some (digits_val (rev ds)))"

definition price_rate :: "string \<Rightarrow> rat option" where
  "price_rate p = js_parse_float (drop 1 (dropWhile (\<lambda>c. c \<noteq> CHR 0xA2) p))"

definition ob_ok :: "onboarding \<Rightarrow> bool" where
  "ob_ok ob \<longleftrightarrow> 1 \<le> ob_step ob \<and> ob_step ob \<le> 3 \<and> (2 \<le> ob_step ob \<longrightarrow> ob_intent ob \<noteq> None)"

section \<open>Rendering\<close>

text \<open>The \<open>steps\<close> array and the progress bar: a step before the current one shows a
  check mark, the current one its number in the primary colour, a later one its number
  muted; the connector after a step is filled once that step is done, and the last
  step has none.\<close>

definition ob_steps :: "(nat \<times> string \<times> string) list" where
  "ob_steps = [(1, ''Intent'', ''Your selling role''), (2, ''Details'', ''Role confirmation''),
               (3, ''Verification'', ''Identity check'')]"

datatype step_marker = Step_done | Step_current | Step_upcoming

record step_view =
  sv_marker :: step_marker
  sv_name_strong :: bool
  sv_name :: string
  sv_description :: string
  sv_connector :: "bool option"

definition step_indicator :: "onboarding \<Rightarrow> step_view list" where
  "step_indicator ob =
     map (\<lambda>(k, i, n, dsc).
            \<lparr> sv_marker = (if i < ob_step ob then Step_done else if ob_step ob = i then Step_current else Step_upcoming),
              sv_name_strong = (i \<le> ob_step ob), sv_name = n, sv_description = dsc,
              sv_connector = (if k \<noteq> length ob_steps - 1 then Some (i < ob_step ob) else None) \<rparr>)
         (enumerate 0 ob_steps)"

text \<open>Step 1: the three intent buttons, the chosen one highlighted.\<close>

record intent_card =
  ic_intent :: seller_intent
  ic_price :: string
  ic_title :: string
  ic_blurb :: string
  ic_features :: "string list"
  ic_popular :: bool
  ic_selected :: bool

definition intent_cards :: "onboarding \<Rightarrow> intent_card list" where
  "intent_cards ob =
     [\<lparr> ic_intent = Private_holder, ic_price = ''Free '' @ bullet @ '' 3.5% commission'',
        ic_title = ''Private Holder'', ic_blurb = ''Selling a personal timepiece with no monthly commitment.'',
        ic_features = [''1'' @ en_dash @ ''3 active listings'', ''Standard review queue'', ''Identity verification''],
        ic_popular = False, ic_selected = (ob_intent ob = Some Private_holder) \<rparr>,
      \<lparr> ic_intent = Verified_dealer, ic_price = ''$50/month '' @ bullet @ '' 2.5% commission'',
        ic_title = ''Verified Dealer'', ic_blurb = ''Repeat sellers who value speed, tools, and credibility.'',
        ic_features = [''Up to 25 active listings'', ''Priority review queue'', ''Listing templates & tools''],
        ic_popular = True, ic_selected = (ob_intent ob = Some Verified_dealer) \<rparr>,
      \<lparr> ic_intent = Certified_partner, ic_price = ''$195/month '' @ bullet @ '' 0% commission'',
        ic_title = ''Certified Partner'', ic_blurb = ''Institutional-grade access for high-volume operations.'',
        ic_features = [''Unlimited listings'', ''Branded storefront'', ''Advanced analytics''],
        ic_popular = False, ic_selected = (ob_intent ob = Some Certified_partner) \<rparr>]"

text \<open>Step 2: the heading, the three ``Role Requirements'' that hold for every tier,
  and the ``Your Tier Includes'' list of the chosen intent.\<close>

definition role_requirements :: "(string \<times> string) list" where
  "role_requirements =
     [(''Identity Verification'',
       ''Complete government ID verification to build trust with buyers. This is required for all sellers on the exchange.''),
      (''Structured Listings'',
       ''Each listing requires structured details: brand, model, reference number, condition, and a 6-photo documentation set.''),
      (''Listing Approval'',
       ''All listings undergo admin review before going live. This ensures every watch meets exchange standards.'')]"

fun tier_title :: "seller_intent \<Rightarrow> string" where
  "tier_title Private_holder = ''Private Holder''"
| "tier_title Verified_dealer = ''Verified Dealer''"
| "tier_title Certified_partner = ''Certified Exchange Partner''"

fun tier_includes :: "seller_intent \<Rightarrow> string list" where
  "tier_includes Private_holder =
     [''1'' @ en_dash @ ''3 active listings'', ''3.5% commission per sale'', ''Standard review queue'',
      ''No monthly commitment'']"
| "tier_includes Verified_dealer =
     [''Up to 25 active listings'', ''2.5% commission per sale'', ''Priority review queue'',
      ''$50/month subscription'', ''Listing templates'', ''Basic performance insights'']"
| "tier_includes Certified_partner =
     [''Unlimited listings'', ''0% commission'', ''Priority verification'', ''$195/month subscription'',
      ''Branded storefront'', ''Advanced analytics'', ''Dedicated support'', ''Early access to tools'']"

text \<open>Step 3: the heading and introduction, the three documents, the ``What Happens
  Next'' text of the intent and the note on the verification partner.\<close>

definition verification_intro :: "string \<times> string" where
  "verification_intro =
     (''Identity Verification'',
      ''All sellers must complete identity verification. This builds trust and protects the exchange community.'')"

definition verification_privacy_note :: string where
  "verification_privacy_note =
     ''Your information is encrypted and processed securely through our verification partner.''"

definition verification_needs :: "string list" where
  "verification_needs = [''Government-Issued ID'', ''Proof of Address'', ''Selfie Verification'']"

fun next_steps_text :: "seller_intent \<Rightarrow> string" where
  "next_steps_text Private_holder =
     ''After completing this step, you'll be able to create up to 3 listings. Verification typically completes within 24-48 hours.''"
| "next_steps_text Verified_dealer =
     ''You'll be redirected to set up your $50/month subscription, then complete identity verification. Priority review ensures faster approval.''"
| "next_steps_text Certified_partner =
     ''Our team will review your partnership application and contact you within 48 hours. Priority verification is included with your tier.''"

datatype ob_body =
    Intent_step "intent_card list"
  | Details_step string "(string \<times> string) list" "string list"
  | Verification_step "string \<times> string" "string list" "string option" string
  | No_step

definition ob_body :: "onboarding \<Rightarrow> ob_body" where
  "ob_body ob =
     (if ob_step ob = 1 then Intent_step (intent_cards ob)
      else if ob_step ob = 2 then
        (case ob_intent ob of Some i \<Rightarrow> Details_step (tier_title i) role_requirements (tier_includes i) | None \<Rightarrow> No_step)
      else if ob_step ob = 3 then
        Verification_step verification_intro verification_needs (map_option next_steps_text (ob_intent ob))
          verification_privacy_note
      else No_step)"

text \<open>The page header: the logo links home and ``Skip for now'' to the dashboard.\<close>

definition ob_header_links :: "(string \<times> string) list" where
  "ob_header_links = [(''/'', ''Prestige Exchange''), (''/dashboard'', ''Skip for now'')]"

text \<open>The navigation row: Back after step 1, else a link to the dashboard; the
  Continue button's label and its \<open>disabled\<close> condition.  \<open>handleContinue\<close> sets and
  clears \<open>isSubmitting\<close> in one synchronous call, so the page renders with it false;
  the label function keeps the flag as the code has it.\<close>

datatype back_control = Back_button | Dashboard_link

definition continue_label :: "bool \<Rightarrow> onboarding \<Rightarrow> string" where
  "continue_label submitting ob =
     (if submitting then ''Processing...''
      else if ob_step ob = 3 then
        (if ob_intent ob = Some Private_holder then ''Complete Setup''
         else if ob_intent ob = Some Verified_dealer then ''Continue to Subscription''
         else ''Submit Application'')
      else ''Continue'')"

definition continue_disabled :: "bool \<Rightarrow> onboarding \<Rightarrow> bool" where
  "continue_disabled submitting ob \<longleftrightarrow> ob_step ob = 1 \<and> ob_intent ob = None \<or> submitting"

record ob_view =
  ov_header :: "(string \<times> string) list"
  ov_steps :: "step_view list"
  ov_body :: ob_body
  ov_back :: back_control
  ov_continue :: string
  ov_continue_disabled :: bool

definition ob_view :: "onboarding \<Rightarrow> ob_view" where
  "ob_view ob =
     \<lparr> ov_header = ob_header_links, ov_steps = step_indicator ob, ov_body = ob_body ob,
       ov_back = (if 1 < ob_step ob then Back_button else Dashboard_link),
       ov_continue = continue_label False ob,
       ov_continue_disabled = continue_disabled False ob \<rparr>"

text \<open>The page: a spinner while the session loads, nothing without a user (the
  effect redirects to sign-up), else the wizard.\<close>

datatype ob_page = Ob_spinner | Ob_nothing | Ob_wizard ob_view

definition ob_page :: "bool \<Rightarrow> uid option \<Rightarrow> onboarding \<Rightarrow> ob_page" where
  "ob_page loading user ob =
     (if loading then Ob_spinner else if user = None then Ob_nothing else Ob_wizard (ob_view ob))"

section \<open>Properties\<close>

lemma ob_ok_click: "ob_ok ob \<Longrightarrow> ob_ok (ob_click a ob)"
  by (cases a) (auto simp: ob_ok_def handle_intent_select_def continue_enabled_def
                           handle_continue_def handle_back_def split: option.splits)

lemma ob_ok_fold: "ob_ok ob \<Longrightarrow> ob_ok (fold ob_click acts ob)"
  by (induction acts arbitrary: ob) (simp_all add: ob_ok_click)

lemma ob_ok_steps: "ob_ok ob \<Longrightarrow> ob_step ob = 1 \<or> ob_step ob = 2 \<or> ob_step ob = 3"
  by (auto simp: ob_ok_def)

lemma ob_ok_run: "ob_ok (ob_run acts)"
  unfolding ob_run_def by (rule ob_ok_fold) (simp add: ob_ok_def onboarding_init_def)

text \<open>Whatever the user clicks, the wizard stays on one of its three steps and is
  past step 1 only with an intent chosen.\<close>

theorem onboarding_steps_ok: "ob_ok (ob_run acts)"
  by (rule ob_ok_run)

text \<open>Completing the wizard as a Private Holder greets the user as able to list
  watches and sends them to the dashboard, but changes no role: an observer is still
  refused by the listing form.\<close>

theorem private_holder_onboarding_grants_nothing:
  "ob_run [Select_intent Private_holder, Continue, Continue, Continue]
     = \<lparr>ob_step = 3, ob_intent = Some Private_holder, ob_toast = Some ''Welcome, Private Holder'',
        ob_navigate = Some ''/dashboard''\<rparr>
   \<and> onboarding_entry (Some u) (Some Observer) = None
   \<and> snd (create_listing (Some u) (Some Observer) y f ph ok acc nid d) = Seller_account_required"
  by (simp add: ob_run_def onboarding_init_def handle_intent_select_def continue_enabled_def
       handle_continue_def onboarding_entry_def onboarding_redirects_def create_listing_def can_sell_def)

text \<open>The progress bar follows the wizard: whatever the user clicks, the steps before
  the current one are checked, the current one is marked, the later ones are muted.\<close>

theorem step_indicator_tracks_step:
  "map sv_marker (step_indicator (ob_run acts))
     = replicate (ob_step (ob_run acts) - 1) Step_done @ [Step_current]
       @ replicate (3 - ob_step (ob_run acts)) Step_upcoming"
  using ob_ok_steps [OF ob_ok_run [of acts]]
  by (elim disjE) (simp_all add: step_indicator_def ob_steps_def numeral_2_eq_2)

text \<open>Every reachable state of the wizard renders a body: step 2 always has the
  chosen tier to describe and step 3 its ``What Happens Next'' text; and the Continue
  button is disabled exactly when a click on it would be ignored.\<close>

theorem wizard_body_shown:
  "ob_body (ob_run acts) \<noteq> No_step
   \<and> (\<forall>h ns n. ob_body (ob_run acts) \<noteq> Verification_step h ns None n)
   \<and> ov_continue_disabled (ob_view (ob_run acts)) = (\<not> continue_enabled (ob_run acts))"
  using ob_ok_run [of acts]
  by (auto simp: ob_ok_def ob_body_def ob_view_def continue_disabled_def continue_enabled_def
           split: option.splits)

text \<open>The wizard advertises, for each intent, the commission and listing limit that
  the fee policy and the quota enforcer apply to the intent's role: on the intent card
  of step 1 and in the tier list of step 2.\<close>

theorem onboarding_tiers_match_fee_policy:
  assumes "c \<in> set (intent_cards ob)"
  shows "price_rate (ic_price c) = Some (100 * base_commission_rate (intent_role (ic_intent c)))
         \<and> advertised_limit (hd (ic_features c)) = listing_limit (intent_role (ic_intent c))
         \<and> js_parse_float (tier_includes (ic_intent c) ! 1) = Some (100 * base_commission_rate (intent_role (ic_intent c)))
         \<and> advertised_limit (hd (tier_includes (ic_intent c))) = listing_limit (intent_role (ic_intent c))"
  using assms
  by (auto simp: intent_cards_def price_rate_def advertised_limit_def js_parse_float_def js_sign_def
                 is_digit_def digits_val_def bullet_def en_dash_def)

text \<open>A Verified Dealer is told on step 3 that they will be redirected to set up the
  subscription and is offered ``Continue to Subscription''; the click toasts and
  navigates to the dashboard, with no subscription step.\<close>

theorem dealer_subscription_goes_to_dashboard:
  "ov_continue (ob_view (ob_run [Select_intent Verified_dealer, Continue, Continue])) = ''Continue to Subscription''
   \<and> ov_body (ob_view (ob_run [Select_intent Verified_dealer, Continue, Continue]))
       = Verification_step verification_intro verification_needs (Some (next_steps_text Verified_dealer))
           verification_privacy_note
   \<and> ob_navigate (ob_run [Select_intent Verified_dealer, Continue, Continue, Continue]) = Some ''/dashboard''"
  by (simp add: ob_run_def onboarding_init_def handle_intent_select_def continue_enabled_def
       handle_continue_def ob_view_def ob_body_def continue_label_def)

end
