(* ===== verification/Auth.thy ===== *)
theory Auth
  imports Prelude
begin

text \<open>
  The sign-in and sign-up page (\<open>Auth.tsx\<close>): the form's fields and mode, its
  validation (the zod \<open>authSchema\<close> and the confirmation check of \<open>validateForm\<close>),
  \<open>handleSubmit\<close> with its toasts, and the mode switch.  Supabase's \<open>signUp\<close> and
  \<open>signIn\<close> are parameters returning an error message or success, and zod's
  \<open>.email()\<close> check is the parameter \<open>email_ok\<close>: both are library code.
\<close>

record auth_errors =
  err_email :: "string option"
  err_password :: "string option"
  err_confirm :: "string option"

record auth_form =
  af_sign_up :: bool
  af_email :: string
  af_password :: string
  af_confirm :: string
  af_errors :: auth_errors

definition auth_form_init :: "string option \<Rightarrow> auth_form" where
  "auth_form_init mode =
     \<lparr> af_sign_up = (mode = Some ''signup''), af_email = [], af_password = [], af_confirm = [],
       af_errors = \<lparr>err_email = None, err_password = None, err_confirm = None\<rparr> \<rparr>"

definition validate_form :: "(string \<Rightarrow> bool) \<Rightarrow> auth_form \<Rightarrow> auth_errors" where
  "validate_form email_ok f =
     \<lparr> err_email = (if email_ok (af_email f) then None else Some ''Please enter a valid email address''),
       err_password = (if 8 \<le> length (af_password f) then None else Some ''Password must be at least 8 characters''),
       err_confirm = (if af_sign_up f \<and> af_password f \<noteq> af_confirm f then Some ''Passwords do not match'' else None) \<rparr>"

definition no_errors :: "auth_errors \<Rightarrow> bool" where
  "no_errors e \<longleftrightarrow> err_email e = None \<and> err_password e = None \<and> err_confirm e = None"

datatype auth_outcome =
    Form_errors
  | Toast_account_exists
  | Toast_signup_error string
  | Welcome_signed_up
  | Toast_signin_failed
  | Signed_in

text \<open>What the answer of \<open>signUp\<close> or \<open>signIn\<close> shows; a successful sign-up or sign-in
  navigates to the dashboard.\<close>

definition auth_answer :: "bool \<Rightarrow> string + unit \<Rightarrow> auth_outcome" where
  "auth_answer signing_up r =
     (if signing_up then
        (case r of
           Inl m \<Rightarrow> if js_includes m ''already registered'' then Toast_account_exists else Toast_signup_error m
         | Inr _ \<Rightarrow> Welcome_signed_up)
      else (case r of Inl _ \<Rightarrow> Toast_signin_failed | Inr _ \<Rightarrow> Signed_in))"

text \<open>\<open>handleSubmit\<close>: the new form state and what the user sees.\<close>

definition handle_submit ::
  "(string \<Rightarrow> bool) \<Rightarrow> (string \<Rightarrow> string \<Rightarrow> string + unit) \<Rightarrow> (string \<Rightarrow> string \<Rightarrow> string + unit) \<Rightarrow>
     auth_form \<Rightarrow> auth_form \<times> auth_outcome" where
  "handle_submit email_ok sign_up sign_in f =
     (let e = validate_form email_ok f; f' = f\<lparr>af_errors := e\<rparr> in
      if \<not> no_errors e then (f', Form_errors)
      else (f', auth_answer (af_sign_up f)
                  (if af_sign_up f then sign_up (af_email f) (af_password f) else sign_in (af_email f) (af_password f))))"

definition toggle_mode :: "auth_form \<Rightarrow> auth_form" where
  "toggle_mode f =
     f\<lparr>af_sign_up := \<not> af_sign_up f, af_errors := \<lparr>err_email = None, err_password = None, err_confirm = None\<rparr>\<rparr>"

section \<open>The page over time\<close>

text \<open>\<open>handleSubmit\<close> awaits Supabase, so the page is a transition function: the
  inputs and the submit button are disabled while \<open>isLoading\<close>, the mode switch is
  not; the request in flight keeps the mode and credentials it was sent with.  The
  effect on \<open>user\<close> sends a signed-in visitor to the dashboard.\<close>

definition auth_redirect :: "'u option \<Rightarrow> string option" where
  "auth_redirect user = (if user = None then None else Some ''/dashboard'')"

record auth_page =
  apg_form :: auth_form
  apg_loading :: bool
  apg_pending :: "(bool \<times> string \<times> string) option"
  apg_outcome :: "auth_outcome option"

definition auth_page_init :: "string option \<Rightarrow> auth_page" where
  "auth_page_init mode = \<lparr> apg_form = auth_form_init mode, apg_loading = False, apg_pending = None, apg_outcome = None \<rparr>"

datatype auth_event =
    Type_email string
  | Type_password string
  | Type_confirm string
  | Toggle_mode
  | Submit_auth
  | Auth_answer "string + unit"

definition submit_start :: "(string \<Rightarrow> bool) \<Rightarrow> auth_page \<Rightarrow> auth_page" where
  "submit_start email_ok s =
     (let f = apg_form s; e = validate_form email_ok f in
      if \<not> no_errors e then s\<lparr>apg_form := f\<lparr>af_errors := e\<rparr>, apg_outcome := Some Form_errors\<rparr>
      else s\<lparr>apg_form := f\<lparr>af_errors := e\<rparr>, apg_loading := True,
             apg_pending := Some (af_sign_up f, af_email f, af_password f)\<rparr>)"

fun auth_step :: "(string \<Rightarrow> bool) \<Rightarrow> auth_event \<Rightarrow> auth_page \<Rightarrow> auth_page" where
  "auth_step email_ok (Type_email x) s =
     (if apg_loading s then s else s\<lparr>apg_form := (apg_form s)\<lparr>af_email := x\<rparr>\<rparr>)"
| "auth_step email_ok (Type_password x) s =
     (if apg_loading s then s else s\<lparr>apg_form := (apg_form s)\<lparr>af_password := x\<rparr>\<rparr>)"
| "auth_step email_ok (Type_confirm x) s =
     (if apg_loading s then s else s\<lparr>apg_form := (apg_form s)\<lparr>af_confirm := x\<rparr>\<rparr>)"
| "auth_step email_ok Toggle_mode s = s\<lparr>apg_form := toggle_mode (apg_form s)\<rparr>"
| "auth_step email_ok Submit_auth s = (if apg_loading s then s else submit_start email_ok s)"
| "auth_step email_ok (Auth_answer r) s =
     (case apg_pending s of
        None \<Rightarrow> s
      | Some (m, _, _) \<Rightarrow> s\<lparr>apg_loading := False, apg_pending := None, apg_outcome := Some (auth_answer m r)\<rparr>)"

definition auth_run :: "(string \<Rightarrow> bool) \<Rightarrow> string option \<Rightarrow> auth_event list \<Rightarrow> auth_page" where
  "auth_run email_ok mode es = fold (auth_step email_ok) es (auth_page_init mode)"

section \<open>Rendering\<close>

record auth_view =
  av_heading :: string
  av_subtitle :: string
  av_fields :: "(string \<times> string option) list"
  av_inputs_disabled :: bool
  av_button :: string
  av_button_disabled :: bool
  av_toggle :: string

definition auth_view :: "auth_page \<Rightarrow> auth_view" where
  "auth_view s =
     (let f = apg_form s; e = af_errors f; up = af_sign_up f in
      \<lparr> av_heading = (if up then ''Join the Exchange'' else ''Welcome Back''),
        av_subtitle = (if up then ''Create your account to access verified luxury timepieces.''
                       else ''Sign in to your account to continue.''),
        av_fields = [(''Email'', err_email e), (''Password'', err_password e)]
                    @ (if up then [(''Confirm Password'', err_confirm e)] else []),
        av_inputs_disabled = apg_loading s,
        av_button = (if apg_loading s then (if up then ''Creating Account...'' else ''Signing In...'')
                     else if up then ''Create Account'' else ''Sign In''),
        av_button_disabled = apg_loading s,
        av_toggle = (if up then ''Already have an account? Sign in'' else ''Don't have an account? Create one'') \<rparr>)"

text \<open>The right panel's claims.\<close>

definition auth_side_panel :: "string \<times> string \<times> (string \<times> string) list" where
  "auth_side_panel =
     (''Trust-First Exchange'',
      ''Every seller verified. Every timepiece authenticated. Every transaction protected. Join a community built on integrity.'',
      [(''100%'', ''Verified Sellers''), (''KYC'', ''Identity Verified''), (''Secure'', ''Payment Protection'')])"

section \<open>Properties\<close>

text \<open>A pending request holds credentials that passed validation, and \<open>isLoading\<close>
  is set exactly while one is pending.\<close>

definition pending_valid :: "(string \<Rightarrow> bool) \<Rightarrow> auth_page \<Rightarrow> bool" where
  "pending_valid email_ok s \<longleftrightarrow>
     (case apg_pending s of None \<Rightarrow> \<not> apg_loading s
      | Some (m, e, p) \<Rightarrow> apg_loading s \<and> email_ok e \<and> 8 \<le> length p)"

text \<open>C40: The page reaches Supabase only with a valid form: whenever \<open>handleSubmit\<close>
  reports anything but form errors, the e-mail passed the check, the password has at
  least 8 characters and, for a sign-up, the confirmation matches.\<close>

theorem submit_requires_valid_form:
  assumes "snd (handle_submit email_ok sign_up sign_in f) \<noteq> Form_errors"
  shows "email_ok (af_email f) \<and> 8 \<le> length (af_password f)
         \<and> (af_sign_up f \<longrightarrow> af_password f = af_confirm f)"
  using assms
  by (auto simp: handle_submit_def Let_def no_errors_def validate_form_def split: if_splits)

text \<open>The mode switch stays enabled while a request is in flight: after submitting a
  valid sign-up and switching mode, the button reads ``Signing In...'' and the
  fields are the sign-in form's, while the request is a sign-up, whose answer then
  welcomes a new account.\<close>

theorem toggle_during_signup_mislabels:
  assumes "af_sign_up f" "no_errors (validate_form email_ok f)"
  shows "av_button (auth_view (fold (auth_step email_ok) [Submit_auth, Toggle_mode]
                                 \<lparr>apg_form = f, apg_loading = False, apg_pending = None, apg_outcome = None\<rparr>))
           = ''Signing In...''
         \<and> apg_pending (fold (auth_step email_ok) [Submit_auth, Toggle_mode]
                         \<lparr>apg_form = f, apg_loading = False, apg_pending = None, apg_outcome = None\<rparr>)
           = Some (True, af_email f, af_password f)
         \<and> apg_outcome (fold (auth_step email_ok) [Submit_auth, Toggle_mode, Auth_answer (Inr ())]
                         \<lparr>apg_form = f, apg_loading = False, apg_pending = None, apg_outcome = None\<rparr>)
           = Some Welcome_signed_up"
  using assms
  by (simp add: submit_start_def toggle_mode_def auth_view_def auth_answer_def Let_def)

text \<open>Along any run of the page, including mode switches during a request, a pending
  request holds credentials that passed validation.\<close>

lemma pending_valid_step: "pending_valid email_ok s \<Longrightarrow> pending_valid email_ok (auth_step email_ok ev s)"
  by (cases ev) (auto simp: pending_valid_def submit_start_def validate_form_def no_errors_def Let_def
                      split: option.splits)

lemma pending_valid_run: "pending_valid email_ok (auth_run email_ok mode es)"
proof -
  have "pending_valid email_ok s \<Longrightarrow> pending_valid email_ok (fold (auth_step email_ok) es s)" for s
    by (induction es arbitrary: s) (simp_all add: pending_valid_step)
  then show ?thesis
    by (simp add: auth_run_def pending_valid_def auth_page_init_def)
qed

end
