(* ===== verification/Community.thy ===== *)
theory Community
  imports Roles
begin

text \<open>
  The community page (\<open>src/src/pages/Community.tsx\<close>) over the \<open>posts\<close> and
  \<open>comments\<close> tables of \<open>types.ts\<close>.  The page only reads: it lists the posts of the
  category named by the URL's \<open>category\<close> parameter, newest first, each with its
  author's name and its number of comments, and offers the category buttons, the
  New Post button (to roles that may post) and the membership call to action (to the
  others).  The two tables are kept in a record \<open>forum\<close> of their own, beside the
  \<open>db\<close> record of the tables the rest of the application writes.
\<close>

section \<open>Tables\<close>

datatype post_category = Market_insights | Reference_guides | Authentication

fun post_category_name :: "post_category \<Rightarrow> string" where
  "post_category_name Market_insights = ''market_insights''"
| "post_category_name Reference_guides = ''reference_guides''"
| "post_category_name Authentication = ''authentication''"

text \<open>Postgres casts a filter value to the enum; any other string is an error.\<close>

definition parse_post_category :: "string \<Rightarrow> post_category option" where
  "parse_post_category s =
     find (\<lambda>c. post_category_name c = s) [Market_insights, Reference_guides, Authentication]"

record post_row =
  p_id :: row_id
  author_id :: uid
  category :: post_category
  title :: string
  content :: string
  p_created_at :: timestamp

record comment_row =
  cm_id :: row_id
  cm_post_id :: row_id
  cm_author_id :: uid
  cm_content :: string
  parent_id :: "row_id option"
  cm_created_at :: timestamp

record forum =
  posts :: "post_row list"
  comments :: "comment_row list"

section \<open>The page\<close>

text \<open>\<open>categoryLabels\<close>, in its declaration order (the order of the filter buttons).\<close>

definition category_labels :: "(string \<times> string) list" where
  "category_labels =
     [(''market_insights'', ''Market Insights''), (''reference_guides'', ''Reference Guides''),
      (''authentication'', ''Authentication'')]"

text \<open>The \<open>Post\<close> interface: \<open>profiles\<close> is \<open>null\<close> without a profile row, and its
  \<open>full_name\<close> may itself be \<open>null\<close>.\<close>

record post_card =
  pc_id :: row_id
  pc_title :: string
  pc_content :: string
  pc_category :: post_category
  pc_created_at :: timestamp
  pc_profile :: "string option option"
  pc_comment_count :: nat

definition selected_category :: "string option \<Rightarrow> string" where
  "selected_category p = (case p of None \<Rightarrow> ''all'' | Some s \<Rightarrow> if s = [] then ''all'' else s)"

text \<open>The posts query of \<open>fetchPosts\<close>: ordered by \<open>created_at\<close> descending (rows with
  equal timestamps keep their table order), filtered by category unless \<open>all\<close> is
  selected; \<open>None\<close> is the error of a category that is not an enum value.\<close>

definition post_query :: "string \<Rightarrow> post_row list \<Rightarrow> post_row list option" where
  "post_query sel ps =
     (let ordered = sort_key (\<lambda>p. - int (p_created_at p)) ps in
      if sel \<noteq> ''all'' then
        (case parse_post_category sel of
           None \<Rightarrow> None
         | Some c \<Rightarrow> Some (filter (\<lambda>p. category p = c) ordered))
      else Some ordered)"

text \<open>The head-only count query on \<open>comments\<close> and the \<open>maybeSingle\<close> profile query,
  joined into one \<open>Post\<close>.\<close>

definition post_with_data :: "forum \<Rightarrow> db \<Rightarrow> post_row \<Rightarrow> post_card" where
  "post_with_data fr d p =
     (let count = length (filter (\<lambda>c. cm_post_id c = p_id p) (comments fr));
          profile = data_or_null (maybe_single (filter (\<lambda>r. user_id r = author_id p) (profiles d)))
      in \<lparr> pc_id = p_id p, pc_title = title p, pc_content = content p, pc_category = category p,
           pc_created_at = p_created_at p, pc_profile = map_option full_name profile,
           pc_comment_count = count \<rparr>)"

definition fetch_posts :: "string \<Rightarrow> forum \<Rightarrow> db \<Rightarrow> post_card list option" where
  "fetch_posts sel fr d = map_option (map (post_with_data fr d)) (post_query sel (posts fr))"

record community_state =
  cs_search :: "string option"
  cs_posts :: "post_card list"
  cs_loading :: bool

definition community_init :: "string option \<Rightarrow> community_state" where
  "community_init p = \<lparr>cs_search = p, cs_posts = [], cs_loading = True\<rparr>"

text \<open>\<open>fetchPosts\<close> as a whole: without data the previous posts stay.\<close>

definition community_fetch :: "forum \<Rightarrow> db \<Rightarrow> community_state \<Rightarrow> community_state" where
  "community_fetch fr d s =
     (case fetch_posts (selected_category (cs_search s)) fr d of
        None \<Rightarrow> s\<lparr>cs_loading := False\<rparr>
      | Some ps \<Rightarrow> s\<lparr>cs_posts := ps, cs_loading := False\<rparr>)"

text \<open>A filter button sets the search parameters; the effect refetches only when the
  selected category changes.\<close>

definition set_search_params :: "string option \<Rightarrow> forum \<Rightarrow> db \<Rightarrow> community_state \<Rightarrow> community_state" where
  "set_search_params p fr d s =
     (let s' = s\<lparr>cs_search := p\<rparr> in
      if selected_category p \<noteq> selected_category (cs_search s) then community_fetch fr d s' else s')"

datatype community_button = All_button | Category_button string

fun click_filter :: "community_button \<Rightarrow> forum \<Rightarrow> db \<Rightarrow> community_state \<Rightarrow> community_state" where
  "click_filter All_button fr d s = set_search_params None fr d s"
| "click_filter (Category_button k) fr d s = set_search_params (Some k) fr d s"

definition filter_buttons :: "community_button list" where
  "filter_buttons = All_button # map (\<lambda>(k, l). Category_button k) category_labels"

section \<open>Rendering\<close>

definition author_label :: "string option option \<Rightarrow> string" where
  "author_label p = (case p of Some (Some n) \<Rightarrow> if n = [] then ''Anonymous'' else n | _ \<Rightarrow> ''Anonymous'')"

record post_view =
  pv_link :: string
  pv_label :: "string option"
  pv_author :: string
  pv_title :: string
  pv_content :: string
  pv_comments :: nat

definition post_view_of :: "post_card \<Rightarrow> post_view" where
  "post_view_of c =
     \<lparr> pv_link = ''/community/'' @ pc_id c,
       pv_label = map_of category_labels (post_category_name (pc_category c)),
       pv_author = author_label (pc_profile c), pv_title = pc_title c, pv_content = pc_content c,
       pv_comments = pc_comment_count c \<rparr>"

datatype community_body =
    Loading_skeleton
  | No_posts "string option"
  | Post_list "post_view list"

record community_view =
  cv_new_post :: "string option"
  cv_active_filter :: "community_button option"
  cv_body :: community_body
  cv_cta :: "string option"

definition community_render :: "app_role option \<Rightarrow> community_state \<Rightarrow> community_view" where
  "community_render r s =
     (let sel = selected_category (cs_search s); post = can_post r in
      \<lparr> cv_new_post = (if post then Some ''/community/new'' else None),
        cv_active_filter = find (\<lambda>b. case b of All_button \<Rightarrow> sel = ''all'' | Category_button k \<Rightarrow> sel = k)
                             filter_buttons,
        cv_body = (if cs_loading s then Loading_skeleton
                   else if cs_posts s = [] then No_posts (if post then Some ''/community/new'' else None)
                   else Post_list (map post_view_of (cs_posts s))),
        cv_cta = (if post then None else Some ''/pricing'') \<rparr>)"

text \<open>Every link target the rendered page holds, in page order.\<close>

fun body_links :: "community_body \<Rightarrow> string list" where
  "body_links Loading_skeleton = []"
| "body_links (No_posts l) = (case l of None \<Rightarrow> [] | Some t \<Rightarrow> [t])"
| "body_links (Post_list vs) = map pv_link vs"

definition community_links :: "community_view \<Rightarrow> string list" where
  "community_links v =
     (case cv_new_post v of None \<Rightarrow> [] | Some t \<Rightarrow> [t]) @ body_links (cv_body v)
     @ (case cv_cta v of None \<Rightarrow> [] | Some t \<Rightarrow> [t])"

section \<open>Properties\<close>

lemma parse_post_category_name [simp]: "parse_post_category (post_category_name c) = Some c"
  by (cases c) (simp_all add: parse_post_category_def)

lemma parse_post_category_Some: "parse_post_category s = Some c \<Longrightarrow> post_category_name c = s"
  by (auto simp: parse_post_category_def split: if_splits)

lemma post_category_name_inj [simp]: "post_category_name a = post_category_name b \<longleftrightarrow> a = b"
  by (cases a; cases b) simp_all

lemma post_with_data_sel [simp]:
  "pc_id (post_with_data fr d p) = p_id p"
  "pc_category (post_with_data fr d p) = category p"
  "pc_created_at (post_with_data fr d p) = p_created_at p"
  "pc_comment_count (post_with_data fr d p) = length (filter (\<lambda>c. cm_post_id c = p_id p) (comments fr))"
  by (simp_all add: post_with_data_def Let_def)

lemma post_query_Some:
  assumes "sel = ''all'' \<or> parse_post_category sel \<noteq> None"
  shows "post_query sel ps = Some (filter (\<lambda>p. sel = ''all'' \<or> post_category_name (category p) = sel)
                                    (sort_key (\<lambda>p. - int (p_created_at p)) ps))"
proof (cases "sel = ''all''")
  case False
  with assms obtain c where c: "parse_post_category sel = Some c" by blast
  then have "post_category_name c = sel" by (rule parse_post_category_Some)
  with False c show ?thesis by (auto simp: post_query_def intro!: filter_cong)
qed (simp add: post_query_def)

text \<open>A category the enum does not have (a hand-written \<open>?category=\<close> URL) is a failed
  query: the page keeps the posts it showed before, stops loading, and highlights no
  filter button.\<close>

lemma unknown_category_keeps_posts:
  assumes "selected_category (cs_search s) \<noteq> ''all''"
      and "parse_post_category (selected_category (cs_search s)) = None"
  shows "community_fetch fr d s = s\<lparr>cs_loading := False\<rparr>
         \<and> cv_active_filter (community_render r (community_fetch fr d s)) = None"
proof -
  have f: "community_fetch fr d s = s\<lparr>cs_loading := False\<rparr>"
    using assms by (simp add: community_fetch_def fetch_posts_def post_query_def)
  have "selected_category (cs_search s) \<notin> {''market_insights'', ''reference_guides'', ''authentication''}"
    using assms(2) by (auto simp: parse_post_category_def split: if_splits)
  then show ?thesis
    using assms(1) f by (auto simp: community_render_def Let_def filter_buttons_def category_labels_def)
qed

text \<open>The page links only to the New Post form, to the posts, and to the pricing page.\<close>

lemma community_links_targets:
  "set (community_links (community_render r s))
     \<subseteq> {''/community/new'', ''/pricing''} \<union> (\<lambda>c. ''/community/'' @ pc_id c) ` set (cs_posts s)"
  by (auto simp: community_links_def community_render_def Let_def post_view_of_def)

text \<open>Clicking the filter button of the category already shown changes the URL but
  fetches nothing.\<close>

lemma same_filter_no_refetch:
  "selected_category p = selected_category (cs_search s) \<Longrightarrow>
   set_search_params p fr d s = s\<lparr>cs_search := p\<rparr>"
  by (simp add: set_search_params_def)

text \<open>C27: For the \<open>all\<close> selection or a category the enum has, the page's posts query
  returns the posts of that category and only those, each once, newest first, each
  card of the selected category and carrying the number of comments on its post.\<close>

theorem fetch_posts_category:
  assumes "sel = ''all'' \<or> parse_post_category sel \<noteq> None"
  shows "\<exists>cs. fetch_posts sel fr d = Some cs
           \<and> mset (map pc_id cs)
               = mset (map p_id (filter (\<lambda>p. sel = ''all'' \<or> post_category_name (category p) = sel) (posts fr)))
           \<and> sorted (rev (map pc_created_at cs))
           \<and> (\<forall>c \<in> set cs. (sel \<noteq> ''all'' \<longrightarrow> post_category_name (pc_category c) = sel)
                  \<and> pc_comment_count c = length (filter (\<lambda>m. cm_post_id m = pc_id c) (comments fr)))"
proof -
  let ?P = "\<lambda>p. sel = ''all'' \<or> post_category_name (category p) = sel"
  let ?k = "\<lambda>p. - int (p_created_at p)"
  let ?cs = "map (post_with_data fr d) (filter ?P (sort_key ?k (posts fr)))"
  have f: "fetch_posts sel fr d = Some ?cs"
    using post_query_Some [OF assms] by (simp add: fetch_posts_def)
  have m: "mset (map pc_id ?cs) = mset (map p_id (filter ?P (posts fr)))"
    by (simp add: comp_def)
  have "sorted (map ?k (filter ?P (sort_key ?k (posts fr))))"
    by (rule sorted_filter) (rule sorted_sort_key)
  then have s: "sorted (rev (map pc_created_at ?cs))"
    by (simp add: o_def sorted_rev_neg)
  have c: "\<forall>c \<in> set ?cs. (sel \<noteq> ''all'' \<longrightarrow> post_category_name (pc_category c) = sel)
             \<and> pc_comment_count c = length (filter (\<lambda>m. cm_post_id m = pc_id c) (comments fr))"
    by auto
  show ?thesis using f m s c by blast
qed

end
