(* ===== verification/Routes.thy ===== *)
theory Routes
  imports Roles
begin

text \<open>
  Client-side routing (\<open>src/src/App.tsx\<close>): the route table of the \<open>BrowserRouter\<close>
  with its catch-all \<open>NotFound\<close> route, the matching of a URL's path against it as
  react-router does it (a leading slash, segments split at \<open>/\<close>, trailing slashes
  ignored, literal segments compared case-insensitively, a \<open>:param\<close> segment matching
  any non-empty segment), and the link targets the layout (\<open>Header.tsx\<close>,
  \<open>Footer.tsx\<close>), the landing page (\<open>Index.tsx\<close>) and the dashboard render.
  Percent-decoding of the path is not modelled: every link of the application is
  plain ASCII.
\<close>

section \<open>The route table\<close>

datatype page =
    Index_pg | Page2_pg | Appraisal_tool_pg | Browse_sellers_pg | Auth_pg | Browse_pg
  | Dashboard_pg | Community_pg | Create_listing_pg | Pricing_pg | Seller_onboarding_pg
  | Admin_pg | Verification_pg | Listing_detail_pg string | Checkout_success_pg | Not_found_pg

text \<open>The \<open>Route\<close> elements above the catch-all, in order; a page receives the values
  of the path's parameters.\<close>

definition app_routes :: "(string \<times> (string list \<Rightarrow> page)) list" where
  "app_routes =
     [(''/'', \<lambda>_. Index_pg), (''/page-2'', \<lambda>_. Page2_pg), (''/appraisal-tool'', \<lambda>_. Appraisal_tool_pg),
      (''/browse-sellers'', \<lambda>_. Browse_sellers_pg), (''/auth'', \<lambda>_. Auth_pg), (''/browse'', \<lambda>_. Browse_pg),
      (''/dashboard'', \<lambda>_. Dashboard_pg), (''/community'', \<lambda>_. Community_pg),
      (''/sell/new'', \<lambda>_. Create_listing_pg), (''/pricing'', \<lambda>_. Pricing_pg),
      (''/onboarding/seller'', \<lambda>_. Seller_onboarding_pg), (''/admin'', \<lambda>_. Admin_pg),
      (''/verification'', \<lambda>_. Verification_pg), (''/listing/:id'', \<lambda>a. Listing_detail_pg (hd a)),
      (''/checkout/success'', \<lambda>_. Checkout_success_pg)]"

section \<open>Matching a URL\<close>

fun split_on :: "char \<Rightarrow> string \<Rightarrow> string list" where
  "split_on c [] = [[]]"
| "split_on c (x # xs) =
     (if x = c then [] # split_on c xs
      else (case split_on c xs of [] \<Rightarrow> [[x]] | w # ws \<Rightarrow> (x # w) # ws))"

text \<open>The location's pathname: the link up to its query or fragment.\<close>

definition pathname :: "string \<Rightarrow> string" where
  "pathname url = takeWhile (\<lambda>c. c \<noteq> CHR ''?'' \<and> c \<noteq> CHR ''#'') url"

text \<open>\<open>useSearchParams().get(k)\<close>, by the URL standard's \<open>URLSearchParams\<close>: the
  link's query (after the first \<open>?\<close>, up to a fragment) split at \<open>&\<close>, empty
  pieces skipped, each piece a name up to its first \<open>=\<close> and a value after it; the
  value of the first piece named \<open>k\<close>.  Decoding of \<open>+\<close> and of percent escapes is not
  modelled, as for the path.\<close>

definition url_query :: "string \<Rightarrow> string" where
  "url_query url = takeWhile (\<lambda>c. c \<noteq> CHR ''#'') (drop 1 (dropWhile (\<lambda>c. c \<noteq> CHR ''?'') url))"

definition search_get :: "string \<Rightarrow> string \<Rightarrow> string option" where
  "search_get k url =
     map_option (\<lambda>kv. drop 1 (dropWhile (\<lambda>c. c \<noteq> CHR ''='') kv))
       (find (\<lambda>kv. takeWhile (\<lambda>c. c \<noteq> CHR ''='') kv = k) (filter (\<lambda>kv. kv \<noteq> []) (split_on CHR ''&'' (url_query url))))"

text \<open>The segments of an absolute path, trailing slashes dropped; \<open>None\<close> for a path
  without its leading slash.\<close>

definition path_segs :: "string \<Rightarrow> string list option" where
  "path_segs p =
     (case split_on CHR ''/'' p of
        w # ws \<Rightarrow> if w = [] then Some (rev (dropWhile (\<lambda>s. s = []) (rev ws))) else None
      | [] \<Rightarrow> None)"

definition match_seg :: "string \<Rightarrow> string \<Rightarrow> string list option" where
  "match_seg pat s =
     (if pat \<noteq> [] \<and> hd pat = CHR '':'' then (if s = [] then None else Some [s])
      else if js_lower pat = js_lower s then Some [] else None)"

fun match_segs :: "string list \<Rightarrow> string list \<Rightarrow> string list option" where
  "match_segs [] [] = Some []"
| "match_segs (p # ps) (s # ss) =
     (case match_seg p s of None \<Rightarrow> None | Some a \<Rightarrow> map_option ((@) a) (match_segs ps ss))"
| "match_segs _ _ = None"

fun find_route :: "(string \<times> (string list \<Rightarrow> page)) list \<Rightarrow> string list \<Rightarrow> page option" where
  "find_route [] ss = None"
| "find_route ((pat, pg) # rs) ss =
     (case path_segs pat of
        None \<Rightarrow> find_route rs ss
      | Some ps \<Rightarrow> (case match_segs ps ss of None \<Rightarrow> find_route rs ss | Some a \<Rightarrow> Some (pg a)))"

text \<open>The page a link shows: the first route that matches, else the catch-all
  \<open>path="*"\<close> route's \<open>NotFound\<close>.\<close>

definition route_of :: "string \<Rightarrow> page" where
  "route_of url =
     (case path_segs (pathname url) of
        None \<Rightarrow> Not_found_pg
      | Some ss \<Rightarrow> (case find_route app_routes ss of None \<Rightarrow> Not_found_pg | Some pg \<Rightarrow> pg))"

section \<open>Link targets\<close>

text \<open>\<open>Header.tsx\<close>: the navigation (Sell only for a role that can sell), then the
  account menu for a signed-in user (its Dashboard and Settings items navigate) or
  the Sign In and Join links.\<close>

definition header_links :: "bool \<Rightarrow> app_role option \<Rightarrow> string list" where
  "header_links signed_in r =
     [''/'', ''/browse'', ''/community'', ''/appraisal''] @ (if can_sell r then [''/sell''] else [])
     @ (if signed_in then [''/dashboard'', ''/settings''] else [''/auth'', ''/auth?mode=signup''])"

text \<open>The account menu's Sign Out: \<open>handleSignOut\<close> awaits the session's \<open>signOut\<close>
  (a parameter, as \<open>AuthContext\<close> is not in the repository), then navigates home.\<close>

definition handle_sign_out :: "('s \<Rightarrow> 's) \<Rightarrow> 's \<Rightarrow> 's \<times> string" where
  "handle_sign_out sign_out s = (sign_out s, ''/'')"

definition footer_links :: "string list" where
  "footer_links =
     [''/'', ''/browse'', ''/sell'', ''/pricing'', ''/community'', ''/community?category=market_insights'',
      ''/community?category=reference_guides'', ''/how-it-works'', ''/verification'',
      ''/buyer-protection'', ''/privacy'', ''/terms'']"

definition index_links :: "string list" where
  "index_links = [''/browse'', ''/auth?mode=signup'', ''/community'', ''/appraisal-tool'']"

text \<open>\<open>Index.tsx\<close>: the hero's eyebrow, heading and subtitle (JSX folds the line
  breaks of the text into single spaces), and its four buttons, each with the link
  it sits in.\<close>

definition index_hero :: "string \<times> string \<times> string" where
  "index_hero =
     (''The Prestige Watch Exchange'', ''Where Trust Meets Exceptional Timepieces'',
      ''A curated exchange for serious collectors. Every seller verified. Every listing authenticated. Every transaction protected.'')"

definition index_ctas :: "(string \<times> string) list" where
  "index_ctas = zip [''Browse Exchange'', ''Become a Seller'', ''Forums'', ''Watch Appraisal Tool''] index_links"

text \<open>\<open>AppraisalTool.tsx\<close>, the page of \<open>/appraisal-tool\<close>: a heading and a
  ``Coming soon.'' line.\<close>

definition appraisal_tool_page :: "string \<times> string" where
  "appraisal_tool_page = (''Watch Appraisal Tool'', ''Coming soon.'')"

text \<open>\<open>Dashboard.tsx\<close>: the links of the sections \<open>dashboard_view\<close> shows.\<close>

definition dashboard_links :: "dashboard_view \<Rightarrow> string list" where
  "dashboard_links v =
     (if dv_create_listing v then [''/sell/new''] else [])
     @ (if dv_verification_alert v then [''/verification''] else [])
     @ (if dv_private_holder_cta v then [''/onboarding/seller'', ''/pricing''] else [])
     @ (if dv_admin_panel v then [''/admin''] else [])
     @ [''/browse'']
     @ (if dv_my_listings v then [''/dashboard/listings''] else [])
     @ [''/settings'']
     @ (if dv_verification_card v then [''/verification''] else [])
     @ (if dv_transactions v then [''/dashboard/transactions''] else [])"

section \<open>Properties\<close>

lemmas route_simps = route_of_def pathname_def path_segs_def app_routes_def match_seg_def js_lower_def js_lower_char_id

text \<open>Two route patterns are compatible when some path could match both: the same
  number of segments, and at each position a parameter or equal literals.\<close>

fun seg_compat :: "string list \<Rightarrow> string list \<Rightarrow> bool" where
  "seg_compat [] [] = True"
| "seg_compat (p # ps) (q # qs) =
     ((p \<noteq> [] \<and> hd p = CHR '':'' \<or> q \<noteq> [] \<and> hd q = CHR '':'' \<or> js_lower p = js_lower q) \<and> seg_compat ps qs)"
| "seg_compat _ _ = False"

lemma match_segs_Cons_Cons:
  "match_segs (p # ps) (s # ss) \<noteq> None \<longleftrightarrow> match_seg p s \<noteq> None \<and> match_segs ps ss \<noteq> None"
  by (auto split: option.splits)

lemma match_seg_compat:
  "match_seg p s \<noteq> None \<Longrightarrow> match_seg q s \<noteq> None \<Longrightarrow>
   p \<noteq> [] \<and> hd p = CHR '':'' \<or> q \<noteq> [] \<and> hd q = CHR '':'' \<or> js_lower p = js_lower q"
  by (simp add: match_seg_def split: if_splits)

lemma match_segs_compat:
  "match_segs ps ss \<noteq> None \<Longrightarrow> match_segs qs ss \<noteq> None \<Longrightarrow> seg_compat ps qs"
proof (induction ps arbitrary: qs ss)
  case Nil
  then show ?case by (cases ss; cases qs) auto
next
  case (Cons p ps)
  obtain s ss' where ss: "ss = s # ss'"
    using Cons.prems(1) by (cases ss) auto
  obtain q qs' where qs: "qs = q # qs'"
    using Cons.prems(2) ss by (cases qs) auto
  have "match_segs (p # ps) (s # ss') \<noteq> None" "match_segs (q # qs') (s # ss') \<noteq> None"
    using Cons.prems ss qs by simp_all
  then have "match_seg p s \<noteq> None" "match_segs ps ss' \<noteq> None"
            "match_seg q s \<noteq> None" "match_segs qs' ss' \<noteq> None"
    using match_segs_Cons_Cons by blast+
  then show ?case
    using Cons.IH qs match_seg_compat by simp
qed

text \<open>No path matches two routes of the table, so react-router's ranking of routes by
  specificity and the first-match order of \<open>find_route\<close> choose the same route.\<close>

lemma app_routes_unambiguous:
  assumes "i < length app_routes" "j < length app_routes" "i \<noteq> j"
      and "path_segs (fst (app_routes ! i)) = Some ps" "path_segs (fst (app_routes ! j)) = Some qs"
      and "match_segs ps ss \<noteq> None"
  shows "match_segs qs ss = None"
proof -
  let ?L = "map (the \<circ> path_segs \<circ> fst) app_routes"
  have "list_all (\<lambda>i. list_all (\<lambda>j. i = j \<or> \<not> seg_compat (?L ! i) (?L ! j)) [0..<length app_routes])
          [0..<length app_routes]"
    by code_simp
  then have "\<forall>i < length app_routes. \<forall>j < length app_routes. i = j \<or> \<not> seg_compat (?L ! i) (?L ! j)"
    by (simp only: list_all_iff set_upt atLeastLessThan_iff) simp
  then have "\<not> seg_compat (?L ! i) (?L ! j)"
    using assms(1-3) by blast
  then have "\<not> seg_compat ps qs"
    using assms(1,2,4,5) by simp
  then show ?thesis
    using assms(6) match_segs_compat by blast
qed

lemma split_on_no_sep: "c \<notin> set xs \<Longrightarrow> split_on c xs = [xs]"
  by (induction xs) auto

text \<open>A path under \<open>/community/\<close> with one more segment matches no route.\<close>

lemma route_of_community_sub:
  assumes "x \<noteq> []" "CHR ''/'' \<notin> set x" "CHR ''?'' \<notin> set x" "CHR ''#'' \<notin> set x"
  shows "route_of (''/community/'' @ x) = Not_found_pg"
proof -
  have "pathname (''/community/'' @ x) = ''/community/'' @ x"
    using assms(3,4) by (auto simp: pathname_def takeWhile_eq_all_conv)
  moreover have "path_segs (''/community/'' @ x) = Some [''community'', x]"
    using assms(1,2) by (simp add: path_segs_def split_on_no_sep)
  ultimately show ?thesis
    by (simp add: route_of_def app_routes_def path_segs_def match_seg_def js_lower_def js_lower_char_id)
qed

text \<open>A listing link of the catalogue opens the listing page of that id.\<close>

lemma route_of_listing:
  assumes "x \<noteq> []" "CHR ''/'' \<notin> set x" "CHR ''?'' \<notin> set x" "CHR ''#'' \<notin> set x"
  shows "route_of (''/listing/'' @ x) = Listing_detail_pg x"
proof -
  have "pathname (''/listing/'' @ x) = ''/listing/'' @ x"
    using assms(3,4) by (auto simp: pathname_def takeWhile_eq_all_conv)
  moreover have "path_segs (''/listing/'' @ x) = Some [''listing'', x]"
    using assms(1,2) by (simp add: path_segs_def split_on_no_sep)
  ultimately show ?thesis
    using assms(1) by (simp add: route_of_def app_routes_def path_segs_def match_seg_def js_lower_def js_lower_char_id)
qed

text \<open>The query of a link is read after its first \<open>?\<close>, whatever path precedes it.\<close>

lemma search_get_after_path:
  "CHR ''?'' \<notin> set p \<Longrightarrow> search_get k (p @ CHR ''?'' # q) = search_get k (CHR ''?'' # q)"
  by (simp add: search_get_def url_query_def dropWhile_neq_append)

text \<open>The links of the layout, the landing page and the dashboard that reach the
  catch-all: the header's Appraisal, Sell and Settings, the footer's How It Works,
  Sell, Buyer Protection, Privacy and Terms, and the dashboard's My Listings and
  Transactions.\<close>

lemma layout_links_not_found:
  "\<forall>l \<in> set (header_links b r @ footer_links @ index_links @ dashboard_links v).
     (route_of l = Not_found_pg) =
     (l \<in> {''/appraisal'', ''/sell'', ''/settings'', ''/how-it-works'', ''/buyer-protection'', ''/privacy'',
           ''/terms'', ''/dashboard/listings'', ''/dashboard/transactions''})"
proof -
  have "set (header_links b r @ footer_links @ index_links @ dashboard_links v) \<subseteq>
          set [''/'', ''/browse'', ''/community'', ''/appraisal'', ''/sell'', ''/dashboard'', ''/settings'',
               ''/auth'', ''/auth?mode=signup'', ''/pricing'', ''/community?category=market_insights'',
               ''/community?category=reference_guides'', ''/how-it-works'', ''/verification'',
               ''/buyer-protection'', ''/privacy'', ''/terms'', ''/appraisal-tool'', ''/sell/new'',
               ''/onboarding/seller'', ''/admin'', ''/dashboard/listings'', ''/dashboard/transactions'']"
    by (auto simp: header_links_def footer_links_def index_links_def dashboard_links_def)
  moreover have "\<forall>l \<in> set [''/'', ''/browse'', ''/community'', ''/appraisal'', ''/sell'', ''/dashboard'', ''/settings'',
               ''/auth'', ''/auth?mode=signup'', ''/pricing'', ''/community?category=market_insights'',
               ''/community?category=reference_guides'', ''/how-it-works'', ''/verification'',
               ''/buyer-protection'', ''/privacy'', ''/terms'', ''/appraisal-tool'', ''/sell/new'',
               ''/onboarding/seller'', ''/admin'', ''/dashboard/listings'', ''/dashboard/transactions''].
     (route_of l = Not_found_pg) =
     (l \<in> {''/appraisal'', ''/sell'', ''/settings'', ''/how-it-works'', ''/buyer-protection'', ''/privacy'',
           ''/terms'', ''/dashboard/listings'', ''/dashboard/transactions''})"
    by code_simp
  ultimately show ?thesis by (rule ball_subset)
qed

text \<open>Signing out ends the session and lands on the home page.\<close>

lemma sign_out_lands_home:
  "fst (handle_sign_out sign_out s) = sign_out s \<and> route_of (snd (handle_sign_out sign_out s)) = Index_pg"
proof -
  have "route_of ''/'' = Index_pg" by code_simp
  then show ?thesis by (simp add: handle_sign_out_def)
qed

end
