(* ===== verification/Pricing.thy ===== *)
theory Pricing
  imports Routes FeePolicy AdminSettings
begin

text \<open>
  The pricing page (\<open>src/src/pages/Pricing.tsx\<close>): the constant \<open>roles\<close> array the page
  renders as four tier cards, each with its price, commission, features and a call to
  action, and the page around them: the hero, the launch-period notice, the role
  explanations and the FAQ.  The page has no state and calls nothing; the lemmas
  relate what it advertises to the routes, to the role gate of the listing form and
  to the fee policy.
\<close>

record pricing_tier =
  pt_name :: string
  pt_price :: string
  pt_period :: string
  pt_commission :: string
  pt_description :: string
  pt_features :: "string list"
  pt_cta :: string
  pt_cta_link :: string
  pt_highlighted :: bool

definition pricing_roles :: "pricing_tier list" where
  "pricing_roles =
     [\<lparr> pt_name = ''Buyer'', pt_price = ''Free'', pt_period = [], pt_commission = ''$0'',
        pt_description = ''Browse and purchase with confidence on a trust-first exchange.'',
        pt_features = [''Browse all approved listings'', ''Save watches to collection'',
                       ''Message verified sellers'', ''Purchase with buyer protection'',
                       ''Identity verification at checkout''],
        pt_cta = ''Create Account'', pt_cta_link = ''/auth'', pt_highlighted = False \<rparr>,
      \<lparr> pt_name = ''Private Holder'', pt_price = ''Free'', pt_period = [],
        pt_commission = ''3.5% per transaction'',
        pt_description = ''Designed for individuals selling a personal timepiece with no monthly commitment.'',
        pt_features = [''List up to 3 watches'', ''Message buyers directly'', ''Complete secure transactions'',
                       ''Identity verification required'', ''Standard verification queue''],
        pt_cta = ''Start Selling'', pt_cta_link = ''/auth'', pt_highlighted = False \<rparr>,
      \<lparr> pt_name = ''Verified Dealer'', pt_price = ''$50'', pt_period = ''/month'',
        pt_commission = ''2.5% per transaction'',
        pt_description = ''Built for repeat sellers who value speed, tools, and professional credibility.'',
        pt_features = [''List up to 25 watches'', ''Priority listing review'', ''Faster dispute handling'',
                       ''Saved listing templates'', ''Duplicate & relist tools'', ''Basic performance insights'',
                       ''Verified Dealer designation''],
        pt_cta = ''Apply Now'', pt_cta_link = ''/auth'', pt_highlighted = False \<rparr>,
      \<lparr> pt_name = ''Certified Exchange Partner'', pt_price = ''$195'', pt_period = ''/month'',
        pt_commission = ''0%'',
        pt_description = ''Institutional-grade access for high-volume dealers aligned with exchange standards.'',
        pt_features = [''Unlimited listings'', ''Branded storefront profile'', ''Priority verification lanes'',
                       ''Enhanced analytics dashboard'', ''Market insight previews'', ''Streamlined bulk actions'',
                       ''Dedicated support escalation'', ''Certified Partner designation''],
        pt_cta = ''Apply Now'', pt_cta_link = ''/auth'', pt_highlighted = True \<rparr>]"

text \<open>The render of one card: the highlighted card has the primary border and a
  filled button, the others an outlined one.\<close>

datatype button_variant = Button_default | Button_outline

record pricing_card_view =
  pcv_name :: string
  pcv_price :: string
  pcv_commission_line :: string
  pcv_description :: string
  pcv_features :: "string list"
  pcv_highlight :: bool
  pcv_button :: button_variant
  pcv_cta :: string
  pcv_link :: string

definition pricing_card_view :: "pricing_tier \<Rightarrow> pricing_card_view" where
  "pricing_card_view t =
     \<lparr> pcv_name = pt_name t, pcv_price = pt_price t @ pt_period t, pcv_commission_line = ''Commission: '' @ pt_commission t,
       pcv_description = pt_description t, pcv_features = pt_features t, pcv_highlight = pt_highlighted t,
       pcv_button = (if pt_highlighted t then Button_default else Button_outline),
       pcv_cta = pt_cta t, pcv_link = pt_cta_link t \<rparr>"

definition pricing_hero :: "string \<times> string" where
  "pricing_hero =
     (''Exchange Roles'',
      ''Each role serves a specific purpose within the exchange. Choose based on how you intend to participate.'')"

definition launch_notice :: "string \<times> string" where
  "launch_notice =
     (''90-Day Launch Period'',
      '' '' @ em_dash @ '' All seller tiers currently operate with zero fees. Standard fees activate automatically after the launch window.'')"

definition role_explanations :: "(string \<times> string) list" where
  "role_explanations =
     [(''Why Private Holder exists'',
       ''For collectors selling one or two personal pieces without ongoing selling intent. No subscription required''
       @ em_dash @ ''simply pay a transaction fee when your watch sells.''),
      (''When Verified Dealer becomes necessary'',
       ''Once you're regularly listing watches, the operational advantages become valuable: faster review times, listing templates, and the credibility signal of dealer verification. The lower commission rate typically pays for itself after a few transactions.''),
      (''Why Certified Exchange Partner is earned'',
       ''This tier is designed for established dealers operating at institutional scale. Zero commission, advanced tools, and a branded presence''
       @ em_dash @ ''but with the expectation of consistent alignment with exchange standards and volume.'')]"

definition pricing_faq :: "(string \<times> string) list" where
  "pricing_faq =
     [(''What is identity verification?'',
       ''All sellers undergo third-party identity verification before listing. Buyers verify at checkout. This maintains exchange integrity and protects all parties.''),
      (''How do transaction fees work?'',
       ''Private Holders pay 3.5% on completed sales. Verified Dealers pay 2.5%. Certified Exchange Partners pay 0%''
       @ em_dash @ ''the subscription covers all transaction costs.''),
      (''What is the 90-day launch period?'',
       ''During launch, all seller tiers operate with zero fees to establish the exchange. Standard fees activate automatically after this window closes.''),
      (''Can I change my role?'',
       ''Roles can be adjusted based on your selling activity. Changes take effect at the start of your next billing cycle.'')]"

record pricing_page =
  pp_hero :: "string \<times> string"
  pp_notice :: "string \<times> string"
  pp_cards :: "pricing_card_view list"
  pp_explanations :: "(string \<times> string) list"
  pp_faq :: "(string \<times> string) list"

definition pricing_page :: pricing_page where
  "pricing_page =
     \<lparr> pp_hero = pricing_hero, pp_notice = launch_notice, pp_cards = map pricing_card_view pricing_roles,
       pp_explanations = role_explanations, pp_faq = pricing_faq \<rparr>"

text \<open>The cards' names against the tier badge's labels: the partner tier is
  ``Certified Exchange Partner'' on this page and ``Certified Partner'' on the badge.\<close>

definition pricing_card_role :: "pricing_tier \<Rightarrow> app_role option" where
  "pricing_card_role t = map_option fst (find (\<lambda>(r, l). l = pt_name t) role_options)"

section \<open>Properties\<close>

text \<open>Every call to action of the page opens the sign-in page.\<close>

lemma pricing_ctas_reach_auth: "\<forall>t \<in> set pricing_roles. route_of (pt_cta_link t) = Auth_pg"
proof -
  have "route_of ''/auth'' = Auth_pg" by code_simp
  then show ?thesis by (simp add: pricing_roles_def)
qed

text \<open>The Private Holder card advertises listing up to three watches, a role the
  listing form refuses; the partner card's name is no role label.\<close>

lemma pricing_private_holder_cannot_list:
  "pricing_card_role (pricing_roles ! 1) = Some Observer
   \<and> ''List up to 3 watches'' \<in> set (pt_features (pricing_roles ! 1))
   \<and> \<not> can_sell (pricing_card_role (pricing_roles ! 1))
   \<and> pricing_card_role (pricing_roles ! 3) = None"
  by (simp add: pricing_roles_def pricing_card_role_def role_options_def can_sell_def)

text \<open>The rates a reader takes from a text: \<open>parseFloat\<close> of each word with a percent
  sign.\<close>

definition stated_rates :: "string \<Rightarrow> rat option list" where
  "stated_rates s = map js_parse_float (filter (\<lambda>w. CHR ''%'' \<in> set w) (split_on CHR '' '' s))"

text \<open>The seller cards' commission lines and the FAQ's answer on fees state the base
  rates of the fee policy for the three seller roles.\<close>

lemma pricing_rates_match_fee_policy:
  "map (\<lambda>c. js_parse_float (drop 12 (pcv_commission_line c))) (tl (pp_cards pricing_page))
     = map (\<lambda>r. Some (100 * base_commission_rate r)) [Observer, Individual_seller, Super_seller]
   \<and> stated_rates (snd (pp_faq pricing_page ! 1))
     = map (\<lambda>r. Some (100 * base_commission_rate r)) [Observer, Individual_seller, Super_seller]"
  by (simp add: pricing_page_def pricing_roles_def pricing_card_view_def pricing_faq_def stated_rates_def
                js_parse_float_def js_sign_def is_digit_def digits_val_def em_dash_def)

end
