(* ===== verification/ListingPage.thy ===== *)
theory ListingPage
  imports Browse
begin

text \<open>
  The state of the listing page (\<open>ListingDetail.tsx\<close>) across its effects and clicks:
  the listing and seller it shows, the loading flag, the index of the selected
  gallery image and the purchasing flag.  React Router keeps one \<open>ListingDetail\<close>
  instance while only the \<open>:id\<close> parameter changes, so a navigation from one
  listing to another refetches (the effect depends on \<open>id\<close>) but resets no other
  state.  The page's clicks within one listing keep the selected image inside the
  gallery (rule induction over \<open>detail_reach\<close>); a navigation does not.
\<close>

record detail_state =
  ds_id :: row_id
  ds_page :: "listing_page option"
  ds_loading :: bool
  ds_selected :: nat
  ds_purchasing :: bool

text \<open>\<open>fetchListing\<close>: on an error or no row it only clears the loading flag, keeping
  whatever listing the page showed before.\<close>

definition detail_fetch :: "db \<Rightarrow> detail_state \<Rightarrow> detail_state" where
  "detail_fetch d s =
     (case fetch_listing_page d (ds_id s) of
        None \<Rightarrow> s\<lparr>ds_loading := False\<rparr>
      | Some p \<Rightarrow> s\<lparr>ds_page := Some p, ds_loading := False\<rparr>)"

text \<open>Mounting the page on \<open>/listing/:id\<close>: the initial state, then the effect.\<close>

definition detail_open :: "db \<Rightarrow> row_id \<Rightarrow> detail_state" where
  "detail_open d lid =
     detail_fetch d \<lparr>ds_id = lid, ds_page = None, ds_loading = True, ds_selected = 0, ds_purchasing = False\<rparr>"

text \<open>A change of the \<open>:id\<close> parameter in the same instance.\<close>

definition detail_navigate :: "db \<Rightarrow> row_id \<Rightarrow> detail_state \<Rightarrow> detail_state" where
  "detail_navigate d lid s = (if lid = ds_id s then s else detail_fetch d (s\<lparr>ds_id := lid, ds_loading := True\<rparr>))"

text \<open>A thumbnail click; the thumbnails exist for more than one photo, one per photo.\<close>

definition select_thumbnail :: "nat \<Rightarrow> detail_state \<Rightarrow> detail_state" where
  "select_thumbnail i s =
     (case ds_page s of
        Some p \<Rightarrow> if 1 < length (lp_photos p) \<and> i < length (lp_photos p) then s\<lparr>ds_selected := i\<rparr> else s
      | None \<Rightarrow> s)"

datatype main_image = No_image | Photo_at string | Broken_image

text \<open>\<open>sortedPhotos[selectedImage]?.storage_path\<close>: an index past the gallery reads
  \<open>undefined\<close>, and \<open>getPublicUrl(undefined)\<close> is no photo's URL.\<close>

definition main_image_of :: "listing_page \<Rightarrow> nat \<Rightarrow> main_image" where
  "main_image_of p i =
     (if lp_photos p = [] then No_image
      else if i < length (lp_photos p) then Photo_at (storage_path (lp_photos p ! i))
      else Broken_image)"

definition seller_display_name :: "seller_info \<Rightarrow> string" where
  "seller_display_name si =
     (case si_full_name si of None \<Rightarrow> ''Verified Seller'' | Some n \<Rightarrow> if n = [] then ''Verified Seller'' else n)"

datatype purchase_button = Processing_button | Own_listing_button | Purchase_button money string

datatype detail_view =
    Detail_loading
  | Listing_not_found
  | Detail_shown listing_row main_image string purchase_button

definition detail_render :: "uid option \<Rightarrow> detail_state \<Rightarrow> detail_view" where
  "detail_render user s =
     (if ds_loading s then Detail_loading
      else case ds_page s of
        None \<Rightarrow> Listing_not_found
      | Some p \<Rightarrow>
          Detail_shown (lp_listing p) (main_image_of p (ds_selected s))
            (seller_display_name (lp_seller p))
            (if ds_purchasing s then Processing_button
             else if Some (seller_id (lp_listing p)) = user then Own_listing_button
             else Purchase_button (asking_price (lp_listing p)) (currency (lp_listing p))))"

text \<open>The texts of the listing's facts: \<open>formatPrice\<close> in whole units, the year line
  (\<open>year_produced ? (year_produced_end ? `${year}-${end}` : year) : 'Not specified'\<close>,
  where 0 is falsy), the box and papers lines, the seller's name and the ``Identity
  Verified'' mark.\<close>

definition detail_price :: "listing_row \<Rightarrow> string" where
  "detail_price l = format_price 0 (asking_price l) (currency l)"

text \<open>\<open>getConditionLabel\<close>: a lookup in a string-keyed table that falls back to the
  key itself.  The page never calls it (the details column renders \<open>ConditionBadge\<close>,
  \<open>condition_label\<close>); the lemma below shows the two agree on every enum value.\<close>

definition get_condition_label :: "string \<Rightarrow> string" where
  "get_condition_label c =
     (case map_of [(''unworn'', ''Unworn''), (''excellent'', ''Excellent''), (''very_good'', ''Very Good''),
                   (''good'', ''Good''), (''fair'', ''Fair'')] c of
        Some l \<Rightarrow> if l = [] then c else l
      | None \<Rightarrow> c)"

definition year_text :: "listing_row \<Rightarrow> string" where
  "year_text l =
     (case year_produced l of
        None \<Rightarrow> ''Not specified''
      | Some y \<Rightarrow>
          if y = 0 then ''Not specified''
          else case year_produced_end l of
                 None \<Rightarrow> int_str y
               | Some e \<Rightarrow> if e = 0 then int_str y else int_str y @ ''-'' @ int_str e)"

definition included_text :: "bool \<Rightarrow> string" where
  "included_text b = (if b then ''Included'' else ''Not included'')"

record detail_facts =
  df_brand :: "string option"
  df_model :: string
  df_reference :: string
  df_price :: string
  df_condition :: string
  df_year :: string
  df_box :: string
  df_papers :: string
  df_description :: "string option"
  df_seller :: string
  df_seller_verified :: bool

definition detail_facts :: "listing_page \<Rightarrow> detail_facts" where
  "detail_facts p =
     (let l = lp_listing p in
      \<lparr> df_brand = lp_brand p, df_model = model l, df_reference = ''Ref. '' @ reference_number l,
        df_price = detail_price l, df_condition = condition_label (condition l), df_year = year_text l,
        df_box = included_text (has_box l), df_papers = included_text (has_papers l),
        df_description = (case description l of Some t \<Rightarrow> if t = [] then None else Some t | None \<Rightarrow> None),
        df_seller = seller_display_name (lp_seller p),
        df_seller_verified = (si_kyc_status (lp_seller p) = Kyc_verified) \<rparr>)"

text \<open>The purchase button's label.\<close>

text \<open>The line under the purchase button.  No code of the repository holds funds or
  confirms a delivery: the checkout is a plain Stripe payment (\<open>Checkout\<close>).\<close>

definition purchase_note :: string where
  "purchase_note = ''Secure payment processing. Funds held until delivery confirmed.''"

text \<open>The effect on the search parameters: \<open>?checkout=cancelled\<close>, the return
  address of an abandoned Stripe checkout, toasts that the purchase was not completed.\<close>

definition checkout_cancelled_toast :: "string option \<Rightarrow> (string \<times> string) option" where
  "checkout_cancelled_toast c =
     (if c = Some ''cancelled'' then Some (''Checkout Cancelled'', ''Your purchase was not completed.'') else None)"

fun purchase_label :: "purchase_button \<Rightarrow> string" where
  "purchase_label Processing_button = ''Processing...''"
| "purchase_label Own_listing_button = ''This is your listing''"
| "purchase_label (Purchase_button p c) = ''Purchase for '' @ format_price 0 p c"

text \<open>The states the page reaches on one listing: the mount and its thumbnail clicks.\<close>

inductive detail_reach :: "db \<Rightarrow> detail_state \<Rightarrow> bool" for d where
  opened: "detail_reach d (detail_open d lid)"
| thumb: "detail_reach d s \<Longrightarrow> detail_reach d (select_thumbnail i s)"

definition gallery_ok :: "detail_state \<Rightarrow> bool" where
  "gallery_ok s \<longleftrightarrow>
     (case ds_page s of None \<Rightarrow> ds_selected s = 0
      | Some p \<Rightarrow> lp_photos p = [] \<or> ds_selected s < length (lp_photos p))"

section \<open>Properties\<close>

lemma get_condition_label_agrees:
  "get_condition_label (watch_condition_name c) = condition_label c"
  "(\<forall>c. c' \<noteq> watch_condition_name c) \<Longrightarrow> get_condition_label c' = c'"
proof -
  show "get_condition_label (watch_condition_name c) = condition_label c"
    by (cases c) (simp_all add: get_condition_label_def)
next
  assume h: "\<forall>c. c' \<noteq> watch_condition_name c"
  have "c' \<noteq> ''unworn''" "c' \<noteq> ''excellent''" "c' \<noteq> ''very_good''" "c' \<noteq> ''good''" "c' \<noteq> ''fair''"
    using h [rule_format, of Unworn] h [rule_format, of Excellent] h [rule_format, of Very_good]
          h [rule_format, of Good] h [rule_format, of Fair]
    by simp_all
  then show "get_condition_label c' = c'"
    by (simp add: get_condition_label_def)
qed

lemma gallery_ok_fetch: "ds_selected s = 0 \<Longrightarrow> gallery_ok (detail_fetch d s)"
  by (simp add: gallery_ok_def detail_fetch_def split: option.splits)

lemma gallery_ok_thumb: "gallery_ok s \<Longrightarrow> gallery_ok (select_thumbnail i s)"
  by (auto simp: gallery_ok_def select_thumbnail_def split: option.splits)

text \<open>On one listing the main image is always one of its photos, or the placeholder
  when it has none.\<close>

lemma detail_reach_gallery_ok: "detail_reach d s \<Longrightarrow> gallery_ok s"
proof (induction rule: detail_reach.induct)
  case (opened lid)
  show ?case unfolding detail_open_def by (rule gallery_ok_fetch) simp
next
  case (thumb s i)
  from thumb.IH show ?case by (rule gallery_ok_thumb)
qed

lemma detail_reach_no_broken_image:
  assumes "detail_reach d s" "ds_page s = Some p"
  shows "main_image_of p (ds_selected s) \<noteq> Broken_image"
  using detail_reach_gallery_ok [OF assms(1)] assms(2)
  by (auto simp: gallery_ok_def main_image_of_def)

text \<open>A navigation to a listing with fewer photos than the selected index keeps the
  index, and the main image is no photo.\<close>

lemma navigate_keeps_selection:
  assumes "lid \<noteq> ds_id s" "fetch_listing_page d lid = Some p"
      and "lp_photos p \<noteq> []" "length (lp_photos p) \<le> ds_selected s"
  shows "detail_render user (detail_navigate d lid s)
           = Detail_shown (lp_listing p) Broken_image (seller_display_name (lp_seller p))
               (if ds_purchasing s then Processing_button
                else if Some (seller_id (lp_listing p)) = user then Own_listing_button
                else Purchase_button (asking_price (lp_listing p)) (currency (lp_listing p)))"
  using assms
  by (simp add: detail_navigate_def detail_fetch_def detail_render_def main_image_of_def)

text \<open>A navigation to an id with no approved listing keeps showing the previous listing
  (its photos, seller and purchase button) under the new URL.\<close>

lemma navigate_failed_keeps_listing:
  assumes "lid \<noteq> ds_id s" "fetch_listing_page d lid = None"
  shows "ds_page (detail_navigate d lid s) = ds_page s \<and> ds_id (detail_navigate d lid s) = lid
         \<and> \<not> ds_loading (detail_navigate d lid s)"
  using assms by (simp add: detail_navigate_def detail_fetch_def)

end
