(* ===== verification/Appraisal.thy ===== *)
theory Appraisal
  imports Prelude
begin

text \<open>
  The appraisal page (\<open>src/src/pages/Appraisal.tsx\<close>) and the three market-data clients
  it calls (\<open>src/src/api/watchbase.ts\<close>, \<open>watchanalytics.ts\<close>, \<open>ebay.ts\<close>).  The clients
  are mocks: after a simulated delay each returns constant data, whatever the query.
  The page's \<open>handleSearch\<close> is asynchronous, so it is two events: the submit, which
  resets the page and sets \<open>loading\<close>, and the completion of \<open>Promise.all\<close>, which
  stores the three results or, when any client rejects, the error message.  The page
  is a transition function over these events and the user's typing and dismissing.
  No route of \<open>App.tsx\<close> renders this page (see \<open>Routes\<close>).
\<close>

section \<open>The mock clients\<close>

record watch_sale =
  sale_id :: nat
  sale_title :: string
  sale_price :: string
  sale_date :: string

definition get_watchbase_data :: "string \<Rightarrow> (string \<times> string) list" where
  "get_watchbase_data query =
     [(''brand'', ''Rolex''), (''model'', ''Submariner''), (''reference'', ''126610LN''),
      (''case_size'', ''41mm''), (''material'', ''Oystersteel''), (''movement'', ''Calibre 3235''),
      (''power_reserve'', ''70 hours'')]"

definition get_watchanalytics_data :: "string \<Rightarrow> (string \<times> string) list" where
  "get_watchanalytics_data query =
     [(''avg_price'', ''$15,000''), (''price_change_6m'', ''+5%''), (''demand'', ''High'')]"

definition get_ebay_data :: "string \<Rightarrow> watch_sale list" where
  "get_ebay_data query =
     [\<lparr>sale_id = 1, sale_title = ''Rolex Submariner 126610LN'', sale_price = ''$14,800'', sale_date = ''2026-02-10''\<rparr>,
      \<lparr>sale_id = 2, sale_title = ''Rolex Submariner Date 126610LN'', sale_price = ''$15,200'', sale_date = ''2026-02-08''\<rparr>,
      \<lparr>sale_id = 3, sale_title = ''New Rolex Submariner 126610LN'', sale_price = ''$15,500'', sale_date = ''2026-02-05''\<rparr>]"

type_synonym appraisal_data = "(string \<times> string) list \<times> (string \<times> string) list \<times> watch_sale list"

text \<open>\<open>Promise.all\<close> over the three mocks: they never reject.  A client that rejects is
  an \<open>Inl\<close> result of the completion event.\<close>

definition mock_fetch :: "string \<Rightarrow> unit + appraisal_data" where
  "mock_fetch q = Inr (get_watchbase_data q, get_watchanalytics_data q, get_ebay_data q)"

section \<open>The page\<close>

record appraisal_state =
  ap_query :: string
  ap_loading :: bool
  ap_searched :: bool
  ap_error :: "string option"
  ap_wb :: "(string \<times> string) list option"
  ap_wa :: "(string \<times> string) list option"
  ap_eb :: "watch_sale list option"

definition appraisal_init :: appraisal_state where
  "appraisal_init =
     \<lparr> ap_query = [], ap_loading = False, ap_searched = False, ap_error = None,
       ap_wb = None, ap_wa = None, ap_eb = None \<rparr>"

text \<open>\<open>handleSearch\<close> up to its \<open>await\<close>: nothing for an empty query, else every
  result cleared.\<close>

definition search_start :: "appraisal_state \<Rightarrow> appraisal_state" where
  "search_start s =
     (if ap_query s = [] then s
      else s\<lparr> ap_loading := True, ap_searched := True, ap_error := None,
              ap_wb := None, ap_wa := None, ap_eb := None \<rparr>)"

definition appraisal_error_message :: string where
  "appraisal_error_message = ''Failed to fetch watch data. Please try again.''"

text \<open>\<open>handleSearch\<close> after its \<open>await\<close>: the results, or the error; \<open>finally\<close> clears
  \<open>loading\<close>.\<close>

definition search_finish :: "unit + appraisal_data \<Rightarrow> appraisal_state \<Rightarrow> appraisal_state" where
  "search_finish r s =
     (case r of
        Inl _ \<Rightarrow> s\<lparr>ap_error := Some appraisal_error_message, ap_loading := False\<rparr>
      | Inr (wb, wa, eb) \<Rightarrow> s\<lparr>ap_wb := Some wb, ap_wa := Some wa, ap_eb := Some eb, ap_loading := False\<rparr>)"

datatype appraisal_event =
    Type_query string
  | Submit_search
  | Fetch_done "unit + appraisal_data"
  | Dismiss_error

text \<open>One event.  The submit button is disabled while loading, and a completion
  arrives only for the pending search.\<close>

fun ap_step :: "appraisal_event \<Rightarrow> appraisal_state \<Rightarrow> appraisal_state" where
  "ap_step (Type_query q) s = s\<lparr>ap_query := q\<rparr>"
| "ap_step Submit_search s = (if ap_loading s then s else search_start s)"
| "ap_step (Fetch_done r) s = (if ap_loading s then search_finish r s else s)"
| "ap_step Dismiss_error s = s\<lparr>ap_error := None\<rparr>"

definition ap_run :: "appraisal_event list \<Rightarrow> appraisal_state" where
  "ap_run es = fold ap_step es appraisal_init"

section \<open>Rendering\<close>

text \<open>\<open>key.replace(/_/g, ' ')\<close>; the capitalisation is CSS.\<close>

definition spec_label :: "string \<Rightarrow> string" where
  "spec_label k = map (\<lambda>c. if c = CHR ''_'' then CHR '' '' else c) k"

datatype card_body =
    Skeleton_rows nat
  | Card_message string
  | Spec_rows "(string \<times> string) list"
  | Sale_rows "watch_sale list"

definition empty_message :: "appraisal_state \<Rightarrow> string \<Rightarrow> string" where
  "empty_message s placeholder =
     (if ap_searched s \<and> ap_error s = None then ''No data found.'' else placeholder)"

definition render_watchbase :: "appraisal_state \<Rightarrow> card_body" where
  "render_watchbase s =
     (if ap_loading s then Skeleton_rows 4
      else case ap_wb s of
        None \<Rightarrow> Card_message (empty_message s ''Technical specs will appear here.'')
      | Some sp \<Rightarrow> Spec_rows (map (\<lambda>(k, v). (spec_label k, v)) sp))"

definition render_watchanalytics :: "appraisal_state \<Rightarrow> card_body" where
  "render_watchanalytics s =
     (if ap_loading s then Skeleton_rows 3
      else case ap_wa s of
        None \<Rightarrow> Card_message (empty_message s ''Market trends will appear here.'')
      | Some tr \<Rightarrow> Spec_rows (map (\<lambda>(k, v). (spec_label k, v)) tr))"

definition render_ebay :: "appraisal_state \<Rightarrow> card_body" where
  "render_ebay s =
     (if ap_loading s then Skeleton_rows 3
      else case ap_eb s of
        None \<Rightarrow> Card_message (empty_message s ''Recent sales will appear here.'')
      | Some sales \<Rightarrow> if sales = [] then Card_message (empty_message s ''Recent sales will appear here.'')
                     else Sale_rows sales)"

definition ap_cards :: "appraisal_state \<Rightarrow> card_body list" where
  "ap_cards s = [render_watchbase s, render_watchanalytics s, render_ebay s]"

section \<open>Properties\<close>

text \<open>The page's state invariant: while loading nothing is shown and no error; before
  the first search nothing at all; the three results are present together or not at
  all.\<close>

definition ap_ok :: "appraisal_state \<Rightarrow> bool" where
  "ap_ok s \<longleftrightarrow>
     (ap_loading s \<longrightarrow> ap_searched s \<and> ap_error s = None \<and> ap_wb s = None)
     \<and> (\<not> ap_searched s \<longrightarrow> ap_error s = None \<and> ap_wb s = None)
     \<and> (ap_wa s = None \<longleftrightarrow> ap_wb s = None) \<and> (ap_eb s = None \<longleftrightarrow> ap_wb s = None)"

lemma ap_ok_step: "ap_ok s \<Longrightarrow> ap_ok (ap_step e s)"
  by (cases e) (auto simp: ap_ok_def search_start_def search_finish_def split: sum.splits prod.splits)

lemma ap_ok_run: "ap_ok (ap_run es)"
proof -
  have "ap_ok s \<Longrightarrow> ap_ok (fold ap_step es s)" for s
    by (induction es arbitrary: s) (simp_all add: ap_ok_step)
  then show ?thesis
    unfolding ap_run_def by (simp add: ap_ok_def appraisal_init_def)
qed

text \<open>Hence the three cards always agree: all show skeletons, all show a message, or
  all show data.\<close>

lemma ap_cards_agree:
  "ap_loading (ap_run es) \<or> (\<exists>m1 m2 m3. ap_cards (ap_run es) = [Card_message m1, Card_message m2, Card_message m3])
   \<or> (\<exists>a b c. ap_cards (ap_run es) = [Spec_rows a, Spec_rows b, c])"
  using ap_ok_run [of es]
  by (auto simp: ap_ok_def ap_cards_def render_watchbase_def render_watchanalytics_def render_ebay_def
           split: option.splits)

text \<open>The mock clients ignore the query: every search shows the same Rolex Submariner
  data.\<close>

lemma appraisal_ignores_query:
  assumes "q \<noteq> []" "q' \<noteq> []"
  shows "ap_cards (ap_run [Type_query q, Submit_search, Fetch_done (mock_fetch q)])
         = ap_cards (ap_run [Type_query q', Submit_search, Fetch_done (mock_fetch q')])"
  using assms
  by (simp add: ap_run_def appraisal_init_def search_start_def search_finish_def mock_fetch_def
                get_watchbase_data_def get_watchanalytics_data_def get_ebay_data_def
                ap_cards_def render_watchbase_def render_watchanalytics_def render_ebay_def)

text \<open>After a failed search the cards show their placeholders; closing the error
  alert turns all three into ``No data found.'', although nothing was fetched.\<close>

lemma failed_search_dismissed_no_data:
  assumes "q \<noteq> []"
  shows "ap_cards (ap_run [Type_query q, Submit_search, Fetch_done (Inl ())])
           = [Card_message ''Technical specs will appear here.'', Card_message ''Market trends will appear here.'',
              Card_message ''Recent sales will appear here.'']
         \<and> ap_cards (ap_run [Type_query q, Submit_search, Fetch_done (Inl ()), Dismiss_error])
           = [Card_message ''No data found.'', Card_message ''No data found.'', Card_message ''No data found.'']"
  using assms
  by (simp add: ap_run_def appraisal_init_def search_start_def search_finish_def ap_cards_def
       render_watchbase_def render_watchanalytics_def render_ebay_def empty_message_def)

text \<open>An empty query submits nothing.\<close>

lemma empty_query_no_search: "ap_query s = [] \<Longrightarrow> ap_step Submit_search s = s"
  by (simp add: search_start_def)

end
