(* ===== verification/AdminPanel.thy ===== *)
theory AdminPanel
  imports Listings
begin

text \<open>
  The listing-moderation panel (\<open>src/src/components/admin/AdminListings.tsx\<close>) as a
  state machine over the admin's events: the status filter (whose effect issues a
  fetch), the refresh button, the arrival of each issued fetch (in any order: the
  requests are independent), the approve button, and the rejection dialog (open, type
  the reason, cancel, confirm).  The database handlers and the search are those of
  \<open>Listings\<close>; this theory adds the panel's own state and the order in which the
  asynchronous answers arrive.
\<close>

definition status_options :: "(listing_status option \<times> string) list" where
  "status_options =
     [(None, ''All Statuses''), (Some Pending_review, ''Pending Review''), (Some Approved, ''Approved''),
      (Some Rejected, ''Rejected''), (Some Draft, ''Draft''), (Some Sold, ''Sold''), (Some Archived, ''Archived'')]"

record admin_panel =
  apn_rows :: "(listing_row \<times> string option) list"
  apn_loading :: bool
  apn_search :: string
  apn_filter :: "listing_status option"
  apn_pending :: "listing_status option list"
  apn_dialog_open :: bool
  apn_rejecting :: "row_id option"
  apn_reason :: string
  apn_toast :: "string option"

text \<open>The mounted panel: the default filter \<open>pending_review\<close> and the first fetch issued
  by the effect.\<close>

definition admin_panel_init :: admin_panel where
  "admin_panel_init =
     \<lparr> apn_rows = [], apn_loading = True, apn_search = [], apn_filter = Some Pending_review,
       apn_pending = [Some Pending_review], apn_dialog_open = False, apn_rejecting = None,
       apn_reason = [], apn_toast = None \<rparr>"

text \<open>\<open>fetchListings\<close> issued: the closure holds the filter of its render.\<close>

definition issue_fetch :: "admin_panel \<Rightarrow> admin_panel" where
  "issue_fetch s = s\<lparr>apn_loading := True, apn_pending := apn_pending s @ [apn_filter s]\<rparr>"

text \<open>The answer to the \<open>i\<close>-th pending fetch: the rows, or on an error the toast;
  \<open>finally\<close> clears \<open>loading\<close> even when another fetch is still pending.\<close>

definition fetch_arrives :: "nat \<Rightarrow> bool \<Rightarrow> db \<Rightarrow> admin_panel \<Rightarrow> admin_panel" where
  "fetch_arrives i ok d s =
     (if i < length (apn_pending s) then
        (let s' = s\<lparr>apn_loading := False, apn_pending := drop_nth i (apn_pending s)\<rparr>
         in if ok then s'\<lparr>apn_rows := admin_fetch (apn_pending s ! i) d\<rparr>
            else s'\<lparr>apn_toast := Some ''Failed to load listings''\<rparr>)
      else s)"

definition open_reject_dialog :: "row_id \<Rightarrow> admin_panel \<Rightarrow> admin_panel" where
  "open_reject_dialog lid s = s\<lparr>apn_rejecting := Some lid, apn_reason := [], apn_dialog_open := True\<rparr>"

text \<open>\<open>handleReject\<close>: nothing without a listing being rejected; on success the
  database, the local row, the toast and the closed dialog; on an error the toast and
  the dialog left open.  \<open>finally\<close> forgets the listing being rejected in both cases.\<close>

definition confirm_reject :: "bool \<Rightarrow> db \<Rightarrow> admin_panel \<Rightarrow> db \<times> admin_panel" where
  "confirm_reject ok d s =
     (case apn_rejecting s of
        None \<Rightarrow> (d, s)
      | Some lid \<Rightarrow>
          if ok then
            (handle_reject lid (apn_reason s) d,
             s\<lparr>apn_rows := set_view_status lid Rejected (apn_rows s), apn_toast := Some ''Listing rejected'',
               apn_dialog_open := False, apn_rejecting := None\<rparr>)
          else (d, s\<lparr>apn_toast := Some ''Failed to reject listing'', apn_rejecting := None\<rparr>))"

text \<open>\<open>handleApprove\<close> with its outcome: on an error only the toast.\<close>

definition confirm_approve :: "bool \<Rightarrow> timestamp \<Rightarrow> row_id \<Rightarrow> db \<Rightarrow> admin_panel \<Rightarrow> db \<times> admin_panel" where
  "confirm_approve ok now lid d s =
     (if ok then (handle_approve now lid d,
                  s\<lparr>apn_rows := set_view_status lid Approved (apn_rows s), apn_toast := Some ''Listing approved''\<rparr>)
      else (d, s\<lparr>apn_toast := Some ''Failed to approve listing''\<rparr>))"

datatype panel_event =
    Set_filter "listing_status option"
  | Refresh
  | Fetch_arrives nat bool
  | Type_search string
  | Approve_row row_id bool timestamp
  | Open_reject row_id
  | Type_reason string
  | Cancel_reject
  | Confirm_reject bool

text \<open>One event on the panel and the database.  The refresh button is disabled while
  loading; the row buttons exist only for rows shown as pending review; the dialog's
  controls only while it is open.\<close>

fun panel_step :: "panel_event \<Rightarrow> db \<times> admin_panel \<Rightarrow> db \<times> admin_panel" where
  "panel_step (Set_filter f) (d, s) =
     (d, if f = apn_filter s then s else issue_fetch (s\<lparr>apn_filter := f\<rparr>))"
| "panel_step Refresh (d, s) = (d, if apn_loading s then s else issue_fetch s)"
| "panel_step (Fetch_arrives i ok) (d, s) = (d, fetch_arrives i ok d s)"
| "panel_step (Type_search q) (d, s) = (d, s\<lparr>apn_search := q\<rparr>)"
| "panel_step (Approve_row lid ok now) (d, s) =
     (if row_actions_shown (admin_search (apn_search s) (apn_rows s)) lid then confirm_approve ok now lid d s
      else (d, s))"
| "panel_step (Open_reject lid) (d, s) =
     (d, if row_actions_shown (admin_search (apn_search s) (apn_rows s)) lid then open_reject_dialog lid s else s)"
| "panel_step (Type_reason r) (d, s) = (d, if apn_dialog_open s then s\<lparr>apn_reason := r\<rparr> else s)"
| "panel_step Cancel_reject (d, s) = (d, if apn_dialog_open s then s\<lparr>apn_dialog_open := False\<rparr> else s)"
| "panel_step (Confirm_reject ok) (d, s) = (if apn_dialog_open s then confirm_reject ok d s else (d, s))"

definition panel_run :: "panel_event list \<Rightarrow> db \<Rightarrow> db \<times> admin_panel" where
  "panel_run es d = fold panel_step es (d, admin_panel_init)"

section \<open>Rendering\<close>

datatype badge_variant = Badge_default | Badge_secondary | Badge_destructive | Badge_outline

fun status_badge_variant :: "listing_status \<Rightarrow> badge_variant" where
  "status_badge_variant Approved = Badge_default"
| "status_badge_variant Pending_review = Badge_secondary"
| "status_badge_variant Rejected = Badge_destructive"
| "status_badge_variant _ = Badge_outline"

text \<open>\<open>listing.status.replace('_', ' ')\<close>: the first underscore only.\<close>

definition status_text :: "listing_status \<Rightarrow> string" where
  "status_text st = js_replace_first ''_'' '' '' (listing_status_name st)"

record panel_row =
  pr_brand :: "string option"
  pr_model :: string
  pr_reference :: string
  pr_price :: string
  pr_status :: string
  pr_badge :: badge_variant
  pr_actions :: bool

text \<open>The table's \<open>formatPrice\<close> sets only \<open>minimumFractionDigits: 0\<close>, so the
  currency's default of two decimals bounds the fraction (\<open>format_price 2\<close>), unlike
  the buyer's pages, which round to whole units.\<close>

datatype panel_table = Loading_listings | No_listings_found | Listing_rows "panel_row list"

definition panel_table :: "admin_panel \<Rightarrow> panel_table" where
  "panel_table s =
     (let rows = admin_search (apn_search s) (apn_rows s) in
      if apn_loading s then Loading_listings
      else if rows = [] then No_listings_found
      else Listing_rows (map (\<lambda>(l, b). \<lparr> pr_brand = b, pr_model = model l, pr_reference = reference_number l,
                                        pr_price = format_price 2 (asking_price l) (currency l),
                                        pr_status = status_text (status l), pr_badge = status_badge_variant (status l),
                                        pr_actions = (status l = Pending_review) \<rparr>) rows))"

section \<open>Properties\<close>

text \<open>When every answer arrives in the order its fetch was issued, the last pending
  fetch is always the one for the filter on screen.\<close>

fun in_order :: "panel_event \<Rightarrow> bool" where
  "in_order (Fetch_arrives i ok) = (i = 0)"
| "in_order _ = True"

definition last_fetch_current :: "admin_panel \<Rightarrow> bool" where
  "last_fetch_current s \<longleftrightarrow> apn_pending s = [] \<or> last (apn_pending s) = apn_filter s"

lemma last_fetch_current_step:
  "in_order e \<Longrightarrow> last_fetch_current s \<Longrightarrow> last_fetch_current (snd (panel_step e (d, s)))"
proof (cases e)
  case (Fetch_arrives i ok)
  moreover assume "in_order e" "last_fetch_current s"
  ultimately show ?thesis
    using last_drop_nth_0 [of "apn_pending s"]
    by (auto simp: last_fetch_current_def fetch_arrives_def Let_def)
qed (auto simp: last_fetch_current_def issue_fetch_def confirm_approve_def open_reject_dialog_def
             confirm_reject_def split: option.splits)

lemma last_fetch_current_run:
  "list_all in_order es \<Longrightarrow> last_fetch_current (snd (panel_run es d))"
proof -
  have "list_all in_order es \<Longrightarrow> last_fetch_current (snd ds) \<Longrightarrow> last_fetch_current (snd (fold panel_step es ds))"
    for ds
  proof (induction es arbitrary: ds)
    case (Cons e es)
    obtain d s where ds: "ds = (d, s)" by (cases ds)
    have "last_fetch_current (snd (panel_step e (d, s)))"
      using Cons.prems ds by (simp add: last_fetch_current_step)
    then show ?case using Cons.prems Cons.IH ds by simp
  qed simp
  then show "list_all in_order es \<Longrightarrow> ?thesis"
    unfolding panel_run_def by (simp add: last_fetch_current_def admin_panel_init_def)
qed

text \<open>Answers out of order: the admin switches from pending review to approved, the
  new fetch answers first, the old one last; the table then lists the pending
  listings under the ``Approved'' filter.\<close>

lemma out_of_order_fetch_stale_rows:
  "panel_run [Set_filter (Some Approved), Fetch_arrives 1 True, Fetch_arrives 0 True] d
     = (d, admin_panel_init\<lparr>apn_rows := admin_fetch (Some Pending_review) d, apn_loading := False,
                             apn_filter := Some Approved, apn_pending := []\<rparr>)"
  by (simp add: panel_run_def admin_panel_init_def issue_fetch_def fetch_arrives_def drop_nth_def)

text \<open>C23: The order in which the panel's fetches answer decides what it shows: when
  every answer arrives in the order its fetch was issued, the last pending fetch is
  always the one for the filter on screen; when the admin switches from pending
  review to approved and the old fetch answers last, the table lists the pending
  listings under the ``Approved'' filter with nothing left pending.\<close>

theorem panel_fetch_order:
  "(list_all in_order es \<longrightarrow> last_fetch_current (snd (panel_run es d)))
   \<and> panel_run [Set_filter (Some Approved), Fetch_arrives 1 True, Fetch_arrives 0 True] d
       = (d, admin_panel_init\<lparr>apn_rows := admin_fetch (Some Pending_review) d, apn_loading := False,
                               apn_filter := Some Approved, apn_pending := []\<rparr>)"
  using last_fetch_current_run out_of_order_fetch_stale_rows by blast

text \<open>A rejection that fails leaves the dialog open but forgets the listing, so the
  dialog's Reject button then does nothing until the dialog is opened again.\<close>

lemma failed_reject_retry_ignored:
  assumes "apn_dialog_open s" "apn_rejecting s = Some lid"
  shows "panel_step (Confirm_reject True) (panel_step (Confirm_reject False) (d, s))
         = (d, s\<lparr>apn_toast := Some ''Failed to reject listing'', apn_rejecting := None\<rparr>)"
  using assms by (simp add: confirm_reject_def)

text \<open>A successful rejection stores the typed reason (an empty one as \<open>null\<close>) on the
  listing and marks the row rejected.\<close>

lemma confirm_reject_stores_reason:
  assumes "apn_dialog_open s" "apn_rejecting s = Some lid"
  shows "panel_step (Confirm_reject True) (d, s)
         = (handle_reject lid (apn_reason s) d,
            s\<lparr>apn_rows := set_view_status lid Rejected (apn_rows s), apn_toast := Some ''Listing rejected'',
              apn_dialog_open := False, apn_rejecting := None\<rparr>)"
  using assms by (simp add: confirm_reject_def)

end
