(* ===== verification/BrowsePage.thy ===== *)
theory BrowsePage
  imports ListingPage Routes
begin

text \<open>
  The catalogue page (\<open>src/src/pages/Browse.tsx\<close>) as a state machine: the search box,
  the brand, condition and sort selects (whose effect issues a brand fetch and a
  listings fetch with the filter of its render), the Clear Filters button, and the
  answers of the fetches, which may arrive in any order.  The queries are those of
  \<open>Browse\<close> (\<open>fetch_browse\<close>, \<open>browse_search\<close>) and \<open>Listings\<close> (\<open>active_brands\<close>).
  A card links to \<open>/listing/<id>\<close>; with \<open>Routes\<close> and \<open>ListingPage\<close> this theory
  shows that following a card opens that listing's page.
\<close>

record browse_state =
  bs_cards :: "browse_card list"
  bs_brands :: "(row_id \<times> string) list"
  bs_loading :: bool
  bs_search :: string
  bs_brand :: "row_id option"
  bs_condition :: "watch_condition option"
  bs_sort :: sort_order
  bs_pending :: "browse_filter list"
  bs_brand_fetches :: nat

definition current_filter :: "browse_state \<Rightarrow> browse_filter" where
  "current_filter s = \<lparr>bf_brand = bs_brand s, bf_condition = bs_condition s, bf_sort = bs_sort s\<rparr>"

text \<open>The effect on \<open>[selectedBrand, selectedCondition, sortBy]\<close>: a brand fetch and a
  listings fetch with the filter of this render.\<close>

definition browse_effect :: "browse_state \<Rightarrow> browse_state" where
  "browse_effect s =
     s\<lparr>bs_loading := True, bs_pending := bs_pending s @ [current_filter s],
       bs_brand_fetches := Suc (bs_brand_fetches s)\<rparr>"

definition browse_init :: browse_state where
  "browse_init =
     browse_effect \<lparr> bs_cards = [], bs_brands = [], bs_loading = True, bs_search = [], bs_brand = None,
                     bs_condition = None, bs_sort = Newest, bs_pending = [], bs_brand_fetches = 0 \<rparr>"

text \<open>A change of the selects' state; the effect runs only when a dependency changed.\<close>

definition browse_set :: "(browse_state \<Rightarrow> browse_state) \<Rightarrow> browse_state \<Rightarrow> browse_state" where
  "browse_set f s = (let s' = f s in if current_filter s' = current_filter s then s' else browse_effect s')"

text \<open>\<open>fetchListings\<close> answered: with data, the cards of its filter; without, the old
  cards; in both cases \<open>loading\<close> ends.\<close>

definition listings_arrive :: "nat \<Rightarrow> bool \<Rightarrow> db \<Rightarrow> browse_state \<Rightarrow> browse_state" where
  "listings_arrive i ok d s =
     (if i < length (bs_pending s) then
        (let s' = s\<lparr>bs_loading := False, bs_pending := drop_nth i (bs_pending s)\<rparr>
         in if ok then s'\<lparr>bs_cards := fetch_browse (bs_pending s ! i) d\<rparr> else s')
      else s)"

definition brands_arrive :: "bool \<Rightarrow> db \<Rightarrow> browse_state \<Rightarrow> browse_state" where
  "brands_arrive ok d s =
     (if bs_brand_fetches s = 0 then s
      else let s' = s\<lparr>bs_brand_fetches := bs_brand_fetches s - 1\<rparr>
           in if ok then s'\<lparr>bs_brands := active_brands d\<rparr> else s')"

datatype browse_event =
    Type_browse_search string
  | Select_brand "row_id option"
  | Select_condition "watch_condition option"
  | Select_sort sort_order
  | Clear_filters
  | Listings_arrive nat bool
  | Brands_arrive bool

fun browse_step :: "db \<Rightarrow> browse_event \<Rightarrow> browse_state \<Rightarrow> browse_state" where
  "browse_step d (Type_browse_search q) s = s\<lparr>bs_search := q\<rparr>"
| "browse_step d (Select_brand b) s = browse_set (\<lambda>s. s\<lparr>bs_brand := b\<rparr>) s"
| "browse_step d (Select_condition c) s = browse_set (\<lambda>s. s\<lparr>bs_condition := c\<rparr>) s"
| "browse_step d (Select_sort o') s = browse_set (\<lambda>s. s\<lparr>bs_sort := o'\<rparr>) s"
| "browse_step d Clear_filters s = browse_set (\<lambda>s. s\<lparr>bs_search := [], bs_brand := None, bs_condition := None\<rparr>) s"
| "browse_step d (Listings_arrive i ok) s = listings_arrive i ok d s"
| "browse_step d (Brands_arrive ok) s = brands_arrive ok d s"

definition browse_run :: "db \<Rightarrow> browse_event list \<Rightarrow> browse_state" where
  "browse_run d es = fold (browse_step d) es browse_init"

section \<open>Rendering\<close>

definition brand_options :: "browse_state \<Rightarrow> (row_id option \<times> string) list" where
  "brand_options s = (None, ''All Brands'') # map (\<lambda>(i, n). (Some i, n)) (bs_brands s)"

definition condition_options :: "(watch_condition option \<times> string) list" where
  "condition_options =
     [(None, ''All Conditions''), (Some Unworn, ''Unworn''), (Some Excellent, ''Excellent''),
      (Some Very_good, ''Very Good''), (Some Good, ''Good''), (Some Fair, ''Fair'')]"

text \<open>Browse's own \<open>formatPrice\<close>: \<open>Intl.NumberFormat\<close> in the listing's currency
  with no fraction digits.\<close>

definition browse_price :: "money \<Rightarrow> string \<Rightarrow> string" where
  "browse_price p c = format_price 0 p c"

definition sort_options :: "(sort_order \<times> string) list" where
  "sort_options = [(Newest, ''Newest First''), (Price_low, ''Price: Low to High''), (Price_high, ''Price: High to Low'')]"

record card_view =
  cw_link :: string
  cw_brand :: "string option"
  cw_model :: string
  cw_reference :: string
  cw_price :: string
  cw_year :: "int option"
  cw_box :: bool
  cw_papers :: bool
  cw_tier :: app_role

datatype browse_body = Browse_skeleton | No_results | Card_grid "card_view list"

definition card_view_of :: "browse_card \<Rightarrow> card_view" where
  "card_view_of c =
     (let l = bc_listing c in
      \<lparr> cw_link = ''/listing/'' @ l_id l, cw_brand = bc_brand c, cw_model = model l,
        cw_reference = reference_number l, cw_price = browse_price (asking_price l) (currency l), cw_year = (case year_produced l of Some y \<Rightarrow> if y = 0 then None else Some y | None \<Rightarrow> None),
        cw_box = has_box l, cw_papers = has_papers l, cw_tier = bc_seller_role c \<rparr>)"

definition browse_body :: "browse_state \<Rightarrow> browse_body" where
  "browse_body s =
     (let cards = browse_search (bs_search s) (bs_cards s) in
      if bs_loading s then Browse_skeleton
      else if cards = [] then No_results
      else Card_grid (map card_view_of cards))"

section \<open>Properties\<close>

fun browse_in_order :: "browse_event \<Rightarrow> bool" where
  "browse_in_order (Listings_arrive i ok) = (i = 0)"
| "browse_in_order _ = True"

definition browse_last_current :: "browse_state \<Rightarrow> bool" where
  "browse_last_current s \<longleftrightarrow> bs_pending s = [] \<or> last (bs_pending s) = current_filter s"

lemma browse_last_current_step:
  "browse_in_order e \<Longrightarrow> browse_last_current s \<Longrightarrow> browse_last_current (browse_step d e s)"
proof (cases e)
  case (Listings_arrive i ok)
  moreover assume "browse_in_order e" "browse_last_current s"
  ultimately show ?thesis
    using last_drop_nth_0 [of "bs_pending s"]
    by (auto simp: browse_last_current_def listings_arrive_def Let_def current_filter_def)
qed (auto simp: browse_last_current_def browse_set_def browse_effect_def brands_arrive_def Let_def
               current_filter_def)

text \<open>Answered in issue order, the last listings fetch in flight is the one for the
  selects on screen.\<close>

lemma browse_last_current_run:
  assumes "list_all browse_in_order es"
  shows "browse_last_current (browse_run d es)"
proof -
  have "list_all browse_in_order es \<Longrightarrow> browse_last_current s \<Longrightarrow> browse_last_current (fold (browse_step d) es s)"
    for s by (induction es arbitrary: s) (simp_all add: browse_last_current_step)
  moreover have "browse_last_current browse_init"
    by (simp add: browse_last_current_def browse_init_def browse_effect_def current_filter_def)
  ultimately show ?thesis
    using assms unfolding browse_run_def by blast
qed

text \<open>Clear Filters resets the search, brand and condition but keeps the sort, and it
  fetches nothing when only the search was set.\<close>

lemma clear_filters_search_only:
  "bs_brand s = None \<Longrightarrow> bs_condition s = None \<Longrightarrow> browse_step d Clear_filters s = s\<lparr>bs_search := []\<rparr>"
  by (simp add: browse_set_def current_filter_def)

lemma clear_filters_keeps_sort: "bs_sort (browse_step d Clear_filters s) = bs_sort s"
  by (simp add: browse_set_def browse_effect_def Let_def)

text \<open>C38: Following a catalogue card opens that listing's page: for a card of any
  catalogue query, when listing ids are unique and the id is a plain path segment,
  the card's link routes to the listing page of its id, and that page, once its fetch
  has answered, shows the very listing of the card.\<close>

theorem card_opens_listing:
  assumes "c \<in> set (fetch_browse f d)" "distinct (map l_id (listings d))"
      and "l_id (bc_listing c) \<noteq> []" "CHR ''/'' \<notin> set (l_id (bc_listing c))"
      and "CHR ''?'' \<notin> set (l_id (bc_listing c))" "CHR ''#'' \<notin> set (l_id (bc_listing c))"
  shows "route_of (cw_link (card_view_of c)) = Listing_detail_pg (l_id (bc_listing c))
         \<and> (\<exists>p. ds_page (detail_open d (l_id (bc_listing c))) = Some p \<and> lp_listing p = bc_listing c
                \<and> \<not> ds_loading (detail_open d (l_id (bc_listing c))))"
proof -
  obtain l where l: "l \<in> set (browse_query f d)" "c = browse_card_of d l"
    using assms(1) by (auto simp: fetch_browse_def)
  then have mem: "l \<in> set (listings d)" "status l = Approved"
    by (simp_all add: browse_query_set)
  have c: "bc_listing c = l" using l(2) by (simp add: browse_card_of_def)
  have "filter (\<lambda>x. l_id x = l_id l \<and> status x = Approved) (listings d) = [l]"
    using filter_key_unique [OF assms(2) mem(1), of "\<lambda>x. status x = Approved"] mem(2) by simp
  then have "ds_page (detail_open d (l_id l)) = Some \<lparr> lp_listing = l, lp_brand = brand_name_of d l,
              lp_photos = sort_photos (filter (\<lambda>p. ph_listing_id p = l_id l) (listing_photos d)),
              lp_seller = detail_seller d (seller_id l) \<rparr>
             \<and> \<not> ds_loading (detail_open d (l_id l))"
    by (simp add: detail_open_def detail_fetch_def fetch_listing_page_def)
  moreover have "route_of (cw_link (card_view_of c)) = Listing_detail_pg (l_id (bc_listing c))"
    using route_of_listing [OF assms(3-6)] by (simp add: card_view_of_def Let_def)
  ultimately show ?thesis using c by auto
qed

end
