(* ===== verification/MarketingPage.thy ===== *)
theory MarketingPage
  imports Onboarding Pricing
begin

text \<open>
  The marketing page at \<open>/page-2\<close> (\<open>src/src/pages/Page2.tsx\<close>): a static page of four
  sections, the trust pillars, the membership tiers, the market-context example and a
  call to action.  It has no state and calls nothing, so it is a constant.  The lemmas
  compare the tiers it advertises with the seller onboarding wizard (\<open>Onboarding\<close>) and
  the fee policy (\<open>FeePolicy\<close>), and follow its links through the router (\<open>Routes\<close>).
\<close>

definition trust_pillars :: "(string \<times> string) list" where
  "trust_pillars =
     [(''Verified Sellers'',
       ''Every seller completes identity verification before listing. No anonymous actors. No unknown parties.''),
      (''Authenticated Listings'',
       ''Structured photo requirements and admin review ensure every listing meets exchange standards.''),
      (''Protected Transactions'',
       ''Secure payment processing with buyer protection. Funds held until confirmed delivery.'')]"

record tier_card =
  tc_kicker :: string
  tc_name :: string
  tc_description :: string
  tc_features :: "string list"
  tc_cta :: string
  tc_cta_link :: string
  tc_popular :: bool

definition page2_tiers :: "tier_card list" where
  "page2_tiers =
     [\<lparr> tc_kicker = ''Free Access'', tc_name = ''Buyer'',
        tc_description = ''Browse and purchase with confidence on a trust-first exchange.'',
        tc_features = [''Browse all listings'', ''Save watches'', ''Message sellers'', ''Purchase watches''],
        tc_cta = ''Create Free Account'', tc_cta_link = ''/auth?mode=signup'', tc_popular = False \<rparr>,
      \<lparr> tc_kicker = ''Free '' @ bullet @ '' 3.5% commission'', tc_name = ''Private Holder'',
        tc_description = ''For individuals selling a personal timepiece with no monthly commitment.'',
        tc_features = [''1'' @ en_dash @ ''3 active listings'', ''Message buyers'', ''Complete transactions'',
                       ''Identity verification''],
        tc_cta = ''Start Selling'', tc_cta_link = ''/auth?mode=signup'', tc_popular = False \<rparr>,
      \<lparr> tc_kicker = ''$50/month '' @ bullet @ '' 2.5% commission'', tc_name = ''Verified Dealer'',
        tc_description = ''Built for repeat sellers who value speed, tools, and professional credibility.'',
        tc_features = [''Up to 25 active listings'', ''Priority listing review'', ''Saved listing templates'',
                       ''Basic performance insights''],
        tc_cta = ''Become a Dealer'', tc_cta_link = ''/auth?mode=signup'', tc_popular = True \<rparr>,
      \<lparr> tc_kicker = ''$195/month '' @ bullet @ '' 0% commission'', tc_name = ''Certified Partner'',
        tc_description = ''Institutional-grade access for high-volume dealers aligned with exchange standards.'',
        tc_features = [''Unlimited listings'', ''Zero commission'', ''Branded storefront'', ''Advanced analytics'',
                       ''Dedicated support''],
        tc_cta = ''Apply for Partnership'', tc_cta_link = ''/auth?mode=signup'', tc_popular = False \<rparr>]"

definition page2_launch_note :: string where
  "page2_launch_note = ''All new sellers enjoy a 90-day zero-fee launch period.''"

definition market_intro :: string where
  "market_intro =
     ''We provide market context based on recent observations'' @ em_dash
     @ ''not automated valuations or AI appraisals. Reference ranges help inform decisions, not guarantee outcomes.''"

definition market_points :: "string list" where
  "market_points =
     [''Low / Expected / Premium price ranges per reference'', ''Based on verified market observations'',
      ''Clearly labeled for decision support only'']"

definition market_example :: "string \<times> (string \<times> string) list \<times> string" where
  "market_example =
     (''Rolex Submariner 126610LN'', [(''Low'', ''$12,800''), (''Expected'', ''$14,200''), (''Premium'', ''$16,500'')],
      ''Based on recent market observations. For reference purposes only.'')"

definition page2_ctas :: "(string \<times> string) list" where
  "page2_ctas = [(''Browse Listings'', ''/browse''), (''Create Account'', ''/auth?mode=signup'')]"

record page2_view =
  p2_pillars :: "(string \<times> string) list"
  p2_tiers :: "tier_card list"
  p2_note :: string
  p2_market :: "string \<times> string list \<times> (string \<times> (string \<times> string) list \<times> string)"
  p2_ctas :: "(string \<times> string) list"

definition page2 :: page2_view where
  "page2 =
     \<lparr> p2_pillars = trust_pillars, p2_tiers = page2_tiers, p2_note = page2_launch_note,
       p2_market = (market_intro, market_points, market_example), p2_ctas = page2_ctas \<rparr>"

section \<open>Properties\<close>

text \<open>The link targets of the page: the tier cards' buttons and the final call to
  action.\<close>

definition page2_links :: "string list" where
  "page2_links = map tc_cta_link (p2_tiers page2) @ map snd (p2_ctas page2)"

text \<open>Every link of the page leads to a page of the app: the sign-up form, or the
  catalogue.\<close>

theorem page2_links_route:
  "map route_of page2_links = [Auth_pg, Auth_pg, Auth_pg, Auth_pg, Browse_pg, Auth_pg]"
proof -
  have "route_of ''/auth?mode=signup'' = Auth_pg" by code_simp
  moreover have "route_of ''/browse'' = Browse_pg" by code_simp
  ultimately show ?thesis
    by (simp add: page2_links_def page2_def page2_tiers_def page2_ctas_def)
qed

text \<open>The seller tiers of the page advertise the commission and the listing limit the
  fee policy and the quota enforcer apply to their roles, and they repeat the price
  lines, the first features and the ``Popular'' mark of the onboarding wizard's intent
  cards.\<close>

theorem page2_tiers_match_fee_policy:
  "map (\<lambda>t. (price_rate (tc_kicker t), advertised_limit (hd (tc_features t)))) (tl (p2_tiers page2))
     = map (\<lambda>r. (Some (100 * base_commission_rate r), listing_limit r)) [Observer, Individual_seller, Super_seller]
   \<and> map tc_kicker (tl (p2_tiers page2)) = map ic_price (intent_cards ob)
   \<and> map (hd \<circ> tc_features) (tl (p2_tiers page2)) = map (hd \<circ> ic_features) (intent_cards ob)
   \<and> map tc_popular (tl (p2_tiers page2)) = map ic_popular (intent_cards ob)"
  by (simp add: page2_def page2_tiers_def intent_cards_def price_rate_def advertised_limit_def
                js_parse_float_def js_sign_def is_digit_def digits_val_def bullet_def en_dash_def)

end
