(* ===== verification/ListingForm.thy ===== *)
theory ListingForm
  imports Listings AdminSettings
begin

text \<open>
  The form of \<open>CreateListing.tsx\<close> as the user fills it: the react-hook-form state with
  its \<open>defaultValues\<close>, the \<open>onChange\<close> handler of every field (the number inputs store
  \<open>parseInt\<close>/\<open>parseFloat\<close> of their text, or \<open>undefined\<close> when it is empty), the
  \<open>value={field.value || ''}\<close> the inputs display, the zod resolver that turns the
  state into the \<open>ListingFormData\<close> of \<open>Listings\<close> or into the messages under the fields,
  and the submit, which calls \<open>onSubmit\<close> (\<open>create_listing\<close>) only with resolved data.
  The messages are zod's for the schema's custom texts, and zod's default English
  messages otherwise.
\<close>

section \<open>The form state\<close>

text \<open>A number field holds \<open>undefined\<close>, \<open>NaN\<close> (\<open>parseInt\<close> of a text with no leading
  digits) or a number.\<close>

datatype 'a num_field = Undef | Nan | Num 'a

record form_state =
  fs_brand_id :: row_id
  fs_model :: string
  fs_reference_number :: string
  fs_serial_number :: "string option"
  fs_year_produced :: "int num_field"
  fs_year_produced_end :: "int num_field"
  fs_condition :: watch_condition
  fs_has_box :: bool
  fs_has_papers :: bool
  fs_asking_price :: "rat num_field"
  fs_currency :: string
  fs_description :: "string option"

definition form_defaults :: form_state where
  "form_defaults =
     \<lparr> fs_brand_id = [], fs_model = [], fs_reference_number = [], fs_serial_number = Some [],
       fs_year_produced = Undef, fs_year_produced_end = Undef, fs_condition = Excellent,
       fs_has_box = False, fs_has_papers = False, fs_asking_price = Undef, fs_currency = ''USD'',
       fs_description = Some [] \<rparr>"

text \<open>\<open>e.target.value ? parse(e.target.value) : undefined\<close>.\<close>

definition num_input :: "(string \<Rightarrow> 'a option) \<Rightarrow> string \<Rightarrow> 'a num_field" where
  "num_input parse s = (if s = [] then Undef else case parse s of None \<Rightarrow> Nan | Some v \<Rightarrow> Num v)"

text \<open>\<open>field.value || ''\<close>: \<open>undefined\<close>, \<open>NaN\<close> and \<open>0\<close> leave the box empty.\<close>

definition num_shown :: "'a::zero num_field \<Rightarrow> 'a option" where
  "num_shown v = (case v of Num x \<Rightarrow> if x = 0 then None else Some x | _ \<Rightarrow> None)"

definition num_display :: "('a::zero \<Rightarrow> string) \<Rightarrow> 'a num_field \<Rightarrow> string" where
  "num_display show v = (case num_shown v of None \<Rightarrow> [] | Some x \<Rightarrow> show x)"

datatype form_edit =
    Edit_brand row_id
  | Edit_model string
  | Edit_reference string
  | Edit_serial string
  | Edit_year string
  | Edit_year_end string
  | Edit_condition watch_condition
  | Edit_box bool
  | Edit_papers bool
  | Edit_price string
  | Edit_currency string
  | Edit_description string

fun form_step :: "form_edit \<Rightarrow> form_state \<Rightarrow> form_state" where
  "form_step (Edit_brand b) fs = fs\<lparr>fs_brand_id := b\<rparr>"
| "form_step (Edit_model s) fs = fs\<lparr>fs_model := s\<rparr>"
| "form_step (Edit_reference s) fs = fs\<lparr>fs_reference_number := s\<rparr>"
| "form_step (Edit_serial s) fs = fs\<lparr>fs_serial_number := Some s\<rparr>"
| "form_step (Edit_year s) fs = fs\<lparr>fs_year_produced := num_input js_parse_int s\<rparr>"
| "form_step (Edit_year_end s) fs = fs\<lparr>fs_year_produced_end := num_input js_parse_int s\<rparr>"
| "form_step (Edit_condition c) fs = fs\<lparr>fs_condition := c\<rparr>"
| "form_step (Edit_box b) fs = fs\<lparr>fs_has_box := b\<rparr>"
| "form_step (Edit_papers b) fs = fs\<lparr>fs_has_papers := b\<rparr>"
| "form_step (Edit_price s) fs = fs\<lparr>fs_asking_price := num_input js_parse_float s\<rparr>"
| "form_step (Edit_currency c) fs = fs\<lparr>fs_currency := c\<rparr>"
| "form_step (Edit_description s) fs = fs\<lparr>fs_description := Some s\<rparr>"

section \<open>The resolver\<close>

text \<open>\<open>zodResolver(listingSchema)\<close>: an optional number accepts \<open>undefined\<close> and rejects
  \<open>NaN\<close>; the required price rejects both; then the schema's checks.\<close>

definition opt_num :: "'a num_field \<Rightarrow> 'a option option" where
  "opt_num v = (case v of Undef \<Rightarrow> Some None | Nan \<Rightarrow> None | Num x \<Rightarrow> Some (Some x))"

definition resolve_form :: "int \<Rightarrow> form_state \<Rightarrow> listing_form option" where
  "resolve_form this_year fs =
     (case (opt_num (fs_year_produced fs), opt_num (fs_year_produced_end fs), fs_asking_price fs) of
        (Some y, Some ye, Num p) \<Rightarrow>
          (let f = \<lparr> f_brand_id = fs_brand_id fs, f_model = fs_model fs,
                     f_reference_number = fs_reference_number fs, f_serial_number = fs_serial_number fs,
                     f_year_produced = y, f_year_produced_end = ye, f_condition = fs_condition fs,
                     f_has_box = fs_has_box fs, f_has_papers = fs_has_papers fs, f_asking_price = p,
                     f_currency = fs_currency fs, f_description = fs_description fs \<rparr>
           in if listing_schema_ok this_year f then Some f else None)
      | _ \<Rightarrow> None)"

text \<open>The message \<open>FormMessage\<close> shows under each field: the first failing check.\<close>

definition or_else :: "'a option \<Rightarrow> 'a option \<Rightarrow> 'a option" where
  "or_else a b = (case a of None \<Rightarrow> b | Some m \<Rightarrow> Some m)"

definition required_error :: "string \<Rightarrow> string \<Rightarrow> string option" where
  "required_error msg s = (if length s < 1 then Some msg else None)"

definition max_len_error :: "nat \<Rightarrow> string \<Rightarrow> string option" where
  "max_len_error n s =
     (if n < length s then Some (''String must contain at most '' @ nat_str n @ '' character(s)'') else None)"

definition year_error :: "int \<Rightarrow> int num_field \<Rightarrow> string option" where
  "year_error this_year v =
     (case v of
        Undef \<Rightarrow> None
      | Nan \<Rightarrow> Some ''Expected number, received nan''
      | Num y \<Rightarrow> if y < 1900 then Some ''Number must be greater than or equal to 1900''
                 else if this_year < y then Some (''Number must be less than or equal to '' @ int_str this_year)
                 else None)"

definition price_error :: "rat num_field \<Rightarrow> string option" where
  "price_error v =
     (case v of
        Undef \<Rightarrow> Some ''Required''
      | Nan \<Rightarrow> Some ''Expected number, received nan''
      | Num p \<Rightarrow> if p < 100 then Some ''Minimum price is $100'' else None)"

definition field_errors :: "int \<Rightarrow> form_state \<Rightarrow> (string \<times> string option) list" where
  "field_errors this_year fs =
     [(''brand_id'', required_error ''Brand is required'' (fs_brand_id fs)),
      (''model'', or_else (required_error ''Model is required'' (fs_model fs)) (max_len_error 100 (fs_model fs))),
      (''reference_number'',
       or_else (required_error ''Reference number is required'' (fs_reference_number fs))
               (max_len_error 50 (fs_reference_number fs))),
      (''serial_number'', case fs_serial_number fs of None \<Rightarrow> None | Some s \<Rightarrow> max_len_error 50 s),
      (''year_produced'', year_error this_year (fs_year_produced fs)),
      (''year_produced_end'', year_error this_year (fs_year_produced_end fs)),
      (''asking_price'', price_error (fs_asking_price fs)),
      (''currency'', required_error ''String must contain at least 1 character(s)'' (fs_currency fs)),
      (''description'',
       case fs_description fs of None \<Rightarrow> None
       | Some s \<Rightarrow> if 2000 < length s then Some ''Description must be under 2000 characters'' else None)]"

text \<open>\<open>form.handleSubmit(onSubmit)\<close>: with resolved data, \<open>onSubmit\<close>; else the messages
  and no call.\<close>

definition form_submit ::
  "uid option \<Rightarrow> app_role option \<Rightarrow> int \<Rightarrow> form_state \<Rightarrow> photo_state \<Rightarrow> (photo_type \<Rightarrow> bool) \<Rightarrow>
     (db \<Rightarrow> listing_row \<Rightarrow> bool) \<Rightarrow> row_id \<Rightarrow> db \<Rightarrow> db \<times> create_outcome" where
  "form_submit user r this_year fs ph ok acc nid d =
     (case resolve_form this_year fs of
        None \<Rightarrow> (d, Form_invalid)
      | Some f \<Rightarrow> create_listing user r this_year f ph ok acc nid d)"

section \<open>Rendering\<close>

text \<open>The option texts of the condition and currency selects (\<open>CONDITIONS\<close>,
  \<open>CURRENCIES\<close>).\<close>

definition condition_descriptions :: "(watch_condition \<times> string) list" where
  "condition_descriptions =
     [(Unworn, ''Never worn, with all original tags and stickers''),
      (Excellent, ''Minimal signs of wear, near-mint condition''),
      (Very_good, ''Light wear consistent with occasional use''),
      (Good, ''Visible wear but fully functional''),
      (Fair, ''Significant wear, may need service'')]"

definition currency_labels :: "(string \<times> string) list" where
  "currency_labels =
     [(''USD'', ''USD ($)''), (''EUR'', ''EUR ('' @ [CHR 0xE2, CHR 0x82, CHR 0xAC] @ '')''),
      (''GBP'', ''GBP ('' @ [CHR 0xC2, CHR 0xA3] @ '')''), (''CHF'', ''CHF'')]"

datatype input_kind =
    Select_input string "(string \<times> string) list"
  | Condition_select string "(watch_condition \<times> string) list"
  | Text_input string
  | Number_input string
  | Switch_input
  | Textarea_input string

datatype field_value = Text_value string | Condition_value watch_condition | Flag_value bool | Price_value "rat option"

record field_view =
  fv_name :: string
  fv_label :: string
  fv_input :: input_kind
  fv_value :: field_value
  fv_description :: "string option"
  fv_error :: "string option"

text \<open>The twelve \<open>FormField\<close>s in page order; \<open>tried\<close> says whether a submit was
  attempted, after which react-hook-form shows each field's message and revalidates
  on change.\<close>

definition form_fields :: "(row_id \<times> string) list \<Rightarrow> bool \<Rightarrow> int \<Rightarrow> form_state \<Rightarrow> field_view list" where
  "form_fields brand_opts tried this_year fs =
     (let err = (\<lambda>k. if tried then (case map_of (field_errors this_year fs) k of Some e \<Rightarrow> e | None \<Rightarrow> None) else None);
          fld = (\<lambda>k l i v dsc. \<lparr> fv_name = k, fv_label = l, fv_input = i, fv_value = v, fv_description = dsc,
                                fv_error = err k \<rparr>)
      in [fld ''brand_id'' ''Brand *'' (Select_input ''Select brand'' brand_opts) (Text_value (fs_brand_id fs)) None,
          fld ''model'' ''Model *'' (Text_input ''e.g., Submariner Date'') (Text_value (fs_model fs)) None,
          fld ''reference_number'' ''Reference Number *'' (Text_input ''e.g., 126610LN'')
              (Text_value (fs_reference_number fs)) None,
          fld ''serial_number'' ''Serial Number'' (Text_input ''For verification only'')
              (Text_value (case fs_serial_number fs of None \<Rightarrow> [] | Some s \<Rightarrow> s))
              (Some ''Visible on caseback photo for verification''),
          fld ''year_produced'' ''Year Produced'' (Number_input ''e.g., 2023'')
              (Text_value (num_display int_str (fs_year_produced fs))) (Some ''Enter a single year or start of range''),
          fld ''year_produced_end'' ''Year Range End (Optional)'' (Number_input ''e.g., 2024'')
              (Text_value (num_display int_str (fs_year_produced_end fs))) (Some ''If year is estimated range''),
          fld ''condition'' ''Condition *''
              (Condition_select ''Select condition''
                 (map (\<lambda>(c, l). (c, l @ '' '' @ em_dash @ '' '' @ the (map_of condition_descriptions c))) listing_conditions))
              (Condition_value (fs_condition fs)) None,
          fld ''has_box'' ''Includes Original Box'' Switch_input (Flag_value (fs_has_box fs)) None,
          fld ''has_papers'' ''Includes Papers/Warranty'' Switch_input (Flag_value (fs_has_papers fs)) None,
          fld ''asking_price'' ''Asking Price *'' (Number_input ''Enter amount'')
              (Price_value (num_shown (fs_asking_price fs))) None,
          fld ''currency'' ''Currency'' (Select_input [] currency_labels) (Text_value (fs_currency fs)) None,
          fld ''description'' ''Additional Details''
              (Textarea_input ''Provide any additional details about the watch, its history, or included accessories...'')
              (Text_value (case fs_description fs of None \<Rightarrow> [] | Some s \<Rightarrow> s))
              (Some ''Maximum 2000 characters. No markdown or HTML.'')])"

text \<open>The page around the fields: Back (\<open>navigate(-1)\<close>), the photo slots of
  \<open>PhotoUpload\<close> for the two switches, Cancel to the dashboard and the submit button,
  disabled while submitting.\<close>

record form_page =
  fp_fields :: "field_view list"
  fp_photo_slots :: "photo_slot list"
  fp_cancel_link :: string
  fp_submit_disabled :: bool

definition create_form_page ::
  "(row_id \<times> string) list \<Rightarrow> bool \<Rightarrow> bool \<Rightarrow> int \<Rightarrow> form_state \<Rightarrow> form_page" where
  "create_form_page brand_opts tried submitting this_year fs =
     \<lparr> fp_fields = form_fields brand_opts tried this_year fs,
       fp_photo_slots = visible_slots (fs_has_box fs) (fs_has_papers fs),
       fp_cancel_link = ''/dashboard'', fp_submit_disabled = submitting \<rparr>"

section \<open>Properties\<close>

lemma one_le_length: "(Suc 0 \<le> length xs) = (xs \<noteq> [])"
  by (cases xs) auto


text \<open>The resolver and the messages under the fields, both written from the zod schema,
  agree: a form state resolves to listing data exactly when no field shows a message.\<close>

theorem resolve_iff_no_errors:
  "(resolve_form y fs \<noteq> None) = list_all (\<lambda>(k, e). e = None) (field_errors y fs)"
  by (cases "fs_year_produced fs"; cases "fs_year_produced_end fs"; cases "fs_asking_price fs")
     (auto simp: resolve_form_def field_errors_def listing_schema_ok_def opt_num_def opt_ok_def or_else_def
                 required_error_def max_len_error_def year_error_def price_error_def Let_def one_le_length
           split: option.splits)

text \<open>A submit changes the database only for resolved data that passes the schema,
  from a signed-in user whose role can sell.\<close>

theorem form_writes_only_resolved:
  "fst (form_submit user r y fs ph ok acc nid d) \<noteq> d \<Longrightarrow>
     (\<exists>f. resolve_form y fs = Some f \<and> listing_schema_ok y f) \<and> user \<noteq> None \<and> can_sell r"
  by (auto simp: form_submit_def create_listing_def resolve_form_def Let_def
           split: option.splits num_field.splits prod.splits if_splits)

text \<open>Submitting the untouched form shows four messages: brand, model, reference and
  price.\<close>

theorem form_defaults_errors:
  "filter (\<lambda>(k, e). e \<noteq> None) (field_errors y form_defaults)
     = [(''brand_id'', Some ''Brand is required''), (''model'', Some ''Model is required''),
        (''reference_number'', Some ''Reference number is required''), (''asking_price'', Some ''Required'')]"
  by (simp add: field_errors_def form_defaults_def or_else_def required_error_def max_len_error_def
                year_error_def price_error_def)

text \<open>Typing 0 as the year stores 0, which the input's display hides: after a submit
  the year box is empty while it reports that the year must be at least 1900.\<close>

theorem zero_year_hidden_error:
  "let fs' = form_step (Edit_year ''0'') fs in
     fs_year_produced fs' = Num 0
     \<and> fv_value (form_fields bs True y fs' ! 4) = Text_value []
     \<and> fv_error (form_fields bs True y fs' ! 4) = Some ''Number must be greater than or equal to 1900''
     \<and> resolve_form y fs' = None"
  by (simp add: num_input_def js_parse_int_def js_sign_def is_digit_def digits_val_def form_fields_def
                num_display_def num_shown_def field_errors_def year_error_def resolve_form_def opt_num_def
                listing_schema_ok_def opt_ok_def Let_def split: option.splits num_field.splits)

text \<open>Filling brand, model, reference and price submits the listing: the resolver
  gives the data below, and the row \<open>onSubmit\<close> inserts stores the untouched serial
  number (an empty string) as \<open>null\<close>.\<close>

theorem filled_form_resolves:
  "resolve_form 2025 (fold form_step [Edit_brand ''b1'', Edit_model ''Submariner'', Edit_reference ''126610LN'',
                                     Edit_price ''12500''] form_defaults)
     = Some \<lparr> f_brand_id = ''b1'', f_model = ''Submariner'', f_reference_number = ''126610LN'',
              f_serial_number = Some [], f_year_produced = None, f_year_produced_end = None,
              f_condition = Excellent, f_has_box = False, f_has_papers = False, f_asking_price = 12500,
              f_currency = ''USD'', f_description = Some [] \<rparr>
   \<and> serial_number (new_listing_row nid u (the (resolve_form 2025 (fold form_step [Edit_brand ''b1'',
        Edit_model ''Submariner'', Edit_reference ''126610LN'', Edit_price ''12500''] form_defaults)))) = None"
  by (simp add: form_defaults_def num_input_def js_parse_float_def js_sign_def is_digit_def digits_val_def
                resolve_form_def opt_num_def listing_schema_ok_def opt_ok_def new_listing_row_def
                opt_str_or_null_def js_str_or_null_def)

end
