(* ===== verification/UsersPanel.thy ===== *)
theory UsersPanel
  imports UserManagement AdminPanel
begin

text \<open>
  The user table of \<open>AdminUserManagement.tsx\<close> as a component over time: the refresh,
  the search box, and the role select and zero-fee switch of each row, whose handlers
  (\<open>handle_role_change\<close>, \<open>handle_zero_fee_toggle\<close> of \<open>UserManagement\<close>) run
  asynchronously.  A handler keeps the \<open>users\<close> of the render it was created in and
  ends with \<open>setUsers(users.map(...))\<close> on that copy, and \<open>updatingUser\<close> holds one
  id, which disables only that row's controls.  So a pending operation is its request
  and the copy it captured, and the completion of any pending operation is an event.
  \<open>fetchUsers\<close> is two events: its start sets \<open>loading\<close>, its answer stores the
  table or, on an error, keeps the old one.
\<close>

datatype pending_op = Role_op uid app_role | Fee_op uid bool

record users_panel =
  up_users :: "user_with_role list"
  up_loading :: bool
  up_search :: string
  up_updating :: "uid option"
  up_pending :: "(pending_op \<times> user_with_role list) list"

definition users_panel_mount :: users_panel where
  "users_panel_mount = \<lparr> up_users = [], up_loading = True, up_search = [], up_updating = None, up_pending = [] \<rparr>"

text \<open>The panel once the mount's fetch has answered.\<close>

definition users_panel_init :: "db \<Rightarrow> users_panel" where
  "users_panel_init d = users_panel_mount\<lparr>up_users := fetch_users d, up_loading := False\<rparr>"

definition op_user :: "pending_op \<Rightarrow> uid" where
  "op_user op = (case op of Role_op u _ \<Rightarrow> u | Fee_op u _ \<Rightarrow> u)"

text \<open>A click on a row's select or switch: ignored while that row is disabled, else
  \<open>setUpdatingUser(userId)\<close> and the request starts with the current table.\<close>

definition start_op :: "pending_op \<Rightarrow> users_panel \<Rightarrow> users_panel" where
  "start_op op s =
     (if up_updating s = Some (op_user op) then s
      else s\<lparr>up_updating := Some (op_user op), up_pending := up_pending s @ [(op, up_users s)]\<rparr>)"

text \<open>The \<open>i\<close>-th pending operation completes: its writes, \<open>setUsers\<close> on its captured
  copy, and \<open>setUpdatingUser(null)\<close> in \<open>finally\<close>.\<close>

definition finish_op :: "nat \<Rightarrow> db \<Rightarrow> users_panel \<Rightarrow> db \<times> users_panel" where
  "finish_op i d s =
     (if i < length (up_pending s) then
        (let (op, snap) = up_pending s ! i;
             (d', view) = (case op of Role_op u r \<Rightarrow> handle_role_change u r d snap
                                    | Fee_op u b \<Rightarrow> handle_zero_fee_toggle u b d snap)
         in (d', s\<lparr>up_users := view, up_updating := None, up_pending := drop_nth i (up_pending s)\<rparr>))
      else (d, s))"

datatype users_event =
    Type_user_search string
  | Refresh_users
  | Users_loaded bool
  | Pick_role uid app_role
  | Toggle_fee uid bool
  | Op_done nat

fun users_step :: "users_event \<Rightarrow> db \<times> users_panel \<Rightarrow> db \<times> users_panel" where
  "users_step (Type_user_search q) (d, s) = (d, s\<lparr>up_search := q\<rparr>)"
| "users_step Refresh_users (d, s) = (d, if up_loading s then s else s\<lparr>up_loading := True\<rparr>)"
| "users_step (Users_loaded ok) (d, s) =
     (d, if \<not> up_loading s then s
         else if ok then s\<lparr>up_users := fetch_users d, up_loading := False\<rparr> else s\<lparr>up_loading := False\<rparr>)"
| "users_step (Pick_role u r) (d, s) = (d, start_op (Role_op u r) s)"
| "users_step (Toggle_fee u b) (d, s) = (d, start_op (Fee_op u b) s)"
| "users_step (Op_done i) (d, s) = finish_op i d s"

definition users_run :: "users_event list \<Rightarrow> db \<times> users_panel \<Rightarrow> db \<times> users_panel" where
  "users_run es ds = fold users_step es ds"

section \<open>Rendering\<close>

fun kyc_badge_variant :: "verification_status \<Rightarrow> badge_variant" where
  "kyc_badge_variant Kyc_verified = Badge_default"
| "kyc_badge_variant Kyc_pending = Badge_secondary"
| "kyc_badge_variant Kyc_rejected = Badge_destructive"
| "kyc_badge_variant _ = Badge_outline"

record user_row =
  ur_name :: string
  ur_email :: string
  ur_tier :: "string option"
  ur_kyc_text :: string
  ur_kyc_badge :: badge_variant
  ur_zero_fee :: bool
  ur_role_value :: "app_role option"
  ur_disabled :: bool

datatype users_table = Loading_users | No_users_found | User_rows "user_row list"

definition users_table :: "users_panel \<Rightarrow> users_table" where
  "users_table s =
     (let us = filter_users (up_search s) (up_users s) in
      if up_loading s then Loading_users
      else if us = [] then No_users_found
      else User_rows (map (\<lambda>w. \<lparr> ur_name = (case uw_full_name w of Some n \<Rightarrow> if n = [] then ''No name'' else n
                                                                 | None \<Rightarrow> ''No name''),
                                  ur_email = uw_email w, ur_tier = map_option tier_label (uw_role w),
                                  ur_kyc_text = js_replace_first ''_'' '' '' (kyc_status_name (uw_kyc_status w)),
                                  ur_kyc_badge = kyc_badge_variant (uw_kyc_status w),
                                  ur_zero_fee = (uw_zero_fee_eligible w = Some True),
                                  ur_role_value = uw_role w,
                                  ur_disabled = (up_updating s = Some (uw_user_id w)) \<rparr>) us))"

section \<open>Properties\<close>


text \<open>Two role changes in flight lose one in the table: the admin picks a role for
  \<open>a\<close>, then for \<open>b\<close> before the first answers; both writes reach the database, but
  the second completion's \<open>setUsers\<close> rewrites the table from the copy it captured
  before the first completed, so \<open>a\<close>'s row shows its old role.  And the first
  completion's \<open>finally\<close> re-enables \<open>b\<close>'s controls while \<open>b\<close>'s change is pending.\<close>

theorem concurrent_role_changes_lose_update:
  assumes "a \<noteq> b"
  shows "users_run [Pick_role a ra, Pick_role b rb, Op_done 0, Op_done 0] (d, users_panel_init d)
           = (fst (handle_role_change b rb (fst (handle_role_change a ra d (fetch_users d))) (fetch_users d)),
              (users_panel_init d)\<lparr>up_users := snd (handle_role_change b rb d (fetch_users d))\<rparr>)
         \<and> up_updating (snd (users_run [Pick_role a ra, Pick_role b rb, Op_done 0] (d, users_panel_init d))) = None
         \<and> up_pending (snd (users_run [Pick_role a ra, Pick_role b rb, Op_done 0] (d, users_panel_init d)))
             = [(Role_op b rb, fetch_users d)]"
  using assms
  by (simp add: users_run_def users_panel_init_def users_panel_mount_def start_op_def finish_op_def op_user_def drop_nth_def
                handle_role_change_def Let_def)

text \<open>One operation at a time keeps the table and its disabled row right: after a
  single completed role change the table is the fetched table with that user's role
  replaced, and no row is disabled.\<close>

lemma single_role_change_view:
  "users_run [Pick_role a r, Op_done 0] (d, users_panel_init d)
     = (fst (handle_role_change a r d (fetch_users d)),
        (users_panel_init d)\<lparr>up_users := map (\<lambda>w. if uw_user_id w = a then w\<lparr>uw_role := Some r\<rparr> else w) (fetch_users d)\<rparr>)"
  by (simp add: users_run_def users_panel_init_def users_panel_mount_def start_op_def finish_op_def op_user_def
                handle_role_change_def Let_def)

end
