(* ===== verification/AdminConsole.thy ===== *)
theory AdminConsole
  imports UsersPanel AdminSettings
begin

text \<open>
  The admin page (\<open>src/src/pages/Admin.tsx\<close>) and the settings panel over time.  The
  page admits only a signed-in admin and shows three tabs, each holding one panel:
  \<open>AdminUserManagement\<close> (\<open>UsersPanel\<close>), \<open>AdminListings\<close> (\<open>AdminPanel\<close>) and
  \<open>AdminSettings\<close>.  Radix's \<open>TabsContent\<close> mounts only the active tab, so selecting a
  tab mounts its panel afresh (its state reset, its fetch issued) and discards the
  state of the one left; a request that panel had started still reaches the
  database, but its answer is dropped.  The store is the database and the
  \<open>admin_settings\<close> table.
\<close>

section \<open>The settings panel over time\<close>

record settings_panel =
  stp_settings :: platform_settings
  stp_loading :: bool
  stp_saving :: "platform_settings option"
  stp_toast :: "string option"

definition settings_panel_mount :: settings_panel where
  "settings_panel_mount = \<lparr> stp_settings = default_settings, stp_loading = True, stp_saving = None, stp_toast = None \<rparr>"

text \<open>\<open>handleSaveSettings\<close> starts the six saves together; each lands or fails on its
  own, and \<open>Promise.all\<close> reports a failure if any failed.  \<open>ok\<close> says which saves
  succeed.\<close>

definition save_settings_partial :: "(string \<Rightarrow> bool) \<Rightarrow> platform_settings \<Rightarrow> setting_row list \<Rightarrow> setting_row list" where
  "save_settings_partial ok ps tbl =
     fold (\<lambda>k t. if ok k then save_setting k (get_setting_field k ps) t else t) settings_keys tbl"

datatype settings_event =
    Settings_loaded bool
  | Edit_setting settings_edit
  | Save_click
  | Save_done "string \<Rightarrow> bool"

text \<open>The fetch's answer (an error keeps the current settings), the form's edits (the
  form is shown once loaded), the Save button (disabled while saving; the save
  writes the settings of the click's render) and the answer of the saves.\<close>

fun settings_step :: "settings_event \<Rightarrow> setting_row list \<times> settings_panel \<Rightarrow> setting_row list \<times> settings_panel" where
  "settings_step (Settings_loaded ok) (tbl, s) =
     (tbl, if \<not> stp_loading s then s
           else s\<lparr>stp_settings := (if ok then fetch_settings (Inr (settings_query tbl)) (stp_settings s) else stp_settings s),
                  stp_loading := False\<rparr>)"
| "settings_step (Edit_setting e) (tbl, s) =
     (tbl, if stp_loading s then s else s\<lparr>stp_settings := apply_settings_edit e (stp_settings s)\<rparr>)"
| "settings_step Save_click (tbl, s) =
     (tbl, if stp_loading s \<or> stp_saving s \<noteq> None then s else s\<lparr>stp_saving := Some (stp_settings s)\<rparr>)"
| "settings_step (Save_done ok) (tbl, s) =
     (case stp_saving s of
        None \<Rightarrow> (tbl, s)
      | Some ps \<Rightarrow> (save_settings_partial ok ps tbl,
                   s\<lparr>stp_saving := None,
                     stp_toast := Some (if list_all ok settings_keys then ''Settings saved successfully''
                                        else ''Failed to save settings'')\<rparr>))"

datatype settings_view = Settings_spinner | Settings_form platform_settings bool

definition settings_view :: "settings_panel \<Rightarrow> settings_view" where
  "settings_view s = (if stp_loading s then Settings_spinner else Settings_form (stp_settings s) (stp_saving s \<noteq> None))"

section \<open>The console\<close>

datatype admin_tab = Users_tab | Listings_tab | Settings_tab

record admin_console =
  ac_tab :: admin_tab
  ac_users :: users_panel
  ac_listings :: admin_panel
  ac_settings :: settings_panel
  ac_orphan_ops :: "pending_op list"
  ac_orphan_saves :: "platform_settings list"

type_synonym admin_store = "db \<times> setting_row list"

definition admin_console_init :: admin_console where
  "admin_console_init =
     \<lparr> ac_tab = Users_tab, ac_users = users_panel_mount, ac_listings = admin_panel_init,
       ac_settings = settings_panel_mount, ac_orphan_ops = [], ac_orphan_saves = [] \<rparr>"

text \<open>Leaving a tab: its panel's writes in flight go on without it.  Entering a tab:
  its panel mounts afresh.\<close>

definition leave_tab :: "admin_console \<Rightarrow> admin_console" where
  "leave_tab c =
     (case ac_tab c of
        Users_tab \<Rightarrow> c\<lparr>ac_orphan_ops := ac_orphan_ops c @ map fst (up_pending (ac_users c))\<rparr>
      | Listings_tab \<Rightarrow> c
      | Settings_tab \<Rightarrow> c\<lparr>ac_orphan_saves := ac_orphan_saves c
                                            @ (case stp_saving (ac_settings c) of None \<Rightarrow> [] | Some ps \<Rightarrow> [ps])\<rparr>)"

definition enter_tab :: "admin_tab \<Rightarrow> admin_console \<Rightarrow> admin_console" where
  "enter_tab t c =
     (case t of
        Users_tab \<Rightarrow> c\<lparr>ac_tab := t, ac_users := users_panel_mount\<rparr>
      | Listings_tab \<Rightarrow> c\<lparr>ac_tab := t, ac_listings := admin_panel_init\<rparr>
      | Settings_tab \<Rightarrow> c\<lparr>ac_tab := t, ac_settings := settings_panel_mount\<rparr>)"

definition op_write :: "pending_op \<Rightarrow> db \<Rightarrow> db" where
  "op_write op d =
     fst (case op of Role_op u r \<Rightarrow> handle_role_change u r d [] | Fee_op u b \<Rightarrow> handle_zero_fee_toggle u b d [])"

datatype console_event =
    Select_tab admin_tab
  | Users_ev users_event
  | Listings_ev panel_event
  | Settings_ev settings_event
  | Orphan_op_done nat
  | Orphan_save_done nat "string \<Rightarrow> bool"

fun console_step :: "console_event \<Rightarrow> admin_store \<times> admin_console \<Rightarrow> admin_store \<times> admin_console" where
  "console_step (Select_tab t) (st, c) = (st, if t = ac_tab c then c else enter_tab t (leave_tab c))"
| "console_step (Users_ev e) ((d, tbl), c) =
     (if ac_tab c = Users_tab then (let (d', u) = users_step e (d, ac_users c) in ((d', tbl), c\<lparr>ac_users := u\<rparr>))
      else ((d, tbl), c))"
| "console_step (Listings_ev e) ((d, tbl), c) =
     (if ac_tab c = Listings_tab then (let (d', l) = panel_step e (d, ac_listings c) in ((d', tbl), c\<lparr>ac_listings := l\<rparr>))
      else ((d, tbl), c))"
| "console_step (Settings_ev e) ((d, tbl), c) =
     (if ac_tab c = Settings_tab then (let (tbl', s) = settings_step e (tbl, ac_settings c) in ((d, tbl'), c\<lparr>ac_settings := s\<rparr>))
      else ((d, tbl), c))"
| "console_step (Orphan_op_done i) ((d, tbl), c) =
     (if i < length (ac_orphan_ops c)
      then ((op_write (ac_orphan_ops c ! i) d, tbl), c\<lparr>ac_orphan_ops := drop_nth i (ac_orphan_ops c)\<rparr>)
      else ((d, tbl), c))"
| "console_step (Orphan_save_done i ok) ((d, tbl), c) =
     (if i < length (ac_orphan_saves c)
      then ((d, save_settings_partial ok (ac_orphan_saves c ! i) tbl), c\<lparr>ac_orphan_saves := drop_nth i (ac_orphan_saves c)\<rparr>)
      else ((d, tbl), c))"

definition console_run :: "console_event list \<Rightarrow> admin_store \<Rightarrow> admin_store \<times> admin_console" where
  "console_run es st = fold console_step es (st, admin_console_init)"

section \<open>Rendering\<close>

datatype tab_content =
    Users_content users_table
  | Listings_content panel_table
  | Settings_content settings_view

datatype admin_page_view = Admin_skeleton | Admin_hidden | Admin_shown admin_tab tab_content

text \<open>The page: the skeleton while the session loads, nothing for anyone but an admin
  (whom the effect sends to \<open>/dashboard\<close>), else the tabs with the active panel.\<close>

definition admin_page_view :: "bool \<Rightarrow> bool \<Rightarrow> app_role option \<Rightarrow> admin_console \<Rightarrow> admin_page_view" where
  "admin_page_view loading signed_in r c =
     (if loading then Admin_skeleton
      else if \<not> admin_page_allowed signed_in r then Admin_hidden
      else Admin_shown (ac_tab c)
             (case ac_tab c of
                Users_tab \<Rightarrow> Users_content (users_table (ac_users c))
              | Listings_tab \<Rightarrow> Listings_content (panel_table (ac_listings c))
              | Settings_tab \<Rightarrow> Settings_content (settings_view (ac_settings c))))"

definition admin_page_redirect :: "bool \<Rightarrow> bool \<Rightarrow> app_role option \<Rightarrow> string option" where
  "admin_page_redirect loading signed_in r =
     (if \<not> loading \<and> \<not> admin_page_allowed signed_in r then Some ''/dashboard'' else None)"

section \<open>Properties\<close>

text \<open>The listing tab's fetches answered in issue order.\<close>

fun console_in_order :: "console_event \<Rightarrow> bool" where
  "console_in_order (Listings_ev e) = in_order e"
| "console_in_order _ = True"

lemma last_fetch_current_init: "last_fetch_current admin_panel_init"
  by (simp add: last_fetch_current_def admin_panel_init_def)

lemma console_step_listings_ok:
  assumes "console_in_order e" "last_fetch_current (ac_listings c)"
  shows "last_fetch_current (ac_listings (snd (console_step e (st, c))))"
proof (cases e)
  case (Select_tab t)
  then show ?thesis
    using assms(2) by (cases t; cases "ac_tab c")
      (simp_all add: enter_tab_def leave_tab_def last_fetch_current_init split: option.splits)
next
  case (Listings_ev e')
  obtain a b where st: "st = (a, b)" by (cases st)
  obtain d' l where p: "panel_step e' (a, ac_listings c) = (d', l)"
    by (cases "panel_step e' (a, ac_listings c)")
  have "last_fetch_current l"
    using last_fetch_current_step [of e' "ac_listings c" a] assms Listings_ev p by simp
  show ?thesis
  proof (cases "ac_tab c = Listings_tab")
    case True
    then show ?thesis using Listings_ev st p \<open>last_fetch_current l\<close> by (simp add: Let_def)
  next
    case False
    then show ?thesis using Listings_ev st assms(2) by simp
  qed
next
  case (Users_ev x)
  then show ?thesis using assms(2) by (cases st) (simp add: Let_def split: prod.splits)
next
  case (Settings_ev x)
  then show ?thesis using assms(2) by (cases st) (simp add: Let_def split: prod.splits)
next
  case (Orphan_op_done x)
  then show ?thesis using assms(2) by (cases st) (simp add: Let_def split: prod.splits)
next
  case (Orphan_save_done x y)
  then show ?thesis using assms(2) by (cases st) (simp add: Let_def split: prod.splits)
qed

text \<open>The moderation panel's fetch-order property holds inside the console: across
  tab switches (each of which remounts the panel and issues a new fetch) and the
  other panels' events, the last pending listings fetch is the one for the filter
  on screen when the answers arrive in order.\<close>

theorem console_listings_fetch_order:
  "list_all console_in_order es \<Longrightarrow> last_fetch_current (ac_listings (snd (console_run es st)))"
proof -
  have "list_all console_in_order es \<Longrightarrow> last_fetch_current (ac_listings c) \<Longrightarrow>
        last_fetch_current (ac_listings (snd (fold console_step es (st, c))))" for c st
  proof (induction es arbitrary: c st)
    case (Cons e es)
    then show ?case
      using console_step_listings_ok [of e c st]
      by (cases "console_step e (st, c)") simp
  qed simp
  then show "list_all console_in_order es \<Longrightarrow> last_fetch_current (ac_listings (snd (console_run es st)))"
    by (simp add: console_run_def admin_console_init_def last_fetch_current_init)
qed

text \<open>Leaving the moderation tab discards its state: the admin's status filter is
  back to pending review on return, and the fetch is issued again.\<close>

theorem tab_switch_resets_listings:
  "apn_filter (ac_listings (snd (console_run [Select_tab Listings_tab, Listings_ev (Set_filter (Some Approved))] st)))
     = Some Approved
   \<and> ac_listings (snd (console_run [Select_tab Listings_tab, Listings_ev (Set_filter (Some Approved)),
                                     Select_tab Users_tab, Select_tab Listings_tab] st)) = admin_panel_init"
  by (cases st) (simp add: console_run_def admin_console_init_def enter_tab_def leave_tab_def
                           admin_panel_init_def issue_fetch_def)

text \<open>A role change started on the user tab still reaches the database when the
  admin switches tab before it answers, though its table update and toast are lost.\<close>

theorem orphaned_role_change_lands:
  "fst (fst (console_run [Users_ev (Users_loaded True), Users_ev (Pick_role a r), Select_tab Listings_tab,
                          Orphan_op_done 0] (d, tbl)))
     = fst (handle_role_change a r d [])
   \<and> ac_orphan_ops (snd (console_run [Users_ev (Users_loaded True), Users_ev (Pick_role a r),
                                       Select_tab Listings_tab, Orphan_op_done 0] (d, tbl))) = []"
  by (simp add: console_run_def admin_console_init_def users_panel_mount_def start_op_def op_user_def
                enter_tab_def leave_tab_def op_write_def drop_nth_def)

text \<open>C37: When the six saves of the settings panel answer, every setting whose save
  succeeded has been written and every other one keeps its rows, while the toast
  reports 'Failed to save settings' as soon as one save failed: a reported failure does
  not mean that nothing was written (from a table with at most one row per setting).\<close>

theorem failed_save_partially_written:
  assumes "stp_saving s = Some ps" "settings_keys_unique tbl" "k \<in> set settings_keys"
  shows "filter (\<lambda>r. s_key r = k) (fst (settings_step (Save_done ok) (tbl, s)))
           = (if ok k then [\<lparr>s_key = k, s_value = get_setting_field k ps\<rparr>] else filter (\<lambda>r. s_key r = k) tbl)
         \<and> stp_toast (snd (settings_step (Save_done ok) (tbl, s)))
           = Some (if list_all ok settings_keys then ''Settings saved successfully'' else ''Failed to save settings'')"
proof -
  have "distinct settings_keys" by (simp add: settings_keys_def)
  moreover have "length (filter (\<lambda>r. s_key r = k) tbl) \<le> 1"
    using assms(2,3) by (simp add: settings_keys_unique_def list_all_iff)
  ultimately have "filter (\<lambda>r. s_key r = k) (save_settings_partial ok ps tbl)
           = (if ok k then [\<lparr>s_key = k, s_value = get_setting_field k ps\<rparr>] else filter (\<lambda>r. s_key r = k) tbl)"
    unfolding save_settings_partial_def by (rule fold_save_cond [OF _ assms(3)])
  then show ?thesis
    using assms(1) by simp
qed

end
