(* ===== verification/Spec2Isabelle.thy ===== *)
theory Spec2Isabelle
  imports Checkout FeePolicy Listings Kyc AdminSettings UserManagement Browse KycPage Onboarding Auth
    Community Routes Pricing ListingPage Appraisal AdminPanel BrowsePage MarketingPage ListingForm UsersPanel AdminConsole
begin

text \<open>
  \<^bold>\<open>A verification development of DCS-Platform\<close>, a marketplace for luxury
  watches: a React client (\<open>src/src\<close>) over a Supabase database, four Deno edge
  functions (\<open>src/supabase/functions\<close>) that talk to Stripe, and SQL functions
  (commission rate, listing limit) whose code is not in the repository.

  \<^bold>\<open>How the parts interact.\<close>  Sellers create listings (CreateListing), which admins
  approve or reject (AdminListings); buyers browse approved listings (Browse,
  ListingDetail) and buy through the create-checkout edge function, which reads the
  seller's commission rate from the database function \<open>get_commission_rate\<close> and opens a
  Stripe Checkout session.  Identity verification runs through
  create-verification-session, Stripe's webhook (stripe-identity-webhook) and
  check-verification-status, driven by the Verification page.  Admins manage roles and
  fee waivers (AdminUserManagement) and platform settings (AdminSettings).

  \<^bold>\<open>The model.\<close>  A shallow embedding: the database is the record \<open>db\<close> of table row
  lists (\<open>Schema\<close>, from \<open>integrations/supabase/types.ts\<close>); every handler is a function
  from its inputs and the database to the new database and what the user sees;
  Supabase client calls are the list operations of \<open>Prelude\<close> (\<open>tbl_update\<close> for
  \<open>.update().eq()\<close>, \<open>maybe_single\<close>/\<open>single_row\<close> for \<open>.maybeSingle()\<close>/\<open>.single()\<close>,
  \<open>data_or_null\<close> for an ignored query error); thrown errors are \<open>Inl\<close> values or
  constructors of an outcome datatype; a table's row list is the order a query returns
  it, and where a property depends on the order of a select without \<open>.order()\<close> it is
  stated for every answer with the same multiset of rows (\<open>mset\<close>); Stripe, Supabase
  auth and zod's e-mail check are function parameters.  The theories, each opening with what it holds:
  \<^item> \<open>Prelude\<close>: JavaScript built-ins (\<open>x || d\<close>, \<open>Math.round\<close>, \<open>toLowerCase\<close>,
    \<open>replace\<close>, \<open>includes\<close>), the table operations, the pending-request queue
    \<open>drop_nth\<close> of the asynchronous pages, and the UTF-8 punctuation of the pages'
    texts (strings are byte strings), with their shared lemmas.
  \<^item> \<open>Schema\<close>: enums and rows of \<open>types.ts\<close>, the enums' spellings of its
    \<open>Constants\<close> (\<open>app_role_name\<close>, \<open>watch_condition_name\<close>, ...), and the rows of
    \<open>transactions\<close> and \<open>pricing_context\<close>, typed but kept out of \<open>db\<close> because no code
    reads or writes them.
  \<^item> \<open>EdgeAuth\<close>: the bearer-token authentication the edge functions share.
  \<^item> \<open>Checkout\<close>: \<open>create-checkout/index.ts\<close>, the whole handler
    (\<open>checkout_auth\<close>, \<open>checkout_purchase\<close>, \<open>create_checkout\<close>, \<open>checkout_handler\<close>).
  \<^item> \<open>FeePolicy\<close>: the SQL functions \<open>get_commission_rate\<close>, \<open>get_listing_limit\<close>,
    \<open>count_active_listings\<close>, modelled from the specification (their SQL is absent).
  \<^item> \<open>Roles\<close>: \<open>canSell\<close>, \<open>canPost\<close>, the admin and onboarding guards, labels,
    \<open>TierBadge\<close> (\<open>tier_badge\<close>), and the Dashboard's sections, Account Status box
    (\<open>account_status\<close>) and guards (\<open>dashboard_page\<close>).
  \<^item> \<open>Photos\<close>: \<open>PhotoUpload.tsx\<close> (its slots, drag state \<open>upload_widget_step\<close> and tiles
    \<open>upload_tiles\<close>), \<open>validatePhotos\<close>, \<open>uploadPhoto\<close> and the upload loop.
  \<^item> \<open>Listings\<close>: \<open>CreateListing.tsx\<close> (\<open>create_listing\<close>, the page around the form
    \<open>create_listing_page\<close> and its brand query \<open>active_brands\<close>) and \<open>AdminListings.tsx\<close>
    (\<open>handle_approve\<close>, \<open>handle_reject\<close>, the admin's view and its clicks), the
    lifecycle relation \<open>listing_reach\<close>, and \<open>ConditionBadge\<close> (\<open>condition_badge\<close>).
  \<^item> \<open>ListingForm\<close>: the form of \<open>CreateListing.tsx\<close> as it is filled: its field state
    and \<open>defaultValues\<close>, the fields' \<open>onChange\<close> handlers (\<open>form_step\<close>, with \<open>parseInt\<close>
    and \<open>parseFloat\<close> on the number inputs), the \<open>value || ''\<close> they display
    (\<open>num_display\<close>, \<open>String(n)\<close> as \<open>int_str\<close>), the zod resolver \<open>resolve_form\<close> with
    the message under each field (\<open>field_errors\<close>), the rendered fields and
    \<open>form_submit\<close>, which calls \<open>create_listing\<close> only with resolved data.
  \<^item> \<open>Kyc\<close>: the three KYC edge functions and the relation \<open>kyc_reach\<close>;
    \<open>KycPage\<close>: \<open>Verification.tsx\<close> as their client, its mount effects and its render
    (\<open>kyc_render\<close>).
  \<^item> \<open>AdminPanel\<close>: the moderation panel of \<open>AdminListings.tsx\<close> as a transition
    function \<open>panel_step\<close> over the filter, refresh, fetch answers (in any order),
    search, approve and the rejection dialog, and its table.
  \<^item> \<open>AdminConsole\<close>: \<open>Admin.tsx\<close>, the three admin panels as tabs
    (\<open>console_step\<close>: a tab switch remounts a panel, and writes of an unmounted panel
    still land), and the settings panel over time (\<open>settings_step\<close>, with the partial
    writes of a failed save).
  \<^item> \<open>AdminSettings\<close>, \<open>UserManagement\<close>: the two admin panels; \<open>UsersPanel\<close>: the user
    panel over time (\<open>users_step\<close>), its row controls and the completions of its
    pending operations in any order, and its table.
  \<^item> \<open>Browse\<close>: \<open>Browse.tsx\<close> and \<open>ListingDetail.tsx\<close>, whose \<open>handle_purchase\<close> calls
    \<open>checkout_handler\<close>, and \<open>CheckoutSuccess.tsx\<close>.
  \<^item> \<open>Onboarding\<close>: \<open>SellerOnboarding.tsx\<close>, its clicks (\<open>ob_click\<close>) and its render
    (\<open>step_indicator\<close>, \<open>intent_cards\<close>, \<open>role_requirements\<close>, \<open>tier_includes\<close>,
    \<open>verification_intro\<close>, \<open>ob_body\<close>, \<open>ob_view\<close> with the header links);
    \<open>Auth\<close>: \<open>Auth.tsx\<close>, its \<open>handleSubmit\<close> and the page over time (\<open>auth_step\<close>)
    with its render (\<open>auth_view\<close>).
  \<^item> \<open>Community\<close>: \<open>Community.tsx\<close> over the \<open>posts\<close> and \<open>comments\<close> tables
    (\<open>fetch_posts\<close>, \<open>community_fetch\<close>, the filter buttons \<open>click_filter\<close>,
    \<open>community_render\<close>); the two tables form the record \<open>forum\<close>, apart from \<open>db\<close>,
    because no modelled handler writes them.
  \<^item> \<open>Routes\<close>: the route table of \<open>App.tsx\<close>, react-router's path matching
    (\<open>route_of\<close>, with the catch-all \<open>NotFound\<close>), and the links of \<open>Header.tsx\<close>,
    \<open>Footer.tsx\<close>, \<open>Index.tsx\<close> (with its hero, \<open>index_hero\<close>, \<open>index_ctas\<close>) and the
    dashboard, the header's \<open>handleSignOut\<close> (\<open>handle_sign_out\<close>), the placeholder
    \<open>AppraisalTool.tsx\<close>, and \<open>useSearchParams().get\<close> by the URL standard
    (\<open>search_get\<close>).
  \<^item> \<open>BrowsePage\<close>: the state of \<open>Browse.tsx\<close> across its selects, Clear Filters and
    the answers of its fetches (\<open>browse_step\<close>), its cards and their links.
  \<^item> \<open>ListingPage\<close>: the state of \<open>ListingDetail.tsx\<close> across its effects and clicks
    (\<open>detail_open\<close>, \<open>detail_navigate\<close>, \<open>select_thumbnail\<close>, \<open>detail_render\<close>), the
    relation \<open>detail_reach\<close> of the states one listing's page reaches, its texts
    (\<open>detail_facts\<close>, \<open>purchase_label\<close>, \<open>purchase_note\<close>), the toast of a cancelled
    checkout (\<open>checkout_cancelled_toast\<close>) and the unused \<open>getConditionLabel\<close>.
  \<^item> \<open>Appraisal\<close>: \<open>Appraisal.tsx\<close> and its three mock market-data clients
    (\<open>src/src/api\<close>), the page a transition function \<open>ap_step\<close> over typing, submit,
    completion and dismissal events.
  \<^item> \<open>Pricing\<close>: \<open>Pricing.tsx\<close> as a constant (\<open>pricing_page\<close>): the tier cards, their
    calls to action and names against the role labels, the launch notice, the role
    explanations and the FAQ.
  \<^item> \<open>MarketingPage\<close>: \<open>Page2.tsx\<close> (route \<open>/page-2\<close>), a constant (\<open>page2\<close>): trust
    pillars, tier cards, market example and calls to action.
  \<^item> This theory: fixtures (a seller, an approved listing, Stripe and auth stubs), the
    properties that span components, and a witness for every property with a
    hypothesis.

  \<^bold>\<open>What is proved.\<close>  Each property is a theorem preceded by its claim text.
  Checkout: only approved listings of other sellers are sold, the own-listing and
  unavailable errors, the rounding bound of the commission, and that nothing locks a
  listing; across \<open>Checkout\<close> and \<open>FeePolicy\<close>, a nonzero resolved rate is charged as
  resolved while a resolved rate 0 is charged 3.5\% (\<open>commissionData || 0.035\<close>).
  Listings: an invariant of every reachable database (by rule induction over
  \<open>listing_reach\<close>), the stale-view approval of a rejected listing, the failed-upload
  state, and that creation reads the database only through the insert (the insert's
  acceptance, \<open>acc\<close>, stands for its foreign key and row-level policies), so neither KYC
  status nor quota is checked.  KYC: an invariant of
  \<open>kyc_reach\<close>, the unsigned webhook, the cancel downgrade, the \<open>limit: 1\<close> session
  lookup, and the page's dead ``Already Verified'' branch.  Settings: a save/load round
  trip for every order of the unordered select on a table with one row per key, the
  stale value a duplicated key can load, and the \<open>|| d\<close> defaults that forbid 0.  Users:
  a role change takes effect at once (against the Pricing FAQ's billing cycle), with
  duplicate role rows it only appends a row and the role shown depends on the
  select's order, and the fee waiver.  Browse: filters, price order, inconsistent
  default tiers, a purchase reaching Stripe and the generic error after a rejection.
  Photos, onboarding and auth: display order after upload, the index loop
  \<open>upload_loop_idx\<close> against the loop-free specification \<open>upload_spec\<close> and its
  termination, the
  header's undercount, wizard step invariant, and validation before any auth call.
  Settings types: a \<open>json_ty\<close> typing of the settings object preserved by every form
  edit (loading stored rows is not type-checked by the code).  Community: the
  category filter, order and comment counts of \<open>fetch_posts\<close>; across \<open>Community\<close>
  and \<open>Routes\<close>, the page's post and New Post links reach \<open>NotFound\<close>, as do nine
  links of the layout and dashboard.  \<open>app_routes_unambiguous\<close> shows no path matches
  two routes, so first-match and react-router's ranking agree.
  Listing page: on one listing the gallery's selected image stays a photo (rule
  induction over \<open>detail_reach\<close>), while a navigation to another listing keeps the
  index (a broken image) or, when the new id has no approved listing, the old
  listing.  Listing form: the page shows the form only to a signed-in role that can
  sell, whose submission then passes the role and session guards.  Pricing: every
  call to action opens the sign-in page; the Private Holder card advertises listing
  to a role the form refuses; the cards and the FAQ state the fee policy's base rates.
  Listing form: a submit writes only resolved data of a seller;
  \<open>parseInt\<close> reads back every year the input displays (\<open>js_parse_int_int_str\<close>, by
  induction on the digits), while a typed 0 is hidden under its error.  Prices: for every nonnegative price
  the listing page shows it rounded to whole units (\<open>format_price_whole\<close>) while
  create-checkout charges it to the cent.  Moderation
  panel: answered in issue order its last fetch matches the filter, answered out of
  order the table shows another status's rows; a failed rejection cannot be retried.
  Catalogue page: the same order property for its fetches, and that a card's link
  routes to and opens that card's listing (across \<open>BrowsePage\<close>, \<open>Routes\<close> and
  \<open>ListingPage\<close>).  Appraisal: the three result cards always agree (an invariant of
  \<open>ap_step\<close>), the mocks ignore the query, and a dismissed error reads ``No data
  found.''.  Verification page: only a verified user is sent to the dashboard.
  Auth page: every pending request carries validated credentials (an invariant of
  \<open>auth_step\<close>), while the mode switch during a sign-up mislabels the button.
  Admin console: the moderation panel's fetch-order invariant holds across tab
  switches; a tab switch resets the panel; for every outcome of the six saves the
  succeeded ones are written while one failure already reports failure; a role change started before a tab switch still lands.
  User panel: two role changes in flight lose the first in the table while the
  database has both.  Photo widget: the ``Required'' prompts on screen are exactly what
  \<open>validatePhotos\<close> checks.  Onboarding render: the progress bar follows the step, every reachable state has a
  body, the intent cards and tier lists advertise the fee policy's rates and limits
  (as does \<open>Page2\<close>, whose links all resolve), and ``Continue to Subscription'' leads
  to the dashboard.  Checkout return: the cancel URL of every session create-checkout
  opens routes back to that listing's page, whose search-parameter effect toasts the
  cancellation (across \<open>Checkout\<close>, \<open>Routes\<close> with \<open>search_get\<close>, and \<open>ListingPage\<close>).
  Badges: \<open>TierBadge\<close> and \<open>ConditionBadge\<close> show the role's and the condition's label
  for every enum name (\<open>map_of_names\<close>); on any other string the first falls back to
  ``Buyer'' and the second throws.

  \<^bold>\<open>Bounds and fuel.\<close>  Every loop of the code is a structural recursion or a fold
  over a finite list (the photo upload loop, whose index form \<open>upload_loop_idx\<close> is a
  \<open>function\<close> terminating by the measure \<open>length ts - i\<close>, \<open>forEach\<close> over settings rows,
  \<open>Promise.all\<close> over the six saves, the wizard's clicks and the events of the
  asynchronous pages; \<open>nat_str\<close> recurses on \<open>n div 10\<close>, a \<open>fun\<close> terminating by the
  measure \<open>n\<close>), so no fuel is needed and every definition is executable.  Money is exact \<open>rat\<close>: the code computes on IEEE
  doubles, so the model states what the code means to compute; \<open>Math.round\<close> rounds
  halves up as in JavaScript.

  \<^bold>\<open>Not modelled.\<close>  Presentation (styling, icons, responsive layout); operations on
  the tables \<open>transactions\<close> and \<open>pricing_context\<close>, which no code of the
  repository reads or writes (their rows are typed in \<open>Schema\<close>; the settlement
  lifecycle the specification describes has no code), and the generic helper types
  of \<open>types.ts\<close>; the simulated
  delays of the mock market-data APIs; the DOM helpers of \<open>src/js/utils.js\<close>, which no
  file imports; JavaScript's number-to-string conversion of non-integral prices and
  exponent notation in number inputs; the session and role \<open>useAuth\<close> supplies (the
  modules \<open>AuthContext\<close>, \<open>NotFound\<close>, \<open>BrowseSellers\<close> and the UI kit are imported
  but not in the repository, so the session, the role and \<open>signOut\<close> are inputs of
  the model); percent-decoding of URLs; the order of query results by e-mail (the
  catalogue's newest-first order is modelled as reverse insertion; the community's
  \<open>created_at\<close> order is a stable sort, ties in table order); the SQL of the database
  functions beyond the specification's table; row-level security; and the
  concurrency of requests beyond the interleavings stated as explicit sequences.
\<close>

section \<open>Fixtures for the witnesses\<close>

definition ex_listing :: listing_row where
  "ex_listing = \<lparr> l_id = ''L1'', seller_id = ''seller'', brand_id = ''B1'', model = ''Submariner'',
     reference_number = ''126610LN'', serial_number = None, year_produced = Some 2021,
     year_produced_end = None, condition = Excellent, has_box = True, has_papers = True,
     asking_price = 10000, currency = ''USD'', description = None, status = Approved,
     approved_at = Some 1, approved_by = None, rejection_reason = None \<rparr>"

definition ex_seller_profile :: profile_row where
  "ex_seller_profile = \<lparr>user_id = ''seller'', email = ''s@example.com'', full_name = None,
     kyc_status = Kyc_verified, kyc_verified_at = Some 1, zero_fee_eligible = Some False,
     subscription_status = None\<rparr>"

definition ex_db :: db where
  "ex_db = \<lparr> listings = [ex_listing], profiles = [ex_seller_profile],
     user_roles = [\<lparr>ur_user_id = ''seller'', role = Individual_seller\<rparr>],
     brands = [\<lparr>b_id = ''B1'', b_name = ''Rolex'', is_active = Some True, b_display_order = Some 1\<rparr>],
     listing_photos = [] \<rparr>"

definition ex_empty_db :: db where
  "ex_empty_db = \<lparr>listings = [], profiles = [], user_roles = [], brands = [], listing_photos = []\<rparr>"

definition ex_policy :: fee_policy where
  "ex_policy = \<lparr>zero_fee_active = False, zero_fee_end = None\<rparr>"

definition ex_launch_policy :: fee_policy where
  "ex_launch_policy = \<lparr>zero_fee_active = True, zero_fee_end = None\<rparr>"

definition ex_get_user :: "string \<Rightarrow> string + auth_user option" where
  "ex_get_user t =
     (if t = ''tok-buyer'' then Inr (Some \<lparr>au_id = ''buyer'', au_email = Some ''b@example.com''\<rparr>)
      else if t = ''tok-buyer2'' then Inr (Some \<lparr>au_id = ''buyer2'', au_email = Some ''c@example.com''\<rparr>)
      else if t = ''tok-seller'' then Inr (Some \<lparr>au_id = ''seller'', au_email = Some ''s@example.com''\<rparr>)
      else Inl ''invalid JWT'')"

definition ex_env :: "fee_policy \<Rightarrow> checkout_env" where
  "ex_env pol = \<lparr> stripe_key = Some ''sk_test'', get_user = ex_get_user,
     commission_rpc = get_commission_rate ex_db pol 5,
     stripe_customer = (\<lambda>_. None),
     stripe_create = (\<lambda>_. Inr (''cs_1'', ''https://checkout.stripe.com/cs_1'')) \<rparr>"

definition ex_request :: "string \<Rightarrow> checkout_request" where
  "ex_request tok = \<lparr> is_options = False, authorization = Some (''Bearer '' @ tok),
     body_listing_id = Some ''L1'', origin_header = None \<rparr>"

definition ex_params :: "fee_policy \<Rightarrow> checkout_session_params" where
  "ex_params pol = checkout_session_for (ex_env pol) ex_db (ex_request ''tok-buyer'') ''buyer'' ''b@example.com'' ex_listing"

definition ex_form :: listing_form where
  "ex_form = \<lparr>f_brand_id = ''B1'', f_model = ''Submariner'', f_reference_number = ''126610LN'',
      f_serial_number = None, f_year_produced = None, f_year_produced_end = None,
      f_condition = Excellent, f_has_box = False, f_has_papers = False,
      f_asking_price = 14800, f_currency = ''USD'', f_description = None\<rparr>"

definition ex_photos :: photo_state where
  "ex_photos = (\<lambda>_. Some \<lparr>pf_name = ''photo.jpg'', pf_mime = ''image/jpeg''\<rparr>)"

definition ex_kyc_env :: kyc_env where
  "ex_kyc_env = \<lparr> k_stripe_key = Some ''sk_test'', k_get_user = ex_get_user,
     k_create_session = (\<lambda>_ _. Inr (''vs_1'', ''https://verify.stripe.com/vs_1'')),
     k_latest_session = Some \<lparr>sess_user = Some ''other'', sess_status = Sess_verified\<rparr> \<rparr>"

definition ex_kyc_request :: "string \<Rightarrow> kyc_request" where
  "ex_kyc_request tok = \<lparr>k_is_options = False, k_authorization = Some (''Bearer '' @ tok)\<rparr>"

definition ex_pending_db :: db where
  "ex_pending_db = ex_db\<lparr>listings := [ex_listing\<lparr>status := Pending_review, approved_at := None\<rparr>],
     profiles := [ex_seller_profile\<lparr>kyc_status := Kyc_pending, kyc_verified_at := None\<rparr>]\<rparr>"

definition ex_kyc_start_db :: db where
  "ex_kyc_start_db = ex_db\<lparr>profiles := [ex_seller_profile\<lparr>kyc_status := Kyc_not_started, kyc_verified_at := None\<rparr>]\<rparr>"

definition ex_created :: "(photo_type \<Rightarrow> bool) \<Rightarrow> db \<times> create_outcome" where
  "ex_created ok = create_listing (Some ''seller'') (Some Individual_seller) 2025 ex_form ex_photos ok (\<lambda>_ _. True) ''L1'' ex_empty_db"

definition ex_full_db :: db where
  "ex_full_db = ex_db\<lparr>listings := replicate 25 (ex_listing\<lparr>status := Pending_review, approved_at := None\<rparr>),
     profiles := [ex_seller_profile\<lparr>kyc_status := Kyc_pending, kyc_verified_at := None\<rparr>]\<rparr>"

definition ex_verified_event :: "string + identity_event" where
  "ex_verified_event = Inr \<lparr>ev_type = ''identity.verification_session.verified'', ev_user = Some ''seller''\<rparr>"

definition ex_dup_roles_db :: db where
  "ex_dup_roles_db = ex_db\<lparr>user_roles := [\<lparr>ur_user_id = ''seller'', role = Buyer\<rparr>, \<lparr>ur_user_id = ''seller'', role = Admin\<rparr>]\<rparr>"

definition ex_filter :: "sort_order \<Rightarrow> browse_filter" where
  "ex_filter s = \<lparr>bf_brand = Some ''B1'', bf_condition = None, bf_sort = s\<rparr>"

definition ex_page :: listing_page where
  "ex_page = \<lparr> lp_listing = ex_listing, lp_brand = Some ''Rolex'', lp_photos = [],
     lp_seller = \<lparr>si_full_name = None, si_kyc_status = Kyc_verified, si_role = Individual_seller\<rparr> \<rparr>"

definition ex_post :: post_row where
  "ex_post = \<lparr> p_id = ''P1'', author_id = ''seller'', category = Market_insights,
     title = ''Steel sports models in 2024'', content = ''Prices have settled.'', p_created_at = 5 \<rparr>"

definition ex_forum :: forum where
  "ex_forum = \<lparr> posts = [ex_post, ex_post\<lparr>p_id := ''P2'', category := Authentication, p_created_at := 7\<rparr>],
     comments = [\<lparr>cm_id = ''C1'', cm_post_id = ''P1'', cm_author_id = ''buyer'', cm_content = ''Agreed.'',
                  parent_id = None, cm_created_at = 6\<rparr>] \<rparr>"

definition ex_community_state :: community_state where
  "ex_community_state = \<lparr> cs_search = None, cs_posts = [post_with_data ex_forum ex_db ex_post], cs_loading = False \<rparr>"

definition ex_gallery_db :: db where
  "ex_gallery_db =
     ex_db\<lparr> listings := [ex_listing, ex_listing\<lparr>l_id := ''L2''\<rparr>],
            listing_photos :=
              [\<lparr>ph_listing_id = ''L1'', storage_path = ''L1/dial.jpg'', ph_type = Dial, display_order = 1\<rparr>,
               \<lparr>ph_listing_id = ''L1'', storage_path = ''L1/caseback.jpg'', ph_type = Caseback, display_order = 2\<rparr>,
               \<lparr>ph_listing_id = ''L1'', storage_path = ''L1/side.jpg'', ph_type = Side, display_order = 3\<rparr>,
               \<lparr>ph_listing_id = ''L2'', storage_path = ''L2/dial.jpg'', ph_type = Dial, display_order = 1\<rparr>] \<rparr>"

section \<open>Properties that span components\<close>

lemma get_commission_rate_resolved:
  "user_role_of d u = Some r \<Longrightarrow>
   get_commission_rate d pol now u = Some (effective_rate r (zero_fee_eligible_of d u) pol now)"
  by (simp add: get_commission_rate_def)

lemma checkout_commission_of_rpc:
  assumes "create_checkout env d req = Inr (p, sid, url)"
  shows "\<exists>l \<in> set (listings d). l_id l = cs_listing_id p \<and> seller_id l = cs_seller_id p
           \<and> cs_commission_amount p = checkout_commission (asking_price l) (commission_rpc env (seller_id l))"
  using create_checkout_Inr [OF assms] by (fastforce dest: checkout_listing_Some)

text \<open>C1: When the commission RPC is the fee policy's get_commission_rate and the seller's resolved rate r is nonzero, the checkout session records the listing price times r, rounded to the cent as the code rounds it.\<close>

theorem checkout_charges_resolved_rate:
  assumes "commission_rpc env = get_commission_rate d pol now"
    and "create_checkout env d req = Inr (p, sid, url)"
    and "get_commission_rate d pol now (cs_seller_id p) = Some r" "r \<noteq> 0"
  shows "\<exists>l \<in> set (listings d). l_id l = cs_listing_id p
           \<and> cs_commission_amount p = of_int (js_round (asking_price l * r * 100)) / 100"
  using checkout_commission_of_rpc [OF assms(2)] assms(1,3,4)
  by (auto simp: checkout_commission_def checkout_rate_def)

text \<open>C2: When the fee policy resolves the seller's rate to 0 (certified partner, administrator, zero-fee launch window or per-seller waiver), create-checkout still records a 3.5% commission, because commissionData || 0.035 treats the rate 0 as missing.\<close>

theorem waived_seller_charged_default_commission:
  assumes "commission_rpc env = get_commission_rate d pol now"
    and "create_checkout env d req = Inr (p, sid, url)"
    and "get_commission_rate d pol now (cs_seller_id p) = Some 0"
  shows "\<exists>l \<in> set (listings d). l_id l = cs_listing_id p
           \<and> cs_commission_amount p = of_int (js_round (asking_price l * (35 / 1000) * 100)) / 100"
  using checkout_commission_of_rpc [OF assms(2)] assms(1,3)
  by (auto simp: checkout_commission_def checkout_rate_def)

text \<open>C7: Abandoning a Stripe checkout returns the buyer to the listing they tried to
  buy: the session's cancel URL is the origin followed by the listing's path with
  \<open>?checkout=cancelled\<close>, the router opens that listing's page for the path, and the
  page's effect on the search parameters toasts that the purchase was not completed.\<close>

theorem stripe_cancel_returns_to_listing:
  assumes "l_id l \<noteq> []" "CHR ''/'' \<notin> set (l_id l)" "CHR ''?'' \<notin> set (l_id l)" "CHR ''#'' \<notin> set (l_id l)"
  shows "\<exists>origin. cs_cancel_url (checkout_session_for env d req buyer mail l)
                   = origin @ ''/listing/'' @ l_id l @ ''?checkout=cancelled''
         \<and> route_of (''/listing/'' @ l_id l @ ''?checkout=cancelled'') = Listing_detail_pg (l_id l)
         \<and> checkout_cancelled_toast (search_get ''checkout'' (''/listing/'' @ l_id l @ ''?checkout=cancelled''))
             = Some (''Checkout Cancelled'', ''Your purchase was not completed.'')"
proof -
  let ?p = "''/listing/'' @ l_id l"
  have pre: "CHR ''?'' \<notin> set ?p" "\<forall>x \<in> set ?p. x \<noteq> CHR ''?'' \<and> x \<noteq> CHR ''#''"
    using assms(3,4) by auto
  have url: "''/listing/'' @ l_id l @ ''?checkout=cancelled'' = ?p @ CHR ''?'' # ''checkout=cancelled''"
    by simp
  have "pathname (?p @ CHR ''?'' # ''checkout=cancelled'') = ?p"
    unfolding pathname_def using takeWhile_stop_append [of ?p _ "CHR ''?''"] pre(2) by simp
  moreover have "pathname ?p = ?p"
    unfolding pathname_def using pre(2) by (simp add: takeWhile_eq_all_conv)
  ultimately have r: "route_of (''/listing/'' @ l_id l @ ''?checkout=cancelled'') = Listing_detail_pg (l_id l)"
    using route_of_listing [OF assms] by (simp only: url route_of_def)
  have "search_get ''checkout'' (''/listing/'' @ l_id l @ ''?checkout=cancelled'') = search_get ''checkout'' ''?checkout=cancelled''"
    using search_get_after_path [OF pre(1), of "''checkout''" "''checkout=cancelled''"] by simp
  also have "\<dots> = Some ''cancelled''"
    by (simp add: search_get_def url_query_def)
  finally show ?thesis
    using r by (simp add: checkout_session_for_def Let_def checkout_cancelled_toast_def)
qed

text \<open>C14: CreateListing checks neither the seller's KYC status nor the tier's listing
  limit, which the specification requires before a listing is created: it reads the
  database only through the insert itself.  For a signed-in role that can sell, a
  valid form and the photos, whenever the database accepts the insert the pending
  listing is added, whatever the seller's KYC status and number of active listings,
  and two databases that both accept it give the same outcome.\<close>

theorem listing_creation_ignores_database:
  assumes "can_sell r" "listing_schema_ok y f" "validate_photos ph (f_has_box f) (f_has_papers f) = None"
      and "acc d (new_listing_row nid u f)" "acc d' (new_listing_row nid u f)"
  shows "listings (fst (create_listing (Some u) r y f ph ok acc nid d)) = listings d @ [new_listing_row nid u f]
         \<and> snd (create_listing (Some u) r y f ph ok acc nid d) = snd (create_listing (Some u) r y f ph ok acc nid d')"
  using create_listing_accepted [where acc = acc and d = d and nid = nid and u = u, OF assms(1-4)]
        create_listing_accepted [where acc = acc and d = d' and nid = nid and u = u, OF assms(1-3,5)]
  by simp

text \<open>C33: The listing page shows a price rounded to whole units while create-checkout
  charges it to the cent: for every nonnegative USD price, the number in the purchase
  button (\<open>maximumFractionDigits: 0\<close>) is the price rounded half away from zero, the
  session charges \<open>Math.round(price * 100)\<close> cents, and for a price with cents the
  button's amount and the amount charged differ.\<close>

theorem seller_price_shown_rounded:
  assumes "0 \<le> asking_price l" "currency l = ''USD''"
  shows "js_parse_int (filter (\<lambda>c. c \<noteq> CHR '','')
             (drop (length ''Purchase for $'') (purchase_label (Purchase_button (asking_price l) (currency l)))))
           = Some (round_half_away (asking_price l))
         \<and> cs_unit_amount (checkout_session_for env d req buyer mail l) = js_round (asking_price l * 100)
         \<and> (asking_price l * 100 \<in> \<int> \<and> asking_price l \<notin> \<int>
            \<longrightarrow> cs_unit_amount (checkout_session_for env d req buyer mail l) \<noteq> 100 * round_half_away (asking_price l))"
proof -
  let ?p = "asking_price l"
  let ?n = "nat (round_half_away ?p)"
  have label: "purchase_label (Purchase_button ?p (currency l)) = ''Purchase for $'' @ group3 (nat_str ?n)"
    using assms by (simp add: format_price_whole currency_prefix_def)
  have shown: "js_parse_int (filter (\<lambda>c. c \<noteq> CHR '','')
             (drop (length ''Purchase for $'') (purchase_label (Purchase_button ?p (currency l)))))
           = Some (round_half_away ?p)"
    using round_half_away_nonneg [OF assms(1)]
    by (simp only: label) (simp add: group3_filter nat_str_no_comma js_parse_int_nat_str)
  have charged: "cs_unit_amount (checkout_session_for env d req buyer mail l) = js_round (?p * 100)"
    by (simp add: checkout_session_for_def Let_def)
  have differ: "js_round (?p * 100) \<noteq> 100 * round_half_away ?p"
    if cents: "?p * 100 \<in> \<int>" and frac: "?p \<notin> \<int>"
  proof
    obtain m where m: "?p * 100 = of_int m" using cents by (rule Ints_cases)
    assume "js_round (?p * 100) = 100 * round_half_away ?p"
    then have "m = 100 * round_half_away ?p" by (simp add: m)
    then have "?p = of_int (round_half_away ?p)" using m by simp
    then show False using frac by (metis Ints_of_int)
  qed
  show ?thesis using shown charged differ by simp
qed

text \<open>The dashboard shows a Private Holder (observer) the sell invitation and no create-listing action, and CreateListing refuses them with 'seller account required'.\<close>

theorem private_holder_cannot_list:
  "dv_private_holder_cta (dashboard_view (Some Observer) p)
   \<and> \<not> dv_create_listing (dashboard_view (Some Observer) p)
   \<and> create_listing (Some u) (Some Observer) y f ph ok acc nid d = (d, Seller_account_required)"
  by (simp add: dashboard_view_def can_sell_def create_listing_def)

text \<open>C39: Every post card and the New Post button of the community page lead to
  the catch-all NotFound page (the app has no route under \<open>/community/\<close>); its only
  working link is the membership call to action.  Of the layout's, the landing
  page's and the dashboard's links, exactly Appraisal, Sell, Settings, How It Works,
  Buyer Protection, Privacy, Terms, My Listings and Transactions are dead.\<close>

theorem community_links_not_found:
  assumes "list_all (\<lambda>c. pc_id c \<noteq> [] \<and> CHR ''/'' \<notin> set (pc_id c) \<and> CHR ''?'' \<notin> set (pc_id c)
                          \<and> CHR ''#'' \<notin> set (pc_id c)) (cs_posts s)"
  shows "(\<forall>l \<in> set (Community.community_links (Community.community_render r s)).
            (Routes.route_of l = Not_found_pg) = (l \<noteq> ''/pricing''))
         \<and> (\<forall>l \<in> set (header_links b r @ footer_links @ index_links @ dashboard_links (dashboard_view r p)).
            (route_of l = Not_found_pg) =
            (l \<in> {''/appraisal'', ''/sell'', ''/settings'', ''/how-it-works'', ''/buyer-protection'', ''/privacy'',
                  ''/terms'', ''/dashboard/listings'', ''/dashboard/transactions''}))"
proof -
  have "route_of ''/pricing'' = Pricing_pg"
    by code_simp
  moreover have "route_of (''/community/'' @ ''new'') = Not_found_pg"
    by (rule route_of_community_sub) simp_all
  moreover have "route_of (''/community/'' @ pc_id c) = Not_found_pg" if "c \<in> set (cs_posts s)" for c
    using assms that by (intro route_of_community_sub) (auto simp: list_all_iff)
  ultimately have c: "\<forall>l \<in> {''/community/new'', ''/pricing''} \<union> (\<lambda>c. ''/community/'' @ pc_id c) ` set (cs_posts s).
                        (route_of l = Not_found_pg) = (l \<noteq> ''/pricing'')"
    by auto
  show ?thesis
    by (rule conjI [OF ball_subset [OF community_links_targets c] layout_links_not_found])
qed

section \<open>Witnesses\<close>

lemma ex_checkout_auth:
  "checkout_auth (ex_env pol) (ex_request ''tok-buyer'') = Inr (''buyer'', ''b@example.com'')"
  "checkout_auth (ex_env pol) (ex_request ''tok-buyer2'') = Inr (''buyer2'', ''c@example.com'')"
  "checkout_auth (ex_env pol) (ex_request ''tok-seller'') = Inr (''seller'', ''s@example.com'')"
  by (simp_all add: checkout_auth_def ex_env_def ex_request_def edge_authenticate_def bearer_token_def ex_get_user_def)

lemma ex_create_checkout:
  "create_checkout (ex_env pol) ex_db (ex_request ''tok-buyer'')
     = Inr (ex_params pol, ''cs_1'', ''https://checkout.stripe.com/cs_1'')"
  unfolding create_checkout_authenticated [OF ex_checkout_auth(1)]
  by (simp add: checkout_purchase_def checkout_listing_def ex_db_def ex_listing_def ex_params_def
       ex_request_def ex_env_def Let_def)

lemma ex_rates:
  "get_commission_rate ex_db ex_policy 5 ''seller'' = Some (25 / 1000)"
  "get_commission_rate ex_db ex_launch_policy 5 ''seller'' = Some 0"
  by (simp_all add: get_commission_rate_def user_role_of_def ex_db_def effective_rate_def zero_fee_window_def
       ex_policy_def ex_launch_policy_def zero_fee_eligible_of_def ex_seller_profile_def)

theorem checkout_charges_resolved_rate_witness:
  "cs_commission_amount (ex_params ex_policy) = 250
   \<and> (\<exists>l \<in> set (listings ex_db). l_id l = cs_listing_id (ex_params ex_policy)
        \<and> cs_commission_amount (ex_params ex_policy) = of_int (js_round (asking_price l * (25 / 1000) * 100)) / 100)"
proof -
  have rpc: "commission_rpc (ex_env ex_policy) = get_commission_rate ex_db ex_policy 5"
    by (simp add: ex_env_def)
  have seller: "cs_seller_id (ex_params ex_policy) = ''seller''" by (simp add: ex_params_def ex_listing_def)
  have "\<exists>l \<in> set (listings ex_db). l_id l = cs_listing_id (ex_params ex_policy)
        \<and> cs_commission_amount (ex_params ex_policy) = of_int (js_round (asking_price l * (25 / 1000) * 100)) / 100"
    using checkout_charges_resolved_rate [OF rpc ex_create_checkout, of "25 / 1000"] seller ex_rates(1)
    by simp
  moreover have "cs_commission_amount (ex_params ex_policy) = 250"
    by (simp add: ex_params_def ex_env_def ex_rates(1) ex_listing_def checkout_commission_def checkout_rate_def js_round_def)
  ultimately show ?thesis by simp
qed

theorem waived_seller_charged_default_commission_witness:
  "get_commission_rate ex_db ex_launch_policy 5 ''seller'' = Some 0
   \<and> cs_commission_amount (ex_params ex_launch_policy) = 350
   \<and> (\<exists>l \<in> set (listings ex_db). l_id l = cs_listing_id (ex_params ex_launch_policy)
        \<and> cs_commission_amount (ex_params ex_launch_policy) = of_int (js_round (asking_price l * (35 / 1000) * 100)) / 100)"
proof -
  have rpc: "commission_rpc (ex_env ex_launch_policy) = get_commission_rate ex_db ex_launch_policy 5"
    by (simp add: ex_env_def)
  have seller: "cs_seller_id (ex_params ex_launch_policy) = ''seller''" by (simp add: ex_params_def ex_listing_def)
  have "\<exists>l \<in> set (listings ex_db). l_id l = cs_listing_id (ex_params ex_launch_policy)
        \<and> cs_commission_amount (ex_params ex_launch_policy) = of_int (js_round (asking_price l * (35 / 1000) * 100)) / 100"
    using waived_seller_charged_default_commission [OF rpc ex_create_checkout] seller ex_rates(2) by simp
  moreover have "cs_commission_amount (ex_params ex_launch_policy) = 350"
    by (simp add: ex_params_def ex_env_def ex_rates(2) ex_listing_def checkout_commission_def checkout_rate_def js_round_def)
  ultimately show ?thesis using ex_rates(2) by simp
qed

theorem checkout_sells_only_approved_foreign_witness:
  "\<exists>l \<in> set (listings ex_db). l_id l = cs_listing_id (ex_params ex_policy) \<and> status l = Approved
     \<and> seller_id l = cs_seller_id (ex_params ex_policy) \<and> cs_buyer_id (ex_params ex_policy) \<noteq> cs_seller_id (ex_params ex_policy)
     \<and> cs_commission_amount (ex_params ex_policy) = checkout_commission (asking_price l) (commission_rpc (ex_env ex_policy) (seller_id l))
     \<and> cs_unit_amount (ex_params ex_policy) = js_round (asking_price l * 100)"
  by (rule Checkout.checkout_sells_only_approved_foreign [OF ex_create_checkout])

theorem checkout_commission_le_price_witness:
  "checkout_commission (of_int 1480000 / 100) None = 518
   \<and> 0 \<le> checkout_commission (of_int 1480000 / 100) None
   \<and> checkout_commission (of_int 1480000 / 100) None \<le> of_int 1480000 / 100"
proof -
  have r: "0 \<le> checkout_rate None" "checkout_rate None \<le> 1" "0 \<le> (1480000 :: int)"
    by (simp_all add: checkout_rate_def)
  have "checkout_commission (of_int 1480000 / 100) None = 518"
    by (simp add: checkout_commission_def checkout_rate_def js_round_def)
  with Checkout.checkout_commission_le_price [OF r] show ?thesis by simp
qed

lemma ex_listing_filter:
  "filter (\<lambda>l. l_id l = ''L1'' \<and> status l = Approved) (listings ex_db) = [ex_listing]"
  by (simp add: ex_db_def ex_listing_def)

theorem stripe_cancel_returns_to_listing_witness:
  "l_id ex_listing \<noteq> [] \<and> CHR ''/'' \<notin> set (l_id ex_listing) \<and> CHR ''?'' \<notin> set (l_id ex_listing)
   \<and> CHR ''#'' \<notin> set (l_id ex_listing)
   \<and> cs_cancel_url (checkout_session_for (ex_env ex_policy) ex_db (ex_request ''tok-buyer'') ''buyer'' ''b@example.com'' ex_listing)
       = default_origin @ ''/listing/L1?checkout=cancelled''
   \<and> route_of ''/listing/L1?checkout=cancelled'' = Listing_detail_pg ''L1''
   \<and> checkout_cancelled_toast (search_get ''checkout'' ''/listing/L1?checkout=cancelled'')
       = Some (''Checkout Cancelled'', ''Your purchase was not completed.'')"
proof -
  note th = stripe_cancel_returns_to_listing [of ex_listing "ex_env ex_policy" ex_db "ex_request ''tok-buyer''" "''buyer''" "''b@example.com''"]
  have c: "cs_cancel_url (checkout_session_for (ex_env ex_policy) ex_db (ex_request ''tok-buyer'') ''buyer'' ''b@example.com'' ex_listing)
       = default_origin @ ''/listing/L1?checkout=cancelled''"
    by (simp add: checkout_session_for_def Let_def ex_request_def ex_listing_def)
  show ?thesis
    using th c by (simp add: ex_listing_def)
qed

theorem checkout_own_listing_refused_witness:
  "checkout_handler (ex_env ex_policy) ex_db (ex_request ''tok-seller'')
     = Checkout_500 ''You cannot purchase your own listing''"
  apply (rule Checkout.checkout_own_listing_refused [OF _ ex_checkout_auth(3) _ _ ex_listing_filter])
     apply (simp_all add: ex_request_def ex_listing_def)
  done

theorem checkout_unapproved_refused_witness:
  "checkout_handler (ex_env ex_policy) ex_pending_db (ex_request ''tok-buyer'')
     = Checkout_500 ''Listing not found or not available for purchase''"
  by (rule Checkout.checkout_unapproved_refused [OF _ ex_checkout_auth(1), where lid = "''L1''"])
     (simp_all add: ex_request_def ex_pending_db_def ex_listing_def)

theorem checkout_no_purchase_lock_witness:
  "\<exists>p2 sid2 url2. create_checkout (ex_env ex_policy) ex_db (ex_request ''tok-buyer2'') = Inr (p2, sid2, url2)
     \<and> cs_listing_id p2 = cs_listing_id (ex_params ex_policy) \<and> cs_buyer_id p2 = ''buyer2''"
  by (rule Checkout.checkout_no_purchase_lock [OF ex_create_checkout _ ex_checkout_auth(2)])
     (simp_all add: ex_request_def ex_params_def ex_listing_def ex_env_def)

lemma ex_created_eval:
  "ex_created (\<lambda>_. True) = (fst (ex_created (\<lambda>_. True)), Listing_submitted)"
  "create_listing (Some ''seller'') (Some Individual_seller) 2025 ex_form ex_photos (\<lambda>t. t \<noteq> Side) (\<lambda>_ _. True) ''L1'' ex_empty_db
     = (fst (ex_created (\<lambda>t. t \<noteq> Side)), Submit_error)"
  "listings (fst (ex_created ok)) = [new_listing_row ''L1'' ''seller'' ex_form]"
  by (simp_all add: ex_created_def create_listing_def ex_empty_db_def ex_form_def ex_photos_def
        listing_schema_ok_def opt_ok_def can_sell_def validate_photos_def required_photos_def
        upload_types_def Let_def case_prod_unfold)

theorem listing_reach_inv_witness:
  "listing_reach 2025 (fst (ex_created (\<lambda>_. True))) \<and> listing_inv (fst (ex_created (\<lambda>_. True)))"
proof -
  have r0: "listing_reach 2025 ex_empty_db" by (rule listing_reach.empty) (simp_all add: ex_empty_db_def)
  have r: "listing_reach 2025 (fst (ex_created (\<lambda>_. True)))"
    unfolding ex_created_def by (rule listing_reach.create [OF r0]) (simp add: ex_empty_db_def)
  with Listings.listing_reach_inv [OF r] show ?thesis by simp
qed

theorem failed_upload_leaves_listing_witness:
  "new_listing_row ''L1'' ''seller'' ex_form \<in> set (listings (fst (ex_created (\<lambda>t. t \<noteq> Side))))
   \<and> status (new_listing_row ''L1'' ''seller'' ex_form) = Pending_review
   \<and> length (filter (\<lambda>p. ph_listing_id p = ''L1'') (listing_photos (fst (ex_created (\<lambda>t. t \<noteq> Side)))))
        < length (required_photos (f_has_box ex_form) (f_has_papers ex_form))"
  by (rule Listings.failed_upload_leaves_listing [OF ex_created_eval(2)])
     (simp add: ex_empty_db_def)

theorem listing_creation_ignores_database_witness:
  "can_sell (Some Individual_seller) \<and> listing_schema_ok 2025 ex_form
   \<and> validate_photos ex_photos (f_has_box ex_form) (f_has_papers ex_form) = None
   \<and> (\<lambda>_ _. True) ex_full_db (new_listing_row ''L2'' ''seller'' ex_form)
   \<and> (\<lambda>_ _. True) ex_empty_db (new_listing_row ''L2'' ''seller'' ex_form)
   \<and> \<not> can_create_listing ex_full_db ''seller''
   \<and> kyc_status (hd (profiles ex_full_db)) = Kyc_pending
   \<and> listings (fst (create_listing (Some ''seller'') (Some Individual_seller) 2025 ex_form ex_photos (\<lambda>_. True)
         (\<lambda>_ _. True) ''L2'' ex_full_db)) = listings ex_full_db @ [new_listing_row ''L2'' ''seller'' ex_form]
   \<and> snd (create_listing (Some ''seller'') (Some Individual_seller) 2025 ex_form ex_photos (\<lambda>_. True)
         (\<lambda>_ _. True) ''L2'' ex_full_db)
       = snd (create_listing (Some ''seller'') (Some Individual_seller) 2025 ex_form ex_photos (\<lambda>_. True)
         (\<lambda>_ _. True) ''L2'' ex_empty_db)"
proof -
  have h: "can_sell (Some Individual_seller)" "listing_schema_ok 2025 ex_form"
    "validate_photos ex_photos (f_has_box ex_form) (f_has_papers ex_form) = None"
    "(\<lambda>_ _. True) ex_full_db (new_listing_row ''L2'' ''seller'' ex_form)"
    "(\<lambda>_ _. True) ex_empty_db (new_listing_row ''L2'' ''seller'' ex_form)"
    by (simp_all add: can_sell_def listing_schema_ok_def opt_ok_def ex_form_def validate_photos_def
                      required_photos_def ex_photos_def)
  have q: "\<not> can_create_listing ex_full_db ''seller''" "kyc_status (hd (profiles ex_full_db)) = Kyc_pending"
    by (code_simp, simp add: ex_full_db_def)
  show ?thesis
    using h q listing_creation_ignores_database [OF h] by blast
qed

theorem settings_save_load_roundtrip_witness:
  "settings_keys_unique []
   \<and> mset (rev (settings_query (handle_save_settings default_settings [])))
       = mset (settings_query (handle_save_settings default_settings []))
   \<and> fetch_settings (Inr (rev (settings_query (handle_save_settings default_settings [])))) default_settings
       = default_settings"
proof -
  have h: "settings_keys_unique []" by (simp add: settings_keys_unique_def list_all_iff)
  have m: "mset (rev (settings_query (handle_save_settings default_settings [])))
       = mset (settings_query (handle_save_settings default_settings []))" by simp
  show ?thesis using h m AdminSettings.settings_save_load_roundtrip [OF h m] by blast
qed

theorem failed_save_partially_written_witness:
  "stp_saving (settings_panel_mount\<lparr>stp_saving := Some default_settings\<rparr>) = Some default_settings
   \<and> settings_keys_unique [] \<and> ''zero_fee_period_active'' \<in> set settings_keys
   \<and> filter (\<lambda>r. s_key r = ''zero_fee_period_active'')
       (fst (settings_step (Save_done (\<lambda>k. k \<noteq> ''zero_fee_end_date''))
              ([], settings_panel_mount\<lparr>stp_saving := Some default_settings\<rparr>)))
       = (if (\<lambda>k. k \<noteq> ''zero_fee_end_date'') ''zero_fee_period_active''
          then [\<lparr>s_key = ''zero_fee_period_active'', s_value = get_setting_field ''zero_fee_period_active'' default_settings\<rparr>]
          else filter (\<lambda>r. s_key r = ''zero_fee_period_active'') [])
   \<and> stp_toast (snd (settings_step (Save_done (\<lambda>k. k \<noteq> ''zero_fee_end_date''))
              ([], settings_panel_mount\<lparr>stp_saving := Some default_settings\<rparr>)))
       = Some (if list_all (\<lambda>k. k \<noteq> ''zero_fee_end_date'') settings_keys then ''Settings saved successfully''
               else ''Failed to save settings'')"
proof -
  have h: "stp_saving (settings_panel_mount\<lparr>stp_saving := Some default_settings\<rparr>) = Some default_settings"
    "settings_keys_unique []" "''zero_fee_period_active'' \<in> set settings_keys"
    by (simp_all add: settings_keys_unique_def settings_keys_def)
  show ?thesis using h AdminConsole.failed_save_partially_written [OF h, of "\<lambda>k. k \<noteq> ''zero_fee_end_date''"] by blast
qed

theorem seller_price_shown_rounded_witness:
  "0 \<le> asking_price (ex_listing\<lparr>asking_price := 25001 / 2\<rparr>) \<and> currency (ex_listing\<lparr>asking_price := 25001 / 2\<rparr>) = ''USD''
   \<and> js_parse_int (filter (\<lambda>c. c \<noteq> CHR '','')
         (drop (length ''Purchase for $'') (purchase_label (Purchase_button (asking_price (ex_listing\<lparr>asking_price := 25001 / 2\<rparr>))
            (currency (ex_listing\<lparr>asking_price := 25001 / 2\<rparr>))))))
       = Some (round_half_away (asking_price (ex_listing\<lparr>asking_price := 25001 / 2\<rparr>)))
   \<and> cs_unit_amount (checkout_session_for (ex_env ex_policy) ex_db (ex_request ''tok-buyer'') ''buyer'' ''b@example.com''
         (ex_listing\<lparr>asking_price := 25001 / 2\<rparr>)) = js_round (asking_price (ex_listing\<lparr>asking_price := 25001 / 2\<rparr>) * 100)
   \<and> cs_unit_amount (checkout_session_for (ex_env ex_policy) ex_db (ex_request ''tok-buyer'') ''buyer'' ''b@example.com''
         (ex_listing\<lparr>asking_price := 25001 / 2\<rparr>)) \<noteq> 100 * round_half_away (asking_price (ex_listing\<lparr>asking_price := 25001 / 2\<rparr>))"
proof -
  have h: "0 \<le> asking_price (ex_listing\<lparr>asking_price := 25001 / 2\<rparr>)"
    "currency (ex_listing\<lparr>asking_price := 25001 / 2\<rparr>) = ''USD''"
    by (simp_all add: ex_listing_def)
  show ?thesis
  proof -
    have ni: "(25001 / 2 :: rat) \<notin> \<int>"
    proof
      assume "(25001 / 2 :: rat) \<in> \<int>"
      then obtain m :: int where "(25001 / 2 :: rat) = of_int m" by (rule Ints_cases)
      then have "(of_int 25001 :: rat) = of_int (2 * m)" by simp
      then have "(25001 :: int) = 2 * m" by (simp only: of_int_eq_iff)
      then show False by presburger
    qed
    have i: "(25001 / 2 :: rat) * 100 \<in> \<int>"
    proof -
      have "(25001 / 2 :: rat) * 100 = of_int 1250050" by simp
      then show ?thesis by (simp only: Ints_of_int)
    qed
    have ni': "asking_price (ex_listing\<lparr>asking_price := 25001 / 2\<rparr>) \<notin> \<int>"
      and i': "asking_price (ex_listing\<lparr>asking_price := 25001 / 2\<rparr>) * 100 \<in> \<int>"
      using ni i by simp_all
    show ?thesis
      using h seller_price_shown_rounded [OF h, of "ex_env ex_policy" ex_db "ex_request ''tok-buyer''" "''buyer''" "''b@example.com''"]
        ni' i' by blast
  qed
qed

theorem create_listing_refused_example:
  "fst (create_listing None (Some Buyer) 2025 ex_form ex_photos (\<lambda>_. True) (\<lambda>_ _. True) ''L1'' ex_db) = ex_db"
  by (rule Listings.create_listing_refused) (simp add: create_listing_def)

theorem fresh_view_approves_only_pending_witness:
  "map status (listings (fst (approve_click 7 ''L1'' (admin_fetch (Some Pending_review) ex_pending_db) ex_pending_db)))
     = [Approved]"
proof -
  have "distinct (map l_id (listings ex_pending_db))" by (simp add: ex_pending_db_def)
  from Listings.fresh_view_approves_only_pending [OF this, of 7 "''L1''"] show ?thesis
    by (simp add: ex_pending_db_def ex_listing_def)
qed

theorem uploaded_photos_display_order_witness:
  "map ph_type (sort_photos (fst (upload_loop (\<lambda>_. True) ''L1'' ex_photos 0 (upload_types ex_photos True True))))
     = [Dial, Caseback, Side, Clasp, Box, Papers]
   \<and> snd (upload_loop (\<lambda>_. True) ''L1'' ex_photos 0 (upload_types ex_photos True True))"
proof -
  have "validate_photos ex_photos True True = None" "\<forall>t. (\<lambda>_. True) t"
    by (simp_all add: validate_photos_def required_photos_def ex_photos_def)
  from Photos.uploaded_photos_display_order [OF this] show ?thesis by (simp add: required_photos_def)
qed

theorem kyc_reach_ok_witness:
  "kyc_reach (fst (identity_webhook (Some ''sk_test'') 5 False ex_verified_event ex_kyc_start_db))
   \<and> list_all kyc_ok (profiles (fst (identity_webhook (Some ''sk_test'') 5 False ex_verified_event ex_kyc_start_db)))"
proof -
  have "kyc_reach ex_kyc_start_db"
    by (rule kyc_reach.start) (simp add: ex_kyc_start_db_def ex_seller_profile_def)
  then have r: "kyc_reach (fst (identity_webhook (Some ''sk_test'') 5 False ex_verified_event ex_kyc_start_db))"
    by (rule kyc_reach.webhook)
  with Kyc.kyc_reach_ok [OF r] show ?thesis by simp
qed

theorem forged_webhook_verifies_witness:
  "list_all (\<lambda>p. user_id p = ''seller'' \<longrightarrow> kyc_status p = Kyc_verified \<and> kyc_verified_at p = Some 5)
     (profiles (fst (identity_webhook (Some ''sk_test'') 5 False
        (Inr \<lparr>ev_type = ''identity.verification_session.verified'', ev_user = Some ''seller''\<rparr>) ex_kyc_start_db)))"
  by (rule Kyc.forged_webhook_verifies) (simp add: key_missing_def)

theorem canceled_event_revokes_verified_witness:
  "list_all (\<lambda>p. user_id p = ''seller'' \<longrightarrow> kyc_status p = Kyc_not_started)
     (profiles (fst (identity_webhook (Some ''sk_test'') 5 False
        (Inr \<lparr>ev_type = ''identity.verification_session.canceled'', ev_user = Some ''seller''\<rparr>) ex_db)))"
  by (rule Kyc.canceled_event_revokes_verified) (simp add: key_missing_def)

lemma ex_kyc_auth:
  "kyc_auth ex_kyc_env (ex_kyc_request ''tok-seller'') msg = Inr (''seller'', ''s@example.com'')"
  by (simp add: kyc_auth_def ex_kyc_env_def ex_kyc_request_def key_missing_def edge_authenticate_def
       bearer_token_def ex_get_user_def)

theorem verified_user_cannot_restart_witness:
  "create_verification_session ex_kyc_env (ex_kyc_request ''tok-seller'') ex_db = (ex_db, K_already_verified)"
  by (rule Kyc.verified_user_cannot_restart [OF _ ex_kyc_auth, where p = ex_seller_profile])
     (simp_all add: ex_kyc_request_def profile_of_def ex_db_def ex_seller_profile_def)

theorem check_status_misses_own_session_witness:
  "check_verification_status ex_kyc_env 5 (ex_kyc_request ''tok-seller'') ex_pending_db
     = (ex_pending_db, K_status Kyc_pending None)"
  by (rule Kyc.check_status_misses_own_session
        [OF _ ex_kyc_auth, where p = "ex_seller_profile\<lparr>kyc_status := Kyc_pending, kyc_verified_at := None\<rparr>"
           and s = "\<lparr>sess_user = Some ''other'', sess_status = Sess_verified\<rparr>"])
     (simp_all add: ex_kyc_request_def profile_of_def ex_pending_db_def ex_db_def ex_kyc_env_def ex_seller_profile_def)

theorem role_change_takes_effect_witness:
  "length (filter (\<lambda>r. ur_user_id r = ''seller'') (user_roles ex_db)) \<le> 1
   \<and> mset (rev (user_roles (fst (handle_role_change ''seller'' Super_seller ex_db (fetch_users ex_db)))))
       = mset (user_roles (fst (handle_role_change ''seller'' Super_seller ex_db (fetch_users ex_db))))
   \<and> fetched_role ((fst (handle_role_change ''seller'' Super_seller ex_db (fetch_users ex_db)))\<lparr>user_roles :=
         rev (user_roles (fst (handle_role_change ''seller'' Super_seller ex_db (fetch_users ex_db))))\<rparr>) ''seller''
       = Some Super_seller
   \<and> get_commission_rate (fst (handle_role_change ''seller'' Super_seller ex_db (fetch_users ex_db))) ex_policy 5 ''seller''
       = Some (effective_rate Super_seller (zero_fee_eligible_of ex_db ''seller'') ex_policy 5)"
proof -
  have h1: "length (filter (\<lambda>r. ur_user_id r = ''seller'') (user_roles ex_db)) \<le> 1"
    by (simp add: ex_db_def)
  have h2: "mset (rev (user_roles (fst (handle_role_change ''seller'' Super_seller ex_db (fetch_users ex_db)))))
       = mset (user_roles (fst (handle_role_change ''seller'' Super_seller ex_db (fetch_users ex_db))))"
    by simp
  show ?thesis
    using h1 h2 UserManagement.role_change_takes_effect [OF h1 h2, of ex_policy 5] by blast
qed

theorem role_change_lost_on_duplicates_witness:
  "filter (\<lambda>r. ur_user_id r = ''seller'') (user_roles ex_dup_roles_db)
     = [\<lparr>ur_user_id = ''seller'', role = Buyer\<rparr>, \<lparr>ur_user_id = ''seller'', role = Admin\<rparr>]
   \<and> user_roles (fst (handle_role_change ''seller'' Observer ex_dup_roles_db (fetch_users ex_dup_roles_db)))
     = user_roles ex_dup_roles_db @ [\<lparr>ur_user_id = ''seller'', role = Observer\<rparr>]
   \<and> (\<exists>rows. mset rows = mset (user_roles (fst (handle_role_change ''seller'' Observer ex_dup_roles_db (fetch_users ex_dup_roles_db))))
            \<and> fetched_role ((fst (handle_role_change ''seller'' Observer ex_dup_roles_db (fetch_users ex_dup_roles_db)))\<lparr>user_roles := rows\<rparr>) ''seller''
                = Some Buyer)
   \<and> (\<exists>rows. mset rows = mset (user_roles (fst (handle_role_change ''seller'' Observer ex_dup_roles_db (fetch_users ex_dup_roles_db))))
            \<and> fetched_role ((fst (handle_role_change ''seller'' Observer ex_dup_roles_db (fetch_users ex_dup_roles_db)))\<lparr>user_roles := rows\<rparr>) ''seller''
                = Some Observer)
   \<and> list_all (\<lambda>w. uw_user_id w = ''seller'' \<longrightarrow> uw_role w = Some Observer)
       (snd (handle_role_change ''seller'' Observer ex_dup_roles_db (fetch_users ex_dup_roles_db)))"
proof -
  have h: "filter (\<lambda>r. ur_user_id r = ''seller'') (user_roles ex_dup_roles_db)
     = [\<lparr>ur_user_id = ''seller'', role = Buyer\<rparr>, \<lparr>ur_user_id = ''seller'', role = Admin\<rparr>]"
    by (simp add: ex_dup_roles_db_def)
  show ?thesis
    using h UserManagement.role_change_lost_on_duplicates [OF h, of Observer "fetch_users ex_dup_roles_db",
              unfolded user_role_row.select_convs]
    by blast
qed

theorem zero_fee_toggle_waives_rate_witness:
  "get_commission_rate (fst (handle_zero_fee_toggle ''seller'' True ex_db (fetch_users ex_db))) ex_policy 5 ''seller'' = Some 0"
  by (rule UserManagement.zero_fee_toggle_waives_rate [where r = Individual_seller])
     (simp_all add: ex_db_def user_role_of_def ex_seller_profile_def)

lemma ex_fetch_browse:
  "fetch_browse (ex_filter s) ex_db = [browse_card_of ex_db ex_listing]"
  by (cases s) (simp_all add: fetch_browse_def browse_query_def ex_filter_def ex_db_def ex_listing_def)

theorem browse_results_match_filter_witness:
  "bc_listing (browse_card_of ex_db ex_listing) \<in> set (listings ex_db)
   \<and> status (bc_listing (browse_card_of ex_db ex_listing)) = Approved
   \<and> brand_id (bc_listing (browse_card_of ex_db ex_listing)) = ''B1''"
proof -
  have "browse_card_of ex_db ex_listing \<in> set (fetch_browse (ex_filter Newest) ex_db)"
    by (simp add: ex_fetch_browse)
  from Browse.browse_results_match_filter [OF this] show ?thesis by (simp add: ex_filter_def)
qed

theorem browse_price_sorted_witness:
  "sorted (map (\<lambda>c. asking_price (bc_listing c)) (fetch_browse (ex_filter Price_low) ex_db))
   \<and> sorted (rev (map (\<lambda>c. asking_price (bc_listing c)) (fetch_browse (ex_filter Price_high) ex_db)))"
  using Browse.browse_price_sorted [of "ex_filter Price_low" ex_db]
    Browse.browse_price_sorted [of "ex_filter Price_high" ex_db]
  by (simp add: ex_filter_def)

theorem roleless_seller_tier_disagrees_witness:
  "bc_seller_role (browse_card_of (ex_db\<lparr>user_roles := []\<rparr>) ex_listing) = Individual_seller
   \<and> si_role (detail_seller (ex_db\<lparr>user_roles := []\<rparr>) (seller_id ex_listing)) = Observer"
  by (rule Browse.roleless_seller_tier_disagrees) simp

lemma ex_fetch_listing_page: "fetch_listing_page ex_db ''L1'' = Some ex_page"
  by (simp add: fetch_listing_page_def ex_db_def ex_listing_def ex_page_def brand_name_of_def
       detail_seller_def ex_seller_profile_def sort_photos_def)

lemma ex_env_fields:
  "stripe_key (ex_env pol) = Some ''sk_test''"
  "get_user (ex_env pol) ''tok-buyer'' = Inr (Some \<lparr>au_id = ''buyer'', au_email = Some ''b@example.com''\<rparr>)"
  "\<forall>p. \<not> isl (stripe_create (ex_env pol) p)"
  by (simp_all add: ex_env_def ex_get_user_def)

theorem purchase_reaches_checkout_witness:
  "\<exists>url. handle_purchase (ex_env ex_policy) ex_db (Some (''buyer'', ''tok-buyer'')) ''L1'' ex_page
          = Redirect_to_checkout url"
  by (rule Browse.purchase_reaches_checkout [OF ex_fetch_listing_page _ ex_env_fields(1) _ ex_env_fields(2) _ _ ex_env_fields(3)])
     (simp_all add: ex_page_def ex_listing_def)

theorem purchase_after_rejection_generic_error_witness:
  "handle_purchase (ex_env ex_policy) (handle_reject ''L1'' ''blurry photos'' ex_db) (Some (''buyer'', ''tok-buyer'')) ''L1'' ex_page
     = Checkout_failed invoke_error_message"
  by (rule Browse.purchase_after_rejection_generic_error [OF ex_env_fields(1) _ ex_env_fields(2)])
     (simp_all add: ex_page_def ex_listing_def)

theorem already_verified_branch_unreachable_witness:
  "start_click ex_kyc_env (ex_kyc_request ''tok-seller'') ex_db (kyc_page_init ex_seller_profile)
     = (ex_db, (kyc_page_init ex_seller_profile)\<lparr>kp_toast := Some Toast_start_failed\<rparr>)"
  by (rule KycPage.already_verified_branch_unreachable [OF _ ex_kyc_auth, where p = ex_seller_profile])
     (simp_all add: ex_kyc_request_def profile_of_def ex_db_def ex_seller_profile_def)

theorem check_click_shows_stored_status_witness:
  "\<exists>p'. profile_of (fst (check_status_click (ex_kyc_env\<lparr>k_latest_session := Some \<lparr>sess_user = Some ''seller'', sess_status = Sess_verified\<rparr>\<rparr>)
                          5 (ex_kyc_request ''tok-seller'') ex_pending_db (kyc_page_init ex_seller_profile))) ''seller'' = Some p'
      \<and> kp_status (snd (check_status_click (ex_kyc_env\<lparr>k_latest_session := Some \<lparr>sess_user = Some ''seller'', sess_status = Sess_verified\<rparr>\<rparr>)
                          5 (ex_kyc_request ''tok-seller'') ex_pending_db (kyc_page_init ex_seller_profile))) = kyc_status p'"
  by (rule KycPage.check_click_shows_stored_status)
     (simp_all add: ex_kyc_request_def kyc_auth_def ex_kyc_env_def key_missing_def edge_authenticate_def
        bearer_token_def ex_get_user_def ex_pending_db_def ex_db_def ex_seller_profile_def)

lemma onboarding_steps_ok_example:
  "ob_ok (ob_run [Select_intent Verified_dealer, Continue, Back, Back, Continue, Continue])
   \<and> ob_step (ob_run [Select_intent Verified_dealer, Continue, Back, Back, Continue, Continue]) = 3"
  using Onboarding.onboarding_steps_ok [of "[Select_intent Verified_dealer, Continue, Back, Back, Continue, Continue]"]
  by (simp add: ob_run_def onboarding_init_def handle_intent_select_def continue_enabled_def
       handle_continue_def handle_back_def)

theorem submit_requires_valid_form_witness:
  "snd (handle_submit (\<lambda>s. s \<noteq> []) (\<lambda>_ _. Inr ()) (\<lambda>_ _. Inr ())
        ((auth_form_init (Some ''signup''))\<lparr>af_email := ''a@b.co'', af_password := ''password1'', af_confirm := ''password1''\<rparr>))
     = Welcome_signed_up
   \<and> 8 \<le> length (af_password ((auth_form_init (Some ''signup''))\<lparr>af_email := ''a@b.co'', af_password := ''password1'', af_confirm := ''password1''\<rparr>))"
proof -
  let ?f = "(auth_form_init (Some ''signup''))\<lparr>af_email := ''a@b.co'', af_password := ''password1'', af_confirm := ''password1''\<rparr>"
  have out: "snd (handle_submit (\<lambda>s. s \<noteq> []) (\<lambda>_ _. Inr ()) (\<lambda>_ _. Inr ()) ?f) = Welcome_signed_up"
    by (simp add: handle_submit_def auth_form_init_def validate_form_def no_errors_def Let_def auth_answer_def)
  then have "snd (handle_submit (\<lambda>s. s \<noteq> []) (\<lambda>_ _. Inr ()) (\<lambda>_ _. Inr ()) ?f) \<noteq> Form_errors" by simp
  from Auth.submit_requires_valid_form [OF this] out show ?thesis by simp
qed

theorem settings_edits_well_typed_witness:
  "settings_well_typed (fold apply_settings_edit [Type_private_holder_limit ''10'', Toggle_zero_fee False] default_settings)"
proof -
  have "settings_well_typed default_settings"
    by (simp add: settings_well_typed_def settings_keys_def default_settings_def get_setting_field_def setting_types_def)
  from AdminSettings.settings_edits_well_typed [OF this, of "[Type_private_holder_limit ''10'', Toggle_zero_fee False]"]
  show ?thesis by simp
qed

theorem fetch_posts_category_witness:
  "\<exists>cs. fetch_posts ''market_insights'' ex_forum ex_db = Some cs
     \<and> mset (map pc_id cs) = {#''P1''#} \<and> sorted (rev (map pc_created_at cs))"
proof -
  have "parse_post_category ''market_insights'' \<noteq> None"
    by (simp add: parse_post_category_def)
  from Community.fetch_posts_category [OF disjI2 [OF this], of ex_forum ex_db]
  obtain cs where "fetch_posts ''market_insights'' ex_forum ex_db = Some cs"
    and "mset (map pc_id cs) = mset (map p_id (filter (\<lambda>p. ''market_insights'' = ''all''
           \<or> post_category_name (category p) = ''market_insights'') (posts ex_forum)))"
    and "sorted (rev (map pc_created_at cs))"
    by blast
  moreover have "mset (map p_id (filter (\<lambda>p. ''market_insights'' = ''all''
           \<or> post_category_name (category p) = ''market_insights'') (posts ex_forum))) = {#''P1''#}"
    by (simp add: ex_forum_def ex_post_def)
  ultimately show ?thesis by auto
qed

theorem community_links_not_found_witness:
  "route_of ''/community/P1'' = Not_found_pg \<and> route_of ''/settings'' = Not_found_pg
   \<and> ''/community/P1'' \<in> set (community_links (community_render (Some Observer) ex_community_state))
   \<and> ''/settings'' \<in> set (header_links True (Some Observer))"
proof -
  have h: "list_all (\<lambda>c. pc_id c \<noteq> [] \<and> CHR ''/'' \<notin> set (pc_id c) \<and> CHR ''?'' \<notin> set (pc_id c)
                          \<and> CHR ''#'' \<notin> set (pc_id c)) (cs_posts ex_community_state)"
    by (simp add: ex_community_state_def ex_post_def)
  note c = community_links_not_found [OF h, of "Some Observer" True ex_seller_profile]
  have m1: "''/community/P1'' \<in> set (community_links (community_render (Some Observer) ex_community_state))"
    by (simp add: ex_community_state_def ex_post_def community_links_def community_render_def Let_def
                  post_view_of_def can_post_def)
  have m2: "''/settings'' \<in> set (header_links True (Some Observer) @ footer_links @ index_links
                                   @ dashboard_links (dashboard_view (Some Observer) ex_seller_profile))"
    by (simp add: header_links_def)
  have "route_of ''/community/P1'' = Not_found_pg"
    using bspec [OF conjunct1 [OF c] m1] by simp
  moreover have "route_of ''/settings'' = Not_found_pg"
    using bspec [OF conjunct2 [OF c] m2] by simp
  ultimately show ?thesis
    using m1 by (simp add: header_links_def)
qed

text \<open>An instance of the gallery defect: the third photo of L1 selected, then a link to
  L2, which has one photo.\<close>

lemma navigate_keeps_selection_example:
  "main_image_of (the (ds_page (detail_navigate ex_gallery_db ''L2''
      (select_thumbnail 2 (detail_open ex_gallery_db ''L1''))))) 2 = Broken_image
   \<and> ds_selected (detail_navigate ex_gallery_db ''L2'' (select_thumbnail 2 (detail_open ex_gallery_db ''L1''))) = 2"
  by (simp add: detail_navigate_def select_thumbnail_def detail_open_def detail_fetch_def fetch_listing_page_def
       ex_gallery_db_def ex_db_def ex_listing_def sort_photos_def main_image_of_def)

theorem panel_fetch_order_witness:
  "last_fetch_current (snd (panel_run [Set_filter (Some Approved), Fetch_arrives 0 True] ex_db))"
  using conjunct1 [OF AdminPanel.panel_fetch_order [of "[Set_filter (Some Approved), Fetch_arrives 0 True]" ex_db]]
  by simp

theorem card_opens_listing_witness:
  "route_of (cw_link (card_view_of (browse_card_of ex_db ex_listing))) = Listing_detail_pg ''L1''
   \<and> (\<exists>p. ds_page (detail_open ex_db ''L1'') = Some p \<and> lp_listing p = ex_listing
          \<and> \<not> ds_loading (detail_open ex_db ''L1''))"
proof -
  have "browse_card_of ex_db ex_listing \<in> set (fetch_browse (ex_filter Newest) ex_db)"
    by (simp add: ex_fetch_browse)
  from BrowsePage.card_opens_listing [OF this]
  show ?thesis by (simp add: ex_db_def ex_listing_def browse_card_of_def)
qed

end
